(* ===== verification/Prelude.thy ===== *)
theory Prelude
  imports Main "HOL-Library.Word" "HOL-Library.Product_Lexorder" "HOL-Library.Char_ord"
    "HOL-Library.List_Lexorder"
begin

text \<open>
  What every component of the development shares.

  \<^item> the types that stand for the program's scalars: \<open>uuid\<close> (\<^verbatim>\<open>uuid::Uuid\<close>, 128 bits,
    compared as an unsigned number by PostgreSQL and by Rust alike), \<open>datetime\<close>
    (\<^verbatim>\<open>chrono::DateTime<Utc>\<close> at PostgreSQL's resolution: microseconds since the epoch),
    \<open>json\<close> (\<^verbatim>\<open>serde_json::Value\<close>) and the machine integers;
  \<^item> Rust's \<^verbatim>\<open>Result\<close> as a sum, and the commands of the program as state
    transformers that return such a result: \<open>bindE\<close> is \<^verbatim>\<open>?\<close>, \<open>map_err\<close> is
    \<^verbatim>\<open>.map_err(..)?\<close>;
  \<^item> the two calculi the component proofs use: \<open>keeps\<close> (an assertion on the state that a
    command never falsifies, whatever it returns) and \<open>safe_err\<close> (a part of the state that
    is the same as before whenever the command returns an error);
  \<^item> the string operations of Rust's standard library that the services call
    (\<^verbatim>\<open>str::trim\<close>, \<^verbatim>\<open>chars().count()\<close>, \<^verbatim>\<open>splitn\<close>, \<^verbatim>\<open>strip_prefix\<close>) on UTF-8 byte
    strings, and saturating machine arithmetic.
\<close>

named_theorems keeps_intros \<open>closure rules for keeps\<close>
named_theorems safe_err_intros \<open>closure rules for safe_err\<close>

section \<open>Scalars\<close>

type_synonym uuid = "128 word"
type_synonym datetime = int
type_synonym u32 = "32 word"
type_synonym u64 = "64 word"

abbreviation seconds :: "int \<Rightarrow> datetime" where
  "seconds n \<equiv> n * 1000000"

text \<open>
  \<^verbatim>\<open>serde_json::Number\<close> keeps a non-negative integer as an unsigned, a negative one as a
  signed 64-bit integer and everything else as a float (here: its bit pattern).
\<close>

datatype json_number = PosInt u64 | NegInt u64 | Float u64

datatype json =
    JNull
  | JBool bool
  | JNumber json_number
  | JString string
  | JArray "json list"
  | JObject "(string \<times> json) list"

definition is_i64 :: "json_number \<Rightarrow> bool" where
  "is_i64 n = (case n of PosInt v \<Rightarrow> unat v < 2 ^ 63 | NegInt _ \<Rightarrow> True | Float _ \<Rightarrow> False)"

definition is_string :: "json \<Rightarrow> bool" where
  "is_string v = (case v of JString _ \<Rightarrow> True | _ \<Rightarrow> False)"

definition as_str :: "json \<Rightarrow> string option" where
  "as_str v = (case v of JString s \<Rightarrow> Some s | _ \<Rightarrow> None)"

definition as_array :: "json \<Rightarrow> json list option" where
  "as_array v = (case v of JArray xs \<Rightarrow> Some xs | _ \<Rightarrow> None)"

text \<open>
  The text of an opaque error (\<^verbatim>\<open>anyhow::Error\<close>) is not modelled: it is logged and never reaches
  a response.
\<close>

type_synonym anyhow = string

abbreviation opaque :: anyhow where
  "opaque \<equiv> []"

section \<open>Results and commands\<close>

abbreviation Ok :: "'a \<Rightarrow> 'e + 'a" where "Ok \<equiv> Inr"
abbreviation Err :: "'e \<Rightarrow> 'e + 'a" where "Err \<equiv> Inl"

type_synonym ('w, 'e, 'a) cmd = "'w \<Rightarrow> ('e + 'a) \<times> 'w"

definition ret :: "'a \<Rightarrow> ('w, 'e, 'a) cmd" where
  "ret a w = (Ok a, w)"

definition fail :: "'e \<Rightarrow> ('w, 'e, 'a) cmd" where
  "fail e w = (Err e, w)"

definition bindE :: "('w, 'e, 'a) cmd \<Rightarrow> ('a \<Rightarrow> ('w, 'e, 'b) cmd) \<Rightarrow> ('w, 'e, 'b) cmd" where
  "bindE m f w = (case m w of (Err e, w') \<Rightarrow> (Err e, w') | (Ok a, w') \<Rightarrow> f a w')"

definition map_err :: "('e \<Rightarrow> 'f) \<Rightarrow> ('w, 'e, 'a) cmd \<Rightarrow> ('w, 'f, 'a) cmd" where
  "map_err g m w = (case m w of (Err e, w') \<Rightarrow> (Err (g e), w') | (Ok a, w') \<Rightarrow> (Ok a, w'))"

text \<open>Runs a command and hands its whole result to the continuation: \<^verbatim>\<open>match m.await\<close>.\<close>

definition matchE :: "('w, 'e, 'a) cmd \<Rightarrow> ('e + 'a \<Rightarrow> ('w, 'f, 'b) cmd) \<Rightarrow> ('w, 'f, 'b) cmd" where
  "matchE m f w = (case m w of (r, w') \<Rightarrow> f r w')"

text \<open>A result that is already a value: \<^verbatim>\<open>expr?\<close> for a pure \<^verbatim>\<open>expr\<close>.\<close>

definition lift :: "'e + 'a \<Rightarrow> ('w, 'e, 'a) cmd" where
  "lift r w = (r, w)"

definition ok_or :: "'e \<Rightarrow> 'a option \<Rightarrow> 'e + 'a" where
  "ok_or e x = (case x of None \<Rightarrow> Err e | Some a \<Rightarrow> Ok a)"

fun for_each :: "('x \<Rightarrow> ('w, 'e, unit) cmd) \<Rightarrow> 'x list \<Rightarrow> ('w, 'e, unit) cmd" where
  "for_each f [] = ret ()"
| "for_each f (x # xs) = bindE (f x) (\<lambda>_. for_each f xs)"

lemma ret_apply [simp]: "ret a w = (Ok a, w)"
  by (simp add: ret_def)

lemma fail_apply [simp]: "fail e w = (Err e, w)"
  by (simp add: fail_def)

lemma lift_apply [simp]: "lift r w = (r, w)"
  by (simp add: lift_def)

lemma ok_or_simps [simp]: "ok_or e None = Err e" "ok_or e (Some a) = Ok a"
  by (simp_all add: ok_or_def)

lemma bindE_Ok: "m w = (Ok a, w') \<Longrightarrow> bindE m f w = f a w'"
  by (simp add: bindE_def)

lemma bindE_Err: "m w = (Err e, w') \<Longrightarrow> bindE m f w = (Err e, w')"
  by (simp add: bindE_def)

lemma bindE_ret [simp]: "bindE (ret a) f = f a"
  by (simp add: bindE_def fun_eq_iff)

lemma bindE_fail [simp]: "bindE (fail e) f = fail e"
  by (simp add: bindE_def fun_eq_iff)

text \<open>A successful sequence succeeded in every step.\<close>

lemma bindE_OkE:
  assumes "bindE m f w = (Ok b, w')"
  obtains a v where "m w = (Ok a, v)" "f a v = (Ok b, w')"
  using assms by (auto simp: bindE_def split: prod.splits sum.splits)

lemma bindE_eq_Ok_iff:
  "bindE m f w = (Ok b, w') \<longleftrightarrow> (\<exists>a v. m w = (Ok a, v) \<and> f a v = (Ok b, w'))"
  by (auto simp: bindE_def split: prod.splits sum.splits)

lemma map_err_eq_Ok_iff [simp]: "map_err g m w = (Ok a, w') \<longleftrightarrow> m w = (Ok a, w')"
  by (auto simp: map_err_def split: prod.splits sum.splits)

lemma map_err_eq_Err_iff:
  "map_err g m w = (Err f, w') \<longleftrightarrow> (\<exists>e. m w = (Err e, w') \<and> f = g e)"
  by (auto simp: map_err_def split: prod.splits sum.splits)

lemma bindE_eq_Err_iff:
  "bindE m f w = (Err e, w') \<longleftrightarrow>
     m w = (Err e, w') \<or> (\<exists>a v. m w = (Ok a, v) \<and> f a v = (Err e, w'))"
  by (auto simp: bindE_def split: prod.splits sum.splits)

lemma matchE_eq_iff: "matchE m f w = res \<longleftrightarrow> (\<exists>r v. m w = (r, v) \<and> f r v = res)"
  by (auto simp: matchE_def split: prod.splits)

section \<open>Assertions a command keeps\<close>

definition keeps :: "('w \<Rightarrow> bool) \<Rightarrow> ('w, 'e, 'a) cmd \<Rightarrow> bool" where
  "keeps P m \<longleftrightarrow> (\<forall>w. P w \<longrightarrow> P (snd (m w)))"

lemma keepsI: "(\<And>w r w'. P w \<Longrightarrow> m w = (r, w') \<Longrightarrow> P w') \<Longrightarrow> keeps P m"
  by (auto simp: keeps_def) (metis prod.collapse)

lemma keepsD: "keeps P m \<Longrightarrow> P w \<Longrightarrow> m w = (r, w') \<Longrightarrow> P w'"
  by (auto simp: keeps_def)

lemma keeps_ret [keeps_intros]: "keeps P (ret a)"
  by (simp add: keeps_def)

lemma keeps_fail [keeps_intros]: "keeps P (fail e)"
  by (simp add: keeps_def)

lemma keeps_lift [keeps_intros]: "keeps P (lift r)"
  by (simp add: keeps_def)

lemma keeps_bindE [keeps_intros]:
  "keeps P m \<Longrightarrow> (\<And>a. keeps P (f a)) \<Longrightarrow> keeps P (bindE m f)"
  unfolding keeps_def bindE_def
  by (auto split: prod.splits sum.splits)

lemma keeps_map_err [keeps_intros]: "keeps P m \<Longrightarrow> keeps P (map_err g m)"
  unfolding keeps_def map_err_def
  by (auto split: prod.splits sum.splits)

lemma keeps_matchE [keeps_intros]:
  "keeps P m \<Longrightarrow> (\<And>r. keeps P (f r)) \<Longrightarrow> keeps P (matchE m f)"
  unfolding keeps_def matchE_def
  by (auto split: prod.splits)

lemma keeps_if [keeps_intros]:
  "(b \<Longrightarrow> keeps P m) \<Longrightarrow> (\<not> b \<Longrightarrow> keeps P n) \<Longrightarrow> keeps P (if b then m else n)"
  by simp

lemma keeps_case_option [keeps_intros]:
  "(x = None \<Longrightarrow> keeps P m) \<Longrightarrow> (\<And>a. x = Some a \<Longrightarrow> keeps P (f a)) \<Longrightarrow>
   keeps P (case x of None \<Rightarrow> m | Some a \<Rightarrow> f a)"
  by (cases x) auto

lemma keeps_case_sum [keeps_intros]:
  "(\<And>e. x = Inl e \<Longrightarrow> keeps P (f e)) \<Longrightarrow> (\<And>a. x = Inr a \<Longrightarrow> keeps P (g a)) \<Longrightarrow>
   keeps P (case x of Inl e \<Rightarrow> f e | Inr a \<Rightarrow> g a)"
  by (cases x) auto

lemma keeps_case_prod [keeps_intros]:
  "(\<And>a b. x = (a, b) \<Longrightarrow> keeps P (f a b)) \<Longrightarrow> keeps P (case x of (a, b) \<Rightarrow> f a b)"
  by (cases x) auto

lemma keeps_Let [keeps_intros]: "(\<And>x. x = v \<Longrightarrow> keeps P (f x)) \<Longrightarrow> keeps P (Let v f)"
  by (simp add: Let_def)

lemma keeps_for_each [keeps_intros]:
  "(\<And>x. x \<in> set xs \<Longrightarrow> keeps P (f x)) \<Longrightarrow> keeps P (for_each f xs)"
  by (induction xs) (auto intro: keeps_intros)

section \<open>Errors that leave no trace\<close>

definition safe_err :: "('w \<Rightarrow> 'b) \<Rightarrow> ('w, 'e, 'a) cmd \<Rightarrow> bool" where
  "safe_err p m \<longleftrightarrow> (\<forall>w e w'. m w = (Err e, w') \<longrightarrow> p w' = p w)"

text \<open>A command that never changes the part \<open>p\<close> of the state, whatever it returns.\<close>

definition reads :: "('w \<Rightarrow> 'b) \<Rightarrow> ('w, 'e, 'a) cmd \<Rightarrow> bool" where
  "reads p m \<longleftrightarrow> (\<forall>w. p (snd (m w)) = p w)"

lemma safe_errD: "safe_err p m \<Longrightarrow> m w = (Err e, w') \<Longrightarrow> p w' = p w"
  by (auto simp: safe_err_def)

lemma readsD: "reads p m \<Longrightarrow> m w = (r, w') \<Longrightarrow> p w' = p w"
  by (auto simp: reads_def) (metis snd_conv)

lemma readsI: "(\<And>w r w'. m w = (r, w') \<Longrightarrow> p w' = p w) \<Longrightarrow> reads p m"
  by (auto simp: reads_def) (metis prod.collapse)

lemma reads_keeps: "reads p m \<Longrightarrow> keeps (\<lambda>w. Q (p w)) m"
  by (simp add: reads_def keeps_def)

lemma reads_iff_keeps: "reads p m \<longleftrightarrow> (\<forall>c. keeps (\<lambda>w. p w = c) m)"
  by (auto simp: reads_def keeps_def)

lemma reads_safe_err [safe_err_intros]: "reads p m \<Longrightarrow> safe_err p m"
  by (auto simp: reads_def safe_err_def) (metis snd_conv)

lemma safe_err_ret [safe_err_intros]: "safe_err p (ret a)"
  by (simp add: safe_err_def)

lemma safe_err_fail [safe_err_intros]: "safe_err p (fail e)"
  by (simp add: safe_err_def)

lemma safe_err_lift [safe_err_intros]: "safe_err p (lift r)"
  by (simp add: safe_err_def)

lemma safe_err_map_err [safe_err_intros]: "safe_err p m \<Longrightarrow> safe_err p (map_err g m)"
  by (auto simp: safe_err_def map_err_eq_Err_iff)

text \<open>
  In a sequence, an error after the first step is harmless when the first step only reads,
  or when nothing after it can fail.
\<close>

lemma safe_err_bindE_reads [safe_err_intros]:
  "reads p m \<Longrightarrow> (\<And>a. safe_err p (f a)) \<Longrightarrow> safe_err p (bindE m f)"
  by (auto simp: safe_err_def bindE_eq_Err_iff dest: readsD)

lemma safe_err_bindE_total:
  "safe_err p m \<Longrightarrow> (\<And>a w e w'. f a w \<noteq> (Err e, w')) \<Longrightarrow> safe_err p (bindE m f)"
  by (auto simp: safe_err_def bindE_eq_Err_iff)

section \<open>Rust strings\<close>

text \<open>
  A \<^verbatim>\<open>String\<close> is its UTF-8 bytes, one \<open>char\<close> each, so \<open>length\<close> is \<^verbatim>\<open>str::len\<close>.
  \<^verbatim>\<open>chars().count()\<close> counts the bytes that do not continue a code point.
\<close>

definition byte :: "char \<Rightarrow> nat" where
  "byte c = of_char c"

definition chars_count :: "string \<Rightarrow> nat" where
  "chars_count s = length (filter (\<lambda>c. byte c div 64 \<noteq> 2) s)"

text \<open>
  \<^verbatim>\<open>str::trim\<close> removes the code points with the Unicode property White\_Space at both ends.
  \<open>ws_head\<close> is the length in bytes of such a code point at the head of a byte string and
  \<open>ws_last\<close> at its end, 0 if there is none.
\<close>

definition ws3 :: "nat list list" where
  "ws3 = [[0xE1, 0x9A, 0x80], [0xE2, 0x81, 0x9F], [0xE3, 0x80, 0x80],
          [0xE2, 0x80, 0xA8], [0xE2, 0x80, 0xA9], [0xE2, 0x80, 0xAF],
          [0xE2, 0x80, 0x80], [0xE2, 0x80, 0x81], [0xE2, 0x80, 0x82], [0xE2, 0x80, 0x83],
          [0xE2, 0x80, 0x84], [0xE2, 0x80, 0x85], [0xE2, 0x80, 0x86], [0xE2, 0x80, 0x87],
          [0xE2, 0x80, 0x88], [0xE2, 0x80, 0x89], [0xE2, 0x80, 0x8A]]"

definition ws1 :: "nat \<Rightarrow> bool" where
  "ws1 b \<longleftrightarrow> (9 \<le> b \<and> b \<le> 13) \<or> b = 32"

definition ws_head :: "nat list \<Rightarrow> nat" where
  "ws_head bs =
     (if bs = [] then 0
      else if ws1 (hd bs) then 1
      else if take 2 bs = [0xC2, 0x85] \<or> take 2 bs = [0xC2, 0xA0] then 2
      else if take 3 bs \<in> set ws3 then 3
      else 0)"

definition ws_last :: "nat list \<Rightarrow> nat" where
  "ws_last bs =
     (if bs = [] then 0
      else if ws1 (last bs) then 1
      else if drop (length bs - 2) bs = [0xC2, 0x85] \<or> drop (length bs - 2) bs = [0xC2, 0xA0] then 2
      else if drop (length bs - 3) bs \<in> set ws3 then 3
      else 0)"

function trim_start :: "string \<Rightarrow> string" where
  "trim_start s = (let n = ws_head (map byte s) in if n = 0 then s else trim_start (drop n s))"
  by pat_completeness auto
termination
  by (relation "measure length") (auto simp: ws_head_def split: if_splits)

function trim_end :: "string \<Rightarrow> string" where
  "trim_end s =
     (let n = ws_last (map byte s) in if n = 0 then s else trim_end (take (length s - n) s))"
  by pat_completeness auto
termination
  by (relation "measure length") (auto simp: ws_last_def split: if_splits)

declare trim_start.simps [simp del] trim_end.simps [simp del]

definition trim :: "string \<Rightarrow> string" where
  "trim s = trim_end (trim_start s)"

text \<open>\<^verbatim>\<open>str::strip_prefix\<close>.\<close>

fun strip_prefix :: "string \<Rightarrow> string \<Rightarrow> string option" where
  "strip_prefix [] s = Some s"
| "strip_prefix (p # ps) [] = None"
| "strip_prefix (p # ps) (c # cs) = (if p = c then strip_prefix ps cs else None)"

text \<open>\<^verbatim>\<open>str::split_once\<close> at a character, and \<^verbatim>\<open>splitn(n, ch).collect()\<close> from it.\<close>

fun split_once :: "char \<Rightarrow> string \<Rightarrow> (string \<times> string) option" where
  "split_once d [] = None"
| "split_once d (c # cs) =
     (if c = d then Some ([], cs) else map_option (\<lambda>(l, r). (c # l, r)) (split_once d cs))"

fun splitn :: "nat \<Rightarrow> char \<Rightarrow> string \<Rightarrow> string list" where
  "splitn 0 d s = []"
| "splitn (Suc 0) d s = [s]"
| "splitn (Suc (Suc n)) d s =
     (case split_once d s of None \<Rightarrow> [s] | Some (l, r) \<Rightarrow> l # splitn (Suc n) d r)"

lemma strip_prefix_append [simp]: "strip_prefix p (p @ s) = Some s"
  by (induction p) auto

lemma strip_prefix_Some_iff: "strip_prefix p s = Some r \<longleftrightarrow> s = p @ r"
  by (induction p s rule: strip_prefix.induct) auto

lemma split_once_append: "d \<notin> set l \<Longrightarrow> split_once d (l @ d # r) = Some (l, r)"
  by (induction l) auto

lemma split_once_SomeD: "split_once d s = Some (l, r) \<Longrightarrow> s = l @ d # r \<and> d \<notin> set l"
  by (induction s arbitrary: l) (auto split: if_splits)

lemma split_once_None_iff: "split_once d s = None \<longleftrightarrow> d \<notin> set s"
  by (induction s) auto

lemma chars_count_le_length: "chars_count s \<le> length s"
  by (simp add: chars_count_def)

lemma length_trim_start: "length (trim_start s) \<le> length s"
proof (induction s rule: trim_start.induct)
  case (1 s)
  then show ?case
    by (subst trim_start.simps) (auto simp: Let_def intro: order_trans)
qed

lemma length_trim_end: "length (trim_end s) \<le> length s"
proof (induction s rule: trim_end.induct)
  case (1 s)
  then show ?case
    by (subst trim_end.simps) (auto simp: Let_def intro: order_trans)
qed

text \<open>What \<open>trim\<close> returns has no white space at its end, so it is a fixed point of \<open>trim_end\<close>.\<close>

lemma ws_last_trim_end [simp]: "ws_last (map byte (trim_end s)) = 0"
proof (induction s rule: trim_end.induct)
  case (1 s)
  show ?case
  proof (cases "ws_last (map byte s) = 0")
    case True
    then show ?thesis by (simp add: trim_end.simps [of s])
  next
    case False
    with 1 show ?thesis by (simp add: trim_end.simps [of s] Let_def)
  qed
qed

lemma trim_end_idem [simp]: "trim_end (trim_end s) = trim_end s"
  by (subst trim_end.simps) simp

section \<open>Saturating machine arithmetic\<close>

text \<open>\<^verbatim>\<open>u64::saturating_mul\<close> and \<^verbatim>\<open>u64::saturating_pow\<close>, \<^verbatim>\<open>u32::saturating_sub\<close>.\<close>

definition u64_max :: nat where
  "u64_max = 2 ^ 64 - 1"

definition saturating_mul :: "u64 \<Rightarrow> u64 \<Rightarrow> u64" where
  "saturating_mul a b = of_nat (min (unat a * unat b) u64_max)"

definition saturating_pow :: "u64 \<Rightarrow> u32 \<Rightarrow> u64" where
  "saturating_pow a n = of_nat (min (unat a ^ unat n) u64_max)"

definition saturating_sub :: "u32 \<Rightarrow> u32 \<Rightarrow> u32" where
  "saturating_sub a b = of_nat (unat a - unat b)"

definition saturating_add :: "u32 \<Rightarrow> u32 \<Rightarrow> u32" where
  "saturating_add a b = of_nat (min (unat a + unat b) (2 ^ 32 - 1))"

text \<open>\<^verbatim>\<open>Ord::clamp\<close>.\<close>

definition clamp :: "'a :: linorder \<Rightarrow> 'a \<Rightarrow> 'a \<Rightarrow> 'a" where
  "clamp x lo hi = (if x < lo then lo else if hi < x then hi else x)"

lemma unat_saturating_add: "unat (saturating_add a b) = min (unat a + unat b) (2 ^ 32 - 1)"
  by (simp add: saturating_add_def unat_of_nat)

lemma clamp_bounds: "lo \<le> hi \<Longrightarrow> lo \<le> clamp x lo hi \<and> clamp x lo hi \<le> hi"
  by (auto simp: clamp_def)

lemma unat_of_nat_u64_min [simp]: "unat (of_nat (min n u64_max) :: u64) = min n u64_max"
  by (simp add: unat_of_nat u64_max_def)

lemma unat_saturating_mul: "unat (saturating_mul a b) = min (unat a * unat b) u64_max"
  by (simp add: saturating_mul_def)

lemma unat_saturating_pow: "unat (saturating_pow a n) = min (unat a ^ unat n) u64_max"
  by (simp add: saturating_pow_def)

lemma unat_saturating_sub: "unat (saturating_sub a b) = unat a - unat b"
proof -
  have "unat a - unat b < 2 ^ LENGTH(32)"
    using unsigned_less [of a] by (meson less_imp_diff_less)
  then show ?thesis by (simp add: saturating_sub_def unat_of_nat)
qed

section \<open>Lists\<close>

text \<open>Rows of a table found by a key, as \<^verbatim>\<open>SELECT .. WHERE\<close> with \<^verbatim>\<open>fetch_optional\<close> does.\<close>

lemma find_Some_in: "find P xs = Some x \<Longrightarrow> x \<in> set xs \<and> P x"
  by (induction xs) (auto split: if_splits)

lemma find_None_all: "find P xs = None \<longleftrightarrow> (\<forall>x \<in> set xs. \<not> P x)"
  by (induction xs) auto

lemma find_distinct_key:
  "distinct (map k xs) \<Longrightarrow> x \<in> set xs \<Longrightarrow> find (\<lambda>y. k y = k x) xs = Some x"
  by (induction xs) (auto simp: image_iff)

lemma distinct_map_filter_key: "distinct (map k xs) \<Longrightarrow> distinct (map k (filter P xs))"
  by (simp add: distinct_map_filter)

lemma map_key_update:
  "(\<And>x. x \<in> set xs \<Longrightarrow> k (f x) = k x) \<Longrightarrow> map k (map f xs) = map k xs"
  by simp

end
