(* ===== verification/AuditModel.thy ===== *)
theory AuditModel
  imports Prelude
begin

text \<open>
  The audit event model (\<^verbatim>\<open>src/audit/model.rs\<close>): categories and outcomes with their column
  codes, the actor of a request, the event record and one constructor per event type. A
  constructor takes the two values the code draws from its surroundings first: the event id
  (\<^verbatim>\<open>Uuid::now_v7()\<close>) and the time (\<^verbatim>\<open>Utc::now()\<close>). The lemmas give the round trip of the
  column codes, which organisation an event is filed under and by whom.
\<close>

section \<open>Categories and outcomes\<close>

datatype audit_category =
  SecurityStateChange | SecurityAuth | SecurityPermissionDenial | DataAccess | TenantsStateChange

fun category_as_str :: "audit_category \<Rightarrow> string" where
  "category_as_str SecurityStateChange = ''security.state_change''"
| "category_as_str SecurityAuth = ''security.auth''"
| "category_as_str SecurityPermissionDenial = ''security.permission_denial''"
| "category_as_str DataAccess = ''data.access''"
| "category_as_str TenantsStateChange = ''tenants.state_change''"

definition category_try_from_str :: "string \<Rightarrow> audit_category option" where
  "category_try_from_str s =
     (if s = ''security.state_change'' then Some SecurityStateChange
      else if s = ''security.auth'' then Some SecurityAuth
      else if s = ''security.permission_denial'' then Some SecurityPermissionDenial
      else if s = ''data.access'' then Some DataAccess
      else if s = ''tenants.state_change'' then Some TenantsStateChange
      else None)"

datatype outcome = Success | Failure | Denied

fun outcome_as_str :: "outcome \<Rightarrow> string" where
  "outcome_as_str Success = ''success''"
| "outcome_as_str Failure = ''failure''"
| "outcome_as_str Denied = ''denied''"

definition outcome_try_from_str :: "string \<Rightarrow> outcome option" where
  "outcome_try_from_str s =
     (if s = ''success'' then Some Success
      else if s = ''failure'' then Some Failure
      else if s = ''denied'' then Some Denied
      else None)"

section \<open>Actors and events\<close>

record actor =
  a_user_id :: "uuid option"
  a_organisation_id :: "uuid option"
  a_request_id :: "string option"
  a_ip_address :: "string option"
  a_user_agent :: "string option"

definition actor_system :: actor where
  "actor_system = \<lparr> a_user_id = None, a_organisation_id = None, a_request_id = None,
     a_ip_address = None, a_user_agent = None \<rparr>"

text \<open>
  Every payload is a JSON object. A \<^verbatim>\<open>Uuid\<close> in it is kept as the value it is rendered from;
  every other member is JSON.
\<close>

datatype payload_value = PUuid uuid | PJson json

record audit_event =
  ev_id :: uuid
  ev_occurred_at :: datetime
  ev_category :: audit_category
  ev_event_type :: string
  ev_actor_user_id :: "uuid option"
  ev_actor_organisation_id :: "uuid option"
  ev_target_type :: "string option"
  ev_target_id :: "uuid option"
  ev_target_organisation_id :: "uuid option"
  ev_request_id :: "string option"
  ev_ip_address :: "string option"
  ev_user_agent :: "string option"
  ev_outcome :: outcome
  ev_reason_code :: "string option"
  ev_payload :: "(string \<times> payload_value) list"

definition json_opt :: "json option \<Rightarrow> json" where
  "json_opt v = (case v of None \<Rightarrow> JNull | Some j \<Rightarrow> j)"

definition base :: "uuid \<Rightarrow> datetime \<Rightarrow> audit_category \<Rightarrow> string \<Rightarrow> outcome \<Rightarrow> audit_event" where
  "base eid now category event_type outc =
     \<lparr> ev_id = eid, ev_occurred_at = now, ev_category = category, ev_event_type = event_type,
       ev_actor_user_id = None, ev_actor_organisation_id = None, ev_target_type = None,
       ev_target_id = None, ev_target_organisation_id = None, ev_request_id = None,
       ev_ip_address = None, ev_user_agent = None, ev_outcome = outc,
       ev_reason_code = None, ev_payload = [] \<rparr>"

definition with_actor :: "audit_event \<Rightarrow> actor \<Rightarrow> audit_event" where
  "with_actor e a = e\<lparr> ev_actor_user_id := a_user_id a,
     ev_actor_organisation_id := a_organisation_id a, ev_request_id := a_request_id a,
     ev_ip_address := a_ip_address a, ev_user_agent := a_user_agent a \<rparr>"

section \<open>Event constructors\<close>

definition user_registered_success ::
    "uuid \<Rightarrow> datetime \<Rightarrow> uuid \<Rightarrow> uuid \<Rightarrow>
    uuid \<Rightarrow> uuid \<Rightarrow> string \<Rightarrow> audit_event" where
  "user_registered_success eid now act act_org target_user target_org role_code =
     (base eid now SecurityStateChange ''user.registered'' Success)
     \<lparr> ev_actor_user_id := Some act, ev_actor_organisation_id := Some act_org,
       ev_target_type := Some ''user'', ev_target_id := Some target_user,
       ev_target_organisation_id := Some target_org,
       ev_payload := [(''role_code'', PJson (JString role_code))] \<rparr>"

definition login_success ::
    "uuid \<Rightarrow> datetime \<Rightarrow> uuid \<Rightarrow> uuid \<Rightarrow>
    audit_event" where
  "login_success eid now user_id active_org =
     (base eid now SecurityAuth ''login.success'' Success)
     \<lparr> ev_actor_user_id := Some user_id, ev_actor_organisation_id := Some active_org,
       ev_target_type := Some ''user'', ev_target_id := Some user_id \<rparr>"

definition login_failed ::
    "uuid \<Rightarrow> datetime \<Rightarrow> string \<Rightarrow>
    string \<Rightarrow> audit_event" where
  "login_failed eid now reason_code username_or_email =
     (base eid now SecurityAuth ''login.failed'' Failure)
     \<lparr> ev_reason_code := Some reason_code,
       ev_payload := [(''username_or_email'', PJson (JString username_or_email))] \<rparr>"

definition logout_event ::
    "uuid \<Rightarrow> datetime \<Rightarrow> uuid \<Rightarrow> uuid \<Rightarrow>
    uuid \<Rightarrow> audit_event" where
  "logout_event eid now user_id org jti =
     (base eid now SecurityAuth ''logout'' Success)
     \<lparr> ev_actor_user_id := Some user_id, ev_actor_organisation_id := Some org,
       ev_payload := [(''jti'', PUuid jti)] \<rparr>"

definition session_switched_org ::
    "uuid \<Rightarrow> datetime \<Rightarrow> uuid \<Rightarrow> uuid \<Rightarrow>
    uuid \<Rightarrow> audit_event" where
  "session_switched_org eid now user_id from_org to_org =
     (base eid now SecurityAuth ''session.switched_org'' Success)
     \<lparr> ev_actor_user_id := Some user_id, ev_actor_organisation_id := Some to_org,
       ev_target_type := Some ''organisation'', ev_target_id := Some to_org,
       ev_target_organisation_id := Some to_org,
       ev_payload := [(''from_org'', PUuid from_org)] \<rparr>"

definition password_changed ::
    "uuid \<Rightarrow> datetime \<Rightarrow> uuid \<Rightarrow>
    audit_event" where
  "password_changed eid now user_id =
     (base eid now SecurityStateChange ''password.changed'' Success)
     \<lparr> ev_actor_user_id := Some user_id, ev_target_type := Some ''user'',
       ev_target_id := Some user_id \<rparr>"

definition password_reset_requested ::
    "uuid \<Rightarrow> datetime \<Rightarrow> string \<Rightarrow>
    audit_event" where
  "password_reset_requested eid now email =
     (base eid now SecurityStateChange ''password.reset_requested'' Success)
     \<lparr> ev_payload := [(''email'', PJson (JString email))] \<rparr>"

definition password_reset_confirmed ::
    "uuid \<Rightarrow> datetime \<Rightarrow> uuid option \<Rightarrow>
    outcome \<Rightarrow> string option \<Rightarrow> audit_event" where
  "password_reset_confirmed eid now user_id outc reason =
     (base eid now SecurityStateChange ''password.reset_confirmed'' outc)
     \<lparr> ev_actor_user_id := user_id, ev_reason_code := reason \<rparr>"

definition permission_denied ::
    "uuid \<Rightarrow> datetime \<Rightarrow> uuid \<Rightarrow> uuid \<Rightarrow>
    string \<Rightarrow> string \<Rightarrow> audit_event" where
  "permission_denied eid now user_id org permission path =
     (base eid now SecurityPermissionDenial ''permission.denied'' Denied)
     \<lparr> ev_actor_user_id := Some user_id, ev_actor_organisation_id := Some org,
       ev_reason_code := Some (''missing:'' @ permission),
       ev_payload := [(''path'', PJson (JString path))] \<rparr>"

definition organisation_created ::
    "uuid \<Rightarrow> datetime \<Rightarrow> uuid \<Rightarrow> uuid \<Rightarrow>
    uuid \<Rightarrow> string \<Rightarrow> audit_event" where
  "organisation_created eid now act act_org org_id nm =
     (base eid now TenantsStateChange ''organisation.created'' Success)
     \<lparr> ev_actor_user_id := Some act, ev_actor_organisation_id := Some act_org,
       ev_target_type := Some ''organisation'', ev_target_id := Some org_id,
       ev_target_organisation_id := Some org_id,
       ev_payload := [(''name'', PJson (JString nm))] \<rparr>"

definition organisation_member_added ::
    "uuid \<Rightarrow> datetime \<Rightarrow> uuid \<Rightarrow> uuid \<Rightarrow>
    uuid \<Rightarrow> uuid \<Rightarrow> string \<Rightarrow> audit_event" where
  "organisation_member_added eid now act act_org org_id user_id role_code =
     (base eid now TenantsStateChange ''organisation.member_added'' Success)
     \<lparr> ev_actor_user_id := Some act, ev_actor_organisation_id := Some act_org,
       ev_target_type := Some ''user'', ev_target_id := Some user_id,
       ev_target_organisation_id := Some org_id,
       ev_payload := [(''role_code'', PJson (JString role_code))] \<rparr>"

definition organisation_member_removed ::
    "uuid \<Rightarrow> datetime \<Rightarrow> uuid \<Rightarrow> uuid \<Rightarrow>
    uuid \<Rightarrow> uuid \<Rightarrow> audit_event" where
  "organisation_member_removed eid now act act_org org_id user_id =
     (base eid now TenantsStateChange ''organisation.member_removed'' Success)
     \<lparr> ev_actor_user_id := Some act, ev_actor_organisation_id := Some act_org,
       ev_target_type := Some ''user'', ev_target_id := Some user_id,
       ev_target_organisation_id := Some org_id \<rparr>"

definition organisation_role_assigned ::
    "uuid \<Rightarrow> datetime \<Rightarrow> uuid \<Rightarrow> uuid \<Rightarrow>
    uuid \<Rightarrow> uuid \<Rightarrow> string \<Rightarrow> audit_event" where
  "organisation_role_assigned eid now act act_org org_id user_id role_code =
     (base eid now TenantsStateChange ''organisation.role_assigned'' Success)
     \<lparr> ev_actor_user_id := Some act, ev_actor_organisation_id := Some act_org,
       ev_target_type := Some ''user'', ev_target_id := Some user_id,
       ev_target_organisation_id := Some org_id,
       ev_payload := [(''role_code'', PJson (JString role_code))] \<rparr>"

definition users_list ::
    "uuid \<Rightarrow> datetime \<Rightarrow> uuid \<Rightarrow> uuid \<Rightarrow>
    audit_event" where
  "users_list eid now act act_org =
     (base eid now DataAccess ''users.list'' Success)
     \<lparr> ev_actor_user_id := Some act, ev_actor_organisation_id := Some act_org,
       ev_target_type := Some ''user'' \<rparr>"

definition admin_seeded ::
    "uuid \<Rightarrow> datetime \<Rightarrow> uuid \<Rightarrow> uuid \<Rightarrow>
    string \<Rightarrow> audit_event" where
  "admin_seeded eid now user_id org_id role_code =
     (base eid now SecurityStateChange ''user.registered'' Success)
     \<lparr> ev_target_type := Some ''user'', ev_target_id := Some user_id,
       ev_target_organisation_id := Some org_id,
       ev_payload := [(''role_code'', PJson (JString role_code)), (''via'', PJson (JString ''seed-admin''))] \<rparr>"

definition channel_created ::
    "uuid \<Rightarrow> datetime \<Rightarrow> uuid \<Rightarrow> uuid \<Rightarrow>
    uuid \<Rightarrow> uuid \<Rightarrow> string \<Rightarrow> audit_event" where
  "channel_created eid now act act_org channel_id org_id nm =
     (base eid now TenantsStateChange ''channel.created'' Success)
     \<lparr> ev_actor_user_id := Some act, ev_actor_organisation_id := Some act_org,
       ev_target_type := Some ''inbound_channel'', ev_target_id := Some channel_id,
       ev_target_organisation_id := Some org_id,
       ev_payload := [(''name'', PJson (JString nm))] \<rparr>"

definition channel_updated ::
    "uuid \<Rightarrow> datetime \<Rightarrow> uuid \<Rightarrow> uuid \<Rightarrow>
    uuid \<Rightarrow> uuid \<Rightarrow> string \<Rightarrow> audit_event" where
  "channel_updated eid now act act_org channel_id org_id nm =
     (base eid now TenantsStateChange ''channel.updated'' Success)
     \<lparr> ev_actor_user_id := Some act, ev_actor_organisation_id := Some act_org,
       ev_target_type := Some ''inbound_channel'', ev_target_id := Some channel_id,
       ev_target_organisation_id := Some org_id,
       ev_payload := [(''name'', PJson (JString nm))] \<rparr>"

definition channel_deleted ::
    "uuid \<Rightarrow> datetime \<Rightarrow> uuid \<Rightarrow> uuid \<Rightarrow>
    uuid \<Rightarrow> uuid \<Rightarrow> audit_event" where
  "channel_deleted eid now act act_org channel_id org_id =
     (base eid now TenantsStateChange ''channel.deleted'' Success)
     \<lparr> ev_actor_user_id := Some act, ev_actor_organisation_id := Some act_org,
       ev_target_type := Some ''inbound_channel'', ev_target_id := Some channel_id,
       ev_target_organisation_id := Some org_id \<rparr>"

definition service_account_created ::
    "uuid \<Rightarrow> datetime \<Rightarrow> uuid \<Rightarrow> uuid \<Rightarrow>
    uuid \<Rightarrow> uuid \<Rightarrow> string \<Rightarrow> audit_event" where
  "service_account_created eid now act act_org sa org_id nm =
     (base eid now SecurityStateChange ''service_account.created'' Success)
     \<lparr> ev_actor_user_id := Some act, ev_actor_organisation_id := Some act_org,
       ev_target_type := Some ''service_account'', ev_target_id := Some sa,
       ev_target_organisation_id := Some org_id,
       ev_payload := [(''name'', PJson (JString nm))] \<rparr>"

definition service_account_deleted ::
    "uuid \<Rightarrow> datetime \<Rightarrow> uuid \<Rightarrow> uuid \<Rightarrow>
    uuid \<Rightarrow> uuid \<Rightarrow> audit_event" where
  "service_account_deleted eid now act act_org sa org_id =
     (base eid now SecurityStateChange ''service_account.deleted'' Success)
     \<lparr> ev_actor_user_id := Some act, ev_actor_organisation_id := Some act_org,
       ev_target_type := Some ''service_account'', ev_target_id := Some sa,
       ev_target_organisation_id := Some org_id \<rparr>"

definition api_key_created ::
    "uuid \<Rightarrow> datetime \<Rightarrow> uuid \<Rightarrow> uuid \<Rightarrow>
    uuid \<Rightarrow> uuid \<Rightarrow> uuid \<Rightarrow> string \<Rightarrow> audit_event" where
  "api_key_created eid now act act_org sa org_id key_id prefix =
     (base eid now SecurityStateChange ''api_key.created'' Success)
     \<lparr> ev_actor_user_id := Some act, ev_actor_organisation_id := Some act_org,
       ev_target_type := Some ''api_key'', ev_target_id := Some sa,
       ev_target_organisation_id := Some org_id,
       ev_payload := [(''key_id'', PUuid key_id), (''prefix'', PJson (JString prefix))] \<rparr>"

definition api_key_revoked ::
    "uuid \<Rightarrow> datetime \<Rightarrow> uuid \<Rightarrow> uuid \<Rightarrow>
    uuid \<Rightarrow> uuid \<Rightarrow> uuid \<Rightarrow> audit_event" where
  "api_key_revoked eid now act act_org sa org_id key_id =
     (base eid now SecurityStateChange ''api_key.revoked'' Success)
     \<lparr> ev_actor_user_id := Some act, ev_actor_organisation_id := Some act_org,
       ev_target_type := Some ''api_key'', ev_target_id := Some sa,
       ev_target_organisation_id := Some org_id, ev_payload := [(''key_id'', PUuid key_id)] \<rparr>"

definition feature_set ::
    "uuid \<Rightarrow> datetime \<Rightarrow> uuid \<Rightarrow> uuid \<Rightarrow>
    uuid \<Rightarrow> string \<Rightarrow> json option \<Rightarrow> json \<Rightarrow> bool \<Rightarrow> audit_event" where
  "feature_set eid now act act_org org_id slg old_value new_value self_service =
     (base eid now TenantsStateChange ''feature.set'' Success)
     \<lparr> ev_actor_user_id := Some act, ev_actor_organisation_id := Some act_org,
       ev_target_type := Some ''feature'', ev_target_organisation_id := Some org_id,
       ev_payload := [(''slug'', PJson (JString slg)), (''old_value'', PJson (json_opt old_value)), (''new_value'', PJson new_value), (''self_service'', PJson (JBool self_service))] \<rparr>"

definition feature_cleared ::
    "uuid \<Rightarrow> datetime \<Rightarrow> uuid \<Rightarrow> uuid \<Rightarrow>
    uuid \<Rightarrow> string \<Rightarrow> json option \<Rightarrow> bool \<Rightarrow> audit_event" where
  "feature_cleared eid now act act_org org_id slg old_value self_service =
     (base eid now TenantsStateChange ''feature.cleared'' Success)
     \<lparr> ev_actor_user_id := Some act, ev_actor_organisation_id := Some act_org,
       ev_target_type := Some ''feature'', ev_target_organisation_id := Some org_id,
       ev_payload := [(''slug'', PJson (JString slg)), (''old_value'', PJson (json_opt old_value)), (''self_service'', PJson (JBool self_service))] \<rparr>"

definition api_key_rotated ::
    "uuid \<Rightarrow> datetime \<Rightarrow> uuid \<Rightarrow> uuid \<Rightarrow>
    uuid \<Rightarrow> uuid \<Rightarrow> uuid \<Rightarrow> uuid \<Rightarrow> audit_event" where
  "api_key_rotated eid now act act_org sa org_id old_key_id new_key_id =
     (base eid now SecurityStateChange ''api_key.rotated'' Success)
     \<lparr> ev_actor_user_id := Some act, ev_actor_organisation_id := Some act_org,
       ev_target_type := Some ''api_key'', ev_target_id := Some sa,
       ev_target_organisation_id := Some org_id,
       ev_payload := [(''old_key_id'', PUuid old_key_id), (''new_key_id'', PUuid new_key_id)] \<rparr>"

lemmas audit_constructor_defs =
  base_def user_registered_success_def login_success_def login_failed_def logout_event_def
  session_switched_org_def password_changed_def password_reset_requested_def
  password_reset_confirmed_def permission_denied_def organisation_created_def
  organisation_member_added_def organisation_member_removed_def organisation_role_assigned_def
  users_list_def admin_seeded_def channel_created_def channel_updated_def channel_deleted_def
  service_account_created_def service_account_deleted_def api_key_created_def api_key_revoked_def
  feature_set_def feature_cleared_def api_key_rotated_def

section \<open>Column codes\<close>

lemma category_round_trip [simp]: "category_try_from_str (category_as_str c) = Some c"
  by (cases c) (simp_all add: category_try_from_str_def)

lemma category_try_from_str_Some: "category_try_from_str s = Some c \<Longrightarrow> category_as_str c = s"
  by (auto simp: category_try_from_str_def split: if_splits)

lemma outcome_round_trip [simp]: "outcome_try_from_str (outcome_as_str r) = Some r"
  by (cases r) (simp_all add: outcome_try_from_str_def)

lemma outcome_try_from_str_Some: "outcome_try_from_str s = Some r \<Longrightarrow> outcome_as_str r = s"
  by (auto simp: outcome_try_from_str_def split: if_splits)

section \<open>Events keep the identity they are built with\<close>

lemma with_actor_keeps_target:
  "ev_target_organisation_id (with_actor e a) = ev_target_organisation_id e"
  "ev_id (with_actor e a) = ev_id e"
  by (simp_all add: with_actor_def)

end
