(* ===== verification/Store.thy ===== *)
theory Store
  imports AuditModel
begin

text \<open>
  The data model and the database underneath every repository.

  \<^item> The structs of \<^verbatim>\<open>src/tenants/model.rs\<close>, \<^verbatim>\<open>src/security/model.rs\<close>,
    \<^verbatim>\<open>src/features/model.rs\<close>, \<^verbatim>\<open>src/jobs/model.rs\<close> and \<^verbatim>\<open>src/outbox/model.rs\<close> as records; a
    table of \<^verbatim>\<open>migrations/\<close> is the list of its rows in insertion order. A text column with a
    CHECK constraint that lists its values (user kind, channel type, job state, flag type)
    holds the enumeration itself.
  \<^item> \<open>env\<close>: the code the repository calls and does not contain, as functions: the UUID and
    random generators, the argon2, SHA-256, hex, base64 and JWT crates, the cursor codec
    (\<^verbatim>\<open>src/pagination.rs\<close> over serde and base64), PostgreSQL's collation-dependent operators
    (with \<open>collate\<close> the sort key of a text, compared bytewise as \<^verbatim>\<open>strxfrm\<close>'s result is,
    \<open>citext_eq\<close> the equality behind the unique index on \<^verbatim>\<open>users.email\<close> and \<open>email_param_eq\<close>
    the operator it resolves for \<^verbatim>\<open>email = $1\<close>),
    the \<^verbatim>\<open>validator\<close> crate's length check,
    which SQL statements fail for reasons outside the program (\<open>db_fault\<close>, numbered in
    the order they are executed), and which rows another transaction holds locked while a
    statement with \<^verbatim>\<open>SKIP LOCKED\<close> runs (\<open>row_locked\<close>).
  \<^item> \<open>world\<close>: the database, the clock, the counters that number draws and statements, the
    audit channel and the feature-flag cache.
  \<^item> \<open>stmt\<close> runs one SQL statement, \<open>in_tx\<close> a transaction: begin, body, commit, and on any
    error a rollback to the tables as they were. Time stands still while one request is
    served.
\<close>

section \<open>Rows\<close>

record organisation =
  o_id :: uuid
  o_name :: string
  o_business :: string
  o_is_operator :: bool
  o_created_at :: datetime
  o_updated_at :: datetime

record role =
  r_id :: uuid
  r_code :: string

datatype user_kind = Human | ServiceAccountKind

record user =
  u_id :: uuid
  u_username :: string
  u_email :: string
  u_password_hash :: string
  u_kind :: user_kind
  u_created_at :: datetime
  u_updated_at :: datetime

text \<open>A row of \<^verbatim>\<open>user_organisation_roles\<close>.\<close>

record membership =
  m_user :: uuid
  m_org :: uuid
  m_role :: uuid
  m_created_at :: datetime

record reset_token =
  t_id :: uuid
  t_token_hash :: string
  t_user_id :: uuid
  t_expires_at :: datetime
  t_used_at :: "datetime option"
  t_created_at :: datetime

record revoked_token =
  rv_jti :: uuid
  rv_user_id :: uuid
  rv_expires_at :: datetime

datatype channel_type = Vast | Sensor | Websocket | Rest

record inbound_channel =
  c_id :: uuid
  c_organisation_id :: uuid
  c_name :: string
  c_description :: "string option"
  c_channel_type :: channel_type
  c_api_key :: string
  c_is_active :: bool
  c_created_at :: datetime
  c_updated_at :: datetime

record service_account =
  sa_user_id :: uuid
  sa_organisation_id :: uuid
  sa_name :: string
  sa_description :: "string option"
  sa_created_at :: datetime
  sa_created_by :: uuid
  sa_last_used_at :: "datetime option"

record api_key =
  k_id :: uuid
  k_sa :: uuid
  k_prefix :: string
  k_name :: string
  k_scopes :: "string list option"
  k_created_at :: datetime
  k_created_by :: uuid
  k_last_used_at :: "datetime option"
  k_revoked_at :: "datetime option"

text \<open>A row of \<^verbatim>\<open>api_keys\<close>: what \<^verbatim>\<open>ApiKey\<close> shows and the secret's hash, which it hides.\<close>

record api_key_row =
  kr_key :: api_key
  kr_secret_hash :: string

datatype feature_value_type = FBool | FString | FInt | FEnumSet | FJson

record feature_definition =
  fd_slug :: string
  fd_value_type :: feature_value_type
  fd_default_value :: json
  fd_description :: string
  fd_self_service :: bool

record feature_override =
  fo_organisation_id :: uuid
  fo_slug :: string
  fo_value :: json
  fo_updated_at :: datetime
  fo_updated_by :: uuid

datatype job_state = Pending | Running | Done | Dead

record job =
  j_id :: uuid
  j_kind :: string
  j_payload :: json
  j_state :: job_state
  j_attempts :: int
  j_max_attempts :: int
  j_run_at :: datetime
  j_locked_until :: "datetime option"
  j_locked_by :: "string option"
  j_last_error :: "string option"
  j_created_at :: datetime
  j_updated_at :: datetime

record outbox_event =
  ob_id :: uuid
  ob_aggregate_type :: "string option"
  ob_aggregate_id :: "uuid option"
  ob_event_type :: string
  ob_payload :: json
  ob_created_at :: datetime
  ob_relayed_at :: "datetime option"
  ob_relay_attempts :: int
  ob_last_error :: "string option"

text \<open>A row of \<^verbatim>\<open>audit_events\<close>: category and outcome are unconstrained text columns.\<close>

record audit_row =
  ar_id :: uuid
  ar_occurred_at :: datetime
  ar_category :: string
  ar_event_type :: string
  ar_actor_user_id :: "uuid option"
  ar_actor_organisation_id :: "uuid option"
  ar_target_type :: "string option"
  ar_target_id :: "uuid option"
  ar_target_organisation_id :: "uuid option"
  ar_request_id :: "string option"
  ar_ip_address :: "string option"
  ar_user_agent :: "string option"
  ar_outcome :: string
  ar_reason_code :: "string option"
  ar_payload :: "(string \<times> payload_value) list"

section \<open>The database\<close>

record db =
  organisations :: "organisation list"
  users :: "user list"
  roles :: "role list"
  permissions :: "(uuid \<times> string) list"
  role_permissions :: "(uuid \<times> uuid) list"
  memberships :: "membership list"
  reset_tokens :: "reset_token list"
  revoked_tokens :: "revoked_token list"
  channels :: "inbound_channel list"
  service_accounts :: "service_account list"
  api_keys :: "api_key_row list"
  feature_definitions :: "feature_definition list"
  feature_overrides :: "feature_override list"
  jobs :: "job list"
  outbox :: "outbox_event list"
  audit_events :: "audit_row list"

text \<open>
  What \<^verbatim>\<open>sqlx::Error\<close> tells the repositories apart: a database error with its SQLSTATE and
  the name of the violated constraint, or any other failure.
\<close>

datatype sqlx_error = Database string string | OtherSqlx

abbreviation unique_violation :: "string \<Rightarrow> sqlx_error" where
  "unique_violation \<equiv> Database ''23505''"

abbreviation fk_violation :: "string \<Rightarrow> sqlx_error" where
  "fk_violation \<equiv> Database ''23503''"

section \<open>Code outside the repository\<close>

record claims =
  cl_sub :: uuid
  cl_org :: uuid
  cl_iat :: int
  cl_exp :: int
  cl_jti :: uuid
  cl_iss :: string
  cl_typ :: string

datatype cursor_kind =
  UserCursor | OrganisationCursor | MembershipCursor | ChannelCursor | AuditCursor

type_synonym cursor = "datetime \<times> uuid"

record env =
  uuid_v7 :: "nat \<Rightarrow> uuid"
  random_bytes :: "nat \<Rightarrow> nat \<Rightarrow> nat list"
  db_fault :: "nat \<Rightarrow> bool"
  argon2_hash :: "nat \<Rightarrow> string \<Rightarrow> string option"
  argon2_verify :: "string \<Rightarrow> string \<Rightarrow> bool option"
  sha256 :: "nat list \<Rightarrow> nat list"
  hex_encode :: "nat list \<Rightarrow> string"
  hex_decode :: "string \<Rightarrow> nat list option"
  b64url_encode :: "nat list \<Rightarrow> string"
  uuid_fmt :: "uuid \<Rightarrow> string"
  to_lowercase :: "string \<Rightarrow> string"
  ilike :: "string \<Rightarrow> string \<Rightarrow> bool"
  citext_eq :: "string \<Rightarrow> string \<Rightarrow> bool"
  email_param_eq :: "string \<Rightarrow> string \<Rightarrow> bool"
  jwt_encode :: "string \<Rightarrow> claims \<Rightarrow> string option"
  jwt_decode :: "string \<Rightarrow> string \<Rightarrow> int \<Rightarrow> string \<Rightarrow> claims option"
  b64url_decode :: "string \<Rightarrow> nat list option"
  json_to_vec :: "cursor_kind \<Rightarrow> cursor \<Rightarrow> nat list"
  json_from_slice :: "cursor_kind \<Rightarrow> nat list \<Rightarrow> cursor option"
  to_rfc3339 :: "datetime \<Rightarrow> string"
  parse_from_rfc3339 :: "string \<Rightarrow> datetime option"
  uuid_parse :: "string \<Rightarrow> uuid option"
  parse_ip :: "string \<Rightarrow> string option"
  collate :: "string \<Rightarrow> string"
  length_ok :: "nat \<Rightarrow> nat \<Rightarrow> string \<Rightarrow> bool"
  row_locked :: "nat \<Rightarrow> uuid \<Rightarrow> bool"

text \<open>\<^verbatim>\<open>ORDER BY\<close> on a text column: the collation's sort key, ties broken bytewise.\<close>

definition text_order :: "env \<Rightarrow> string \<Rightarrow> string \<times> string" where
  "text_order E s = (collate E s, s)"

section \<open>The world\<close>

record world =
  w_db :: db
  w_now :: datetime
  w_draws :: nat
  w_stmts :: nat
  w_audit :: "audit_event list"
  w_audit_capacity :: nat
  w_audit_open :: bool
  w_cache :: "uuid \<times> string \<Rightarrow> (json \<times> datetime) option"

type_synonym ('e, 'a) action = "(world, 'e, 'a) cmd"

definition utc_now :: "('e, datetime) action" where
  "utc_now w = (Ok (w_now w), w)"

definition draw :: "(nat \<Rightarrow> 'a) \<Rightarrow> ('e, 'a) action" where
  "draw g w = (Ok (g (w_draws w)), w\<lparr>w_draws := Suc (w_draws w)\<rparr>)"

abbreviation new_uuid :: "env \<Rightarrow> ('e, uuid) action" where
  "new_uuid E \<equiv> draw (uuid_v7 E)"

definition stmt :: "env \<Rightarrow> (datetime \<Rightarrow> db \<Rightarrow> sqlx_error + 'a \<times> db) \<Rightarrow> (sqlx_error, 'a) action" where
  "stmt E f w =
     (let w' = w\<lparr>w_stmts := Suc (w_stmts w)\<rparr> in
      if db_fault E (w_stmts w) then (Err OtherSqlx, w')
      else case f (w_now w) (w_db w) of
          Err e \<Rightarrow> (Err e, w')
        | Ok (a, d) \<Rightarrow> (Ok a, w'\<lparr>w_db := d\<rparr>))"

text \<open>The number the next statement will have.\<close>

definition stmt_no :: "('e, nat) action" where
  "stmt_no w = (Ok (w_stmts w), w)"

definition query :: "env \<Rightarrow> (datetime \<Rightarrow> db \<Rightarrow> 'a) \<Rightarrow> (sqlx_error, 'a) action" where
  "query E f = stmt E (\<lambda>now d. Ok (f now d, d))"

abbreviation control :: "env \<Rightarrow> (sqlx_error, unit) action" where
  "control E \<equiv> query E (\<lambda>_ _. ())"

definition in_tx :: "env \<Rightarrow> (sqlx_error \<Rightarrow> 'e) \<Rightarrow> ('e, 'a) action \<Rightarrow> ('e, 'a) action" where
  "in_tx E conv body w =
     (case control E w of
        (Err e, w1) \<Rightarrow> (Err (conv e), w1)
      | (Ok _, w1) \<Rightarrow>
          (case body w1 of
             (Err e, w2) \<Rightarrow> (Err e, w2\<lparr>w_db := w_db w\<rparr>)
           | (Ok a, w2) \<Rightarrow>
               (case control E w2 of
                  (Err e, w3) \<Rightarrow> (Err (conv e), w3\<lparr>w_db := w_db w\<rparr>)
                | (Ok _, w3) \<Rightarrow> (Ok a, w3))))"

section \<open>Assertions on the database\<close>

definition keeps_db :: "(db \<Rightarrow> bool) \<Rightarrow> ('e, 'a) action \<Rightarrow> bool" where
  "keeps_db Q m \<longleftrightarrow> keeps (\<lambda>w. Q (w_db w)) m"

named_theorems keeps_db_intros \<open>closure rules for keeps_db\<close>
named_theorems reads_db_intros \<open>actions that leave the database alone\<close>

lemma keeps_dbI: "(\<And>w r w'. Q (w_db w) \<Longrightarrow> m w = (r, w') \<Longrightarrow> Q (w_db w')) \<Longrightarrow> keeps_db Q m"
  by (auto simp: keeps_db_def intro: keepsI)

lemma keeps_dbD: "keeps_db Q m \<Longrightarrow> Q (w_db w) \<Longrightarrow> m w = (r, w') \<Longrightarrow> Q (w_db w')"
  unfolding keeps_db_def by (drule keepsD) auto

lemma keeps_db_ret [keeps_db_intros]: "keeps_db Q (ret a)"
  and keeps_db_fail [keeps_db_intros]: "keeps_db Q (fail e)"
  and keeps_db_lift [keeps_db_intros]: "keeps_db Q (lift r)"
  by (simp_all add: keeps_db_def keeps_intros)

lemma keeps_db_bindE [keeps_db_intros]:
  "keeps_db Q m \<Longrightarrow> (\<And>a. keeps_db Q (f a)) \<Longrightarrow> keeps_db Q (bindE m f)"
  by (simp add: keeps_db_def keeps_intros)

lemma keeps_db_map_err [keeps_db_intros]: "keeps_db Q m \<Longrightarrow> keeps_db Q (map_err g m)"
  by (simp add: keeps_db_def keeps_intros)

lemma keeps_db_matchE [keeps_db_intros]:
  "keeps_db Q m \<Longrightarrow> (\<And>r. keeps_db Q (f r)) \<Longrightarrow> keeps_db Q (matchE m f)"
  by (simp add: keeps_db_def keeps_intros)

lemma keeps_db_if [keeps_db_intros]:
  "(b \<Longrightarrow> keeps_db Q m) \<Longrightarrow> (\<not> b \<Longrightarrow> keeps_db Q n) \<Longrightarrow> keeps_db Q (if b then m else n)"
  by simp

lemma keeps_db_case_option [keeps_db_intros]:
  "(x = None \<Longrightarrow> keeps_db Q m) \<Longrightarrow> (\<And>a. x = Some a \<Longrightarrow> keeps_db Q (f a)) \<Longrightarrow>
   keeps_db Q (case x of None \<Rightarrow> m | Some a \<Rightarrow> f a)"
  by (cases x) auto

lemma keeps_db_case_sum [keeps_db_intros]:
  "(\<And>e. x = Inl e \<Longrightarrow> keeps_db Q (f e)) \<Longrightarrow> (\<And>a. x = Inr a \<Longrightarrow> keeps_db Q (g a)) \<Longrightarrow>
   keeps_db Q (case x of Inl e \<Rightarrow> f e | Inr a \<Rightarrow> g a)"
  by (cases x) auto

lemma keeps_db_case_prod [keeps_db_intros]:
  "(\<And>a b. x = (a, b) \<Longrightarrow> keeps_db Q (f a b)) \<Longrightarrow> keeps_db Q (case x of (a, b) \<Rightarrow> f a b)"
  by (cases x) auto

lemma keeps_db_Let [keeps_db_intros]: "(\<And>x. x = v \<Longrightarrow> keeps_db Q (f x)) \<Longrightarrow> keeps_db Q (Let v f)"
  by (simp add: Let_def)

lemma keeps_db_for_each [keeps_db_intros]:
  "(\<And>x. x \<in> set xs \<Longrightarrow> keeps_db Q (f x)) \<Longrightarrow> keeps_db Q (for_each f xs)"
  by (simp add: keeps_db_def keeps_intros)

lemma keeps_db_reads: "reads w_db m \<Longrightarrow> keeps_db Q m"
  unfolding keeps_db_def by (rule reads_keeps)

lemma keeps_db_stmt [keeps_db_intros]:
  assumes "\<And>now d a d'. Q d \<Longrightarrow> f now d = Ok (a, d') \<Longrightarrow> Q d'"
  shows "keeps_db Q (stmt E f)"
  by (rule keeps_dbI) (auto simp: stmt_def Let_def split: if_splits sum.splits prod.splits dest: assms)

lemma reads_utc_now [reads_db_intros]: "reads w_db utc_now"
  by (simp add: reads_def utc_now_def)

lemma reads_draw [reads_db_intros]: "reads w_db (draw g)"
  by (simp add: reads_def draw_def)

lemma reads_query [reads_db_intros]: "reads w_db (query E f)"
  by (simp add: reads_def query_def stmt_def Let_def)

lemma reads_ret [reads_db_intros]: "reads p (ret a)"
  and reads_fail [reads_db_intros]: "reads p (fail e)"
  and reads_lift [reads_db_intros]: "reads p (lift r)"
  by (simp_all add: reads_def)

lemma reads_bindE [reads_db_intros]:
  "reads p m \<Longrightarrow> (\<And>a. reads p (f a)) \<Longrightarrow> reads p (bindE m f)"
  by (simp add: reads_iff_keeps keeps_intros)

lemma reads_map_err [reads_db_intros]: "reads p m \<Longrightarrow> reads p (map_err g m)"
  by (simp add: reads_iff_keeps keeps_intros)

lemma reads_matchE [reads_db_intros]:
  "reads p m \<Longrightarrow> (\<And>r. reads p (f r)) \<Longrightarrow> reads p (matchE m f)"
  by (simp add: reads_iff_keeps keeps_intros)

lemma reads_if [reads_db_intros]:
  "(b \<Longrightarrow> reads p m) \<Longrightarrow> (\<not> b \<Longrightarrow> reads p n) \<Longrightarrow> reads p (if b then m else n)"
  by simp

lemma reads_case_option [reads_db_intros]:
  "(x = None \<Longrightarrow> reads p m) \<Longrightarrow> (\<And>a. x = Some a \<Longrightarrow> reads p (f a)) \<Longrightarrow>
   reads p (case x of None \<Rightarrow> m | Some a \<Rightarrow> f a)"
  by (cases x) auto

lemma reads_case_sum [reads_db_intros]:
  "(\<And>e. x = Inl e \<Longrightarrow> reads p (f e)) \<Longrightarrow> (\<And>a. x = Inr a \<Longrightarrow> reads p (g a)) \<Longrightarrow>
   reads p (case x of Inl e \<Rightarrow> f e | Inr a \<Rightarrow> g a)"
  by (cases x) auto

lemma reads_Let [reads_db_intros]: "(\<And>x. x = v \<Longrightarrow> reads p (f x)) \<Longrightarrow> reads p (Let v f)"
  by (simp add: Let_def)

lemma reads_stmt_no [reads_db_intros]: "reads w_db stmt_no"
  by (simp add: reads_def stmt_no_def)

lemmas keeps_db_leaf [keeps_db_intros] =
  reads_stmt_no [THEN keeps_db_reads] reads_utc_now [THEN keeps_db_reads] reads_draw [THEN keeps_db_reads]
  reads_query [THEN keeps_db_reads]

text \<open>
  The two facts about transactions everything else rests on: whatever the body does, an error
  leaves the tables as they were, and a commit happens only after the whole body succeeded.
\<close>

lemma in_tx_Ok_iff:
  "in_tx E conv body w = (Ok a, w') \<longleftrightarrow>
     (\<exists>w1 w2. control E w = (Ok (), w1) \<and> body w1 = (Ok a, w2) \<and> control E w2 = (Ok (), w'))"
  by (auto simp: in_tx_def split: prod.splits sum.splits)

lemma in_tx_Err_db: "in_tx E conv body w = (Err e, w') \<Longrightarrow> w_db w' = w_db w"
  using reads_query [of E "\<lambda>_ _. ()"]
  by (auto simp: in_tx_def split: prod.splits sum.splits dest: readsD)

lemma safe_err_in_tx [safe_err_intros]: "safe_err w_db (in_tx E conv body)"
  by (auto simp: safe_err_def dest: in_tx_Err_db)

lemma control_db: "control E w = (r, w') \<Longrightarrow> w_db w' = w_db w \<and> w_now w' = w_now w"
  by (auto simp: query_def stmt_def Let_def split: if_splits)

lemma keeps_db_in_tx [keeps_db_intros]:
  assumes "keeps_db Q body"
  shows "keeps_db Q (in_tx E conv body)"
proof (rule keeps_dbI)
  fix w r w'
  assume Q: "Q (w_db w)" and run: "in_tx E conv body w = (r, w')"
  show "Q (w_db w')"
  proof (cases r)
    case (Inl e)
    with run Q show ?thesis by (simp add: in_tx_Err_db)
  next
    case (Inr a)
    with run obtain w1 w2 where "control E w = (Ok (), w1)" "body w1 = (Ok a, w2)"
      "control E w2 = (Ok (), w')" by (auto simp: in_tx_Ok_iff)
    with Q assms show ?thesis by (metis control_db keeps_dbD)
  qed
qed

text \<open>A successful statement, seen from the caller.\<close>

lemma stmt_Ok_iff:
  "stmt E f w = (Ok a, w') \<longleftrightarrow>
     \<not> db_fault E (w_stmts w) \<and>
     (\<exists>d. f (w_now w) (w_db w) = Ok (a, d) \<and> w' = w\<lparr>w_stmts := Suc (w_stmts w), w_db := d\<rparr>)"
  by (auto simp: stmt_def Let_def split: sum.splits)

lemma query_Ok_iff:
  "query E f w = (Ok a, w') \<longleftrightarrow>
     \<not> db_fault E (w_stmts w) \<and> a = f (w_now w) (w_db w) \<and> w' = w\<lparr>w_stmts := Suc (w_stmts w)\<rparr>"
  by (auto simp: query_def stmt_Ok_iff)

lemma stmt_Err_iff:
  "stmt E f w = (Err e, w') \<longleftrightarrow>
     w' = w\<lparr>w_stmts := Suc (w_stmts w)\<rparr> \<and>
     (if db_fault E (w_stmts w) then e = OtherSqlx else f (w_now w) (w_db w) = Err e)"
  by (auto simp: stmt_def Let_def split: sum.splits)

lemma query_Err_iff:
  "query E f w = (Err e, w') \<longleftrightarrow>
     w' = w\<lparr>w_stmts := Suc (w_stmts w)\<rparr> \<and> db_fault E (w_stmts w) \<and> e = OtherSqlx"
  by (auto simp: query_def stmt_Err_iff)

lemma safe_err_stmt [safe_err_intros]: "safe_err w_db (stmt E f)"
  by (auto simp: safe_err_def stmt_Err_iff)

lemma draw_eq_iff: "draw g w = (r, w') \<longleftrightarrow> r = Ok (g (w_draws w)) \<and> w' = w\<lparr>w_draws := Suc (w_draws w)\<rparr>"
  by (auto simp: draw_def)

lemma utc_now_eq_iff: "utc_now w = (r, w') \<longleftrightarrow> r = Ok (w_now w) \<and> w' = w"
  by (auto simp: utc_now_def)

lemma stmt_no_eq_iff: "stmt_no w = (r, w') \<longleftrightarrow> r = Ok (w_stmts w) \<and> w' = w"
  by (auto simp: stmt_no_def)

lemmas action_ok_simps =
  stmt_no_eq_iff
  bindE_eq_Ok_iff map_err_eq_Ok_iff in_tx_Ok_iff stmt_Ok_iff query_Ok_iff draw_eq_iff
  utc_now_eq_iff matchE_eq_iff

end
