(* ===== verification/Tables.thy ===== *)
theory Tables
  imports Store
begin

text \<open>
  The tables of \<^verbatim>\<open>migrations/\<close> as the SQL statements of the repositories see them: one
  definition per \<^verbatim>\<open>INSERT\<close> or cascading \<^verbatim>\<open>DELETE\<close>, with the constraints in the order
  PostgreSQL checks them (primary key, unique indexes in the order they were created, then
  foreign keys), and \<open>wf_db\<close>, the integrity those constraints promise. Every statement keeps
  \<open>wf_db\<close>; the repositories are built from these statements only.
\<close>

definition key_in :: "('r \<Rightarrow> 'k) \<Rightarrow> 'r list \<Rightarrow> 'k \<Rightarrow> bool" where
  "key_in k rows x \<longleftrightarrow> list_ex (\<lambda>r. k r = x) rows"

lemma key_in_iff [simp]: "key_in k rows x \<longleftrightarrow> x \<in> k ` set rows"
  by (auto simp: key_in_def list_ex_iff)

section \<open>Inserts\<close>

definition insert_organisation :: "organisation \<Rightarrow> db \<Rightarrow> sqlx_error + db" where
  "insert_organisation r d =
     (if key_in o_id (organisations d) (o_id r) then Err (unique_violation ''organisations_pkey'')
      else if key_in o_name (organisations d) (o_name r)
        then Err (unique_violation ''organisations_name_key'')
      else if o_is_operator r \<and> list_ex o_is_operator (organisations d)
        then Err (unique_violation ''ux_organisations_operator'')
      else Ok (d\<lparr>organisations := organisations d @ [r]\<rparr>))"

definition insert_user :: "env \<Rightarrow> user \<Rightarrow> db \<Rightarrow> sqlx_error + db" where
  "insert_user E r d =
     (if key_in u_id (users d) (u_id r) then Err (unique_violation ''users_pkey'')
      else if key_in u_username (users d) (u_username r)
        then Err (unique_violation ''users_username_key'')
      else if list_ex (\<lambda>u. citext_eq E (u_email u) (u_email r)) (users d)
        then Err (unique_violation ''users_email_key'')
      else Ok (d\<lparr>users := users d @ [r]\<rparr>))"

definition membership_key :: "membership \<Rightarrow> uuid \<times> uuid \<times> uuid" where
  "membership_key m = (m_user m, m_org m, m_role m)"

definition insert_membership :: "membership \<Rightarrow> db \<Rightarrow> sqlx_error + db" where
  "insert_membership r d =
     (if key_in membership_key (memberships d) (membership_key r)
        then Err (unique_violation ''user_organisation_roles_pkey'')
      else if \<not> key_in u_id (users d) (m_user r)
        then Err (fk_violation ''user_organisation_roles_user_id_fkey'')
      else if \<not> key_in o_id (organisations d) (m_org r)
        then Err (fk_violation ''user_organisation_roles_organisation_id_fkey'')
      else if \<not> key_in r_id (roles d) (m_role r)
        then Err (fk_violation ''user_organisation_roles_role_id_fkey'')
      else Ok (d\<lparr>memberships := memberships d @ [r]\<rparr>))"

text \<open>\<^verbatim>\<open>ON CONFLICT DO NOTHING\<close>: a row that is already there is no error and no change.\<close>

definition insert_membership_if_new :: "membership \<Rightarrow> db \<Rightarrow> sqlx_error + db" where
  "insert_membership_if_new r d =
     (if key_in membership_key (memberships d) (membership_key r) then Ok d
      else insert_membership r d)"

definition channel_key :: "inbound_channel \<Rightarrow> uuid \<times> string" where
  "channel_key c = (c_organisation_id c, c_name c)"

definition insert_channel :: "inbound_channel \<Rightarrow> db \<Rightarrow> sqlx_error + db" where
  "insert_channel r d =
     (if key_in c_id (channels d) (c_id r) then Err (unique_violation ''inbound_channels_pkey'')
      else if key_in channel_key (channels d) (channel_key r)
        then Err (unique_violation ''inbound_channels_organisation_id_name_key'')
      else if \<not> key_in o_id (organisations d) (c_organisation_id r)
        then Err (fk_violation ''inbound_channels_organisation_id_fkey'')
      else Ok (d\<lparr>channels := channels d @ [r]\<rparr>))"

definition sa_key :: "service_account \<Rightarrow> uuid \<times> string" where
  "sa_key s = (sa_organisation_id s, sa_name s)"

definition insert_service_account :: "service_account \<Rightarrow> db \<Rightarrow> sqlx_error + db" where
  "insert_service_account r d =
     (if key_in sa_user_id (service_accounts d) (sa_user_id r)
        then Err (unique_violation ''service_accounts_pkey'')
      else if key_in sa_key (service_accounts d) (sa_key r)
        then Err (unique_violation ''service_accounts_organisation_id_name_key'')
      else if \<not> key_in u_id (users d) (sa_user_id r)
        then Err (fk_violation ''service_accounts_user_id_fkey'')
      else if \<not> key_in o_id (organisations d) (sa_organisation_id r)
        then Err (fk_violation ''service_accounts_organisation_id_fkey'')
      else if \<not> key_in u_id (users d) (sa_created_by r)
        then Err (fk_violation ''service_accounts_created_by_fkey'')
      else Ok (d\<lparr>service_accounts := service_accounts d @ [r]\<rparr>))"

abbreviation kr_id :: "api_key_row \<Rightarrow> uuid" where "kr_id r \<equiv> k_id (kr_key r)"
abbreviation kr_prefix :: "api_key_row \<Rightarrow> string" where "kr_prefix r \<equiv> k_prefix (kr_key r)"
abbreviation kr_sa :: "api_key_row \<Rightarrow> uuid" where "kr_sa r \<equiv> k_sa (kr_key r)"

definition insert_api_key :: "api_key_row \<Rightarrow> db \<Rightarrow> sqlx_error + db" where
  "insert_api_key r d =
     (if k_scopes (kr_key r) = Some [] then Err (Database ''23514'' ''api_keys_scopes_check'')
      else if key_in kr_id (api_keys d) (kr_id r) then Err (unique_violation ''api_keys_pkey'')
      else if key_in kr_prefix (api_keys d) (kr_prefix r)
        then Err (unique_violation ''api_keys_prefix_key'')
      else if \<not> key_in sa_user_id (service_accounts d) (kr_sa r)
        then Err (fk_violation ''api_keys_service_account_user_id_fkey'')
      else if \<not> key_in u_id (users d) (k_created_by (kr_key r))
        then Err (fk_violation ''api_keys_created_by_fkey'')
      else Ok (d\<lparr>api_keys := api_keys d @ [r]\<rparr>))"

definition insert_reset_token :: "reset_token \<Rightarrow> db \<Rightarrow> sqlx_error + db" where
  "insert_reset_token r d =
     (if key_in t_id (reset_tokens d) (t_id r)
        then Err (unique_violation ''password_reset_tokens_pkey'')
      else if key_in t_token_hash (reset_tokens d) (t_token_hash r)
        then Err (unique_violation ''password_reset_tokens_token_hash_key'')
      else if \<not> key_in u_id (users d) (t_user_id r)
        then Err (fk_violation ''password_reset_tokens_user_id_fkey'')
      else Ok (d\<lparr>reset_tokens := reset_tokens d @ [r]\<rparr>))"

definition insert_revoked_if_new :: "revoked_token \<Rightarrow> db \<Rightarrow> sqlx_error + db" where
  "insert_revoked_if_new r d =
     (if key_in rv_jti (revoked_tokens d) (rv_jti r) then Ok d
      else if \<not> key_in u_id (users d) (rv_user_id r)
        then Err (fk_violation ''revoked_tokens_user_id_fkey'')
      else Ok (d\<lparr>revoked_tokens := revoked_tokens d @ [r]\<rparr>))"

definition override_key :: "feature_override \<Rightarrow> uuid \<times> string" where
  "override_key v = (fo_organisation_id v, fo_slug v)"

text \<open>
  \<^verbatim>\<open>INSERT .. ON CONFLICT (organisation_id, slug) DO UPDATE\<close>. An update of the value re-checks
  the changed foreign key \<^verbatim>\<open>updated_by\<close> only.
\<close>

definition upsert_override_row :: "feature_override \<Rightarrow> db \<Rightarrow> sqlx_error + db" where
  "upsert_override_row r d =
     (if key_in override_key (feature_overrides d) (override_key r)
      then (if \<not> key_in u_id (users d) (fo_updated_by r)
              then Err (fk_violation ''organisation_features_updated_by_fkey'')
            else Ok (d\<lparr>feature_overrides :=
              map (\<lambda>v. if override_key v = override_key r then r else v) (feature_overrides d)\<rparr>))
      else if \<not> key_in o_id (organisations d) (fo_organisation_id r)
        then Err (fk_violation ''organisation_features_organisation_id_fkey'')
      else if \<not> key_in fd_slug (feature_definitions d) (fo_slug r)
        then Err (fk_violation ''organisation_features_slug_fkey'')
      else if \<not> key_in u_id (users d) (fo_updated_by r)
        then Err (fk_violation ''organisation_features_updated_by_fkey'')
      else Ok (d\<lparr>feature_overrides := feature_overrides d @ [r]\<rparr>))"

definition insert_job :: "job \<Rightarrow> db \<Rightarrow> sqlx_error + db" where
  "insert_job r d =
     (if key_in j_id (jobs d) (j_id r) then Err (unique_violation ''jobs_pkey'')
      else Ok (d\<lparr>jobs := jobs d @ [r]\<rparr>))"

definition insert_outbox :: "outbox_event \<Rightarrow> db \<Rightarrow> sqlx_error + db" where
  "insert_outbox r d =
     (if key_in ob_id (outbox d) (ob_id r) then Err (unique_violation ''outbox_events_pkey'')
      else Ok (d\<lparr>outbox := outbox d @ [r]\<rparr>))"

definition insert_audit :: "audit_row \<Rightarrow> db \<Rightarrow> sqlx_error + db" where
  "insert_audit r d =
     (if key_in ar_id (audit_events d) (ar_id r) then Err (unique_violation ''audit_events_pkey'')
      else Ok (d\<lparr>audit_events := audit_events d @ [r]\<rparr>))"

section \<open>Deleting a service account's user row\<close>

text \<open>
  \<^verbatim>\<open>DELETE FROM users WHERE id = $1 AND kind = 'service_account'\<close> cascades to reset tokens,
  memberships, revoked tokens and the service account with its keys; the references
  \<^verbatim>\<open>created_by\<close> and \<^verbatim>\<open>updated_by\<close> have no \<^verbatim>\<open>ON DELETE\<close> action, so a remaining one refuses the
  whole statement. Returns the number of rows deleted.
\<close>

definition cascade_user :: "uuid \<Rightarrow> db \<Rightarrow> db" where
  "cascade_user uid d = d\<lparr>
     users := filter (\<lambda>u. u_id u \<noteq> uid) (users d),
     memberships := filter (\<lambda>m. m_user m \<noteq> uid) (memberships d),
     reset_tokens := filter (\<lambda>t. t_user_id t \<noteq> uid) (reset_tokens d),
     revoked_tokens := filter (\<lambda>t. rv_user_id t \<noteq> uid) (revoked_tokens d),
     service_accounts := filter (\<lambda>s. sa_user_id s \<noteq> uid) (service_accounts d),
     api_keys := filter (\<lambda>k. kr_sa k \<noteq> uid) (api_keys d)\<rparr>"

definition delete_sa_user :: "uuid \<Rightarrow> db \<Rightarrow> sqlx_error + nat \<times> db" where
  "delete_sa_user uid d =
     (if \<not> list_ex (\<lambda>u. u_id u = uid \<and> u_kind u = ServiceAccountKind) (users d) then Ok (0, d)
      else let d' = cascade_user uid d in
        if key_in sa_created_by (service_accounts d') uid
          then Err (fk_violation ''service_accounts_created_by_fkey'')
        else if key_in (\<lambda>k. k_created_by (kr_key k)) (api_keys d') uid
          then Err (fk_violation ''api_keys_created_by_fkey'')
        else if key_in fo_updated_by (feature_overrides d') uid
          then Err (fk_violation ''organisation_features_updated_by_fkey'')
        else Ok (1, d'))"

section \<open>Integrity\<close>

definition unique_emails :: "env \<Rightarrow> user list \<Rightarrow> bool" where
  "unique_emails E us \<longleftrightarrow> sorted_wrt (\<lambda>a b. \<not> citext_eq E (u_email a) (u_email b)) us"

definition wf_keys :: "env \<Rightarrow> db \<Rightarrow> bool" where
  "wf_keys E d \<longleftrightarrow>
     distinct (map o_id (organisations d)) \<and> distinct (map o_name (organisations d)) \<and>
     distinct (map u_id (users d)) \<and> distinct (map u_username (users d)) \<and>
     unique_emails E (users d) \<and>
     distinct (map membership_key (memberships d)) \<and>
     distinct (map c_id (channels d)) \<and> distinct (map channel_key (channels d)) \<and>
     distinct (map sa_user_id (service_accounts d)) \<and> distinct (map sa_key (service_accounts d)) \<and>
     distinct (map kr_id (api_keys d)) \<and> distinct (map kr_prefix (api_keys d)) \<and>
     distinct (map t_id (reset_tokens d)) \<and> distinct (map t_token_hash (reset_tokens d)) \<and>
     distinct (map rv_jti (revoked_tokens d)) \<and>
     distinct (map override_key (feature_overrides d)) \<and>
     distinct (map j_id (jobs d)) \<and> distinct (map ob_id (outbox d)) \<and>
     distinct (map ar_id (audit_events d))"

definition wf_refs :: "db \<Rightarrow> bool" where
  "wf_refs d \<longleftrightarrow>
     (\<forall>m \<in> set (memberships d). m_user m \<in> u_id ` set (users d) \<and>
        m_org m \<in> o_id ` set (organisations d) \<and> m_role m \<in> r_id ` set (roles d)) \<and>
     (\<forall>c \<in> set (channels d). c_organisation_id c \<in> o_id ` set (organisations d)) \<and>
     (\<forall>s \<in> set (service_accounts d). sa_user_id s \<in> u_id ` set (users d) \<and>
        sa_organisation_id s \<in> o_id ` set (organisations d) \<and>
        sa_created_by s \<in> u_id ` set (users d)) \<and>
     (\<forall>k \<in> set (api_keys d). kr_sa k \<in> sa_user_id ` set (service_accounts d) \<and>
        k_created_by (kr_key k) \<in> u_id ` set (users d) \<and> k_scopes (kr_key k) \<noteq> Some []) \<and>
     (\<forall>t \<in> set (reset_tokens d). t_user_id t \<in> u_id ` set (users d)) \<and>
     (\<forall>t \<in> set (revoked_tokens d). rv_user_id t \<in> u_id ` set (users d)) \<and>
     (\<forall>v \<in> set (feature_overrides d). fo_organisation_id v \<in> o_id ` set (organisations d) \<and>
        fo_slug v \<in> fd_slug ` set (feature_definitions d) \<and>
        fo_updated_by v \<in> u_id ` set (users d))"

definition wf_db :: "env \<Rightarrow> db \<Rightarrow> bool" where
  "wf_db E d \<longleftrightarrow> wf_keys E d \<and> wf_refs d"

named_theorems wf_intros \<open>statements that keep wf_db\<close>

lemma unique_emails_append:
  "unique_emails E (us @ [u]) \<longleftrightarrow>
     unique_emails E us \<and> (\<forall>v \<in> set us. \<not> citext_eq E (u_email v) (u_email u))"
  by (auto simp: unique_emails_def sorted_wrt_append)

lemma unique_emails_filter: "unique_emails E us \<Longrightarrow> unique_emails E (filter P us)"
  by (simp add: unique_emails_def sorted_wrt_filter)

lemmas wf_defs = wf_db_def wf_keys_def wf_refs_def

lemma wf_insert_organisation [wf_intros]:
  "wf_db E d \<Longrightarrow> insert_organisation r d = Ok d' \<Longrightarrow> wf_db E d'"
  by (clarsimp simp: insert_organisation_def wf_defs split: if_splits)

lemma wf_insert_user [wf_intros]: "wf_db E d \<Longrightarrow> insert_user E r d = Ok d' \<Longrightarrow> wf_db E d'"
  by (clarsimp simp: insert_user_def wf_defs unique_emails_append list_ex_iff split: if_splits)

lemma wf_insert_membership [wf_intros]:
  "wf_db E d \<Longrightarrow> insert_membership r d = Ok d' \<Longrightarrow> wf_db E d'"
  by (clarsimp simp: insert_membership_def wf_defs split: if_splits)

lemma wf_insert_membership_if_new [wf_intros]:
  "wf_db E d \<Longrightarrow> insert_membership_if_new r d = Ok d' \<Longrightarrow> wf_db E d'"
  by (auto simp: insert_membership_if_new_def split: if_splits intro: wf_insert_membership)

lemma wf_insert_channel [wf_intros]:
  "wf_db E d \<Longrightarrow> insert_channel r d = Ok d' \<Longrightarrow> wf_db E d'"
  by (clarsimp simp: insert_channel_def wf_defs split: if_splits)

lemma wf_insert_service_account [wf_intros]:
  "wf_db E d \<Longrightarrow> insert_service_account r d = Ok d' \<Longrightarrow> wf_db E d'"
  by (clarsimp simp: insert_service_account_def wf_defs split: if_splits)

lemma wf_insert_api_key [wf_intros]:
  "wf_db E d \<Longrightarrow> insert_api_key r d = Ok d' \<Longrightarrow> wf_db E d'"
  by (clarsimp simp: insert_api_key_def wf_defs split: if_splits)

lemma wf_insert_reset_token [wf_intros]:
  "wf_db E d \<Longrightarrow> insert_reset_token r d = Ok d' \<Longrightarrow> wf_db E d'"
  by (clarsimp simp: insert_reset_token_def wf_defs split: if_splits)

lemma wf_insert_revoked_if_new [wf_intros]:
  "wf_db E d \<Longrightarrow> insert_revoked_if_new r d = Ok d' \<Longrightarrow> wf_db E d'"
  by (clarsimp simp: insert_revoked_if_new_def wf_defs split: if_splits)

lemma wf_insert_job [wf_intros]: "wf_db E d \<Longrightarrow> insert_job r d = Ok d' \<Longrightarrow> wf_db E d'"
  by (clarsimp simp: insert_job_def wf_defs split: if_splits)

lemma wf_insert_outbox [wf_intros]: "wf_db E d \<Longrightarrow> insert_outbox r d = Ok d' \<Longrightarrow> wf_db E d'"
  by (clarsimp simp: insert_outbox_def wf_defs split: if_splits)

lemma wf_insert_audit [wf_intros]: "wf_db E d \<Longrightarrow> insert_audit r d = Ok d' \<Longrightarrow> wf_db E d'"
  by (clarsimp simp: insert_audit_def wf_defs split: if_splits)

lemma map_override_key_update:
  "map override_key (map (\<lambda>v. if override_key v = override_key r then r else v) vs) =
   map override_key vs"
  by (rule map_key_update) auto

lemma wf_keys_overrides:
  "wf_keys E d \<Longrightarrow> distinct (map override_key vs) \<Longrightarrow> wf_keys E (d\<lparr>feature_overrides := vs\<rparr>)"
  by (simp add: wf_keys_def)

lemma wf_refs_overrides:
  "wf_refs d \<Longrightarrow>
   \<forall>v \<in> set vs. fo_organisation_id v \<in> o_id ` set (organisations d) \<and>
     fo_slug v \<in> fd_slug ` set (feature_definitions d) \<and> fo_updated_by v \<in> u_id ` set (users d) \<Longrightarrow>
   wf_refs (d\<lparr>feature_overrides := vs\<rparr>)"
  by (simp add: wf_refs_def)

lemma wf_refs_overrideD:
  "wf_refs d \<Longrightarrow> v \<in> set (feature_overrides d) \<Longrightarrow>
   fo_organisation_id v \<in> o_id ` set (organisations d) \<and>
   fo_slug v \<in> fd_slug ` set (feature_definitions d) \<and> fo_updated_by v \<in> u_id ` set (users d)"
  by (simp add: wf_refs_def)

lemma wf_upsert_override_row [wf_intros]:
  assumes wf: "wf_db E d" and ins: "upsert_override_row r d = Ok d'"
  shows "wf_db E d'"
proof (cases "key_in override_key (feature_overrides d) (override_key r)")
  case True
  define vs where
    "vs = map (\<lambda>v. if override_key v = override_key r then r else v) (feature_overrides d)"
  have d': "d' = d\<lparr>feature_overrides := vs\<rparr>" and by_ok: "fo_updated_by r \<in> u_id ` set (users d)"
    using True ins by (simp_all only: upsert_override_row_def if_True vs_def key_in_iff
        split: if_splits) auto
  obtain v where v: "v \<in> set (feature_overrides d)" "override_key v = override_key r"
    using True by (auto simp: image_iff)
  have refs: "wf_refs d" using wf by (simp add: wf_db_def)
  have r_ok: "fo_organisation_id r \<in> o_id ` set (organisations d)"
    "fo_slug r \<in> fd_slug ` set (feature_definitions d)"
    using wf_refs_overrideD [OF refs v(1)] v(2) by (simp_all add: override_key_def)
  have "distinct (map override_key vs)"
    using wf unfolding vs_def map_override_key_update by (simp add: wf_db_def wf_keys_def)
  moreover have "\<forall>x \<in> set vs. fo_organisation_id x \<in> o_id ` set (organisations d) \<and>
     fo_slug x \<in> fd_slug ` set (feature_definitions d) \<and> fo_updated_by x \<in> u_id ` set (users d)"
    unfolding vs_def set_map ball_simps(9) using by_ok r_ok wf_refs_overrideD [OF refs] by simp
  ultimately show ?thesis
    using wf unfolding d' wf_db_def by (simp add: wf_keys_overrides wf_refs_overrides)
next
  case False
  have new: "d' = d\<lparr>feature_overrides := feature_overrides d @ [r]\<rparr>"
    "fo_organisation_id r \<in> o_id ` set (organisations d)"
    "fo_slug r \<in> fd_slug ` set (feature_definitions d)" "fo_updated_by r \<in> u_id ` set (users d)"
    using ins False by (simp_all add: upsert_override_row_def split: if_split_asm)
  have refs: "wf_refs d" and keys: "wf_keys E d" using wf by (simp_all add: wf_db_def)
  have "distinct (map override_key (feature_overrides d @ [r]))"
    using keys False by (simp add: wf_keys_def)
  moreover have "\<forall>v \<in> set (feature_overrides d @ [r]). fo_organisation_id v \<in> o_id ` set (organisations d) \<and>
     fo_slug v \<in> fd_slug ` set (feature_definitions d) \<and> fo_updated_by v \<in> u_id ` set (users d)"
    using new(2-) wf_refs_overrideD [OF refs] by simp
  ultimately show ?thesis
    using wf unfolding new(1) wf_db_def by (simp add: wf_keys_overrides wf_refs_overrides)
qed

lemma wf_keys_cascade_user: "wf_keys E d \<Longrightarrow> wf_keys E (cascade_user uid d)"
  by (auto simp: wf_keys_def cascade_user_def distinct_map_filter unique_emails_filter)

lemma cascade_user_simps [simp]:
  "organisations (cascade_user uid d) = organisations d"
  "roles (cascade_user uid d) = roles d"
  "channels (cascade_user uid d) = channels d"
  "feature_definitions (cascade_user uid d) = feature_definitions d"
  "feature_overrides (cascade_user uid d) = feature_overrides d"
  "m \<in> set (memberships (cascade_user uid d)) \<longleftrightarrow> m \<in> set (memberships d) \<and> m_user m \<noteq> uid"
  "t \<in> set (reset_tokens (cascade_user uid d)) \<longleftrightarrow> t \<in> set (reset_tokens d) \<and> t_user_id t \<noteq> uid"
  "v \<in> set (revoked_tokens (cascade_user uid d)) \<longleftrightarrow>
     v \<in> set (revoked_tokens d) \<and> rv_user_id v \<noteq> uid"
  "s \<in> set (service_accounts (cascade_user uid d)) \<longleftrightarrow>
     s \<in> set (service_accounts d) \<and> sa_user_id s \<noteq> uid"
  "k \<in> set (api_keys (cascade_user uid d)) \<longleftrightarrow> k \<in> set (api_keys d) \<and> kr_sa k \<noteq> uid"
  "x \<in> u_id ` set (users (cascade_user uid d)) \<longleftrightarrow> x \<in> u_id ` set (users d) \<and> x \<noteq> uid"
  "x \<in> sa_user_id ` set (service_accounts (cascade_user uid d)) \<longleftrightarrow>
     x \<in> sa_user_id ` set (service_accounts d) \<and> x \<noteq> uid"
  by (auto simp: cascade_user_def)

lemma wf_refs_cascade_user:
  assumes "wf_refs d"
    and "\<forall>s \<in> set (service_accounts (cascade_user uid d)). sa_created_by s \<noteq> uid"
    and "\<forall>k \<in> set (api_keys (cascade_user uid d)). k_created_by (kr_key k) \<noteq> uid"
    and "\<forall>v \<in> set (feature_overrides d). fo_updated_by v \<noteq> uid"
  shows "wf_refs (cascade_user uid d)"
  using assms unfolding wf_refs_def by (intro conjI ballI; simp)

lemma wf_delete_sa_user [wf_intros]:
  assumes wf: "wf_db E d" and del: "delete_sa_user uid d = Ok (n, d')"
  shows "wf_db E d'"
proof (cases "list_ex (\<lambda>u. u_id u = uid \<and> u_kind u = ServiceAccountKind) (users d)")
  case False
  with wf del show ?thesis by (simp add: delete_sa_user_def)
next
  case True
  from True del have "d' = cascade_user uid d"
    "uid \<notin> sa_created_by ` set (service_accounts (cascade_user uid d))"
    "uid \<notin> (\<lambda>k. k_created_by (kr_key k)) ` set (api_keys (cascade_user uid d))"
    "uid \<notin> fo_updated_by ` set (feature_overrides d)"
    by (auto simp: delete_sa_user_def Let_def split: if_splits)
  moreover have "wf_refs (cascade_user uid d)"
    using wf calculation(2-4) by (intro wf_refs_cascade_user) (auto simp: wf_db_def)
  ultimately show ?thesis
    using wf by (simp add: wf_db_def wf_keys_cascade_user)
qed

end
