(* ===== verification/AuditLog.thy ===== *)
theory AuditLog
  imports Tables
begin

text \<open>
  The audit trail: \<open>record_event\<close> is \<^verbatim>\<open>ChannelAuditRecorder::record\<close>
  (\<^verbatim>\<open>src/audit/service/record_event.rs\<close>), a non-blocking send on the bounded channel
  \<open>w_audit\<close>; \<open>audit\<close> is what the services do with it, \<^verbatim>\<open>let _ = audit.record(..).await\<close>;
  \<open>audit_insert\<close> is \<^verbatim>\<open>AuditRepositoryPg::insert\<close>, and \<open>write_with_retry\<close> and
  \<open>worker_run\<close> are the worker of \<^verbatim>\<open>src/audit/worker.rs\<close>, whose sleeps advance the clock.

  The worker's retry counter is a 32-bit word as in the code, so its loop is a partial
  function: it returns for every \<^verbatim>\<open>max_retries\<close> below \<^verbatim>\<open>u32::MAX\<close>, which is the bound the
  lemmas carry.
\<close>

section \<open>Recording\<close>

datatype recorder_error = ChannelFull | Closed

definition record_event :: "audit_event \<Rightarrow> (recorder_error, unit) action" where
  "record_event e w =
     (if \<not> w_audit_open w then (Err Closed, w)
      else if w_audit_capacity w \<le> length (w_audit w) then (Err ChannelFull, w)
      else (Ok (), w\<lparr>w_audit := w_audit w @ [e]\<rparr>))"

text \<open>
  The constructor draws the event's id and time, then the event is sent and the result
  dropped.
\<close>

definition audit :: "env \<Rightarrow> (uuid \<Rightarrow> datetime \<Rightarrow> audit_event) \<Rightarrow> ('e, unit) action" where
  "audit E mk =
     bindE (new_uuid E) (\<lambda>eid.
     bindE utc_now (\<lambda>now.
     matchE (record_event (mk eid now)) (\<lambda>_. ret ())))"

text \<open>The queue after a send that may be refused.\<close>

definition enqueued :: "world \<Rightarrow> audit_event \<Rightarrow> audit_event list" where
  "enqueued w e =
     (if w_audit_open w \<and> length (w_audit w) < w_audit_capacity w
      then w_audit w @ [e] else w_audit w)"

lemma audit_eq:
  "audit E mk w =
     (Ok (), w\<lparr>w_draws := Suc (w_draws w),
               w_audit := enqueued w (mk (uuid_v7 E (w_draws w)) (w_now w))\<rparr>)"
  by (simp add: audit_def bindE_def draw_def utc_now_def matchE_def record_event_def enqueued_def)

lemma audit_eq_iff:
  "audit E mk w = (r, w') \<longleftrightarrow>
     r = Ok () \<and>
     w' = w\<lparr>w_draws := Suc (w_draws w),
            w_audit := enqueued w (mk (uuid_v7 E (w_draws w)) (w_now w))\<rparr>"
  by (auto simp: audit_eq)

lemma reads_audit [reads_db_intros]: "reads w_db (audit E mk)"
  by (simp add: reads_def audit_eq)

lemmas keeps_db_audit [keeps_db_intros] = reads_audit [THEN keeps_db_reads]

text \<open>The channel never holds more than its capacity.\<close>

lemma record_event_bounded:
  "length (w_audit w) \<le> w_audit_capacity w \<Longrightarrow> record_event e w = (r, w') \<Longrightarrow>
   length (w_audit w') \<le> w_audit_capacity w'"
  by (auto simp: record_event_def split: if_splits)

section \<open>Writing\<close>

definition audit_row_of :: "env \<Rightarrow> audit_event \<Rightarrow> audit_row" where
  "audit_row_of E e =
     \<lparr> ar_id = ev_id e, ar_occurred_at = ev_occurred_at e,
       ar_category = category_as_str (ev_category e), ar_event_type = ev_event_type e,
       ar_actor_user_id = ev_actor_user_id e,
       ar_actor_organisation_id = ev_actor_organisation_id e,
       ar_target_type = ev_target_type e, ar_target_id = ev_target_id e,
       ar_target_organisation_id = ev_target_organisation_id e, ar_request_id = ev_request_id e,
       ar_ip_address = Option.bind (ev_ip_address e) (parse_ip E),
       ar_user_agent = ev_user_agent e, ar_outcome = outcome_as_str (ev_outcome e),
       ar_reason_code = ev_reason_code e, ar_payload = ev_payload e \<rparr>"

definition audit_insert :: "env \<Rightarrow> audit_event \<Rightarrow> (sqlx_error, unit) action" where
  "audit_insert E e =
     stmt E (\<lambda>_ d. map_sum id (Pair ()) (insert_audit (audit_row_of E e) d))"

definition sleep_ms :: "u64 \<Rightarrow> world \<Rightarrow> world" where
  "sleep_ms ms w = w\<lparr>w_now := w_now w + 1000 * int (unat ms)\<rparr>"

partial_function (option) write_with_retry ::
    "env \<Rightarrow> u32 \<Rightarrow> audit_event \<Rightarrow> u32 \<Rightarrow> u64 \<Rightarrow> world \<Rightarrow> world option" where
  "write_with_retry E max_retries e attempt backoff_ms w =
     (let (r, w') = audit_insert E e w in
      if \<not> isl r then Some w'
      else let attempt' = attempt + 1 in
        if max_retries < attempt' then Some w'
        else write_with_retry E max_retries e attempt' (saturating_mul backoff_ms 4)
               (sleep_ms backoff_ms w'))"

declare write_with_retry.simps [code]

record worker =
  wk_max_retries :: u32
  wk_backoff_initial_ms :: u64

text \<open>
  \<^verbatim>\<open>while let Some(event) = rx.recv().await\<close> on the events that are queued: one
  \<open>write_with_retry\<close> per event, oldest first. Once the sender is closed the loop ends with
  the queue empty.
\<close>

fun worker_run :: "env \<Rightarrow> worker \<Rightarrow> audit_event list \<Rightarrow> world \<Rightarrow> world option" where
  "worker_run E k [] w = Some w"
| "worker_run E k (e # es) w =
     Option.bind (write_with_retry E (wk_max_retries k) e 0 (wk_backoff_initial_ms k)
                    (w\<lparr>w_audit := es\<rparr>))
       (worker_run E k es)"

section \<open>What the worker guarantees\<close>

lemma audit_insert_stmts:
  "audit_insert E e w = (r, w') \<Longrightarrow>
   w_stmts w' = Suc (w_stmts w) \<and> w_draws w' = w_draws w \<and> w_audit w' = w_audit w"
  by (auto simp: audit_insert_def stmt_def Let_def split: if_splits sum.splits)

lemma unat_suc_u32:
  fixes a :: u32
  assumes "unat a < 2 ^ 32 - 1"
  shows "unat (a + 1) = Suc (unat a)"
  using assms by (simp add: unat_word_ariths)

text \<open>
  The loop ends after at most \<open>max_retries + 1\<close> inserts, as long as the counter cannot wrap.
\<close>

lemma write_with_retry_terminates:
  assumes "unat max_retries < 2 ^ 32 - 1" and "attempt \<le> max_retries"
  shows "\<exists>w'. write_with_retry E max_retries e attempt backoff w = Some w' \<and>
     w_stmts w < w_stmts w' \<and>
     w_stmts w' \<le> w_stmts w + Suc (unat max_retries - unat attempt) \<and> w_audit w' = w_audit w"
  using assms(2)
proof (induction "unat max_retries - unat attempt" arbitrary: attempt backoff w
    rule: less_induct)
  case less
  obtain r w1 where ins: "audit_insert E e w = (r, w1)" by (meson surj_pair)
  have le: "unat attempt \<le> unat max_retries" using less.prems by (simp add: word_le_nat_alt)
  have suc: "unat (attempt + 1) = Suc (unat attempt)"
    using le assms(1) by (intro unat_suc_u32) linarith
  note w1 = audit_insert_stmts [OF ins]
  show ?case
  proof (cases "\<not> isl r \<or> max_retries < attempt + 1")
    case True
    with ins w1 show ?thesis by (subst write_with_retry.simps) (auto simp: Let_def)
  next
    case False
    have lt: "unat attempt < unat max_retries" "attempt + 1 \<le> max_retries"
      using False suc by (auto simp: word_less_nat_alt word_le_nat_alt)
    let ?w = "sleep_ms backoff w1"
    have "\<exists>w'. write_with_retry E max_retries e (attempt + 1) (saturating_mul backoff 4) ?w = Some w'
        \<and> w_stmts ?w < w_stmts w' \<and>
        w_stmts w' \<le> w_stmts ?w + Suc (unat max_retries - unat (attempt + 1)) \<and>
        w_audit w' = w_audit ?w"
      using lt suc by (intro less.hyps) simp_all
    with False ins w1 lt suc show ?thesis
      by (subst write_with_retry.simps) (auto simp: Let_def sleep_ms_def)
  qed
qed

lemma worker_run_terminates:
  assumes "unat (wk_max_retries k) < 2 ^ 32 - 1"
  shows "\<exists>w'. worker_run E k es w = Some w' \<and>
     w_stmts w' \<le> w_stmts w + length es * Suc (unat (wk_max_retries k))"
proof (induction es arbitrary: w)
  case Nil
  show ?case by simp
next
  case (Cons e es)
  let ?w = "w\<lparr>w_audit := es\<rparr>"
  obtain w1 where w1: "write_with_retry E (wk_max_retries k) e 0 (wk_backoff_initial_ms k) ?w = Some w1"
    "w_stmts w1 \<le> w_stmts ?w + Suc (unat (wk_max_retries k) - unat (0 :: u32))"
    using write_with_retry_terminates [OF assms, of 0 E e "wk_backoff_initial_ms k" ?w] by auto
  obtain w' where "worker_run E k es w1 = Some w'"
    "w_stmts w' \<le> w_stmts w1 + length es * Suc (unat (wk_max_retries k))"
    using Cons.IH by blast
  with w1 show ?case by simp
qed

text \<open>
  A write that finds the event's id unused and no fault inserts the event's row at once.
\<close>

lemma write_with_retry_no_fault:
  assumes "\<not> db_fault E (w_stmts w)" and "ev_id e \<notin> ar_id ` set (audit_events (w_db w))"
  shows "write_with_retry E m e a b w =
     Some (w\<lparr>w_stmts := Suc (w_stmts w),
             w_db := w_db w\<lparr>audit_events := audit_events (w_db w) @ [audit_row_of E e]\<rparr>\<rparr>)"
  using assms
  by (subst write_with_retry.simps)
    (simp add: audit_insert_def stmt_def insert_audit_def audit_row_of_def)

text \<open>Without faults the queue reaches the table whole and in order.\<close>

lemma worker_run_fifo:
  assumes "\<And>n. \<not> db_fault E n"
    and "distinct (map ev_id es)"
    and "\<forall>e \<in> set es. ev_id e \<notin> ar_id ` set (audit_events (w_db w))"
  shows "\<exists>w'. worker_run E k es w = Some w' \<and>
     audit_events (w_db w') = audit_events (w_db w) @ map (audit_row_of E) es"
  using assms(2,3)
proof (induction es arbitrary: w)
  case Nil
  show ?case by simp
next
  case (Cons e es)
  define w1 where "w1 = w\<lparr>w_audit := es, w_stmts := Suc (w_stmts w),
    w_db := w_db w\<lparr>audit_events := audit_events (w_db w) @ [audit_row_of E e]\<rparr>\<rparr>"
  have step: "write_with_retry E (wk_max_retries k) e 0 (wk_backoff_initial_ms k) (w\<lparr>w_audit := es\<rparr>)
      = Some w1"
    using Cons.prems assms(1) by (simp add: write_with_retry_no_fault w1_def)
  have "\<forall>x \<in> set es. ev_id x \<notin> ar_id ` set (audit_events (w_db w1))"
    using Cons.prems by (auto simp: w1_def audit_row_of_def image_iff)
  then obtain w' where "worker_run E k es w1 = Some w'"
    "audit_events (w_db w') = audit_events (w_db w1) @ map (audit_row_of E) es"
    using Cons.IH [of w1] Cons.prems by auto
  with step show ?case by (simp add: w1_def)
qed

end
