(* ===== verification/Errors.thy ===== *)
theory Errors
  imports Prelude
begin

text \<open>
  The application error type and its RFC 7807 rendering (\<^verbatim>\<open>src/errors.rs\<close>): \<open>app_error\<close> with
  its slug, HTTP status, title and detail, and the response body \<open>into_response\<close> builds. A
  field-error map is an association list (the handlers insert each field once). The lemmas
  say that a client can tell the error classes apart by the slug in the body's type URI, that
  slug and status agree, and that the text of an internal error never reaches the body.
\<close>

section \<open>Slugs\<close>

datatype error_slug =
    ValidationInvalidRequest | AuthUnauthenticated | AuthInvalidCredentials
  | PermissionDeniedSlug | RequiresUserCredentialsSlug | ResourceNotFound | ResourceConflict
  | UserNoOrganisationSlug | FeatureUnknownSlug | FeatureNotSelfServiceSlug
  | FeatureInvalidValueSlug | InternalErrorSlug

fun slug_as_str :: "error_slug \<Rightarrow> string" where
  "slug_as_str ValidationInvalidRequest = ''validation.invalid_request''"
| "slug_as_str AuthUnauthenticated = ''auth.unauthenticated''"
| "slug_as_str AuthInvalidCredentials = ''auth.invalid_credentials''"
| "slug_as_str PermissionDeniedSlug = ''permission.denied''"
| "slug_as_str RequiresUserCredentialsSlug = ''auth.requires_user_credentials''"
| "slug_as_str ResourceNotFound = ''resource.not_found''"
| "slug_as_str ResourceConflict = ''resource.conflict''"
| "slug_as_str UserNoOrganisationSlug = ''user.no_organisation''"
| "slug_as_str FeatureUnknownSlug = ''feature.unknown''"
| "slug_as_str FeatureNotSelfServiceSlug = ''feature.not_self_service''"
| "slug_as_str FeatureInvalidValueSlug = ''feature.invalid_value''"
| "slug_as_str InternalErrorSlug = ''internal.error''"

section \<open>Application errors\<close>

type_synonym field_errors = "(string \<times> string list) list"

datatype app_error =
    Validation field_errors
  | Unauthenticated string
  | InvalidCredentials
  | PermissionDenied string
  | RequiresUserCredentials
  | NotFound string
  | Conflict string
  | UserNoOrganisation
  | FeatureUnknown
  | FeatureNotSelfService
  | FeatureInvalidValue string
  | Internal string

fun slug :: "app_error \<Rightarrow> error_slug" where
  "slug (Validation _) = ValidationInvalidRequest"
| "slug (Unauthenticated _) = AuthUnauthenticated"
| "slug InvalidCredentials = AuthInvalidCredentials"
| "slug (PermissionDenied _) = PermissionDeniedSlug"
| "slug RequiresUserCredentials = RequiresUserCredentialsSlug"
| "slug (NotFound _) = ResourceNotFound"
| "slug (Conflict _) = ResourceConflict"
| "slug UserNoOrganisation = UserNoOrganisationSlug"
| "slug FeatureUnknown = FeatureUnknownSlug"
| "slug FeatureNotSelfService = FeatureNotSelfServiceSlug"
| "slug (FeatureInvalidValue _) = FeatureInvalidValueSlug"
| "slug (Internal _) = InternalErrorSlug"

fun http_status :: "app_error \<Rightarrow> nat" where
  "http_status (Validation _) = 400"
| "http_status (Unauthenticated _) = 401"
| "http_status InvalidCredentials = 401"
| "http_status (PermissionDenied _) = 403"
| "http_status RequiresUserCredentials = 403"
| "http_status (NotFound _) = 404"
| "http_status (Conflict _) = 409"
| "http_status UserNoOrganisation = 403"
| "http_status FeatureUnknown = 404"
| "http_status FeatureNotSelfService = 403"
| "http_status (FeatureInvalidValue _) = 400"
| "http_status (Internal _) = 500"

definition title :: "app_error \<Rightarrow> string" where
  "title e = (case slug e of
      ValidationInvalidRequest \<Rightarrow> ''Invalid request''
    | AuthUnauthenticated \<Rightarrow> ''Unauthenticated''
    | AuthInvalidCredentials \<Rightarrow> ''Invalid credentials''
    | PermissionDeniedSlug \<Rightarrow> ''Permission denied''
    | RequiresUserCredentialsSlug \<Rightarrow> ''Requires user credentials''
    | ResourceNotFound \<Rightarrow> ''Not found''
    | ResourceConflict \<Rightarrow> ''Conflict''
    | UserNoOrganisationSlug \<Rightarrow> ''User has no organisation''
    | FeatureUnknownSlug \<Rightarrow> ''Unknown feature''
    | FeatureNotSelfServiceSlug \<Rightarrow> ''Feature not self-service''
    | FeatureInvalidValueSlug \<Rightarrow> ''Invalid feature value''
    | InternalErrorSlug \<Rightarrow> ''Internal error'')"

fun detail :: "app_error \<Rightarrow> string" where
  "detail (Validation _) = ''One or more fields failed validation.''"
| "detail (Unauthenticated reason) = ''Authentication required ('' @ reason @ '').''"
| "detail InvalidCredentials = ''Invalid username or password.''"
| "detail (PermissionDenied code) = ''missing permission: '' @ code"
| "detail RequiresUserCredentials =
     ''this endpoint requires user credentials and cannot be called with an API key''"
| "detail (NotFound resource) = resource @ '' was not found.''"
| "detail (Conflict reason) = reason"
| "detail UserNoOrganisation = ''The user does not belong to any organisation.''"
| "detail FeatureUnknown = ''No feature with the given slug exists.''"
| "detail FeatureNotSelfService =
     ''This flag is not self-service; operator privileges required.''"
| "detail (FeatureInvalidValue reason) =
     ''Value does not match declared type: '' @ reason @ ''.''"
| "detail (Internal _) = ''An internal error occurred.''"

section \<open>The problem body\<close>

definition TYPE_PREFIX :: string where
  "TYPE_PREFIX = ''https://egras.dev/errors/''"

record error_body =
  type_uri :: string
  body_title :: string
  body_status :: nat
  body_detail :: string
  body_instance :: "string option"
  body_request_id :: "string option"
  body_errors :: "field_errors option"

text \<open>The response: status line, content type and body.\<close>

definition into_response :: "app_error \<Rightarrow> nat \<times> string \<times> error_body" where
  "into_response e =
     (http_status e, ''application/problem+json'',
      \<lparr> type_uri = TYPE_PREFIX @ slug_as_str (slug e),
        body_title = title e,
        body_status = http_status e,
        body_detail = detail e,
        body_instance = None,
        body_request_id = None,
        body_errors = (case e of Validation errs \<Rightarrow> Some errs | _ \<Rightarrow> None) \<rparr>)"

section \<open>What a client can rely on\<close>

lemma slug_as_str_inject: "slug_as_str a = slug_as_str b \<Longrightarrow> a = b"
  by (cases a; cases b) simp_all

text \<open>The status is a function of the slug: the two never disagree about the class of an error.\<close>

lemma http_status_of_slug: "slug a = slug b \<Longrightarrow> http_status a = http_status b"
  by (cases a; cases b) simp_all

lemma http_status_is_error: "400 \<le> http_status e \<and> http_status e < 600"
  by (cases e) simp_all

lemma type_uri_determines_slug:
  assumes "type_uri (snd (snd (into_response a))) = type_uri (snd (snd (into_response b)))"
  shows "slug a = slug b"
  using assms by (auto simp: into_response_def intro: slug_as_str_inject)

lemma internal_error_hides_cause: "into_response (Internal a) = into_response (Internal b)"
  by (simp add: into_response_def title_def)

end
