(* ===== verification/Auth.thy ===== *)
theory Auth
  imports Store Errors
begin

text \<open>
  Who may do what: \<^verbatim>\<open>src/auth/permissions.rs\<close> (permission sets and the cross-organisation
  rule), \<^verbatim>\<open>src/auth/extractors.rs\<close> (the caller, the extractors that hand it to a handler, and
  the permission markers) and \<^verbatim>\<open>src/auth/jwt.rs\<close> (the access token). The request extensions the
  middleware fills and the extractors read are the record \<open>extensions\<close>.
\<close>

section \<open>Permission sets\<close>

type_synonym permission_set = "string set"

definition from_codes :: "string list \<Rightarrow> permission_set" where
  "from_codes codes = set codes"

definition has :: "permission_set \<Rightarrow> string \<Rightarrow> bool" where
  "has s code \<longleftrightarrow> code \<in> s"

definition has_any :: "permission_set \<Rightarrow> string list \<Rightarrow> bool" where
  "has_any s codes \<longleftrightarrow> list_ex (\<lambda>c. c \<in> s) codes"

definition is_operator_over_tenants :: "permission_set \<Rightarrow> bool" where
  "is_operator_over_tenants s = has s ''tenants.manage_all''"

definition is_operator_over_users :: "permission_set \<Rightarrow> bool" where
  "is_operator_over_users s = has s ''users.manage_all''"

definition is_audit_read_all :: "permission_set \<Rightarrow> bool" where
  "is_audit_read_all s = has s ''audit.read_all''"

definition iter_sorted :: "permission_set \<Rightarrow> string list" where
  "iter_sorted s = sorted_list_of_set s"

definition intersect :: "permission_set \<Rightarrow> string list \<Rightarrow> permission_set" where
  "intersect s allowed = Set.filter (\<lambda>c. c \<in> set allowed) s"

lemma intersect_eq: "intersect s allowed = s \<inter> set allowed"
  by (auto simp: intersect_def)

lemma iter_sorted_from_codes:
  "sorted (iter_sorted (from_codes cs)) \<and> distinct (iter_sorted (from_codes cs)) \<and>
   set (iter_sorted (from_codes cs)) = set cs"
  by (simp add: iter_sorted_def from_codes_def)

section \<open>The caller and the request extensions\<close>

datatype caller =
    UserCaller (caller_user: uuid) (caller_org: uuid) (caller_jti: uuid)
  | ApiKeyCaller (caller_key: uuid) (caller_sa: uuid) (caller_org: uuid)

definition org_id :: "caller \<Rightarrow> uuid" where
  "org_id c = (case c of UserCaller _ oid _ \<Rightarrow> oid | ApiKeyCaller _ _ oid \<Rightarrow> oid)"

definition principal_user_id :: "caller \<Rightarrow> uuid" where
  "principal_user_id c = (case c of UserCaller u _ _ \<Rightarrow> u | ApiKeyCaller _ sa _ \<Rightarrow> sa)"

definition is_user :: "caller \<Rightarrow> bool" where
  "is_user c = (case c of UserCaller _ _ _ \<Rightarrow> True | ApiKeyCaller _ _ _ \<Rightarrow> False)"

record extensions =
  ext_claims :: "claims option"
  ext_perms :: "permission_set option"
  ext_caller :: "caller option"

definition no_extensions :: extensions where
  "no_extensions = \<lparr> ext_claims = None, ext_perms = None, ext_caller = None \<rparr>"

definition require_permission :: "extensions \<Rightarrow> string \<Rightarrow> app_error + unit" where
  "require_permission x code =
     (case ext_perms x of
        None \<Rightarrow> Err (Unauthenticated ''no_permission_set'')
      | Some s \<Rightarrow> if has s code then Ok () else Err (PermissionDenied code))"

definition authorise_org :: "extensions \<Rightarrow> uuid \<Rightarrow> app_error + unit" where
  "authorise_org x organisation_id =
     (case ext_claims x of
        None \<Rightarrow> Err (Unauthenticated ''no_claims'')
      | Some c \<Rightarrow>
          (case ext_perms x of
             None \<Rightarrow> Err (Unauthenticated ''no_permission_set'')
           | Some s \<Rightarrow>
               if is_operator_over_tenants s \<or> is_operator_over_users s \<or> is_audit_read_all s
               then Ok ()
               else if cl_org c = organisation_id then Ok ()
               else Err (NotFound ''organisation'')))"

definition require_human_caller :: "extensions \<Rightarrow> app_error + unit" where
  "require_human_caller x =
     (case ext_caller x of
        None \<Rightarrow> Err (Unauthenticated ''no_caller'')
      | Some (UserCaller _ _ _) \<Rightarrow> Ok ()
      | Some (ApiKeyCaller _ _ _) \<Rightarrow> Err RequiresUserCredentials)"

definition extract_caller :: "extensions \<Rightarrow> app_error + caller" where
  "extract_caller x = ok_or (Unauthenticated ''no_caller'') (ext_caller x)"

record authed_caller =
  ac_claims :: claims
  ac_permissions :: permission_set

definition extract_authed_caller :: "extensions \<Rightarrow> app_error + authed_caller" where
  "extract_authed_caller x =
     (case ext_claims x of
        None \<Rightarrow> Err (Unauthenticated ''no_claims'')
      | Some c \<Rightarrow>
          (case ext_perms x of
             None \<Rightarrow> Err (Unauthenticated ''no_permission_set'')
           | Some s \<Rightarrow> Ok \<lparr> ac_claims = c, ac_permissions = s \<rparr>))"

section \<open>Permission markers\<close>

datatype permission =
    TenantsCreate | TenantsMembersList | TenantsRolesAssign | UsersManageAll
  | TenantsMembersAdd | TenantsMembersRemove | UsersRead | ChannelsManage
  | ServiceAccountsRead | ServiceAccountsManage | TenantsManageAll | FeaturesRead
  | FeaturesManage | EchoInvoke

fun CODE :: "permission \<Rightarrow> string" where
  "CODE TenantsCreate = ''tenants.create''"
| "CODE TenantsMembersList = ''tenants.members.list''"
| "CODE TenantsRolesAssign = ''tenants.roles.assign''"
| "CODE UsersManageAll = ''users.manage_all''"
| "CODE TenantsMembersAdd = ''tenants.members.add''"
| "CODE TenantsMembersRemove = ''tenants.members.remove''"
| "CODE UsersRead = ''tenants.members.list''"
| "CODE ChannelsManage = ''channels.manage''"
| "CODE ServiceAccountsRead = ''service_accounts.read''"
| "CODE ServiceAccountsManage = ''service_accounts.manage''"
| "CODE TenantsManageAll = ''tenants.manage_all''"
| "CODE FeaturesRead = ''features.read''"
| "CODE FeaturesManage = ''features.manage''"
| "CODE EchoInvoke = ''echo:invoke''"

text \<open>The trait's default is \<^verbatim>\<open>set.has(CODE)\<close>; the markers with a bypass override it.\<close>

definition accepts :: "permission \<Rightarrow> permission_set \<Rightarrow> bool" where
  "accepts p s =
     (case p of
        TenantsMembersList \<Rightarrow> has s (CODE p) \<or> is_operator_over_tenants s
      | TenantsRolesAssign \<Rightarrow> has s (CODE p) \<or> is_operator_over_tenants s
      | TenantsMembersAdd \<Rightarrow> has s (CODE p) \<or> is_operator_over_tenants s
      | TenantsMembersRemove \<Rightarrow> has s (CODE p) \<or> is_operator_over_tenants s
      | UsersRead \<Rightarrow> has s ''tenants.members.list'' \<or> is_operator_over_users s
      | ChannelsManage \<Rightarrow> has s (CODE p) \<or> is_operator_over_tenants s
      | ServiceAccountsRead \<Rightarrow>
          has s (CODE p) \<or> has s ''service_accounts.manage'' \<or> is_operator_over_tenants s
      | ServiceAccountsManage \<Rightarrow> has s (CODE p) \<or> is_operator_over_tenants s
      | FeaturesRead \<Rightarrow> has s (CODE p) \<or> is_operator_over_tenants s
      | FeaturesManage \<Rightarrow> has s (CODE p) \<or> is_operator_over_tenants s
      | _ \<Rightarrow> has s (CODE p))"

definition perm :: "permission \<Rightarrow> extensions \<Rightarrow> app_error + unit" where
  "perm p x =
     (case ext_perms x of
        None \<Rightarrow> Err (Unauthenticated ''no_permission_set'')
      | Some s \<Rightarrow> if accepts p s then Ok () else Err (PermissionDenied (CODE p)))"

text \<open>
  A marker never accepts the empty set, is monotone in the permissions held, and always
  accepts its own code.
\<close>

lemma accepts_code: "has s (CODE p) \<Longrightarrow> accepts p s"
  by (cases p) (simp_all add: accepts_def)

lemma accepts_mono: "accepts p s \<Longrightarrow> s \<subseteq> t \<Longrightarrow> accepts p t"
  by (cases p) (auto simp: accepts_def has_def is_operator_over_tenants_def is_operator_over_users_def)

lemma accepts_empty: "\<not> accepts p {}"
  by (cases p) (simp_all add: accepts_def has_def is_operator_over_tenants_def is_operator_over_users_def)

lemma perm_Ok_iff: "perm p x = Ok () \<longleftrightarrow> (\<exists>s. ext_perms x = Some s \<and> accepts p s)"
  by (auto simp: perm_def split: option.splits)

lemma extract_authed_caller_Ok_iff:
  "extract_authed_caller x = Ok c \<longleftrightarrow>
     ext_claims x = Some (ac_claims c) \<and> ext_perms x = Some (ac_permissions c)"
  by (cases c) (auto simp: extract_authed_caller_def split: option.splits)

lemma authorise_org_Ok_iff:
  "authorise_org x oid = Ok () \<longleftrightarrow>
     (\<exists>c s. ext_claims x = Some c \<and> ext_perms x = Some s \<and>
        (is_operator_over_tenants s \<or> is_operator_over_users s \<or> is_audit_read_all s \<or>
         cl_org c = oid))"
  by (auto simp: authorise_org_def split: option.splits)

lemma require_human_caller_Ok_iff:
  "require_human_caller x = Ok () \<longleftrightarrow> (\<exists>c. ext_caller x = Some c \<and> is_user c)"
  by (auto simp: require_human_caller_def is_user_def split: option.splits caller.splits)

section \<open>Access tokens\<close>

record jwt_config =
  jc_secret :: string
  jc_issuer :: string
  jc_ttl_secs :: int

abbreviation timestamp :: "datetime \<Rightarrow> int" where
  "timestamp t \<equiv> t div 1000000"

definition encode_access_token ::
    "env \<Rightarrow> string \<Rightarrow> string \<Rightarrow> uuid \<Rightarrow> uuid \<Rightarrow> int \<Rightarrow> (anyhow, string) action" where
  "encode_access_token E secret issuer user_id oid ttl_secs =
     bindE utc_now (\<lambda>t. let now = timestamp t in
     bindE (new_uuid E) (\<lambda>jti.
     lift (ok_or opaque (jwt_encode E secret
       \<lparr> cl_sub = user_id, cl_org = oid, cl_iat = now, cl_exp = now + ttl_secs,
         cl_jti = jti, cl_iss = issuer, cl_typ = ''access'' \<rparr>))))"

text \<open>
  \<open>jwt_decode\<close> stands for \<^verbatim>\<open>jsonwebtoken::decode\<close> with the validation set up here (HS256, no
  leeway, the issuer, required claims); its time argument is the current Unix second.
\<close>

definition decode_access_token ::
    "env \<Rightarrow> string \<Rightarrow> string \<Rightarrow> int \<Rightarrow> string \<Rightarrow> anyhow + claims" where
  "decode_access_token E secret expected_issuer now token =
     (case jwt_decode E secret expected_issuer now token of
        None \<Rightarrow> Err opaque
      | Some c \<Rightarrow> if cl_typ c \<noteq> ''access'' then Err opaque else Ok c)"

text \<open>
  What the crate documents: what it encodes it decodes until the expiry second is over, and
  it accepts no token of another issuer or past its expiry.
\<close>

definition jwt_roundtrip :: "env \<Rightarrow> bool" where
  "jwt_roundtrip E \<longleftrightarrow>
     (\<forall>secret c tok now. jwt_encode E secret c = Some tok \<longrightarrow> now \<le> cl_exp c \<longrightarrow>
        jwt_decode E secret (cl_iss c) now tok = Some c)"

definition jwt_sound :: "env \<Rightarrow> bool" where
  "jwt_sound E \<longleftrightarrow>
     (\<forall>secret iss now tok c. jwt_decode E secret iss now tok = Some c \<longrightarrow>
        cl_iss c = iss \<and> now \<le> cl_exp c)"

lemma decode_encode_access_token:
  assumes "jwt_roundtrip E"
    and enc: "encode_access_token E secret issuer u oid ttl w = (Ok tok, w')"
    and "now \<le> timestamp (w_now w) + ttl"
  shows "\<exists>c. decode_access_token E secret issuer now tok = Ok c \<and>
     cl_sub c = u \<and> cl_org c = oid \<and> cl_jti c = uuid_v7 E (w_draws w) \<and>
     cl_exp c = timestamp (w_now w) + ttl"
proof -
  let ?c = "\<lparr> cl_sub = u, cl_org = oid, cl_iat = timestamp (w_now w),
     cl_exp = timestamp (w_now w) + ttl, cl_jti = uuid_v7 E (w_draws w), cl_iss = issuer,
     cl_typ = ''access'' \<rparr>"
  have "jwt_encode E secret ?c = Some tok"
    using enc by (auto simp: encode_access_token_def action_ok_simps Let_def ok_or_def
        split: option.splits)
  with assms(1,3) have "jwt_decode E secret issuer now tok = Some ?c"
    unfolding jwt_roundtrip_def by (metis claims.select_convs(4,6))
  then show ?thesis by (simp add: decode_access_token_def)
qed

lemma decode_access_token_Ok_iff:
  "decode_access_token E secret iss now tok = Ok c \<longleftrightarrow>
     jwt_decode E secret iss now tok = Some c \<and> cl_typ c = ''access''"
  by (auto simp: decode_access_token_def split: option.splits)

end
