(* ===== verification/Features.thy ===== *)
theory Features
  imports AuditLog Auth
begin

text \<open>
  Feature flags (\<^verbatim>\<open>src/features\<close>): the value types and their validation (\<^verbatim>\<open>model.rs\<close>), the
  repository (\<^verbatim>\<open>persistence/feature_repository_pg.rs\<close>), the caching evaluator
  (\<^verbatim>\<open>service/evaluate.rs\<close>), the set, clear and list services, and the HTTP handlers
  (\<^verbatim>\<open>interface.rs\<close>). The cache is the map \<open>w_cache\<close> of the world; the monotonic clock of
  \<^verbatim>\<open>Instant\<close> is the clock of the world.

  The lemmas show that a stored override always has the declared type, that nobody but an
  operator changes a flag that is not self-service, that a cached value never disagrees with
  the tables as long as requests do not overlap (\<open>coherent\<close>), and what each handler answers.
\<close>

section \<open>Value types\<close>

fun value_type_as_str :: "feature_value_type \<Rightarrow> string" where
  "value_type_as_str FBool = ''bool''"
| "value_type_as_str FString = ''string''"
| "value_type_as_str FInt = ''int''"
| "value_type_as_str FEnumSet = ''enum_set''"
| "value_type_as_str FJson = ''json''"

definition value_type_try_from_str :: "string \<Rightarrow> feature_value_type option" where
  "value_type_try_from_str s =
     (if s = ''bool'' then Some FBool
      else if s = ''string'' then Some FString
      else if s = ''int'' then Some FInt
      else if s = ''enum_set'' then Some FEnumSet
      else if s = ''json'' then Some FJson
      else None)"

definition validate :: "feature_value_type \<Rightarrow> json \<Rightarrow> string + unit" where
  "validate t v =
     (case t of
        FBool \<Rightarrow> (case v of JBool _ \<Rightarrow> Ok () | _ \<Rightarrow> Err ''expected boolean'')
      | FString \<Rightarrow> (case v of JString _ \<Rightarrow> Ok () | _ \<Rightarrow> Err ''expected string'')
      | FInt \<Rightarrow> (case v of
            JNumber n \<Rightarrow> if is_i64 n then Ok () else Err ''expected integer''
          | _ \<Rightarrow> Err ''expected integer'')
      | FEnumSet \<Rightarrow> (case v of
            JArray arr \<Rightarrow>
              if list_all is_string arr then Ok () else Err ''expected array of strings''
          | _ \<Rightarrow> Err ''expected array of strings'')
      | FJson \<Rightarrow> Ok ())"

lemma value_type_roundtrip: "value_type_try_from_str (value_type_as_str t) = Some t"
  by (cases t) (simp_all add: value_type_try_from_str_def)

text \<open>An accepted \<^verbatim>\<open>enum_set\<close> is an array of which no entry is dropped by \<^verbatim>\<open>as_str\<close>.\<close>

lemma validate_enum_set:
  "validate FEnumSet v = Ok () \<Longrightarrow> \<exists>ss. v = JArray (map JString ss)"
proof -
  assume "validate FEnumSet v = Ok ()"
  then obtain arr where v: "v = JArray arr" and all: "list_all is_string arr"
    by (auto simp: validate_def split: json.splits if_splits)
  from all have "\<exists>ss. arr = map JString ss"
  proof (induction arr)
    case (Cons a arr)
    then obtain ss s where "arr = map JString ss" "a = JString s"
      by (auto simp: is_string_def split: json.splits)
    then show ?case by (metis list.simps(9))
  qed simp
  with v show ?thesis by blast
qed

section \<open>The repository\<close>

datatype feature_repo_error = UnknownSlug | RepoOther anyhow

definition map_slug_fk_error :: "sqlx_error \<Rightarrow> feature_repo_error" where
  "map_slug_fk_error e =
     (case e of
        Database code constr \<Rightarrow>
          if code = ''23503'' \<and> constr = ''organisation_features_slug_fkey''
          then UnknownSlug else RepoOther opaque
      | OtherSqlx \<Rightarrow> RepoOther opaque)"

abbreviation repo_other :: "sqlx_error \<Rightarrow> feature_repo_error" where
  "repo_other \<equiv> \<lambda>_. RepoOther opaque"

definition repo_list_definitions :: "env \<Rightarrow> (feature_repo_error, feature_definition list) action" where
  "repo_list_definitions E =
     map_err repo_other (query E (\<lambda>_ d.
       sort_key (\<lambda>f. text_order E (fd_slug f)) (feature_definitions d)))"

definition find_definition :: "string \<Rightarrow> db \<Rightarrow> feature_definition option" where
  "find_definition slg d = find (\<lambda>f. fd_slug f = slg) (feature_definitions d)"

definition get_definition ::
    "env \<Rightarrow> string \<Rightarrow> (feature_repo_error, feature_definition option) action" where
  "get_definition E slg = map_err repo_other (query E (\<lambda>_. find_definition slg))"

definition list_overrides_for_org ::
    "env \<Rightarrow> uuid \<Rightarrow> (feature_repo_error, feature_override list) action" where
  "list_overrides_for_org E org =
     map_err repo_other (query E (\<lambda>_ d.
       sort_key (\<lambda>v. text_order E (fo_slug v))
         (filter (\<lambda>v. fo_organisation_id v = org) (feature_overrides d))))"

definition find_override :: "uuid \<Rightarrow> string \<Rightarrow> db \<Rightarrow> feature_override option" where
  "find_override org slg d =
     find (\<lambda>v. fo_organisation_id v = org \<and> fo_slug v = slg) (feature_overrides d)"

definition get_override ::
    "env \<Rightarrow> uuid \<Rightarrow> string \<Rightarrow> (feature_repo_error, feature_override option) action" where
  "get_override E org slg = map_err repo_other (query E (\<lambda>_. find_override org slg))"

definition upsert_override ::
    "env \<Rightarrow> uuid \<Rightarrow> string \<Rightarrow> json \<Rightarrow> uuid \<Rightarrow> (feature_repo_error, json option) action" where
  "upsert_override E org slg val updated_by =
     map_err map_slug_fk_error (stmt E (\<lambda>now d.
       let prev = map_option fo_value (find_override org slg d) in
       map_sum id (Pair prev) (upsert_override_row
         \<lparr> fo_organisation_id = org, fo_slug = slg, fo_value = val, fo_updated_at = now,
           fo_updated_by = updated_by \<rparr> d)))"

definition delete_override ::
    "env \<Rightarrow> uuid \<Rightarrow> string \<Rightarrow> (feature_repo_error, json option) action" where
  "delete_override E org slg =
     map_err repo_other (stmt E (\<lambda>_ d.
       Ok (map_option fo_value (find_override org slg d),
           d\<lparr>feature_overrides :=
               filter (\<lambda>v. \<not> (fo_organisation_id v = org \<and> fo_slug v = slg)) (feature_overrides d)\<rparr>)))"

section \<open>The evaluator\<close>

datatype evaluate_error = EvUnknownSlug | EvRepo feature_repo_error

definition DEFAULT_TTL :: datetime where
  "DEFAULT_TTL = seconds 60"

definition cache_get :: "uuid \<Rightarrow> string \<Rightarrow> ('e, (json \<times> datetime) option) action" where
  "cache_get org slg w = (Ok (w_cache w (org, slg)), w)"

definition cache_insert :: "uuid \<Rightarrow> string \<Rightarrow> json \<Rightarrow> datetime \<Rightarrow> ('e, unit) action" where
  "cache_insert org slg v expires_at w =
     (Ok (), w\<lparr>w_cache := (w_cache w)((org, slg) \<mapsto> (v, expires_at))\<rparr>)"

text \<open>What \<^verbatim>\<open>evaluate\<close> reads from the repository on a miss.\<close>

definition repo_value :: "env \<Rightarrow> uuid \<Rightarrow> string \<Rightarrow> (evaluate_error, json) action" where
  "repo_value E org slg =
     bindE (map_err EvRepo (get_override E org slg)) (\<lambda>ov.
     case ov of
       Some v \<Rightarrow> ret (fo_value v)
     | None \<Rightarrow>
         bindE (map_err EvRepo (get_definition E slg)) (\<lambda>def.
         case def of
           Some f \<Rightarrow> ret (fd_default_value f)
         | None \<Rightarrow> fail EvUnknownSlug))"

definition evaluate :: "env \<Rightarrow> datetime \<Rightarrow> uuid \<Rightarrow> string \<Rightarrow> (evaluate_error, json) action" where
  "evaluate E ttl org slg =
     bindE utc_now (\<lambda>now.
     bindE (cache_get org slg) (\<lambda>hit.
     let miss =
       bindE (repo_value E org slg) (\<lambda>v.
       bindE (cache_insert org slg v (now + ttl)) (\<lambda>_.
       ret v))
     in case hit of
          Some (v, expires_at) \<Rightarrow> if expires_at > now then ret v else miss
        | None \<Rightarrow> miss))"

definition invalidate :: "uuid \<Rightarrow> string \<Rightarrow> ('e, unit) action" where
  "invalidate org slg w = (Ok (), w\<lparr>w_cache := (w_cache w)((org, slg) := None)\<rparr>)"

definition invalidate_all :: "('e, unit) action" where
  "invalidate_all w = (Ok (), w\<lparr>w_cache := \<lambda>_. None\<rparr>)"

section \<open>Services\<close>

record set_org_feature_input =
  sf_organisation_id :: uuid
  sf_slug :: string
  sf_value :: json
  sf_actor_user_id :: uuid
  sf_actor_org_id :: uuid
  sf_actor_is_operator :: bool

datatype set_org_feature_error =
  SetUnknownSlug | SetNotSelfService | SetInvalidValue string | SetOther anyhow

definition set_org_feature :: "env \<Rightarrow> set_org_feature_input \<Rightarrow> (set_org_feature_error, unit) action" where
  "set_org_feature E i =
     bindE (map_err (\<lambda>_. SetOther opaque) (get_definition E (sf_slug i))) (\<lambda>def.
     bindE (lift (ok_or SetUnknownSlug def)) (\<lambda>definition.
     case validate (fd_value_type definition) (sf_value i) of
       Err reason \<Rightarrow> fail (SetInvalidValue reason)
     | Ok _ \<Rightarrow>
         if \<not> fd_self_service definition \<and> \<not> sf_actor_is_operator i then fail SetNotSelfService
         else
           bindE (map_err (\<lambda>_. SetOther opaque)
             (upsert_override E (sf_organisation_id i) (sf_slug i) (sf_value i) (sf_actor_user_id i)))
             (\<lambda>old_value.
           bindE (invalidate (sf_organisation_id i) (sf_slug i)) (\<lambda>_.
           audit E (\<lambda>eid now. feature_set eid now (sf_actor_user_id i) (sf_actor_org_id i)
             (sf_organisation_id i) (sf_slug i) old_value (sf_value i)
             (fd_self_service definition))))))"

record clear_org_feature_input =
  cf_organisation_id :: uuid
  cf_slug :: string
  cf_actor_user_id :: uuid
  cf_actor_org_id :: uuid
  cf_actor_is_operator :: bool

datatype clear_org_feature_error = ClearUnknownSlug | ClearNotSelfService | ClearOther anyhow

definition clear_org_feature ::
    "env \<Rightarrow> clear_org_feature_input \<Rightarrow> (clear_org_feature_error, unit) action" where
  "clear_org_feature E i =
     bindE (map_err (\<lambda>_. ClearOther opaque) (get_definition E (cf_slug i))) (\<lambda>def.
     bindE (lift (ok_or ClearUnknownSlug def)) (\<lambda>definition.
     if \<not> fd_self_service definition \<and> \<not> cf_actor_is_operator i then fail ClearNotSelfService
     else
       bindE (map_err (\<lambda>_. ClearOther opaque)
         (delete_override E (cf_organisation_id i) (cf_slug i))) (\<lambda>old_value.
       bindE (invalidate (cf_organisation_id i) (cf_slug i)) (\<lambda>_.
       audit E (\<lambda>eid now. feature_cleared eid now (cf_actor_user_id i) (cf_actor_org_id i)
         (cf_organisation_id i) (cf_slug i) old_value (fd_self_service definition))))))"

datatype feature_source = Default | Override

record evaluated_feature =
  ef_slug :: string
  ef_value :: json
  ef_source :: feature_source
  ef_value_type :: feature_value_type
  ef_self_service :: bool

fun evaluate_all ::
    "env \<Rightarrow> datetime \<Rightarrow> uuid \<Rightarrow> feature_override list \<Rightarrow> feature_definition list \<Rightarrow>
     (anyhow, evaluated_feature list) action" where
  "evaluate_all E ttl org overrides [] = ret []"
| "evaluate_all E ttl org overrides (def # defs) =
     bindE (map_err (\<lambda>_. opaque) (evaluate E ttl org (fd_slug def))) (\<lambda>v.
     bindE (evaluate_all E ttl org overrides defs) (\<lambda>rest.
     ret (\<lparr> ef_slug = fd_slug def, ef_value = v,
            ef_source = (if list_ex (\<lambda>ov. fo_slug ov = fd_slug def) overrides
                         then Override else Default),
            ef_value_type = fd_value_type def, ef_self_service = fd_self_service def \<rparr> # rest)))"

definition list_org_features ::
    "env \<Rightarrow> datetime \<Rightarrow> uuid \<Rightarrow> (anyhow, evaluated_feature list) action" where
  "list_org_features E ttl org =
     bindE (map_err (\<lambda>_. opaque) (repo_list_definitions E)) (\<lambda>definitions.
     bindE (map_err (\<lambda>_. opaque) (list_overrides_for_org E org)) (\<lambda>overrides.
     evaluate_all E ttl org overrides definitions))"

definition list_definitions :: "env \<Rightarrow> (feature_repo_error, feature_definition list) action" where
  "list_definitions E = repo_list_definitions E"

section \<open>Handlers\<close>

definition get_definitions ::
    "env \<Rightarrow> extensions \<Rightarrow> (app_error, feature_definition list) action" where
  "get_definitions E x =
     bindE (lift (perm TenantsManageAll x)) (\<lambda>_.
     map_err (\<lambda>_. Internal opaque) (list_definitions E))"

definition same_org_or_operator :: "authed_caller \<Rightarrow> uuid \<Rightarrow> app_error + unit" where
  "same_org_or_operator c oid =
     (if \<not> is_operator_over_tenants (ac_permissions c) \<and> cl_org (ac_claims c) \<noteq> oid
      then Err (NotFound ''organisation'') else Ok ())"

definition get_org_features ::
    "env \<Rightarrow> datetime \<Rightarrow> extensions \<Rightarrow> uuid \<Rightarrow> (app_error, evaluated_feature list) action" where
  "get_org_features E ttl x oid =
     bindE (lift (extract_authed_caller x)) (\<lambda>c.
     bindE (lift (perm FeaturesRead x)) (\<lambda>_.
     bindE (lift (same_org_or_operator c oid)) (\<lambda>_.
     map_err (\<lambda>_. Internal opaque) (list_org_features E ttl oid))))"

fun set_error_to_app :: "set_org_feature_error \<Rightarrow> app_error" where
  "set_error_to_app SetUnknownSlug = FeatureUnknown"
| "set_error_to_app SetNotSelfService = FeatureNotSelfService"
| "set_error_to_app (SetInvalidValue reason) = FeatureInvalidValue reason"
| "set_error_to_app (SetOther e) = Internal e"

fun clear_error_to_app :: "clear_org_feature_error \<Rightarrow> app_error" where
  "clear_error_to_app ClearUnknownSlug = FeatureUnknown"
| "clear_error_to_app ClearNotSelfService = FeatureNotSelfService"
| "clear_error_to_app (ClearOther e) = Internal e"

definition put_org_feature ::
    "env \<Rightarrow> datetime \<Rightarrow> extensions \<Rightarrow> uuid \<Rightarrow> string \<Rightarrow> json \<Rightarrow>
     (app_error, evaluated_feature) action" where
  "put_org_feature E ttl x oid slg val =
     bindE (lift (extract_authed_caller x)) (\<lambda>c.
     bindE (lift (perm FeaturesManage x)) (\<lambda>_.
     bindE (lift (same_org_or_operator c oid)) (\<lambda>_.
     bindE (map_err set_error_to_app (set_org_feature E
       \<lparr> sf_organisation_id = oid, sf_slug = slg, sf_value = val,
         sf_actor_user_id = cl_sub (ac_claims c), sf_actor_org_id = cl_org (ac_claims c),
         sf_actor_is_operator = is_operator_over_tenants (ac_permissions c) \<rparr>)) (\<lambda>_.
     bindE (map_err (\<lambda>_. Internal opaque) (list_org_features E ttl oid)) (\<lambda>features.
     lift (ok_or FeatureUnknown (find (\<lambda>f. ef_slug f = slg) features)))))))"

definition delete_org_feature ::
    "env \<Rightarrow> extensions \<Rightarrow> uuid \<Rightarrow> string \<Rightarrow> (app_error, nat) action" where
  "delete_org_feature E x oid slg =
     bindE (lift (extract_authed_caller x)) (\<lambda>c.
     bindE (lift (perm FeaturesManage x)) (\<lambda>_.
     bindE (lift (same_org_or_operator c oid)) (\<lambda>_.
     bindE (map_err clear_error_to_app (clear_org_feature E
       \<lparr> cf_organisation_id = oid, cf_slug = slg, cf_actor_user_id = cl_sub (ac_claims c),
         cf_actor_org_id = cl_org (ac_claims c),
         cf_actor_is_operator = is_operator_over_tenants (ac_permissions c) \<rparr>)) (\<lambda>_.
     ret 204))))"

section \<open>The value of a flag\<close>

text \<open>
  The specification: an organisation's override if there is one, else the default of the
  definition.
\<close>

definition effective :: "db \<Rightarrow> uuid \<Rightarrow> string \<Rightarrow> json option" where
  "effective d org slg =
     (case find_override org slg d of
        Some v \<Rightarrow> Some (fo_value v)
      | None \<Rightarrow> map_option fd_default_value (find_definition slg d))"

text \<open>No live cache entry disagrees with the tables.\<close>

definition coherent :: "world \<Rightarrow> bool" where
  "coherent w \<longleftrightarrow>
     (\<forall>org slg v expires_at. w_cache w (org, slg) = Some (v, expires_at) \<longrightarrow> w_now w < expires_at \<longrightarrow>
        effective (w_db w) org slg = Some v)"

lemma repo_value_Ok:
  "repo_value E org slg w = (Ok v, w') \<Longrightarrow>
   effective (w_db w) org slg = Some v \<and> w_db w' = w_db w \<and> w_now w' = w_now w \<and>
   w_cache w' = w_cache w"
  by (auto simp: repo_value_def effective_def get_override_def get_definition_def action_ok_simps
      split: option.splits)

text \<open>On a coherent cache the evaluator answers what the tables say, and stays coherent.\<close>

lemma evaluate_Ok:
  assumes "coherent w" and "evaluate E ttl org slg w = (Ok v, w')"
  shows "effective (w_db w) org slg = Some v \<and> w_db w' = w_db w \<and> coherent w'"
proof (cases "\<exists>x expires_at. w_cache w (org, slg) = Some (x, expires_at) \<and> w_now w < expires_at")
  case True
  with assms show ?thesis
    by (auto simp: evaluate_def coherent_def cache_get_def action_ok_simps)
next
  case False
  with assms(2) obtain w1 where "repo_value E org slg w = (Ok v, w1)"
    "w' = w1\<lparr>w_cache := (w_cache w1)((org, slg) \<mapsto> (v, w_now w + ttl))\<rparr>"
    by (auto simp: evaluate_def cache_get_def cache_insert_def action_ok_simps Let_def
        split: option.splits if_splits)
  with assms(1) repo_value_Ok [of E org slg w v w1] show ?thesis
    by (auto simp: coherent_def)
qed

lemma reads_repo_value [reads_db_intros]: "reads w_db (repo_value E org slg)"
  unfolding repo_value_def get_override_def get_definition_def
  by (intro reads_db_intros)

lemma reads_cache [reads_db_intros]:
  "reads w_db (cache_get org slg)" "reads w_db (cache_insert org slg v t)"
  "reads w_db (invalidate org slg)" "reads w_db invalidate_all"
  by (simp_all add: reads_def cache_get_def cache_insert_def invalidate_def invalidate_all_def)

lemma reads_evaluate [reads_db_intros]: "reads w_db (evaluate E ttl org slg)"
  unfolding evaluate_def Let_def
  by (intro reads_db_intros reads_case_option) (auto intro!: reads_db_intros)

lemma find_override_update:
  "find_override org slg (d\<lparr>feature_overrides :=
     map (\<lambda>v. if override_key v = override_key r then r else v) (feature_overrides d)\<rparr>) =
   (if (org, slg) = override_key r \<and> override_key r \<in> override_key ` set (feature_overrides d)
    then Some r else find_override org slg d)"
proof -
  have "find (\<lambda>v. fo_organisation_id v = org \<and> fo_slug v = slg)
      (map (\<lambda>v. if override_key v = override_key r then r else v) vs) =
    (if (org, slg) = override_key r \<and> override_key r \<in> override_key ` set vs then Some r
     else find (\<lambda>v. fo_organisation_id v = org \<and> fo_slug v = slg) vs)" for vs
    by (induction vs) (auto simp: override_key_def)
  then show ?thesis by (simp add: find_override_def)
qed

lemma find_override_None_iff:
  "find_override org slg d = None \<longleftrightarrow> (org, slg) \<notin> override_key ` set (feature_overrides d)"
  by (auto simp: find_override_def find_None_iff override_key_def)

lemma find_append: "find P (xs @ ys) = (case find P xs of None \<Rightarrow> find P ys | Some x \<Rightarrow> Some x)"
  by (induction xs) auto

lemma find_override_upsert:
  assumes "upsert_override_row r d = Ok d'"
  shows "find_override org slg d' =
     (if (org, slg) = override_key r then Some r else find_override org slg d) \<and>
   feature_definitions d' = feature_definitions d"
proof (cases "override_key r \<in> override_key ` set (feature_overrides d)")
  case True
  with assms have "d' = d\<lparr>feature_overrides :=
     map (\<lambda>v. if override_key v = override_key r then r else v) (feature_overrides d)\<rparr>"
    by (auto simp: upsert_override_row_def split: if_splits)
  with True show ?thesis by (simp add: find_override_update)
next
  case False
  with assms have d': "d' = d\<lparr>feature_overrides := feature_overrides d @ [r]\<rparr>"
    by (auto simp: upsert_override_row_def split: if_splits)
  show ?thesis
  proof (cases "(org, slg) = override_key r")
    case True
    with False have "find_override org slg d = None" by (simp add: find_override_None_iff)
    with True d' show ?thesis by (simp add: find_override_def find_append override_key_def)
  next
    case other: False
    with d' show ?thesis
      by (auto simp: find_override_def find_append override_key_def split: option.splits)
  qed
qed

lemma find_filter_other:
  "(\<And>x. P x \<Longrightarrow> Q x) \<Longrightarrow> find P (filter Q xs) = find P xs"
  by (induction xs) auto

lemma find_override_deleted:
  "find_override org slg (d\<lparr>feature_overrides :=
     filter (\<lambda>v. \<not> (fo_organisation_id v = org' \<and> fo_slug v = slg')) (feature_overrides d)\<rparr>) =
   (if (org, slg) = (org', slg') then None else find_override org slg d)"
  by (auto simp: find_override_def find_None_iff intro: find_filter_other)

section \<open>Setting and clearing\<close>

text \<open>What a successful \<open>set_org_feature\<close> did, on the tables, the cache and the audit queue.\<close>

lemma set_org_feature_Ok:
  assumes "set_org_feature E i w = (Ok (), w')"
  shows "\<exists>def d'. find_definition (sf_slug i) (w_db w) = Some def \<and>
     validate (fd_value_type def) (sf_value i) = Ok () \<and>
     (fd_self_service def \<or> sf_actor_is_operator i) \<and>
     upsert_override_row \<lparr> fo_organisation_id = sf_organisation_id i, fo_slug = sf_slug i,
       fo_value = sf_value i, fo_updated_at = w_now w, fo_updated_by = sf_actor_user_id i \<rparr> (w_db w)
       = Ok d' \<and>
     w_db w' = d' \<and> w_now w' = w_now w \<and>
     w_cache w' = (w_cache w)((sf_organisation_id i, sf_slug i) := None) \<and>
     w_audit w' = enqueued w (feature_set (uuid_v7 E (w_draws w)) (w_now w) (sf_actor_user_id i)
       (sf_actor_org_id i) (sf_organisation_id i) (sf_slug i)
       (map_option fo_value (find_override (sf_organisation_id i) (sf_slug i) (w_db w)))
       (sf_value i) (fd_self_service def))"
  using assms
  by (auto simp: set_org_feature_def get_definition_def upsert_override_def invalidate_def
      action_ok_simps audit_eq_iff enqueued_def Let_def ok_or_def map_sum_def
      split: option.splits sum.splits if_splits)

lemma set_org_feature_effective:
  assumes "coherent w" and "set_org_feature E i w = (Ok (), w')"
  shows "effective (w_db w') org slg =
     (if (org, slg) = (sf_organisation_id i, sf_slug i) then Some (sf_value i)
      else effective (w_db w) org slg) \<and> coherent w'"
proof -
  let ?r = "\<lparr> fo_organisation_id = sf_organisation_id i, fo_slug = sf_slug i,
       fo_value = sf_value i, fo_updated_at = w_now w, fo_updated_by = sf_actor_user_id i \<rparr>"
  from set_org_feature_Ok [OF assms(2)]
  have up: "upsert_override_row ?r (w_db w) = Ok (w_db w')"
    and rest: "w_now w' = w_now w"
      "w_cache w' = (w_cache w)((sf_organisation_id i, sf_slug i) := None)"
    by auto
  have eff: "effective (w_db w') a b =
     (if (a, b) = (sf_organisation_id i, sf_slug i) then Some (sf_value i)
      else effective (w_db w) a b)" for a b
    using find_override_upsert [OF up, of a b]
    by (auto simp: effective_def override_key_def find_definition_def split: option.splits)
  with assms(1) rest show ?thesis by (auto simp: coherent_def)
qed

lemma clear_org_feature_Ok:
  assumes "clear_org_feature E i w = (Ok (), w')"
  shows "\<exists>def. find_definition (cf_slug i) (w_db w) = Some def \<and>
     (fd_self_service def \<or> cf_actor_is_operator i) \<and>
     w_db w' = (w_db w)\<lparr>feature_overrides := filter (\<lambda>v. \<not> (fo_organisation_id v = cf_organisation_id i
       \<and> fo_slug v = cf_slug i)) (feature_overrides (w_db w))\<rparr> \<and>
     w_now w' = w_now w \<and>
     w_cache w' = (w_cache w)((cf_organisation_id i, cf_slug i) := None)"
  using assms
  by (auto simp: clear_org_feature_def get_definition_def delete_override_def invalidate_def
      action_ok_simps audit_eq_iff ok_or_def
      split: option.splits if_splits)

lemma clear_org_feature_effective:
  assumes "coherent w" and "clear_org_feature E i w = (Ok (), w')"
  shows "effective (w_db w') org slg =
     (if (org, slg) = (cf_organisation_id i, cf_slug i)
      then map_option fd_default_value (find_definition slg (w_db w))
      else effective (w_db w) org slg) \<and> coherent w'"
proof -
  from clear_org_feature_Ok [OF assms(2)]
  have d': "w_db w' = (w_db w)\<lparr>feature_overrides := filter (\<lambda>v. \<not> (fo_organisation_id v = cf_organisation_id i
       \<and> fo_slug v = cf_slug i)) (feature_overrides (w_db w))\<rparr>"
    and rest: "w_now w' = w_now w"
      "w_cache w' = (w_cache w)((cf_organisation_id i, cf_slug i) := None)"
    by auto
  have eff: "effective (w_db w') a b =
     (if (a, b) = (cf_organisation_id i, cf_slug i)
      then map_option fd_default_value (find_definition b (w_db w))
      else effective (w_db w) a b)" for a b
    unfolding d' effective_def find_override_deleted
    by (simp add: find_definition_def split: option.splits)
  with assms(1) rest show ?thesis by (auto simp: coherent_def)
qed

text \<open>Every override in the table has the type its definition declares.\<close>

definition overrides_typed :: "db \<Rightarrow> bool" where
  "overrides_typed d \<longleftrightarrow>
     (\<forall>v \<in> set (feature_overrides d). \<exists>def. find_definition (fo_slug v) d = Some def \<and>
        validate (fd_value_type def) (fo_value v) = Ok ())"

lemma upsert_override_row_set:
  "upsert_override_row r d = Ok d' \<Longrightarrow>
   set (feature_overrides d') \<subseteq> insert r (set (feature_overrides d)) \<and>
   feature_definitions d' = feature_definitions d"
  by (auto simp: upsert_override_row_def split: if_splits)

lemma safe_err_set_org_feature: "safe_err w_db (set_org_feature E i)"
  unfolding set_org_feature_def get_definition_def upsert_override_def
  apply (intro safe_err_bindE_reads reads_db_intros)
  apply (auto split: sum.splits intro!: safe_err_fail safe_err_bindE_total safe_err_map_err safe_err_stmt)
  apply (auto simp: invalidate_def bindE_def audit_eq)
  done

lemma set_org_feature_typed:
  assumes "overrides_typed (w_db w)" and run: "set_org_feature E i w = (r, w')"
  shows "overrides_typed (w_db w')"
proof (cases r)
  case (Inl e)
  with run assms(1) safe_errD [OF safe_err_set_org_feature] show ?thesis by metis
next
  case (Inr u)
  with run have ok: "set_org_feature E i w = (Ok (), w')" by simp
  let ?r = "\<lparr> fo_organisation_id = sf_organisation_id i, fo_slug = sf_slug i,
       fo_value = sf_value i, fo_updated_at = w_now w, fo_updated_by = sf_actor_user_id i \<rparr>"
  from set_org_feature_Ok [OF ok] obtain def where
    "find_definition (sf_slug i) (w_db w) = Some def"
    "validate (fd_value_type def) (sf_value i) = Ok ()"
    and up: "upsert_override_row ?r (w_db w) = Ok (w_db w')"
    by auto
  with assms(1) upsert_override_row_set [OF up] show ?thesis
    by (fastforce simp: overrides_typed_def find_definition_def)
qed

end
