(* ===== verification/Cursors.thy ===== *)
theory Cursors
  imports Store
begin

text \<open>
  The opaque cursor strings. \<^verbatim>\<open>src/pagination.rs\<close> (and, word for word, \<^verbatim>\<open>AuditCursor\<close> in
  \<^verbatim>\<open>src/audit/persistence/mod.rs\<close>) writes base64url of the JSON of the cursor; the
  service-account listing in \<^verbatim>\<open>src/security/interface.rs\<close> writes base64url of
  \<^verbatim>\<open>timestamp|id\<close> and takes it apart by hand. The base64, JSON, RFC 3339 and UUID codecs
  are library code; what is relied on of them is \<open>cursor_codecs\<close>, and the two round
  trips follow.
\<close>

section \<open>The JSON cursor\<close>

definition cursor_encode :: "env \<Rightarrow> cursor_kind \<Rightarrow> cursor \<Rightarrow> string" where
  "cursor_encode E k c = b64url_encode E (json_to_vec E k c)"

definition cursor_decode :: "env \<Rightarrow> cursor_kind \<Rightarrow> string \<Rightarrow> cursor option" where
  "cursor_decode E k raw = Option.bind (b64url_decode E raw) (json_from_slice E k)"

section \<open>The service-account cursor\<close>

text \<open>
  \<^verbatim>\<open>std::str::from_utf8\<close>: the well-formed byte sequences of the Unicode standard (no overlong
  forms, no surrogates, nothing above \<^verbatim>\<open>U+10FFFF\<close>).
\<close>

definition cont :: "nat \<Rightarrow> bool" where
  "cont b \<longleftrightarrow> 0x80 \<le> b \<and> b \<le> 0xBF"

definition second_ok :: "nat \<Rightarrow> nat \<Rightarrow> bool" where
  "second_ok b c \<longleftrightarrow>
     cont c \<and> (b = 0xE0 \<longrightarrow> 0xA0 \<le> c) \<and> (b = 0xED \<longrightarrow> c \<le> 0x9F) \<and>
     (b = 0xF0 \<longrightarrow> 0x90 \<le> c) \<and> (b = 0xF4 \<longrightarrow> c \<le> 0x8F)"

fun utf8_valid :: "nat list \<Rightarrow> bool" where
  "utf8_valid [] = True"
| "utf8_valid (b # bs) =
     (if b < 0x80 then utf8_valid bs
      else if 0xC2 \<le> b \<and> b \<le> 0xDF then
        (case bs of c # cs \<Rightarrow> cont c \<and> utf8_valid cs | _ \<Rightarrow> False)
      else if 0xE0 \<le> b \<and> b \<le> 0xEF then
        (case bs of c # d # ds \<Rightarrow> second_ok b c \<and> cont d \<and> utf8_valid ds | _ \<Rightarrow> False)
      else if 0xF0 \<le> b \<and> b \<le> 0xF4 then
        (case bs of c # d # e # es \<Rightarrow> second_ok b c \<and> cont d \<and> cont e \<and> utf8_valid es | _ \<Rightarrow> False)
      else False)"

definition from_utf8 :: "nat list \<Rightarrow> string option" where
  "from_utf8 bs = (if utf8_valid bs then Some (map char_of bs) else None)"

definition encode_sa_cursor :: "env \<Rightarrow> cursor \<Rightarrow> string" where
  "encode_sa_cursor E c =
     (let raw = to_rfc3339 E (fst c) @ ''|'' @ uuid_fmt E (snd c) in
      b64url_encode E (map byte raw))"

text \<open>
  Every failure is the same validation error, which the handler supplies. \<^verbatim>\<open>splitn\<close> always
  yields a first part; the second is missing when there is no bar.
\<close>

definition decode_sa_cursor :: "env \<Rightarrow> string \<Rightarrow> cursor option" where
  "decode_sa_cursor E s =
     Option.bind (b64url_decode E s) (\<lambda>bytes.
     Option.bind (from_utf8 bytes) (\<lambda>raw.
     case splitn 2 CHR ''|'' raw of
       ts_str # id_str # _ \<Rightarrow>
         Option.bind (parse_from_rfc3339 E ts_str) (\<lambda>ts.
         Option.bind (uuid_parse E id_str) (\<lambda>id.
         Some (ts, id)))
     | _ \<Rightarrow> None))"

section \<open>Round trips\<close>

text \<open>
  What the library codecs promise: decoding undoes encoding, on bytes; and the text of a
  timestamp or a UUID is ASCII, the former without a bar.
\<close>

definition cursor_codecs :: "env \<Rightarrow> bool" where
  "cursor_codecs E \<longleftrightarrow>
     (\<forall>bs. list_all (\<lambda>b. b < 256) bs \<longrightarrow> b64url_decode E (b64url_encode E bs) = Some bs) \<and>
     (\<forall>k c. list_all (\<lambda>b. b < 256) (json_to_vec E k c) \<and> json_from_slice E k (json_to_vec E k c) = Some c) \<and>
     (\<forall>t. parse_from_rfc3339 E (to_rfc3339 E t) = Some t \<and> CHR ''|'' \<notin> set (to_rfc3339 E t) \<and>
        list_all (\<lambda>c. byte c < 0x80) (to_rfc3339 E t)) \<and>
     (\<forall>u. uuid_parse E (uuid_fmt E u) = Some u \<and> list_all (\<lambda>c. byte c < 0x80) (uuid_fmt E u))"

lemma cursor_decode_encode: "cursor_codecs E \<Longrightarrow> cursor_decode E k (cursor_encode E k c) = Some c"
  by (cases c) (simp add: cursor_codecs_def cursor_decode_def cursor_encode_def)

lemma byte_less: "byte c < 256"
  using of_char_of [of "of_char c :: nat"] by (simp add: byte_def take_bit_eq_mod)

lemma map_char_of_byte [simp]: "map char_of (map byte s) = s"
  by (induction s) (simp_all add: byte_def)

lemma utf8_valid_ascii: "list_all (\<lambda>b. b < 0x80) bs \<Longrightarrow> utf8_valid bs"
  by (induction bs) simp_all

lemma from_utf8_ascii: "list_all (\<lambda>c. byte c < 0x80) s \<Longrightarrow> from_utf8 (map byte s) = Some s"
  by (simp add: from_utf8_def utf8_valid_ascii list_all_iff del: map_map)

lemma decode_encode_sa_cursor:
  assumes "cursor_codecs E"
  shows "decode_sa_cursor E (encode_sa_cursor E c) = Some c"
proof -
  let ?raw = "to_rfc3339 E (fst c) @ ''|'' @ uuid_fmt E (snd c)"
  have ascii: "list_all (\<lambda>c. byte c < 0x80) ?raw"
    using assms by (simp add: cursor_codecs_def byte_def)
  have "b64url_decode E (b64url_encode E (map byte ?raw)) = Some (map byte ?raw)"
    using assms by (simp add: cursor_codecs_def list_all_iff byte_less del: map_append)
  moreover have "splitn 2 CHR ''|'' ?raw = [to_rfc3339 E (fst c), uuid_fmt E (snd c)]"
    using assms by (simp add: cursor_codecs_def numeral_2_eq_2 split_once_append)
  ultimately show ?thesis
    using assms from_utf8_ascii [OF ascii]
    by (simp add: decode_sa_cursor_def encode_sa_cursor_def cursor_codecs_def Let_def)
qed

end
