(* ===== verification/Pagination.thy ===== *)
theory Pagination
  imports Cursors
begin

text \<open>
  Keyset pagination, the listing scheme every list endpoint uses: a repository query that
  returns the rows strictly behind a cursor in key order, one row more than the page is long;
  the service keeps the page, and when the extra row came back it hands out the key of the
  last row it kept as the next cursor.

  \<open>keyset_asc\<close> and \<open>keyset_desc\<close> are the two query shapes, \<open>cut_page\<close> the service's
  half. The locale \<open>keyset\<close> states the contract between a query and its service and proves
  once that following the cursors returns every row exactly once and in order; each list
  operation interprets it.
\<close>

section \<open>Queries and pages\<close>

text \<open>\<^verbatim>\<open>WHERE (created_at, id) > (..) ORDER BY created_at ASC, id ASC LIMIT n\<close>.\<close>

definition keyset_asc :: "('r \<Rightarrow> cursor) \<Rightarrow> cursor option \<Rightarrow> nat \<Rightarrow> 'r list \<Rightarrow> 'r list" where
  "keyset_asc k c n rows =
     take n (sort_key k (filter (\<lambda>r. case c of None \<Rightarrow> True | Some x \<Rightarrow> x < k r) rows))"

text \<open>\<^verbatim>\<open>WHERE (occurred_at, id) < (..) ORDER BY occurred_at DESC, id DESC LIMIT n\<close>.\<close>

definition keyset_desc :: "('r \<Rightarrow> cursor) \<Rightarrow> cursor option \<Rightarrow> nat \<Rightarrow> 'r list \<Rightarrow> 'r list" where
  "keyset_desc k c n rows =
     take n (rev (sort_key k (filter (\<lambda>r. case c of None \<Rightarrow> True | Some x \<Rightarrow> k r < x) rows)))"

text \<open>Truncate to the page and take the cursor of its last row if there was more.\<close>

definition cut_page :: "('r \<Rightarrow> cursor) \<Rightarrow> nat \<Rightarrow> 'r list \<Rightarrow> 'r list \<times> cursor option" where
  "cut_page k limit rows =
     (if limit < length rows
      then (take limit rows,
            if take limit rows = [] then None else Some (k (last (take limit rows))))
      else (rows, None))"

text \<open>A client that follows the cursors, for at most \<open>n\<close> requests.\<close>

fun pages :: "nat \<Rightarrow> ('k option \<Rightarrow> 'r list \<times> 'k option) \<Rightarrow> 'k option \<Rightarrow> 'r list list" where
  "pages 0 step c = []"
| "pages (Suc n) step c =
     (case step c of (items, next_cursor) \<Rightarrow>
        items # (case next_cursor of None \<Rightarrow> [] | Some k \<Rightarrow> pages n step (Some k)))"

section \<open>The contract\<close>

text \<open>
  A query \<open>q\<close> (a table with its filter) lists the rows \<open>ordered q\<close>; \<open>ok q\<close> is what the
  listing relies on, the integrity of the table.
\<close>

locale keyset =
  fixes before :: "'k \<Rightarrow> 'k \<Rightarrow> bool"
    and key :: "'r \<Rightarrow> 'k"
    and ok :: "'q \<Rightarrow> bool"
    and ordered :: "'q \<Rightarrow> 'r list"
    and step :: "'q \<Rightarrow> nat \<Rightarrow> 'k option \<Rightarrow> 'r list \<times> 'k option"
  assumes irrefl: "\<not> before x x"
    and trans: "before x y \<Longrightarrow> before y z \<Longrightarrow> before x z"
    and strict: "ok q \<Longrightarrow> sorted_wrt (\<lambda>r s. before (key r) (key s)) (ordered q)"
    and step_eq: "ok q \<Longrightarrow> 0 < limit \<Longrightarrow> step q limit cur =
      (let fetched = take (Suc limit)
         (filter (\<lambda>r. case cur of None \<Rightarrow> True | Some x \<Rightarrow> before x (key r)) (ordered q))
       in if limit < length fetched
          then (take limit fetched, Some (key (last (take limit fetched))))
          else (fetched, None))"
begin

lemma last_not_behind:
  assumes "sorted_wrt (\<lambda>r s. before (key r) (key s)) (xs @ [l])" and "x \<in> set (xs @ [l])"
  shows "\<not> before (key l) (key x)"
  using assms irrefl trans by (auto simp: sorted_wrt_append) blast

lemma behind_prefix:
  assumes "ok q" and "ordered q = xs @ ys" and "xs \<noteq> []"
  shows "filter (\<lambda>r. before (key (last xs)) (key r)) (ordered q) = ys"
proof -
  have srt: "sorted_wrt (\<lambda>r s. before (key r) (key s)) (xs @ ys)"
    using strict [OF assms(1)] assms(2) by simp
  then have "sorted_wrt (\<lambda>r s. before (key r) (key s)) (butlast xs @ [last xs])"
    using assms(3) by (simp add: sorted_wrt_append)
  then have "x \<in> set xs \<Longrightarrow> \<not> before (key (last xs)) (key x)" for x
    using last_not_behind [of "butlast xs" "last xs" x] assms(3) by simp
  moreover have "y \<in> set ys \<Longrightarrow> before (key (last xs)) (key y)" for y
    using srt assms(3) by (simp add: sorted_wrt_append)
  ultimately show ?thesis using assms(2) by (simp add: filter_empty_conv filter_id_conv)
qed

lemma step_suffix:
  assumes "ok q" and "0 < limit" and "ordered q = xs @ ys"
    and "cur = (if xs = [] then None else Some (key (last xs)))"
  shows "step q limit cur = (if limit < length ys
     then (take limit ys, Some (key (last (take limit ys)))) else (ys, None))"
proof -
  have "filter (\<lambda>r. case cur of None \<Rightarrow> True | Some x \<Rightarrow> before x (key r)) (ordered q) = ys"
    using assms behind_prefix by (cases "xs = []") auto
  then show ?thesis using assms(1,2) by (auto simp: step_eq Let_def min_def)
qed

lemma pages_suffix:
  assumes "ok q" and "0 < limit" and "ordered q = xs @ ys"
    and "cur = (if xs = [] then None else Some (key (last xs)))"
    and "length ys < n"
  shows "concat (pages n (step q limit) cur) = ys \<and>
    (\<forall>p \<in> set (pages n (step q limit) cur). length p \<le> limit)"
  using assms(3-)
proof (induction n arbitrary: xs ys cur)
  case (Suc n)
  note st = step_suffix [OF assms(1,2) Suc.prems(1,2)]
  show ?case
  proof (cases "limit < length ys")
    case False
    with st show ?thesis by simp
  next
    case True
    let ?xs = "xs @ take limit ys"
    have ne: "take limit ys \<noteq> []" using True assms(2) by auto
    have "concat (pages n (step q limit) (Some (key (last (take limit ys))))) = drop limit ys \<and>
        (\<forall>p \<in> set (pages n (step q limit) (Some (key (last (take limit ys))))). length p \<le> limit)"
      using ne Suc.prems True assms(2) by (intro Suc.IH [of ?xs]) auto
    with st True show ?thesis by (auto simp: min_def)
  qed
qed simp

text \<open>Following the cursors visits every row once, in listing order, a page at a time.\<close>

lemma pages_complete:
  assumes "ok q" and "0 < limit"
  shows "concat (pages (Suc (length (ordered q))) (step q limit) None) = ordered q \<and>
   (\<forall>p \<in> set (pages (Suc (length (ordered q))) (step q limit) None). length p \<le> limit)"
  by (rule pages_suffix [OF assms, of "[]"]) simp_all

lemma ordered_distinct:
  assumes "ok q"
  shows "distinct (ordered q)"
proof -
  have "distinct xs" if "sorted_wrt (\<lambda>r s. before (key r) (key s)) xs" for xs
    using that irrefl by (induction xs) auto
  then show ?thesis using strict [OF assms] by simp
qed

end

section \<open>The two query shapes meet the contract\<close>

lemma sort_key_strict:
  assumes "distinct (map k rows)"
  shows "sorted_wrt (\<lambda>r s. k r < (k s :: 'k :: linorder)) (sort_key k rows)"
proof -
  have "sorted (map k (sort_key k rows))" "distinct (map k (sort_key k rows))"
    using assms by (simp_all add: distinct_map)
  then have "sorted_wrt (<) (map k (sort_key k rows))"
    by (simp add: strict_sorted_iff)
  then show ?thesis by (simp add: sorted_wrt_map)
qed

lemma rev_sort_key_strict:
  assumes "distinct (map k rows)"
  shows "sorted_wrt (\<lambda>r s. (k s :: 'k :: linorder) < k r) (rev (sort_key k rows))"
  using sort_key_strict [OF assms] by (simp add: sorted_wrt_rev)

lemma keyset_asc_eq:
  "keyset_asc k c n rows =
     take n (filter (\<lambda>r. case c of None \<Rightarrow> True | Some x \<Rightarrow> x < k r) (sort_key k rows))"
  by (simp add: keyset_asc_def filter_sort)

lemma keyset_desc_eq:
  "keyset_desc k c n rows =
     take n (filter (\<lambda>r. case c of None \<Rightarrow> True | Some x \<Rightarrow> k r < x) (rev (sort_key k rows)))"
  by (simp add: keyset_desc_def filter_sort [symmetric] rev_filter)

lemma cut_page_eq:
  "0 < limit \<Longrightarrow> cut_page k limit rows =
     (if limit < length rows then (take limit rows, Some (k (last (take limit rows))))
      else (rows, None))"
  by (auto simp: cut_page_def)

lemma keyset_asc_page:
  assumes "\<And>q. ok q \<Longrightarrow> distinct (map k (rows q))"
    and "\<And>q limit c. step q limit c = cut_page k limit (keyset_asc k c (Suc limit) (rows q))"
  shows "keyset (<) k ok (\<lambda>q. sort_key k (rows q)) step"
  by unfold_locales (auto simp: assms sort_key_strict cut_page_eq keyset_asc_eq Let_def)

lemma keyset_desc_page:
  assumes "\<And>q. ok q \<Longrightarrow> distinct (map k (rows q))"
    and "\<And>q limit c. step q limit c = cut_page k limit (keyset_desc k c (Suc limit) (rows q))"
  shows "keyset (\<lambda>a b. b < a) k ok (\<lambda>q. rev (sort_key k (rows q))) step"
  by unfold_locales (auto simp: assms rev_sort_key_strict cut_page_eq keyset_desc_eq Let_def)

end
