(* ===== verification/SecurityStore.thy ===== *)
theory SecurityStore
  imports Pagination Tables
begin

text \<open>
  The security component's repositories and credential formats:
  \<^verbatim>\<open>src/security/persistence/*_pg.rs\<close> (users, password-reset tokens and token revocation,
  service accounts, API keys, and the API-key verifier of the auth layer),
  \<^verbatim>\<open>service/password_hash.rs\<close> and \<^verbatim>\<open>service/api_key_secret.rs\<close>. Every repository call is built
  from the statements of \<^verbatim>\<open>Tables\<close>.

  Where a query leaves the order of equal rows open, the model takes insertion order.
\<close>

section \<open>Password hashes\<close>

definition EXPECTED_PARAMS_FRAGMENT :: string where
  "EXPECTED_PARAMS_FRAGMENT = ''m=19456,t=2,p=1''"

definition hash_password :: "env \<Rightarrow> string \<Rightarrow> (anyhow, string) action" where
  "hash_password E password =
     bindE (draw (\<lambda>n. argon2_hash E n password)) (\<lambda>h. lift (ok_or opaque h))"

definition verify_password :: "env \<Rightarrow> string \<Rightarrow> string \<Rightarrow> (anyhow, bool) action" where
  "verify_password E password hash = lift (ok_or opaque (argon2_verify E password hash))"

text \<open>\<^verbatim>\<open>str::contains\<close>.\<close>

fun contains_str :: "string \<Rightarrow> string \<Rightarrow> bool" where
  "contains_str [] pat = (pat = [])"
| "contains_str (c # cs) pat = (take (length pat) (c # cs) = pat \<or> contains_str cs pat)"

definition needs_rehash :: "string \<Rightarrow> bool" where
  "needs_rehash hash = (\<not> contains_str hash EXPECTED_PARAMS_FRAGMENT)"

text \<open>What argon2 promises: a hash it made verifies with the password it was made from.\<close>

definition argon2_correct :: "env \<Rightarrow> bool" where
  "argon2_correct E \<longleftrightarrow>
     (\<forall>n p h. argon2_hash E n p = Some h \<longrightarrow> argon2_verify E p h = Some True)"

section \<open>API-key secrets\<close>

record generated_key =
  g_prefix :: string
  g_plaintext :: string
  g_secret :: string

definition generate :: "env \<Rightarrow> (anyhow, generated_key) action" where
  "generate E =
     bindE (draw (\<lambda>n. random_bytes E n 4)) (\<lambda>prefix_bytes.
     bindE (draw (\<lambda>n. random_bytes E n 32)) (\<lambda>secret_bytes.
     let prefix = hex_encode E prefix_bytes;
         secret = b64url_encode E secret_bytes
     in ret \<lparr> g_prefix = prefix,
              g_plaintext = ''egras_'' @ ''live'' @ ''_'' @ prefix @ ''_'' @ secret,
              g_secret = secret \<rparr>))"

record parsed_key =
  p_env :: string
  p_prefix :: string
  p_secret :: string

definition is_ascii_hexdigit :: "char \<Rightarrow> bool" where
  "is_ascii_hexdigit c =
     (let b = byte c in (48 \<le> b \<and> b \<le> 57) \<or> (65 \<le> b \<and> b \<le> 70) \<or> (97 \<le> b \<and> b \<le> 102))"

definition parse :: "string \<Rightarrow> parsed_key option" where
  "parse s =
     (case strip_prefix ''egras_'' s of
        None \<Rightarrow> None
      | Some body \<Rightarrow>
          (case splitn 3 CHR ''_'' body of
             [e, prefix, secret] \<Rightarrow>
               if length prefix \<noteq> 8 \<or> \<not> list_all is_ascii_hexdigit prefix then None
               else if secret = [] then None
               else Some \<lparr> p_env = e, p_prefix = prefix, p_secret = secret \<rparr>
           | _ \<Rightarrow> None))"

definition hash_secret :: "env \<Rightarrow> string \<Rightarrow> (anyhow, string) action" where
  "hash_secret E secret = hash_password E secret"

definition verify_secret :: "env \<Rightarrow> string \<Rightarrow> string \<Rightarrow> (anyhow, bool) action" where
  "verify_secret E secret hash = verify_password E secret hash"

text \<open>
  The documented shapes of the codecs: a byte is two lower-case hex digits, and base64 of
  some bytes is not empty.
\<close>

definition codecs_ok :: "env \<Rightarrow> bool" where
  "codecs_ok E \<longleftrightarrow>
     (\<forall>n k. length (random_bytes E n k) = k) \<and>
     (\<forall>bs. length (hex_encode E bs) = 2 * length bs \<and> list_all is_ascii_hexdigit (hex_encode E bs)) \<and>
     (\<forall>bs. bs \<noteq> [] \<longrightarrow> b64url_encode E bs \<noteq> [])"

text \<open>Decoding undoes encoding, on the bytes a random generator yields and on all others.\<close>

definition hex_roundtrip :: "env \<Rightarrow> bool" where
  "hex_roundtrip E \<longleftrightarrow>
     (\<forall>bs. list_all (\<lambda>b. b < 256) bs \<longrightarrow> hex_decode E (hex_encode E bs) = Some bs) \<and>
     (\<forall>n k. list_all (\<lambda>b. b < 256) (random_bytes E n k))"

lemma underscore_not_hex: "\<not> is_ascii_hexdigit CHR ''_''"
  by (simp add: is_ascii_hexdigit_def byte_def)

lemma parse_render:
  assumes "length prefix = 8" "list_all is_ascii_hexdigit prefix" "secret \<noteq> []" "CHR ''_'' \<notin> set e"
  shows "parse (''egras_'' @ e @ ''_'' @ prefix @ ''_'' @ secret) =
     Some \<lparr> p_env = e, p_prefix = prefix, p_secret = secret \<rparr>"
proof -
  have no: "CHR ''_'' \<notin> set prefix"
    using assms(2) underscore_not_hex by (auto simp: list_all_iff)
  have "splitn 3 CHR ''_'' (e @ ''_'' @ prefix @ ''_'' @ secret) = [e, prefix, secret]"
    using split_once_append [OF assms(4), of "prefix @ ''_'' @ secret"]
      split_once_append [OF no, of secret]
    by (simp add: numeral_3_eq_3)
  with assms show ?thesis
    unfolding parse_def by (simp only: strip_prefix_append option.case list.case) simp
qed

lemma parse_Some_render:
  assumes "parse s = Some k"
  shows "s = ''egras_'' @ p_env k @ ''_'' @ p_prefix k @ ''_'' @ p_secret k \<and>
    length (p_prefix k) = 8 \<and> list_all is_ascii_hexdigit (p_prefix k) \<and> p_secret k \<noteq> [] \<and>
    CHR ''_'' \<notin> set (p_env k)"
proof -
  from assms obtain body e prefix secret where
    s: "s = ''egras_'' @ body" and sp: "splitn 3 CHR ''_'' body = [e, prefix, secret]"
    and k: "k = \<lparr> p_env = e, p_prefix = prefix, p_secret = secret \<rparr>"
    and ok: "length prefix = 8" "list_all is_ascii_hexdigit prefix" "secret \<noteq> []"
    by (auto simp: parse_def strip_prefix_Some_iff split: option.splits list.splits if_splits)
  from sp obtain r where 1: "split_once CHR ''_'' body = Some (e, r)"
    and 2: "split_once CHR ''_'' r = Some (prefix, secret)"
    by (auto simp: numeral_3_eq_3 split: option.splits)
  from split_once_SomeD [OF 1] split_once_SomeD [OF 2] s k ok show ?thesis by simp
qed

text \<open>A generated key parses back into the prefix and the secret it was made of.\<close>

lemma generate_Ok:
  assumes "codecs_ok E" and "generate E w = (Ok g, w')"
  shows "parse (g_plaintext g) = Some \<lparr> p_env = ''live'', p_prefix = g_prefix g, p_secret = g_secret g \<rparr>
     \<and> length (g_prefix g) = 8 \<and> w_db w' = w_db w \<and> w_now w' = w_now w \<and> w_stmts w' = w_stmts w"
proof -
  from assms(2) have g: "g_plaintext g = ''egras_'' @ ''live'' @ ''_'' @ g_prefix g @ ''_'' @ g_secret g"
    "g_prefix g = hex_encode E (random_bytes E (w_draws w) 4)"
    "g_secret g = b64url_encode E (random_bytes E (Suc (w_draws w)) 32)"
    and w': "w_db w' = w_db w" "w_now w' = w_now w" "w_stmts w' = w_stmts w"
    by (auto simp: generate_def action_ok_simps Let_def)
  have rb: "length (random_bytes E n k) = k" for n k using assms(1) by (simp add: codecs_ok_def)
  have hex: "length (hex_encode E bs) = 2 * length bs" "list_all is_ascii_hexdigit (hex_encode E bs)" for bs
    using assms(1) by (simp_all add: codecs_ok_def)
  have ne: "random_bytes E (Suc (w_draws w)) 32 \<noteq> []" using rb [of "Suc (w_draws w)" 32] by fastforce
  have shape: "length (g_prefix g) = 8" "list_all is_ascii_hexdigit (g_prefix g)" "g_secret g \<noteq> []"
    using assms(1) ne by (simp_all add: g rb hex codecs_ok_def)
  have "parse (g_plaintext g) = Some \<lparr> p_env = ''live'', p_prefix = g_prefix g, p_secret = g_secret g \<rparr>"
    unfolding g(1) using shape by (intro parse_render) simp_all
  with shape w' show ?thesis by simp
qed

section \<open>Users\<close>

datatype user_repo_error = DuplicateUsername string | DuplicateEmail string | UserDb sqlx_error

definition user_insert_error :: "string \<Rightarrow> string \<Rightarrow> sqlx_error \<Rightarrow> user_repo_error" where
  "user_insert_error username email e =
     (case e of
        Database code constr \<Rightarrow>
          if code = ''23505'' \<and> constr = ''users_username_key'' then DuplicateUsername username
          else if code = ''23505'' \<and> constr = ''users_email_key'' then DuplicateEmail email
          else UserDb e
      | OtherSqlx \<Rightarrow> UserDb e)"

definition new_user :: "uuid \<Rightarrow> string \<Rightarrow> string \<Rightarrow> string \<Rightarrow> user_kind \<Rightarrow> datetime \<Rightarrow> user" where
  "new_user uid username email password_hash kind now =
     \<lparr> u_id = uid, u_username = username, u_email = email, u_password_hash = password_hash,
       u_kind = kind, u_created_at = now, u_updated_at = now \<rparr>"

definition users_create ::
    "env \<Rightarrow> string \<Rightarrow> string \<Rightarrow> string \<Rightarrow> (user_repo_error, user) action" where
  "users_create E username email password_hash =
     bindE (new_uuid E) (\<lambda>uid.
     map_err (user_insert_error username email) (stmt E (\<lambda>now d.
       let u = new_user uid username email password_hash Human now in
       map_sum id (Pair u) (insert_user E u d))))"

definition find_by_username_or_email :: "env \<Rightarrow> string \<Rightarrow> (user_repo_error, user option) action" where
  "find_by_username_or_email E s =
     map_err UserDb (query E (\<lambda>_ d.
       find (\<lambda>u. u_username u = s \<or> email_param_eq E (u_email u) s) (users d)))"

definition find_by_id :: "env \<Rightarrow> uuid \<Rightarrow> (user_repo_error, user option) action" where
  "find_by_id E uid = map_err UserDb (query E (\<lambda>_ d. find (\<lambda>u. u_id u = uid) (users d)))"

definition set_password_hash :: "uuid \<Rightarrow> string \<Rightarrow> datetime \<Rightarrow> db \<Rightarrow> db" where
  "set_password_hash uid h now d =
     d\<lparr>users := map (\<lambda>u. if u_id u = uid then u\<lparr>u_password_hash := h, u_updated_at := now\<rparr> else u)
       (users d)\<rparr>"

definition update_password_hash :: "env \<Rightarrow> uuid \<Rightarrow> string \<Rightarrow> (user_repo_error, unit) action" where
  "update_password_hash E uid new_hash =
     map_err UserDb (stmt E (\<lambda>now d. Ok ((), set_password_hash uid new_hash now d)))"

record user_membership =
  um_org_id :: uuid
  um_org_name :: string
  um_role_codes :: "string list"
  um_joined_at :: datetime

text \<open>
  The aggregate of one group of \<^verbatim>\<open>user_organisation_roles JOIN organisations JOIN roles\<close>:
  the distinct role codes in text order and the earliest membership.
\<close>

definition role_codes_of :: "env \<Rightarrow> db \<Rightarrow> membership list \<Rightarrow> string list" where
  "role_codes_of E d ms =
     sort_key (text_order E)
       (remdups (map r_code (filter (\<lambda>r. r_id r \<in> set (map m_role ms)) (roles d))))"

definition membership_group :: "env \<Rightarrow> db \<Rightarrow> uuid \<Rightarrow> organisation \<Rightarrow> user_membership" where
  "membership_group E d uid org =
     (let ms = filter (\<lambda>m. m_user m = uid \<and> m_org m = o_id org) (memberships d) in
      \<lparr> um_org_id = o_id org, um_org_name = o_name org, um_role_codes = role_codes_of E d ms,
        um_joined_at = Min (set (map m_created_at ms)) \<rparr>)"

definition user_memberships :: "env \<Rightarrow> db \<Rightarrow> uuid \<Rightarrow> user_membership list" where
  "user_memberships E d uid =
     sort_key um_joined_at (map (membership_group E d uid)
       (filter (\<lambda>org. list_ex (\<lambda>m. m_user m = uid \<and> m_org m = o_id org) (memberships d))
         (organisations d)))"

definition list_memberships :: "env \<Rightarrow> uuid \<Rightarrow> (user_repo_error, user_membership list) action" where
  "list_memberships E uid = map_err UserDb (query E (\<lambda>_ d. user_memberships E d uid))"

definition user_cursor_key :: "user \<Rightarrow> cursor" where
  "user_cursor_key u = (u_created_at u, u_id u)"

definition users_matching :: "env \<Rightarrow> uuid option \<Rightarrow> string option \<Rightarrow> db \<Rightarrow> user list" where
  "users_matching E oid q d =
     filter (\<lambda>u.
       (case oid of None \<Rightarrow> True
        | Some o_i \<Rightarrow> list_ex (\<lambda>m. m_user m = u_id u \<and> m_org m = o_i) (memberships d)) \<and>
       (case q of None \<Rightarrow> True
        | Some s \<Rightarrow> ilike E (u_username u) (''%'' @ s @ ''%'') \<or>
                    ilike E (u_email u) (''%'' @ s @ ''%''))) (users d)"

definition repo_list_users ::
    "env \<Rightarrow> uuid option \<Rightarrow> string option \<Rightarrow> cursor option \<Rightarrow> u32 \<Rightarrow>
     (user_repo_error, user list) action" where
  "repo_list_users E oid q c limit =
     map_err UserDb (query E (\<lambda>_ d.
       keyset_asc user_cursor_key c (unat limit) (users_matching E oid q d)))"

definition list_memberships_for_users ::
    "env \<Rightarrow> uuid list \<Rightarrow> (user_repo_error, (uuid \<times> user_membership) list) action" where
  "list_memberships_for_users E user_ids =
     (if user_ids = [] then ret []
      else map_err UserDb (query E (\<lambda>_ d.
        concat (map (\<lambda>uid. map (Pair uid) (user_memberships E d uid))
          (sort (remdups user_ids))))))"

datatype create_and_add_error =
    AddDuplicateUsername string | AddDuplicateEmail string | OrgNotFound
  | UnknownRoleCode string | AddDb sqlx_error

definition create_and_add_insert_error ::
    "string \<Rightarrow> string \<Rightarrow> sqlx_error \<Rightarrow> create_and_add_error" where
  "create_and_add_insert_error username email e =
     (case e of
        Database code constr \<Rightarrow>
          if code = ''23505'' \<and> constr = ''users_username_key'' then AddDuplicateUsername username
          else if code = ''23505'' \<and> constr = ''users_email_key'' then AddDuplicateEmail email
          else AddDb e
      | OtherSqlx \<Rightarrow> AddDb e)"

definition membership_fk_error :: "sqlx_error \<Rightarrow> create_and_add_error" where
  "membership_fk_error e =
     (case e of
        Database code _ \<Rightarrow> if code = ''23503'' then OrgNotFound else AddDb e
      | OtherSqlx \<Rightarrow> AddDb e)"

definition role_id_by_code :: "string \<Rightarrow> db \<Rightarrow> uuid option" where
  "role_id_by_code code d = map_option r_id (find (\<lambda>r. r_code r = code) (roles d))"

definition create_and_add_to_org ::
    "env \<Rightarrow> string \<Rightarrow> string \<Rightarrow> string \<Rightarrow> uuid \<Rightarrow> string \<Rightarrow> (create_and_add_error, user) action" where
  "create_and_add_to_org E username email password_hash oid role_code =
     in_tx E AddDb (
       bindE (new_uuid E) (\<lambda>uid.
       bindE (map_err (create_and_add_insert_error username email) (stmt E (\<lambda>now d.
         let u = new_user uid username email password_hash Human now in
         map_sum id (Pair u) (insert_user E u d)))) (\<lambda>row.
       bindE (map_err AddDb (query E (\<lambda>_. role_id_by_code role_code))) (\<lambda>rid.
       bindE (lift (ok_or (UnknownRoleCode role_code) rid)) (\<lambda>role_id.
       bindE (map_err membership_fk_error (stmt E (\<lambda>now d.
         map_sum id (Pair ()) (insert_membership
           \<lparr> m_user = u_id row, m_org = oid, m_role = role_id, m_created_at = now \<rparr> d)))) (\<lambda>_.
       ret row))))))"

section \<open>Password-reset tokens and revocation\<close>

definition MAX_PENDING_TOKENS_PER_USER :: nat where
  "MAX_PENDING_TOKENS_PER_USER = 3"

definition pending :: "uuid \<Rightarrow> datetime \<Rightarrow> reset_token \<Rightarrow> bool" where
  "pending uid now t \<longleftrightarrow> t_user_id t = uid \<and> t_used_at t = None \<and> now < t_expires_at t"

definition count_pending_for_user :: "env \<Rightarrow> uuid \<Rightarrow> (sqlx_error, nat) action" where
  "count_pending_for_user E uid =
     query E (\<lambda>now d. length (filter (pending uid now) (reset_tokens d)))"

definition oldest_pending :: "uuid \<Rightarrow> datetime \<Rightarrow> db \<Rightarrow> uuid option" where
  "oldest_pending uid now d =
     (case sort_key t_created_at (filter (pending uid now) (reset_tokens d)) of
        [] \<Rightarrow> None | t # _ \<Rightarrow> Some (t_id t))"

definition tokens_insert :: "env \<Rightarrow> uuid \<Rightarrow> string \<Rightarrow> datetime \<Rightarrow> (sqlx_error, reset_token) action" where
  "tokens_insert E uid token_hash expires_at =
     bindE (count_pending_for_user E uid) (\<lambda>n.
     bindE (if n \<ge> MAX_PENDING_TOKENS_PER_USER
            then stmt E (\<lambda>now d. Ok ((), d\<lparr>reset_tokens :=
                   filter (\<lambda>t. Some (t_id t) \<noteq> oldest_pending uid now d) (reset_tokens d)\<rparr>))
            else ret ()) (\<lambda>_.
     bindE (new_uuid E) (\<lambda>tid.
     stmt E (\<lambda>now d.
       let t = \<lparr> t_id = tid, t_token_hash = token_hash, t_user_id = uid,
                 t_expires_at = expires_at, t_used_at = None, t_created_at = now \<rparr> in
       map_sum id (Pair t) (insert_reset_token t d)))))"

definition valid_token :: "string \<Rightarrow> datetime \<Rightarrow> db \<Rightarrow> reset_token option" where
  "valid_token token_hash now d =
     find (\<lambda>t. t_token_hash t = token_hash \<and> t_used_at t = None \<and> now < t_expires_at t)
       (reset_tokens d)"

definition find_valid :: "env \<Rightarrow> string \<Rightarrow> (sqlx_error, reset_token option) action" where
  "find_valid E token_hash = query E (valid_token token_hash)"

definition consume_row :: "uuid \<Rightarrow> datetime \<Rightarrow> db \<Rightarrow> db" where
  "consume_row tid now d =
     d\<lparr>reset_tokens := map (\<lambda>t. if t_id t = tid then t\<lparr>t_used_at := Some now\<rparr> else t) (reset_tokens d)\<rparr>"

definition consume :: "env \<Rightarrow> uuid \<Rightarrow> (sqlx_error, unit) action" where
  "consume E tid = stmt E (\<lambda>now d. Ok ((), consume_row tid now d))"

definition tokens_revoke :: "env \<Rightarrow> uuid \<Rightarrow> uuid \<Rightarrow> datetime \<Rightarrow> (sqlx_error, unit) action" where
  "tokens_revoke E jti uid expires_at =
     stmt E (\<lambda>_ d. map_sum id (Pair ()) (insert_revoked_if_new
       \<lparr> rv_jti = jti, rv_user_id = uid, rv_expires_at = expires_at \<rparr> d))"

definition revoked :: "uuid \<Rightarrow> datetime \<Rightarrow> db \<Rightarrow> bool" where
  "revoked jti now d \<longleftrightarrow> list_ex (\<lambda>t. rv_jti t = jti \<and> now < rv_expires_at t) (revoked_tokens d)"

definition is_revoked :: "env \<Rightarrow> uuid \<Rightarrow> (sqlx_error, bool) action" where
  "is_revoked E jti = query E (revoked jti)"

section \<open>Service accounts\<close>

record new_service_account =
  ns_organisation_id :: uuid
  ns_name :: string
  ns_description :: "string option"
  ns_created_by :: uuid

datatype service_account_repo_error = DuplicateName | SaOther anyhow

definition sa_insert_error :: "sqlx_error \<Rightarrow> service_account_repo_error" where
  "sa_insert_error e =
     (case e of
        Database code _ \<Rightarrow> if code = ''23505'' then DuplicateName else SaOther opaque
      | OtherSqlx \<Rightarrow> SaOther opaque)"

definition sa_create ::
    "env \<Rightarrow> new_service_account \<Rightarrow> (service_account_repo_error, service_account) action" where
  "sa_create E req =
     in_tx E (\<lambda>_. SaOther opaque) (
       bindE (new_uuid E) (\<lambda>uid.
       let synth_username = ''sa_'' @ uuid_fmt E uid;
           synth_email = ''sa_'' @ uuid_fmt E uid @ ''@service-account.invalid'' in
       bindE (map_err (\<lambda>_. SaOther opaque) (stmt E (\<lambda>now d.
         map_sum id (Pair ()) (insert_user E
           (new_user uid synth_username synth_email ''!'' ServiceAccountKind now) d)))) (\<lambda>_.
       map_err sa_insert_error (stmt E (\<lambda>now d.
         let s = \<lparr> sa_user_id = uid, sa_organisation_id = ns_organisation_id req,
                   sa_name = ns_name req, sa_description = ns_description req,
                   sa_created_at = now, sa_created_by = ns_created_by req,
                   sa_last_used_at = None \<rparr> in
         map_sum id (Pair s) (insert_service_account s d))))))"

definition find_sa :: "uuid \<Rightarrow> uuid \<Rightarrow> db \<Rightarrow> service_account option" where
  "find_sa oid sa d =
     find (\<lambda>s. sa_organisation_id s = oid \<and> sa_user_id s = sa) (service_accounts d)"

definition sa_find :: "env \<Rightarrow> uuid \<Rightarrow> uuid \<Rightarrow> (anyhow, service_account option) action" where
  "sa_find E oid sa = map_err (\<lambda>_. opaque) (query E (\<lambda>_. find_sa oid sa))"

definition sa_cursor_key :: "service_account \<Rightarrow> cursor" where
  "sa_cursor_key s = (sa_created_at s, sa_user_id s)"

definition sa_list ::
    "env \<Rightarrow> uuid \<Rightarrow> u32 \<Rightarrow> cursor option \<Rightarrow> (anyhow, service_account list) action" where
  "sa_list E oid limit after =
     map_err (\<lambda>_. opaque) (query E (\<lambda>_ d.
       keyset_asc sa_cursor_key after (unat limit)
         (filter (\<lambda>s. sa_organisation_id s = oid) (service_accounts d))))"

definition sa_delete :: "env \<Rightarrow> uuid \<Rightarrow> uuid \<Rightarrow> (anyhow, bool) action" where
  "sa_delete E oid sa =
     bindE (map_err (\<lambda>_. opaque) (query E (\<lambda>_. find_sa oid sa))) (\<lambda>found.
     if found = None then ret False
     else
       bindE (map_err (\<lambda>_. opaque) (stmt E (\<lambda>_. delete_sa_user sa))) (\<lambda>n.
       ret (n > 0)))"

definition stale :: "datetime \<Rightarrow> datetime option \<Rightarrow> bool" where
  "stale now last_used \<longleftrightarrow> (case last_used of None \<Rightarrow> True | Some t \<Rightarrow> t < now - seconds 60)"

definition sa_touch_last_used :: "env \<Rightarrow> uuid \<Rightarrow> (anyhow, unit) action" where
  "sa_touch_last_used E sa =
     map_err (\<lambda>_. opaque) (stmt E (\<lambda>now d. Ok ((), d\<lparr>service_accounts :=
       map (\<lambda>s. if sa_user_id s = sa \<and> stale now (sa_last_used_at s)
                then s\<lparr>sa_last_used_at := Some now\<rparr> else s) (service_accounts d)\<rparr>)))"

section \<open>API keys\<close>

record new_api_key_row =
  nk_id :: uuid
  nk_sa :: uuid
  nk_prefix :: string
  nk_secret_hash :: string
  nk_name :: string
  nk_scopes :: "string list option"
  nk_created_by :: uuid

datatype api_key_repo_error = DuplicatePrefix | KeyOther anyhow

definition key_insert_error :: "sqlx_error \<Rightarrow> api_key_repo_error" where
  "key_insert_error e =
     (case e of
        Database code _ \<Rightarrow> if code = ''23505'' then DuplicatePrefix else KeyOther opaque
      | OtherSqlx \<Rightarrow> KeyOther opaque)"

definition key_row :: "new_api_key_row \<Rightarrow> datetime \<Rightarrow> api_key_row" where
  "key_row new now =
     \<lparr> kr_key = \<lparr> k_id = nk_id new, k_sa = nk_sa new, k_prefix = nk_prefix new,
         k_name = nk_name new, k_scopes = nk_scopes new, k_created_at = now,
         k_created_by = nk_created_by new, k_last_used_at = None, k_revoked_at = None \<rparr>,
       kr_secret_hash = nk_secret_hash new \<rparr>"

definition insert_key :: "env \<Rightarrow> new_api_key_row \<Rightarrow> (api_key_repo_error, api_key) action" where
  "insert_key E new =
     map_err key_insert_error (stmt E (\<lambda>now d.
       map_sum id (Pair (kr_key (key_row new now))) (insert_api_key (key_row new now) d)))"

definition keys_create :: "env \<Rightarrow> new_api_key_row \<Rightarrow> (api_key_repo_error, api_key) action" where
  "keys_create E req =
     bindE (map_err (\<lambda>_. KeyOther opaque) (control E)) (\<lambda>_. insert_key E req)"

definition active_by_prefix :: "string \<Rightarrow> db \<Rightarrow> (api_key_row \<times> uuid) option" where
  "active_by_prefix prefix d =
     (case find (\<lambda>k. kr_prefix k = prefix \<and> k_revoked_at (kr_key k) = None \<and>
              key_in sa_user_id (service_accounts d) (kr_sa k)) (api_keys d) of
        None \<Rightarrow> None
      | Some k \<Rightarrow>
          map_option (\<lambda>s. (k, sa_organisation_id s))
            (find (\<lambda>s. sa_user_id s = kr_sa k) (service_accounts d)))"

definition find_active_by_prefix :: "env \<Rightarrow> string \<Rightarrow> (anyhow, (api_key_row \<times> uuid) option) action" where
  "find_active_by_prefix E prefix = map_err (\<lambda>_. opaque) (query E (\<lambda>_. active_by_prefix prefix))"

definition keys_find :: "env \<Rightarrow> uuid \<Rightarrow> uuid \<Rightarrow> (anyhow, api_key option) action" where
  "keys_find E sa key_id =
     map_err (\<lambda>_. opaque) (query E (\<lambda>_ d.
       map_option kr_key (find (\<lambda>k. kr_id k = key_id \<and> kr_sa k = sa) (api_keys d))))"

definition list_by_sa :: "env \<Rightarrow> uuid \<Rightarrow> (anyhow, api_key list) action" where
  "list_by_sa E sa =
     map_err (\<lambda>_. opaque) (query E (\<lambda>_ d.
       sort_key (\<lambda>k. (k_created_at k, k_id k))
         (map kr_key (filter (\<lambda>k. kr_sa k = sa) (api_keys d)))))"

definition revoke_rows :: "(api_key_row \<Rightarrow> bool) \<Rightarrow> datetime \<Rightarrow> api_key_row list \<Rightarrow> api_key_row list" where
  "revoke_rows P now ks =
     map (\<lambda>k. if P k \<and> k_revoked_at (kr_key k) = None
              then k\<lparr>kr_key := (kr_key k)\<lparr>k_revoked_at := Some now\<rparr>\<rparr> else k) ks"

definition keys_revoke :: "env \<Rightarrow> uuid \<Rightarrow> uuid \<Rightarrow> (anyhow, bool) action" where
  "keys_revoke E sa key_id =
     map_err (\<lambda>_. opaque) (stmt E (\<lambda>now d.
       let P = (\<lambda>k. kr_id k = key_id \<and> kr_sa k = sa) in
       Ok (list_ex (\<lambda>k. P k \<and> k_revoked_at (kr_key k) = None) (api_keys d),
           d\<lparr>api_keys := revoke_rows P now (api_keys d)\<rparr>)))"

definition keys_touch_last_used :: "env \<Rightarrow> uuid \<Rightarrow> (anyhow, unit) action" where
  "keys_touch_last_used E key_id =
     map_err (\<lambda>_. opaque) (stmt E (\<lambda>now d. Ok ((), d\<lparr>api_keys :=
       map (\<lambda>k. if kr_id k = key_id \<and> stale now (k_last_used_at (kr_key k))
                then k\<lparr>kr_key := (kr_key k)\<lparr>k_last_used_at := Some now\<rparr>\<rparr> else k) (api_keys d)\<rparr>)))"

definition keys_rotate ::
    "env \<Rightarrow> uuid \<Rightarrow> new_api_key_row \<Rightarrow> (api_key_repo_error, api_key) action" where
  "keys_rotate E old_key_id new =
     in_tx E (\<lambda>_. KeyOther opaque) (
       bindE (map_err (\<lambda>_. KeyOther opaque) (stmt E (\<lambda>now d.
         Ok ((), d\<lparr>api_keys := revoke_rows (\<lambda>k. kr_id k = old_key_id) now (api_keys d)\<rparr>)))) (\<lambda>_.
       insert_key E new))"

section \<open>The verifier of the auth layer\<close>

record verified_key =
  vk_key_id :: uuid
  vk_sa_user_id :: uuid
  vk_organisation_id :: uuid
  vk_scopes :: "string list option"

definition pg_verify :: "env \<Rightarrow> string \<Rightarrow> string \<Rightarrow> (anyhow, verified_key option) action" where
  "pg_verify E prefix secret =
     bindE (find_active_by_prefix E prefix) (\<lambda>row.
     case row of
       None \<Rightarrow> ret None
     | Some (k, oid) \<Rightarrow>
         bindE (verify_secret E secret (kr_secret_hash k)) (\<lambda>good.
         if \<not> good then ret None
         else ret (Some \<lparr> vk_key_id = kr_id k, vk_sa_user_id = kr_sa k, vk_organisation_id = oid,
                          vk_scopes = k_scopes (kr_key k) \<rparr>)))"

definition pg_touch_last_used :: "env \<Rightarrow> uuid \<Rightarrow> uuid \<Rightarrow> ('e, unit) action" where
  "pg_touch_last_used E key_id sa =
     matchE (keys_touch_last_used E key_id) (\<lambda>_.
     matchE (sa_touch_last_used E sa) (\<lambda>_.
     ret ()))"

end
