(* ===== verification/Middleware.thy ===== *)
theory Middleware
  imports Features SecurityStore
begin

text \<open>
  The authentication layer (\<^verbatim>\<open>src/auth/middleware.rs\<close>). As in the code the layer is written
  against four strategy objects (permission loader, revocation checker, API-key verifier,
  feature evaluator); \<open>strategies\<close> is the record of their methods and \<open>pg_strategies\<close> the
  production wiring. A request either gets a response at once (a problem document or the bare
  500) or is forwarded with its extensions filled in; the fire-and-forget \<^verbatim>\<open>touch_last_used\<close>
  task is part of the outcome.

  The locale \<open>auth_strategies\<close> states what the layer relies on in each strategy and proves
  once what a forwarded request carries; it is interpreted on \<open>pg_strategies\<close>.
\<close>

section \<open>Strategies\<close>

datatype header_source = XApiKey | AuthorizationBearer

fun source_slug :: "header_source \<Rightarrow> string" where
  "source_slug XApiKey = ''x-api-key''"
| "source_slug AuthorizationBearer = ''authorization-bearer''"

record strategies =
  st_load :: "uuid \<Rightarrow> uuid \<Rightarrow> (anyhow, string list) action"
  st_is_revoked :: "uuid \<Rightarrow> (anyhow, bool) action"
  st_verify :: "string \<Rightarrow> string \<Rightarrow> (anyhow, verified_key option) action"
  st_touch_last_used :: "uuid \<Rightarrow> uuid \<Rightarrow> (anyhow, unit) action"
  st_evaluate :: "uuid \<Rightarrow> string \<Rightarrow> (evaluate_error, json) action"

text \<open>\<^verbatim>\<open>PgPermissionLoader\<close>: the distinct codes of the permissions of the user's roles there.\<close>

definition granted_codes :: "db \<Rightarrow> uuid \<Rightarrow> uuid \<Rightarrow> string list" where
  "granted_codes d uid oid =
     remdups (concat (map (\<lambda>m. concat (map (\<lambda>rp.
         map snd (filter (\<lambda>p. fst p = snd rp) (permissions d)))
       (filter (\<lambda>rp. fst rp = m_role m) (role_permissions d))))
     (filter (\<lambda>m. m_user m = uid \<and> m_org m = oid) (memberships d))))"

definition pg_load :: "env \<Rightarrow> uuid \<Rightarrow> uuid \<Rightarrow> (anyhow, string list) action" where
  "pg_load E uid oid = map_err (\<lambda>_. opaque) (query E (\<lambda>_ d. granted_codes d uid oid))"

definition static_load :: "string list \<Rightarrow> uuid \<Rightarrow> uuid \<Rightarrow> (anyhow, string list) action" where
  "static_load codes uid oid = ret codes"

definition pg_is_revoked :: "env \<Rightarrow> uuid \<Rightarrow> (anyhow, bool) action" where
  "pg_is_revoked E jti = map_err (\<lambda>_. opaque) (query E (revoked jti))"

definition no_revocation :: "uuid \<Rightarrow> (anyhow, bool) action" where
  "no_revocation jti = ret False"

definition no_api_key_verify :: "string \<Rightarrow> string \<Rightarrow> (anyhow, verified_key option) action" where
  "no_api_key_verify prefix secret = ret None"

definition pg_strategies :: "env \<Rightarrow> datetime \<Rightarrow> strategies" where
  "pg_strategies E ttl =
     \<lparr> st_load = pg_load E, st_is_revoked = pg_is_revoked E, st_verify = pg_verify E,
       st_touch_last_used = pg_touch_last_used E, st_evaluate = evaluate E ttl \<rparr>"

section \<open>Requests\<close>

text \<open>Header names are lower case; \<^verbatim>\<open>HeaderMap::get\<close> returns the first value of a name.\<close>

record request =
  rq_headers :: "(string \<times> string) list"
  rq_extensions :: extensions

definition header_get :: "request \<Rightarrow> string \<Rightarrow> string option" where
  "header_get rq name = map_option snd (find (\<lambda>h. fst h = name) (rq_headers rq))"

text \<open>\<^verbatim>\<open>HeaderValue::to_str\<close> accepts visible ASCII and the tab only.\<close>

definition to_str :: "string \<Rightarrow> string option" where
  "to_str v =
     (if list_all (\<lambda>c. (32 \<le> byte c \<and> byte c < 127) \<or> byte c = 9) v then Some v else None)"

definition credential :: "request \<Rightarrow> (string \<times> header_source) option" where
  "credential rq =
     (case Option.bind (header_get rq ''x-api-key'') to_str of
        Some t \<Rightarrow> Some (t, XApiKey)
      | None \<Rightarrow>
          (case Option.bind (Option.bind (header_get rq ''authorization'') to_str)
                  (strip_prefix ''Bearer '') of
             Some t \<Rightarrow> Some (t, AuthorizationBearer)
           | None \<Rightarrow> None))"

section \<open>The layer\<close>

datatype auth_outcome =
    Rejected app_error
  | ServerError
  | Forward extensions "(uuid \<times> uuid) option"

definition API_KEY_HEADERS :: string where
  "API_KEY_HEADERS = ''auth.api_key_headers''"

definition synth_claims :: "string \<Rightarrow> verified_key \<Rightarrow> int \<Rightarrow> claims" where
  "synth_claims issuer v now =
     \<lparr> cl_sub = vk_sa_user_id v, cl_org = vk_organisation_id v, cl_iat = now,
       cl_exp = now + 365 * 24 * 3600, cl_jti = xor (vk_key_id v) 0xA1A1A1A1,
       cl_iss = issuer, cl_typ = ''access'' \<rparr>"

definition effective_permissions :: "string list \<Rightarrow> string list option \<Rightarrow> permission_set" where
  "effective_permissions codes scopes =
     (case scopes of
        None \<Rightarrow> from_codes codes
      | Some s \<Rightarrow> intersect (from_codes codes) s)"

definition handle_api_key ::
    "strategies \<Rightarrow> string \<Rightarrow> string \<Rightarrow> string \<Rightarrow> header_source \<Rightarrow> extensions \<Rightarrow>
     (unit, auth_outcome) action" where
  "handle_api_key st issuer prefix secret src x =
     matchE (st_verify st prefix secret) (\<lambda>verified.
     case verified of
       Err _ \<Rightarrow> ret ServerError
     | Ok None \<Rightarrow> ret (Rejected (Unauthenticated ''invalid_api_key''))
     | Ok (Some v) \<Rightarrow>
     matchE (st_evaluate st (vk_organisation_id v) API_KEY_HEADERS) (\<lambda>flag.
     case flag of
       Err _ \<Rightarrow> ret ServerError
     | Ok allowlist_value \<Rightarrow>
     (case as_array allowlist_value of
       None \<Rightarrow> ret ServerError
     | Some arr \<Rightarrow>
     let allowed = List.map_filter as_str arr in
     if \<not> list_ex (\<lambda>h. h = source_slug src) allowed then
       ret (Rejected (Unauthenticated (''api_key_header_not_allowed:'' @ source_slug src)))
     else
     matchE (st_load st (vk_sa_user_id v) (vk_organisation_id v)) (\<lambda>codes.
     case codes of
       Err _ \<Rightarrow> ret ServerError
     | Ok cs \<Rightarrow>
     bindE utc_now (\<lambda>t.
     ret (Forward
       (x\<lparr> ext_claims := Some (synth_claims issuer v (timestamp t)),
           ext_perms := Some (effective_permissions cs (vk_scopes v)),
           ext_caller := Some (ApiKeyCaller (vk_key_id v) (vk_sa_user_id v) (vk_organisation_id v)) \<rparr>)
       (Some (vk_key_id v, vk_sa_user_id v))))))))"

definition handle_jwt ::
    "env \<Rightarrow> strategies \<Rightarrow> string \<Rightarrow> string \<Rightarrow> string \<Rightarrow> extensions \<Rightarrow> (unit, auth_outcome) action" where
  "handle_jwt E st secret issuer token x =
     bindE utc_now (\<lambda>t.
     case decode_access_token E secret issuer (timestamp t) token of
       Err _ \<Rightarrow> ret (Rejected (Unauthenticated ''invalid_token''))
     | Ok c \<Rightarrow>
     matchE (st_is_revoked st (cl_jti c)) (\<lambda>rev.
     case rev of
       Err _ \<Rightarrow> ret ServerError
     | Ok True \<Rightarrow> ret (Rejected (Unauthenticated ''token_revoked''))
     | Ok False \<Rightarrow>
     matchE (st_load st (cl_sub c) (cl_org c)) (\<lambda>codes.
     case codes of
       Err _ \<Rightarrow> ret ServerError
     | Ok cs \<Rightarrow>
     ret (Forward
       (x\<lparr> ext_claims := Some c, ext_perms := Some (from_codes cs),
           ext_caller := Some (UserCaller (cl_sub c) (cl_org c) (cl_jti c)) \<rparr>) None))))"

definition auth_call ::
    "env \<Rightarrow> strategies \<Rightarrow> string \<Rightarrow> string \<Rightarrow> request \<Rightarrow> (unit, auth_outcome) action" where
  "auth_call E st secret issuer rq =
     (case credential rq of
        None \<Rightarrow> ret (Rejected (Unauthenticated ''missing_credentials''))
      | Some (token, XApiKey) \<Rightarrow>
          (case parse token of
             None \<Rightarrow> ret (Rejected (Unauthenticated ''invalid_api_key''))
           | Some p \<Rightarrow>
               handle_api_key st issuer (p_prefix p) (p_secret p) XApiKey (rq_extensions rq))
      | Some (token, AuthorizationBearer) \<Rightarrow>
          (case parse token of
             Some p \<Rightarrow>
               handle_api_key st issuer (p_prefix p) (p_secret p) AuthorizationBearer (rq_extensions rq)
           | None \<Rightarrow> handle_jwt E st secret issuer token (rq_extensions rq)))"

section \<open>What a forwarded request carries\<close>

text \<open>
  The layer relies on each strategy only through these laws: it answers from the tables as
  they are, and changes neither tables nor clock.
\<close>

definition answers :: "(world \<Rightarrow> bool) \<Rightarrow> ('e, 'a) action \<Rightarrow> (world \<Rightarrow> 'a \<Rightarrow> bool) \<Rightarrow> bool" where
  "answers okw m ans \<longleftrightarrow>
     (\<forall>w r w'. okw w \<longrightarrow> m w = (r, w') \<longrightarrow>
        okw w' \<and> w_db w' = w_db w \<and> w_now w' = w_now w \<and> (\<forall>a. r = Ok a \<longrightarrow> ans w a))"

lemma answersD:
  assumes "answers okw m ans" and "okw w" and "m w = (r, w')"
  shows "okw w'" "w_db w' = w_db w" "w_now w' = w_now w" "r = Ok a \<Longrightarrow> ans w a"
  using assms unfolding answers_def by blast+

locale auth_strategies =
  fixes st :: strategies
    and okw :: "world \<Rightarrow> bool"
    and perms_of :: "db \<Rightarrow> uuid \<Rightarrow> uuid \<Rightarrow> permission_set"
    and revoked_at :: "db \<Rightarrow> datetime \<Rightarrow> uuid \<Rightarrow> bool"
    and key_of :: "db \<Rightarrow> string \<Rightarrow> string \<Rightarrow> verified_key option"
    and flag_of :: "db \<Rightarrow> uuid \<Rightarrow> string \<Rightarrow> json option"
  assumes load: "answers okw (st_load st uid oid) (\<lambda>w cs. set cs = perms_of (w_db w) uid oid)"
    and is_revoked: "answers okw (st_is_revoked st jti) (\<lambda>w b. b = revoked_at (w_db w) (w_now w) jti)"
    and verify: "answers okw (st_verify st prefix secret) (\<lambda>w v. v = key_of (w_db w) prefix secret)"
    and evaluate: "answers okw (st_evaluate st oid slg) (\<lambda>w j. flag_of (w_db w) oid slg = Some j)"
begin

lemma handle_api_key_forward:
  assumes "okw w" and "handle_api_key st issuer prefix secret src x w = (r, w')"
    and fwd: "r = Ok (Forward x' touch)"
  shows "\<exists>v arr. key_of (w_db w) prefix secret = Some v \<and>
     flag_of (w_db w) (vk_organisation_id v) API_KEY_HEADERS = Some (JArray arr) \<and>
     JString (source_slug src) \<in> set arr \<and>
     ext_claims x' = Some (synth_claims issuer v (timestamp (w_now w))) \<and>
     ext_caller x' = Some (ApiKeyCaller (vk_key_id v) (vk_sa_user_id v) (vk_organisation_id v)) \<and>
     ext_perms x' = Some (perms_of (w_db w) (vk_sa_user_id v) (vk_organisation_id v) \<inter>
       (case vk_scopes v of None \<Rightarrow> UNIV | Some s \<Rightarrow> set s)) \<and>
     touch = Some (vk_key_id v, vk_sa_user_id v)"
proof -
  from assms(2) fwd obtain v w1 val w2 arr cs w3 where
    v: "st_verify st prefix secret w = (Ok (Some v), w1)"
    and e: "st_evaluate st (vk_organisation_id v) API_KEY_HEADERS w1 = (Ok val, w2)"
    and arr: "as_array val = Some arr"
    and mem: "source_slug src \<in> set (List.map_filter as_str arr)"
    and l: "st_load st (vk_sa_user_id v) (vk_organisation_id v) w2 = (Ok cs, w3)"
    and x': "x' = x\<lparr> ext_claims := Some (synth_claims issuer v (timestamp (w_now w3))),
           ext_perms := Some (effective_permissions cs (vk_scopes v)),
           ext_caller := Some (ApiKeyCaller (vk_key_id v) (vk_sa_user_id v) (vk_organisation_id v)) \<rparr>"
    and t: "touch = Some (vk_key_id v, vk_sa_user_id v)"
    by (auto simp: handle_api_key_def matchE_def bindE_eq_Ok_iff utc_now_eq_iff list_ex_iff Let_def
        split: prod.split_asm sum.split_asm option.split_asm if_split_asm)
  note v' = answersD [OF verify assms(1) v]
  note e' = answersD [OF evaluate v'(1) e]
  note l' = answersD [OF load e'(1) l]
  have val: "val = JArray arr" using arr by (auto simp: as_array_def split: json.splits)
  have "JString (source_slug src) \<in> set arr"
    using mem by (auto simp: map_filter_def as_str_def split: json.splits)
  moreover have "effective_permissions cs (vk_scopes v) =
      perms_of (w_db w) (vk_sa_user_id v) (vk_organisation_id v) \<inter>
      (case vk_scopes v of None \<Rightarrow> UNIV | Some s \<Rightarrow> set s)"
    using v'(2) e'(2) l'(4) [OF refl]
    by (auto simp: effective_permissions_def from_codes_def intersect_eq split: option.splits)
  ultimately show ?thesis
    using v' e' l' x' t val by (intro exI [of _ v] exI [of _ arr]) auto
qed

lemma handle_jwt_forward:
  assumes "okw w" and "handle_jwt E st secret issuer token x w = (r, w')"
    and fwd: "r = Ok (Forward x' touch)"
  shows "\<exists>c. decode_access_token E secret issuer (timestamp (w_now w)) token = Ok c \<and>
     \<not> revoked_at (w_db w) (w_now w) (cl_jti c) \<and>
     ext_claims x' = Some c \<and> ext_perms x' = Some (perms_of (w_db w) (cl_sub c) (cl_org c)) \<and>
     ext_caller x' = Some (UserCaller (cl_sub c) (cl_org c) (cl_jti c)) \<and> touch = None"
proof -
  from assms(2) fwd obtain c w1 cs w2 where
    c: "decode_access_token E secret issuer (timestamp (w_now w)) token = Ok c"
    and rv: "st_is_revoked st (cl_jti c) w = (Ok False, w1)"
    and l: "st_load st (cl_sub c) (cl_org c) w1 = (Ok cs, w2)"
    and x': "x' = x\<lparr> ext_claims := Some c, ext_perms := Some (from_codes cs),
           ext_caller := Some (UserCaller (cl_sub c) (cl_org c) (cl_jti c)) \<rparr>" "touch = None"
    by (auto simp: handle_jwt_def matchE_def bindE_eq_Ok_iff utc_now_eq_iff
        split: prod.split_asm sum.split_asm bool.split_asm)
  note r' = answersD [OF is_revoked assms(1) rv]
  note l' = answersD [OF load r'(1) l]
  from c r' l' x' show ?thesis by (auto simp: from_codes_def)
qed

text \<open>Claims, permissions and caller of a forwarded request always name the same principal.\<close>

lemma forward_consistent:
  assumes "okw w" and "auth_call E st secret issuer rq w = (Ok (Forward x' touch), w')"
  shows "\<exists>c k p. ext_claims x' = Some c \<and> ext_caller x' = Some k \<and> ext_perms x' = Some p \<and>
     principal_user_id k = cl_sub c \<and> org_id k = cl_org c \<and> cl_typ c = ''access'' \<and>
     p \<subseteq> perms_of (w_db w) (cl_sub c) (cl_org c)"
proof -
  from assms(2) obtain token src where cred: "credential rq = Some (token, src)"
    by (auto simp: auth_call_def split: option.splits)
  show ?thesis
  proof (cases "parse token")
    case None
    with assms(2) cred have "handle_jwt E st secret issuer token (rq_extensions rq) w = (Ok (Forward x' touch), w')"
      by (auto simp: auth_call_def split: header_source.splits)
    from handle_jwt_forward [OF assms(1) this refl] show ?thesis
      by (auto simp: decode_access_token_Ok_iff principal_user_id_def org_id_def)
  next
    case (Some p)
    with assms(2) cred have "handle_api_key st issuer (p_prefix p) (p_secret p) src (rq_extensions rq) w =
        (Ok (Forward x' touch), w')"
      by (auto simp: auth_call_def split: header_source.splits)
    from handle_api_key_forward [OF assms(1) this refl] show ?thesis
      by (auto simp: synth_claims_def principal_user_id_def org_id_def)
  qed
qed

end

section \<open>The production wiring\<close>

definition key_of_db :: "env \<Rightarrow> db \<Rightarrow> string \<Rightarrow> string \<Rightarrow> verified_key option" where
  "key_of_db E d prefix secret =
     (case active_by_prefix prefix d of
        None \<Rightarrow> None
      | Some (k, oid) \<Rightarrow>
          if argon2_verify E secret (kr_secret_hash k) = Some True
          then Some \<lparr> vk_key_id = kr_id k, vk_sa_user_id = kr_sa k, vk_organisation_id = oid,
                      vk_scopes = k_scopes (kr_key k) \<rparr>
          else None)"

lemma query_answers:
  "(\<And>w. ans w (f (w_now w) (w_db w))) \<Longrightarrow>
   (\<And>w. okw w \<Longrightarrow> okw (w\<lparr>w_stmts := Suc (w_stmts w)\<rparr>)) \<Longrightarrow> answers okw (map_err g (query E f)) ans"
  by (auto simp: answers_def query_def stmt_def Let_def map_err_def split: if_splits prod.splits)

lemma coherent_stmts [simp]: "coherent (w\<lparr>w_stmts := n\<rparr>) = coherent w"
  by (simp add: coherent_def)

lemma pg_verify_answers:
  "answers coherent (pg_verify E prefix secret) (\<lambda>w v. v = key_of_db E (w_db w) prefix secret)"
  by (auto simp: answers_def pg_verify_def find_active_by_prefix_def verify_secret_def
      verify_password_def key_of_db_def bindE_def map_err_def query_def stmt_def Let_def ok_or_def
      split: if_splits prod.splits sum.splits option.splits)

lemma evaluate_answers:
  "answers coherent (evaluate E ttl oid slg) (\<lambda>w j. effective (w_db w) oid slg = Some j)"
proof -
  have now: "reads w_now (evaluate E ttl oid slg)"
    unfolding evaluate_def repo_value_def get_override_def get_definition_def Let_def
    by (intro reads_bindE reads_case_option reads_if reads_map_err reads_ret reads_fail)
      (auto simp: reads_def utc_now_def cache_get_def cache_insert_def query_def stmt_def Let_def
        bindE_def map_err_def split: option.splits prod.splits sum.splits if_splits)
  have err: "coherent w'" if "coherent w" "evaluate E ttl oid slg w = (Err e, w')" for w e w'
    using that
    by (auto simp: evaluate_def repo_value_def get_override_def get_definition_def cache_get_def
        cache_insert_def bindE_eq_Err_iff map_err_eq_Err_iff query_Err_iff action_ok_simps Let_def
        split: option.splits if_splits)
  show ?thesis
    unfolding answers_def
    using err evaluate_Ok readsD [OF reads_evaluate] readsD [OF now]
    by (metis sum.exhaust)
qed

interpretation pg: auth_strategies "pg_strategies E ttl" coherent
    "\<lambda>d uid oid. set (granted_codes d uid oid)" "\<lambda>d now jti. revoked jti now d"
    "key_of_db E" effective for E ttl
proof
  show "answers coherent (st_load (pg_strategies E ttl) uid oid)
      (\<lambda>w cs. set cs = set (granted_codes (w_db w) uid oid))" for uid oid
    by (simp add: pg_strategies_def pg_load_def query_answers)
  show "answers coherent (st_is_revoked (pg_strategies E ttl) jti)
      (\<lambda>w b. b = revoked jti (w_now w) (w_db w))" for jti
    by (simp add: pg_strategies_def pg_is_revoked_def query_answers)
  show "answers coherent (st_verify (pg_strategies E ttl) prefix secret)
      (\<lambda>w v. v = key_of_db E (w_db w) prefix secret)" for prefix secret
    by (simp add: pg_strategies_def pg_verify_answers)
  show "answers coherent (st_evaluate (pg_strategies E ttl) oid slg)
      (\<lambda>w j. effective (w_db w) oid slg = Some j)" for oid slg
    by (simp add: pg_strategies_def evaluate_answers)
qed

end
