(* ===== verification/Tenants.thy ===== *)
theory Tenants
  imports Middleware
begin

text \<open>
  The tenants component below its HTTP interface: the organisation, role and inbound-channel
  repositories (\<^verbatim>\<open>src/tenants/persistence/*_pg.rs\<close>) and the services of
  \<^verbatim>\<open>src/tenants/service\<close>.
\<close>

section \<open>The organisation repository\<close>

datatype repo_error =
    RepoDuplicateName string | RepoUnknownRoleCode string | RepoUnknownUser uuid
  | RepoDb sqlx_error | RepoNotFound | RepoNotMember | RepoLastOwner

definition map_org_insert_error :: "string \<Rightarrow> sqlx_error \<Rightarrow> repo_error" where
  "map_org_insert_error name e =
     (case e of
        Database code constr \<Rightarrow>
          if code = ''23505'' \<and> constr = ''organisations_name_key'' then RepoDuplicateName name
          else RepoDb e
      | OtherSqlx \<Rightarrow> RepoDb e)"

definition new_org :: "uuid \<Rightarrow> string \<Rightarrow> string \<Rightarrow> datetime \<Rightarrow> organisation" where
  "new_org oid name business now =
     \<lparr> o_id = oid, o_name = name, o_business = business, o_is_operator = False,
       o_created_at = now, o_updated_at = now \<rparr>"

definition insert_org_stmt ::
    "env \<Rightarrow> uuid \<Rightarrow> string \<Rightarrow> string \<Rightarrow> (repo_error, organisation) action" where
  "insert_org_stmt E oid name business =
     map_err (map_org_insert_error name) (stmt E (\<lambda>now d.
       let r = new_org oid name business now in map_sum id (Pair r) (insert_organisation r d)))"

definition org_create :: "env \<Rightarrow> string \<Rightarrow> string \<Rightarrow> (repo_error, organisation) action" where
  "org_create E name business =
     bindE (new_uuid E) (\<lambda>oid. insert_org_stmt E oid name business)"

definition owner_fk_error :: "uuid \<Rightarrow> sqlx_error \<Rightarrow> repo_error" where
  "owner_fk_error uid e =
     (case e of
        Database code constr \<Rightarrow>
          if code = ''23503'' \<and> constr = ''user_organisation_roles_user_id_fkey''
          then RepoUnknownUser uid else RepoDb e
      | OtherSqlx \<Rightarrow> RepoDb e)"

definition create_with_initial_owner ::
    "env \<Rightarrow> string \<Rightarrow> string \<Rightarrow> uuid \<Rightarrow> string \<Rightarrow> (repo_error, organisation) action" where
  "create_with_initial_owner E name business creator owner_role_code =
     in_tx E RepoDb (
       bindE (new_uuid E) (\<lambda>oid.
       bindE (insert_org_stmt E oid name business) (\<lambda>org.
       bindE (map_err RepoDb (query E (\<lambda>_. role_id_by_code owner_role_code))) (\<lambda>rid.
       bindE (lift (ok_or (RepoUnknownRoleCode owner_role_code) rid)) (\<lambda>role_id.
       bindE (map_err (owner_fk_error creator) (stmt E (\<lambda>now d.
         map_sum id (Pair ()) (insert_membership
           \<lparr> m_user = creator, m_org = o_id org, m_role = role_id, m_created_at = now \<rparr> d)))) (\<lambda>_.
       ret org))))))"

record organisation_summary =
  os_id :: uuid
  os_name :: string
  os_business :: string
  os_role_codes :: "string list"
  os_created_at :: datetime

definition org_summary :: "env \<Rightarrow> db \<Rightarrow> uuid \<Rightarrow> organisation \<Rightarrow> organisation_summary" where
  "org_summary E d uid org =
     \<lparr> os_id = o_id org, os_name = o_name org, os_business = o_business org,
       os_role_codes = role_codes_of E d
         (filter (\<lambda>m. m_user m = uid \<and> m_org m = o_id org) (memberships d)),
       os_created_at = o_created_at org \<rparr>"

definition orgs_of_user :: "env \<Rightarrow> db \<Rightarrow> uuid \<Rightarrow> organisation_summary list" where
  "orgs_of_user E d uid =
     map (org_summary E d uid)
       (filter (\<lambda>org. list_ex (\<lambda>m. m_user m = uid \<and> m_org m = o_id org) (memberships d))
         (organisations d))"

definition org_cursor_key :: "organisation_summary \<Rightarrow> cursor" where
  "org_cursor_key r = (os_created_at r, os_id r)"

definition list_for_user ::
    "env \<Rightarrow> uuid \<Rightarrow> cursor option \<Rightarrow> u32 \<Rightarrow> (repo_error, organisation_summary list) action" where
  "list_for_user E uid after limit =
     map_err RepoDb (query E (\<lambda>_ d.
       keyset_desc org_cursor_key after (unat limit) (orgs_of_user E d uid)))"

record member_summary =
  ms_user_id :: uuid
  ms_username :: string
  ms_email :: string
  ms_role_codes :: "string list"
  ms_joined_at :: datetime

definition member_row :: "env \<Rightarrow> db \<Rightarrow> uuid \<Rightarrow> user \<Rightarrow> member_summary" where
  "member_row E d oid u =
     (let ms = filter (\<lambda>m. m_user m = u_id u \<and> m_org m = oid) (memberships d) in
      \<lparr> ms_user_id = u_id u, ms_username = u_username u, ms_email = u_email u,
        ms_role_codes = role_codes_of E d ms, ms_joined_at = Min (set (map m_created_at ms)) \<rparr>)"

definition members_of_org :: "env \<Rightarrow> db \<Rightarrow> uuid \<Rightarrow> member_summary list" where
  "members_of_org E d oid =
     map (member_row E d oid)
       (filter (\<lambda>u. list_ex (\<lambda>m. m_user m = u_id u \<and> m_org m = oid) (memberships d)) (users d))"

definition member_cursor_key :: "member_summary \<Rightarrow> cursor" where
  "member_cursor_key r = (ms_joined_at r, ms_user_id r)"

definition list_members ::
    "env \<Rightarrow> uuid \<Rightarrow> cursor option \<Rightarrow> u32 \<Rightarrow> (repo_error, member_summary list) action" where
  "list_members E oid after limit =
     map_err RepoDb (query E (\<lambda>_ d.
       keyset_desc member_cursor_key after (unat limit) (members_of_org E d oid)))"

definition member :: "uuid \<Rightarrow> uuid \<Rightarrow> db \<Rightarrow> bool" where
  "member uid oid d \<longleftrightarrow> list_ex (\<lambda>m. m_user m = uid \<and> m_org m = oid) (memberships d)"

definition is_member :: "env \<Rightarrow> uuid \<Rightarrow> uuid \<Rightarrow> (repo_error, bool) action" where
  "is_member E uid oid = map_err RepoDb (query E (\<lambda>_. member uid oid))"

definition add_member_error :: "sqlx_error \<Rightarrow> repo_error" where
  "add_member_error e =
     (case e of
        Database code _ \<Rightarrow> if code = ''23503'' then RepoNotFound else RepoDb e
      | OtherSqlx \<Rightarrow> RepoDb e)"

definition add_member :: "env \<Rightarrow> uuid \<Rightarrow> uuid \<Rightarrow> string \<Rightarrow> (repo_error, unit) action" where
  "add_member E uid oid role_code =
     bindE (map_err RepoDb (query E (\<lambda>_. role_id_by_code role_code))) (\<lambda>rid.
     bindE (lift (ok_or (RepoUnknownRoleCode role_code) rid)) (\<lambda>role_id.
     map_err add_member_error (stmt E (\<lambda>now d.
       map_sum id (Pair ()) (insert_membership_if_new
         \<lparr> m_user = uid, m_org = oid, m_role = role_id, m_created_at = now \<rparr> d)))))"

definition owner_row :: "db \<Rightarrow> uuid \<Rightarrow> membership \<Rightarrow> bool" where
  "owner_row d oid m \<longleftrightarrow>
     m_org m = oid \<and> list_ex (\<lambda>r. r_id r = m_role m \<and> r_code r = ''org_owner'') (roles d)"

definition other_owners :: "uuid \<Rightarrow> uuid \<Rightarrow> db \<Rightarrow> nat" where
  "other_owners uid oid d =
     length (filter (\<lambda>m. owner_row d oid m \<and> m_user m \<noteq> uid) (memberships d))"

definition remove_member_checked :: "env \<Rightarrow> uuid \<Rightarrow> uuid \<Rightarrow> (repo_error, unit) action" where
  "remove_member_checked E uid oid =
     in_tx E RepoDb (
       bindE (map_err RepoDb (query E (\<lambda>_. member uid oid))) (\<lambda>is_mem.
       if \<not> is_mem then fail RepoNotMember
       else
         bindE (map_err RepoDb (query E (\<lambda>_. other_owners uid oid))) (\<lambda>others.
         bindE (map_err RepoDb (query E (\<lambda>_ d.
           list_ex (\<lambda>m. m_user m = uid \<and> owner_row d oid m) (memberships d)))) (\<lambda>target_is_owner.
         if target_is_owner \<and> others = 0 then fail RepoLastOwner
         else map_err RepoDb (stmt E (\<lambda>_ d. Ok ((), d\<lparr>memberships :=
           filter (\<lambda>m. \<not> (m_user m = uid \<and> m_org m = oid)) (memberships d)\<rparr>)))))))"

section \<open>The role repository\<close>

definition find_by_code :: "env \<Rightarrow> string \<Rightarrow> (repo_error, role option) action" where
  "find_by_code E code = map_err RepoDb (query E (\<lambda>_ d. find (\<lambda>r. r_code r = code) (roles d)))"

definition assign :: "env \<Rightarrow> uuid \<Rightarrow> uuid \<Rightarrow> uuid \<Rightarrow> (repo_error, unit) action" where
  "assign E uid oid role_id =
     map_err (owner_fk_error uid) (stmt E (\<lambda>now d.
       map_sum id (Pair ()) (insert_membership_if_new
         \<lparr> m_user = uid, m_org = oid, m_role = role_id, m_created_at = now \<rparr> d)))"

definition holds_role :: "uuid \<Rightarrow> uuid \<Rightarrow> uuid \<Rightarrow> db \<Rightarrow> bool" where
  "holds_role uid oid role_id d \<longleftrightarrow>
     list_ex (\<lambda>m. m_user m = uid \<and> m_org m = oid \<and> m_role m = role_id) (memberships d)"

definition has_role :: "env \<Rightarrow> uuid \<Rightarrow> uuid \<Rightarrow> uuid \<Rightarrow> (repo_error, bool) action" where
  "has_role E uid oid role_id = map_err RepoDb (query E (\<lambda>_. holds_role uid oid role_id))"

section \<open>The channel repository\<close>

datatype channel_repo_error = ChDuplicateName string | ChNotFound | ChDb sqlx_error

definition generate_api_key :: "env \<Rightarrow> (channel_repo_error, string) action" where
  "generate_api_key E =
     bindE (draw (\<lambda>n. random_bytes E n 32)) (\<lambda>bytes. ret (hex_encode E bytes))"

definition map_insert_error :: "string \<Rightarrow> sqlx_error \<Rightarrow> channel_repo_error" where
  "map_insert_error name e =
     (case e of
        Database code constr \<Rightarrow>
          if code = ''23505'' \<and> contains_str constr ''organisation_id_name''
          then ChDuplicateName name else ChDb e
      | OtherSqlx \<Rightarrow> ChDb e)"

definition channel_create ::
    "env \<Rightarrow> uuid \<Rightarrow> string \<Rightarrow> string option \<Rightarrow> channel_type \<Rightarrow> bool \<Rightarrow>
     (channel_repo_error, inbound_channel) action" where
  "channel_create E oid name description ctype is_active =
     bindE (new_uuid E) (\<lambda>cid.
     bindE (generate_api_key E) (\<lambda>api_key.
     map_err (map_insert_error name) (stmt E (\<lambda>now d.
       let c = \<lparr> c_id = cid, c_organisation_id = oid, c_name = name, c_description = description,
                 c_channel_type = ctype, c_api_key = api_key, c_is_active = is_active,
                 c_created_at = now, c_updated_at = now \<rparr> in
       map_sum id (Pair c) (insert_channel c d)))))"

definition channel_cursor_key :: "inbound_channel \<Rightarrow> cursor" where
  "channel_cursor_key c = (c_created_at c, c_id c)"

definition channels_of_org :: "uuid \<Rightarrow> db \<Rightarrow> inbound_channel list" where
  "channels_of_org oid d = filter (\<lambda>c. c_organisation_id c = oid) (channels d)"

definition channel_list ::
    "env \<Rightarrow> uuid \<Rightarrow> cursor option \<Rightarrow> u32 \<Rightarrow> (channel_repo_error, inbound_channel list) action" where
  "channel_list E oid after limit =
     map_err ChDb (query E (\<lambda>_ d.
       keyset_desc channel_cursor_key after (unat limit) (channels_of_org oid d)))"

definition find_channel :: "uuid \<Rightarrow> uuid \<Rightarrow> db \<Rightarrow> inbound_channel option" where
  "find_channel oid cid d = find (\<lambda>c. c_id c = cid \<and> c_organisation_id c = oid) (channels d)"

definition channel_get :: "env \<Rightarrow> uuid \<Rightarrow> uuid \<Rightarrow> (channel_repo_error, inbound_channel) action" where
  "channel_get E oid cid =
     bindE (map_err ChDb (query E (\<lambda>_. find_channel oid cid))) (\<lambda>row. lift (ok_or ChNotFound row))"

definition update_channel_row ::
    "uuid \<Rightarrow> uuid \<Rightarrow> (inbound_channel \<Rightarrow> inbound_channel) \<Rightarrow> db \<Rightarrow>
     sqlx_error + inbound_channel option \<times> db" where
  "update_channel_row oid cid f d =
     (case find_channel oid cid d of
        None \<Rightarrow> Ok (None, d)
      | Some c \<Rightarrow>
          if list_ex (\<lambda>x. c_id x \<noteq> cid \<and> channel_key x = channel_key (f c)) (channels d)
          then Err (unique_violation ''inbound_channels_organisation_id_name_key'')
          else Ok (Some (f c), d\<lparr>channels := map (\<lambda>x. if c_id x = cid then f x else x) (channels d)\<rparr>))"

definition channel_update ::
    "env \<Rightarrow> uuid \<Rightarrow> uuid \<Rightarrow> string \<Rightarrow> string option \<Rightarrow> channel_type \<Rightarrow> bool \<Rightarrow>
     (channel_repo_error, inbound_channel) action" where
  "channel_update E oid cid name description ctype is_active =
     bindE (map_err (map_insert_error name) (stmt E (\<lambda>now.
       update_channel_row oid cid (\<lambda>c. c\<lparr>c_name := name, c_description := description,
         c_channel_type := ctype, c_is_active := is_active, c_updated_at := now\<rparr>)))) (\<lambda>row.
     lift (ok_or ChNotFound row))"

definition channel_delete :: "env \<Rightarrow> uuid \<Rightarrow> uuid \<Rightarrow> (channel_repo_error, unit) action" where
  "channel_delete E oid cid =
     bindE (map_err ChDb (stmt E (\<lambda>_ d.
       let P = (\<lambda>c. c_id c = cid \<and> c_organisation_id c = oid) in
       Ok (length (filter P (channels d)),
           d\<lparr>channels := filter (\<lambda>c. \<not> P c) (channels d)\<rparr>)))) (\<lambda>n.
     if n = 0 then fail ChNotFound else ret ())"

section \<open>Services on organisations and members\<close>

record create_organisation_input =
  co_name :: string
  co_business :: string
  co_seed_creator_as_owner :: bool

record create_organisation_output =
  coo_id :: uuid
  coo_name :: string
  coo_business :: string
  coo_role_codes :: "string list"

datatype create_organisation_error =
    CoDuplicateName | CoInvalidName | CoInvalidBusiness | CoRepo repo_error | CoInternal anyhow

definition create_org_error :: "repo_error \<Rightarrow> create_organisation_error" where
  "create_org_error e = (case e of RepoDuplicateName _ \<Rightarrow> CoDuplicateName | _ \<Rightarrow> CoRepo e)"

definition create_organisation ::
    "env \<Rightarrow> uuid \<Rightarrow> uuid \<Rightarrow> create_organisation_input \<Rightarrow>
     (create_organisation_error, create_organisation_output) action" where
  "create_organisation E creator actor_org i =
     (let name = trim (co_name i); business = trim (co_business i) in
      if name = [] \<or> chars_count name > 120 then fail CoInvalidName
      else if business = [] \<or> chars_count business > 120 then fail CoInvalidBusiness
      else
        bindE (map_err create_org_error
          (if co_seed_creator_as_owner i
           then create_with_initial_owner E name business creator ''org_owner''
           else org_create E name business)) (\<lambda>org.
        bindE (audit E (\<lambda>eid now. organisation_created eid now creator actor_org (o_id org) name)) (\<lambda>_.
        ret \<lparr> coo_id = o_id org, coo_name = o_name org, coo_business = o_business org,
              coo_role_codes = (if co_seed_creator_as_owner i then [''org_owner''] else []) \<rparr>)))"

datatype list_my_orgs_error = LoInvalidCursor | LoRepo repo_error

definition decode_cursor :: "env \<Rightarrow> cursor_kind \<Rightarrow> 'e \<Rightarrow> string option \<Rightarrow> 'e + cursor option" where
  "decode_cursor E kind e raw =
     (case raw of
        None \<Rightarrow> Ok None
      | Some s \<Rightarrow> (case cursor_decode E kind s of None \<Rightarrow> Err e | Some c \<Rightarrow> Ok (Some c)))"

definition list_my_organisations ::
    "env \<Rightarrow> uuid \<Rightarrow> string option \<Rightarrow> u32 \<Rightarrow>
     (list_my_orgs_error, organisation_summary list \<times> string option) action" where
  "list_my_organisations E caller after lim =
     (let limit = clamp lim 1 100 in
      bindE (lift (decode_cursor E OrganisationCursor LoInvalidCursor after)) (\<lambda>c.
      bindE (map_err LoRepo (list_for_user E caller c (saturating_add limit 1))) (\<lambda>rows.
      let (items, nxt) = cut_page org_cursor_key (unat limit) rows in
      ret (items, map_option (cursor_encode E OrganisationCursor) nxt))))"

datatype list_members_error = LmNotFound | LmInvalidCursor | LmRepo repo_error

definition list_organisation_members ::
    "env \<Rightarrow> uuid \<Rightarrow> bool \<Rightarrow> uuid \<Rightarrow> string option \<Rightarrow> u32 \<Rightarrow>
     (list_members_error, member_summary list \<times> string option) action" where
  "list_organisation_members E caller is_operator oid after lim =
     (let limit = clamp lim 1 100 in
      bindE (lift (decode_cursor E MembershipCursor LmInvalidCursor after)) (\<lambda>c.
      bindE (if \<not> is_operator
             then bindE (map_err LmRepo (is_member E caller oid)) (\<lambda>mem.
                  if \<not> mem then fail LmNotFound else ret ())
             else ret ()) (\<lambda>_.
      bindE (map_err LmRepo (list_members E oid c (saturating_add limit 1))) (\<lambda>rows.
      let (items, nxt) = cut_page member_cursor_key (unat limit) rows in
      ret (items, map_option (cursor_encode E MembershipCursor) nxt)))))"

datatype add_user_error = AuNotFound | AuUnknownRoleCode | AuRepo repo_error | AuInternal anyhow

definition add_user_repo_error :: "repo_error \<Rightarrow> add_user_error" where
  "add_user_repo_error e =
     (case e of
        RepoNotFound \<Rightarrow> AuNotFound
      | RepoUnknownRoleCode _ \<Rightarrow> AuUnknownRoleCode
      | _ \<Rightarrow> AuRepo e)"

definition add_user_to_organisation ::
    "env \<Rightarrow> uuid \<Rightarrow> uuid \<Rightarrow> uuid \<Rightarrow> uuid \<Rightarrow> string \<Rightarrow> (add_user_error, unit) action" where
  "add_user_to_organisation E actor_user actor_org uid oid role_code =
     bindE (map_err add_user_repo_error (add_member E uid oid role_code)) (\<lambda>_.
     audit E (\<lambda>eid now. organisation_member_added eid now actor_user actor_org oid uid role_code))"

datatype remove_user_error = RuNotMember | RuLastOwner | RuRepo repo_error | RuInternal anyhow

definition remove_user_repo_error :: "repo_error \<Rightarrow> remove_user_error" where
  "remove_user_repo_error e =
     (case e of
        RepoNotMember \<Rightarrow> RuNotMember
      | RepoLastOwner \<Rightarrow> RuLastOwner
      | _ \<Rightarrow> RuRepo e)"

definition remove_user_from_organisation ::
    "env \<Rightarrow> uuid \<Rightarrow> uuid \<Rightarrow> uuid \<Rightarrow> uuid \<Rightarrow> (remove_user_error, unit) action" where
  "remove_user_from_organisation E actor_user actor_org uid oid =
     bindE (map_err remove_user_repo_error (remove_member_checked E uid oid)) (\<lambda>_.
     audit E (\<lambda>eid now. organisation_member_removed eid now actor_user actor_org oid uid))"

datatype assign_role_error =
    ArNotFound | ArUnknownRoleCode | ArUnknownUser | ArServiceAccountCrossOrgForbidden
  | ArRepo repo_error | ArInternal anyhow

definition assign_role ::
    "env \<Rightarrow> uuid \<Rightarrow> uuid \<Rightarrow> bool \<Rightarrow> uuid \<Rightarrow> uuid \<Rightarrow> string \<Rightarrow> (assign_role_error, bool) action" where
  "assign_role E act act_org is_operator oid target role_code =
     bindE (if \<not> is_operator
            then bindE (map_err ArRepo (is_member E act oid)) (\<lambda>mem.
                 if \<not> mem then fail ArNotFound else ret ())
            else ret ()) (\<lambda>_.
     bindE (map_err (\<lambda>_. ArInternal opaque) (find_by_id E target)) (\<lambda>target_user.
     bindE (case target_user of
              Some u \<Rightarrow>
                if u_kind u = ServiceAccountKind
                then bindE (map_err ArInternal (sa_find E oid target)) (\<lambda>sa.
                     if sa = None then fail ArServiceAccountCrossOrgForbidden else ret ())
                else ret ()
            | None \<Rightarrow> ret ()) (\<lambda>_.
     bindE (map_err ArRepo (find_by_code E role_code)) (\<lambda>found.
     bindE (lift (ok_or ArUnknownRoleCode found)) (\<lambda>role.
     bindE (map_err ArRepo (is_member E target oid)) (\<lambda>target_is_member.
     if \<not> target_is_member then fail ArUnknownUser
     else
       bindE (map_err ArRepo (has_role E target oid (r_id role))) (\<lambda>already.
       let was_new = \<not> already in
       bindE (map_err ArRepo (assign E target oid (r_id role))) (\<lambda>_.
       bindE (if was_new
              then audit E (\<lambda>eid now. organisation_role_assigned eid now act act_org oid target role_code)
              else ret ()) (\<lambda>_.
       ret was_new)))))))))"

section \<open>Services on channels\<close>

record channel_input =
  ci_name :: string
  ci_description :: "string option"
  ci_channel_type :: channel_type
  ci_is_active :: bool

datatype create_channel_error =
  CcDuplicateName | CcInvalidName | CcInvalidDescription | CcRepo channel_repo_error

definition create_channel_repo_error :: "channel_repo_error \<Rightarrow> create_channel_error" where
  "create_channel_repo_error e = (case e of ChDuplicateName _ \<Rightarrow> CcDuplicateName | _ \<Rightarrow> CcRepo e)"

definition create_inbound_channel ::
    "env \<Rightarrow> uuid \<Rightarrow> uuid \<Rightarrow> uuid \<Rightarrow> channel_input \<Rightarrow> (create_channel_error, inbound_channel) action" where
  "create_inbound_channel E actor_user actor_org oid i =
     (let name = trim (ci_name i) in
      if name = [] \<or> chars_count name > 120 then fail CcInvalidName
      else if (case ci_description i of None \<Rightarrow> False | Some t \<Rightarrow> chars_count t > 1000)
        then fail CcInvalidDescription
      else
        bindE (map_err create_channel_repo_error
          (channel_create E oid name (ci_description i) (ci_channel_type i) (ci_is_active i))) (\<lambda>ch.
        bindE (audit E (\<lambda>eid now. channel_created eid now actor_user actor_org (c_id ch)
          (c_organisation_id ch) (c_name ch))) (\<lambda>_.
        ret ch)))"

datatype update_channel_error =
  UcNotFound | UcDuplicateName | UcInvalidName | UcInvalidDescription | UcRepo channel_repo_error

definition update_channel_repo_error :: "channel_repo_error \<Rightarrow> update_channel_error" where
  "update_channel_repo_error e =
     (case e of
        ChNotFound \<Rightarrow> UcNotFound
      | ChDuplicateName _ \<Rightarrow> UcDuplicateName
      | _ \<Rightarrow> UcRepo e)"

definition update_inbound_channel ::
    "env \<Rightarrow> uuid \<Rightarrow> uuid \<Rightarrow> uuid \<Rightarrow> uuid \<Rightarrow> channel_input \<Rightarrow>
     (update_channel_error, inbound_channel) action" where
  "update_inbound_channel E actor_user actor_org oid cid i =
     (let name = trim (ci_name i) in
      if name = [] \<or> chars_count name > 120 then fail UcInvalidName
      else if (case ci_description i of None \<Rightarrow> False | Some t \<Rightarrow> chars_count t > 1000)
        then fail UcInvalidDescription
      else
        bindE (map_err update_channel_repo_error
          (channel_update E oid cid name (ci_description i) (ci_channel_type i) (ci_is_active i))) (\<lambda>ch.
        bindE (audit E (\<lambda>eid now. channel_updated eid now actor_user actor_org (c_id ch)
          (c_organisation_id ch) (c_name ch))) (\<lambda>_.
        ret ch)))"

datatype list_channels_error = LcInvalidCursor | LcRepo channel_repo_error

definition list_inbound_channels ::
    "env \<Rightarrow> uuid \<Rightarrow> string option \<Rightarrow> u32 \<Rightarrow>
     (list_channels_error, inbound_channel list \<times> string option) action" where
  "list_inbound_channels E oid after limit =
     bindE (lift (decode_cursor E ChannelCursor LcInvalidCursor after)) (\<lambda>c.
     bindE (map_err LcRepo (channel_list E oid c (limit + 1))) (\<lambda>rows.
     let (items, nxt) = cut_page channel_cursor_key (unat limit) rows in
     ret (items, map_option (cursor_encode E ChannelCursor) nxt)))"

datatype delete_channel_error = DcNotFound | DcRepo channel_repo_error

definition delete_channel_repo_error :: "channel_repo_error \<Rightarrow> delete_channel_error" where
  "delete_channel_repo_error e = (case e of ChNotFound \<Rightarrow> DcNotFound | _ \<Rightarrow> DcRepo e)"

definition delete_inbound_channel ::
    "env \<Rightarrow> uuid \<Rightarrow> uuid \<Rightarrow> uuid \<Rightarrow> uuid \<Rightarrow> (delete_channel_error, unit) action" where
  "delete_inbound_channel E actor_user actor_org oid cid =
     bindE (map_err delete_channel_repo_error (channel_delete E oid cid)) (\<lambda>_.
     audit E (\<lambda>eid now. channel_deleted eid now actor_user actor_org cid oid))"

datatype get_channel_error = GcNotFound | GcRepo channel_repo_error

definition get_channel_repo_error :: "channel_repo_error \<Rightarrow> get_channel_error" where
  "get_channel_repo_error e = (case e of ChNotFound \<Rightarrow> GcNotFound | _ \<Rightarrow> GcRepo e)"

definition get_inbound_channel ::
    "env \<Rightarrow> uuid \<Rightarrow> uuid \<Rightarrow> (get_channel_error, inbound_channel) action" where
  "get_inbound_channel E oid cid = map_err get_channel_repo_error (channel_get E oid cid)"

end
