(* ===== verification/Security.thy ===== *)
theory Security
  imports Tenants
begin

text \<open>
  The services of \<^verbatim>\<open>src/security/service\<close>: registration, login, logout, passwords, switching
  organisation, service accounts, API keys, the user listing and the bootstrap of the first
  administrator.
\<close>

section \<open>Registration\<close>

record register_user_input =
  ru_username :: string
  ru_email :: string
  ru_password :: string
  ru_target_org_id :: uuid
  ru_role_code :: string

datatype register_user_error =
    RgDuplicateUsername | RgDuplicateEmail | RgInvalidUsername | RgInvalidEmail
  | RgPasswordTooShort | RgPasswordTooLong | RgOrgNotFound | RgUnknownRoleCode
  | RgInternal anyhow

definition is_valid_email :: "string \<Rightarrow> bool" where
  "is_valid_email email =
     (if length email > 254 then False
      else case splitn 2 CHR ''@'' email of
          [local, domain] \<Rightarrow>
            local \<noteq> [] \<and> domain \<noteq> [] \<and> CHR ''.'' \<in> set domain \<and>
            last domain \<noteq> CHR ''.'' \<and> hd domain \<noteq> CHR ''.''
        | _ \<Rightarrow> False)"

fun register_repo_error :: "create_and_add_error \<Rightarrow> register_user_error" where
  "register_repo_error (AddDuplicateUsername _) = RgDuplicateUsername"
| "register_repo_error (AddDuplicateEmail _) = RgDuplicateEmail"
| "register_repo_error OrgNotFound = RgOrgNotFound"
| "register_repo_error (UnknownRoleCode _) = RgUnknownRoleCode"
| "register_repo_error (AddDb _) = RgInternal opaque"

definition register_user ::
    "env \<Rightarrow> uuid \<Rightarrow> uuid \<Rightarrow> register_user_input \<Rightarrow> (register_user_error, uuid) action" where
  "register_user E actor_user actor_org i =
     (let username = trim (ru_username i); email = to_lowercase E (trim (ru_email i)) in
      if username = [] \<or> length username > 64 then fail RgInvalidUsername
      else if \<not> is_valid_email email then fail RgInvalidEmail
      else if length (ru_password i) < 8 then fail RgPasswordTooShort
      else if length (ru_password i) > 128 then fail RgPasswordTooLong
      else
        bindE (map_err RgInternal (hash_password E (ru_password i))) (\<lambda>hash.
        bindE (map_err register_repo_error (create_and_add_to_org E username email hash
          (ru_target_org_id i) (ru_role_code i))) (\<lambda>user.
        bindE (audit E (\<lambda>eid now. user_registered_success eid now actor_user actor_org (u_id user)
          (ru_target_org_id i) (ru_role_code i))) (\<lambda>_.
        ret (u_id user)))))"

section \<open>Login and logout\<close>

record login_output =
  lo_token :: string
  lo_user_id :: uuid
  lo_active_org_id :: uuid
  lo_memberships :: "user_membership list"

datatype login_error = LgInvalidCredentials | LgNoOrganisation | LgInternal anyhow

text \<open>The opportunistic rehash: neither a failing hash nor a failing update is an error.\<close>

definition rehash :: "env \<Rightarrow> user \<Rightarrow> string \<Rightarrow> ('e, unit) action" where
  "rehash E user password =
     (if needs_rehash (u_password_hash user)
      then matchE (hash_password E password) (\<lambda>h.
           case h of
             Err _ \<Rightarrow> ret ()
           | Ok new_hash \<Rightarrow> matchE (update_password_hash E (u_id user) new_hash) (\<lambda>_. ret ()))
      else ret ())"

definition login ::
    "env \<Rightarrow> jwt_config \<Rightarrow> string \<Rightarrow> string \<Rightarrow> (login_error, login_output) action" where
  "login E jc username_or_email password =
     bindE (map_err (\<lambda>_. LgInternal opaque) (find_by_username_or_email E username_or_email)) (\<lambda>found.
     case found of
       None \<Rightarrow>
         bindE (audit E (\<lambda>eid now. login_failed eid now ''not_found'' username_or_email)) (\<lambda>_.
         fail LgInvalidCredentials)
     | Some user \<Rightarrow>
         bindE (map_err LgInternal (verify_password E password (u_password_hash user))) (\<lambda>good.
         if \<not> good then
           bindE (audit E (\<lambda>eid now. login_failed eid now ''bad_password'' username_or_email)) (\<lambda>_.
           fail LgInvalidCredentials)
         else
           bindE (rehash E user password) (\<lambda>_.
           bindE (map_err (\<lambda>_. LgInternal opaque) (list_memberships E (u_id user))) (\<lambda>mems.
           case mems of
             [] \<Rightarrow> fail LgNoOrganisation
           | m # _ \<Rightarrow>
               bindE (map_err LgInternal (encode_access_token E (jc_secret jc) (jc_issuer jc)
                 (u_id user) (um_org_id m) (jc_ttl_secs jc))) (\<lambda>token.
               bindE (audit E (\<lambda>eid now. login_success eid now (u_id user) (um_org_id m))) (\<lambda>_.
               ret \<lparr> lo_token = token, lo_user_id = u_id user, lo_active_org_id = um_org_id m,
                     lo_memberships = mems \<rparr>))))))"

datatype logout_error = LoInternal anyhow

definition logout :: "env \<Rightarrow> uuid \<Rightarrow> uuid \<Rightarrow> uuid \<Rightarrow> datetime \<Rightarrow> (logout_error, unit) action" where
  "logout E uid oid jti token_expires_at =
     bindE (map_err (\<lambda>_. LoInternal opaque) (tokens_revoke E jti uid token_expires_at)) (\<lambda>_.
     audit E (\<lambda>eid now. logout_event eid now uid oid jti))"

section \<open>Passwords\<close>

datatype change_password_error =
  CpWrongCurrentPassword | CpPasswordTooShort | CpUserNotFound | CpInternal anyhow

definition change_password ::
    "env \<Rightarrow> uuid \<Rightarrow> string \<Rightarrow> string \<Rightarrow> (change_password_error, unit) action" where
  "change_password E uid current_password new_password =
     (if length new_password < 8 then fail CpPasswordTooShort
      else
        bindE (map_err (\<lambda>_. CpInternal opaque) (find_by_id E uid)) (\<lambda>found.
        bindE (lift (ok_or CpUserNotFound found)) (\<lambda>user.
        bindE (map_err CpInternal (verify_password E current_password (u_password_hash user))) (\<lambda>good.
        if \<not> good then fail CpWrongCurrentPassword
        else
          bindE (map_err CpInternal (hash_password E new_password)) (\<lambda>new_hash.
          bindE (map_err (\<lambda>_. CpInternal opaque) (update_password_hash E uid new_hash)) (\<lambda>_.
          audit E (\<lambda>eid now. password_changed eid now uid)))))))"

datatype switch_org_error = SwNotMember | SwInternal anyhow

definition switch_org ::
    "env \<Rightarrow> jwt_config \<Rightarrow> uuid \<Rightarrow> uuid \<Rightarrow> uuid \<Rightarrow> (switch_org_error, string) action" where
  "switch_org E jc uid current_org target_org =
     bindE (map_err (\<lambda>_. SwInternal opaque) (is_member E uid target_org)) (\<lambda>mem.
     if \<not> mem then fail SwNotMember
     else
       bindE (map_err SwInternal (encode_access_token E (jc_secret jc) (jc_issuer jc) uid target_org
         (jc_ttl_secs jc))) (\<lambda>token.
       bindE (audit E (\<lambda>eid now. session_switched_org eid now uid current_org target_org)) (\<lambda>_.
       ret token)))"

datatype password_reset_request_error = PrInternal anyhow

text \<open>
  The returned value is what the code logs: the raw token of the reset link, or \<open>None\<close> when
  there is no such user. The HTTP answer is the same in both cases.
\<close>

definition password_reset_request ::
    "env \<Rightarrow> int \<Rightarrow> string \<Rightarrow> (password_reset_request_error, string option) action" where
  "password_reset_request E ttl_secs email =
     bindE (map_err (\<lambda>_. PrInternal opaque) (find_by_username_or_email E email)) (\<lambda>found.
     case found of
       None \<Rightarrow> ret None
     | Some user \<Rightarrow>
         bindE (draw (\<lambda>n. random_bytes E n 32)) (\<lambda>raw_bytes.
         let raw_hex = hex_encode E raw_bytes;
             token_hash = hex_encode E (sha256 E raw_bytes) in
         bindE utc_now (\<lambda>now.
         bindE (map_err (\<lambda>_. PrInternal opaque)
           (tokens_insert E (u_id user) token_hash (now + seconds ttl_secs))) (\<lambda>_.
         bindE (audit E (\<lambda>eid t. password_reset_requested eid t email)) (\<lambda>_.
         ret (Some raw_hex))))))"

datatype password_reset_confirm_error = PcInvalidToken | PcPasswordTooShort | PcInternal anyhow

definition password_reset_confirm ::
    "env \<Rightarrow> string \<Rightarrow> string \<Rightarrow> (password_reset_confirm_error, unit) action" where
  "password_reset_confirm E raw_token new_password =
     (if length new_password < 8 then fail PcPasswordTooShort
      else
        bindE (lift (ok_or PcInvalidToken (hex_decode E raw_token))) (\<lambda>raw_bytes.
        let token_hash = hex_encode E (sha256 E raw_bytes) in
        bindE (map_err (\<lambda>_. PcInternal opaque) (find_valid E token_hash)) (\<lambda>found.
        case found of
          None \<Rightarrow>
            bindE (audit E (\<lambda>eid now. password_reset_confirmed eid now None Failure
              (Some ''invalid_token''))) (\<lambda>_.
            fail PcInvalidToken)
        | Some token \<Rightarrow>
            bindE (map_err PcInternal (hash_password E new_password)) (\<lambda>new_hash.
            bindE (map_err (\<lambda>_. PcInternal opaque)
              (update_password_hash E (t_user_id token) new_hash)) (\<lambda>_.
            bindE (map_err (\<lambda>_. PcInternal opaque) (consume E (t_id token))) (\<lambda>_.
            audit E (\<lambda>eid now. password_reset_confirmed eid now (Some (t_user_id token)) Success
              None)))))))"

section \<open>Service accounts\<close>

datatype create_sa_error = CsDuplicateName | CsOther anyhow

fun create_sa_repo_error :: "service_account_repo_error \<Rightarrow> create_sa_error" where
  "create_sa_repo_error DuplicateName = CsDuplicateName"
| "create_sa_repo_error (SaOther e) = CsOther e"

definition create_service_account ::
    "env \<Rightarrow> uuid \<Rightarrow> string \<Rightarrow> string option \<Rightarrow> uuid \<Rightarrow> uuid \<Rightarrow> (create_sa_error, service_account) action" where
  "create_service_account E oid name description actor_user actor_org =
     bindE (map_err create_sa_repo_error (sa_create E
       \<lparr> ns_organisation_id = oid, ns_name = name, ns_description = description,
         ns_created_by = actor_user \<rparr>)) (\<lambda>sa.
     bindE (audit E (\<lambda>eid now. service_account_created eid now actor_user actor_org
       (sa_user_id sa) oid name)) (\<lambda>_.
     ret sa))"

datatype delete_sa_error = DsNotFound | DsOther anyhow

definition delete_service_account ::
    "env \<Rightarrow> uuid \<Rightarrow> uuid \<Rightarrow> uuid \<Rightarrow> uuid \<Rightarrow> (delete_sa_error, unit) action" where
  "delete_service_account E oid sa actor_user actor_org =
     bindE (map_err DsOther (sa_delete E oid sa)) (\<lambda>removed.
     if \<not> removed then fail DsNotFound
     else audit E (\<lambda>eid now. service_account_deleted eid now actor_user actor_org sa oid))"

text \<open>
  The extra row is popped off and its own key becomes the cursor.
\<close>

definition list_service_accounts ::
    "env \<Rightarrow> uuid \<Rightarrow> u32 \<Rightarrow> cursor option \<Rightarrow> (anyhow, service_account list \<times> cursor option) action" where
  "list_service_accounts E oid lim after =
     (let limit = clamp lim 1 200 in
      bindE (sa_list E oid (limit + 1) after) (\<lambda>items.
      ret (if unat limit < length items
           then (butlast items, Some (sa_cursor_key (last items)))
           else (items, None))))"

section \<open>API keys\<close>

record api_key_material =
  am_key :: api_key
  am_plaintext :: string

record create_api_key_input =
  ck_organisation_id :: uuid
  ck_sa_user_id :: uuid
  ck_name :: string
  ck_scopes :: "string list option"
  ck_actor_user_id :: uuid
  ck_actor_org_id :: uuid

datatype create_api_key_error =
  CkNotFound | CkEmptyScopes | CkPrefixCollision | CkOther anyhow

definition fresh_key_row ::
    "env \<Rightarrow> uuid \<Rightarrow> string \<Rightarrow> string list option \<Rightarrow> uuid \<Rightarrow>
     (anyhow, generated_key \<times> new_api_key_row) action" where
  "fresh_key_row E sa name scopes created_by =
     bindE (generate E) (\<lambda>g.
     bindE (new_uuid E) (\<lambda>kid.
     bindE (hash_secret E (g_secret g)) (\<lambda>h.
     ret (g, \<lparr> nk_id = kid, nk_sa = sa, nk_prefix = g_prefix g, nk_secret_hash = h,
               nk_name = name, nk_scopes = scopes, nk_created_by = created_by \<rparr>))))"

text \<open>\<^verbatim>\<open>for _ in 0..2\<close>: one retry on a prefix collision.\<close>

fun create_key_attempts ::
    "nat \<Rightarrow> env \<Rightarrow> create_api_key_input \<Rightarrow> (create_api_key_error, api_key_material) action" where
  "create_key_attempts 0 E i = fail CkPrefixCollision"
| "create_key_attempts (Suc n) E i =
     bindE (map_err CkOther (fresh_key_row E (ck_sa_user_id i) (ck_name i) (ck_scopes i)
       (ck_actor_user_id i))) (\<lambda>(g, row).
     matchE (keys_create E row) (\<lambda>r.
     case r of
       Ok key \<Rightarrow>
         bindE (audit E (\<lambda>eid now. api_key_created eid now (ck_actor_user_id i) (ck_actor_org_id i)
           (ck_sa_user_id i) (ck_organisation_id i) (k_id key) (k_prefix key))) (\<lambda>_.
         ret \<lparr> am_key = key, am_plaintext = g_plaintext g \<rparr>)
     | Err DuplicatePrefix \<Rightarrow> create_key_attempts n E i
     | Err (KeyOther e) \<Rightarrow> fail (CkOther e)))"

definition create_api_key ::
    "env \<Rightarrow> create_api_key_input \<Rightarrow> (create_api_key_error, api_key_material) action" where
  "create_api_key E i =
     (if ck_scopes i = Some [] then fail CkEmptyScopes
      else
        bindE (map_err CkOther (sa_find E (ck_organisation_id i) (ck_sa_user_id i))) (\<lambda>sa.
        if sa = None then fail CkNotFound
        else create_key_attempts 2 E i))"

record rotate_api_key_input =
  rk_organisation_id :: uuid
  rk_sa_user_id :: uuid
  rk_old_key_id :: uuid
  rk_name :: "string option"
  rk_scopes :: "string list option option"
  rk_actor_user_id :: uuid
  rk_actor_org_id :: uuid

datatype rotate_api_key_error =
  RkNotFound | RkKeyNotFound | RkEmptyScopes | RkPrefixCollision | RkOther anyhow

fun rotate_key_attempts ::
    "nat \<Rightarrow> env \<Rightarrow> rotate_api_key_input \<Rightarrow> string \<Rightarrow> string list option \<Rightarrow>
     (rotate_api_key_error, api_key_material) action" where
  "rotate_key_attempts 0 E i name scopes = fail RkPrefixCollision"
| "rotate_key_attempts (Suc n) E i name scopes =
     bindE (map_err RkOther (fresh_key_row E (rk_sa_user_id i) name scopes (rk_actor_user_id i)))
       (\<lambda>(g, row).
     matchE (keys_rotate E (rk_old_key_id i) row) (\<lambda>r.
     case r of
       Ok key \<Rightarrow>
         bindE (audit E (\<lambda>eid now. api_key_rotated eid now (rk_actor_user_id i) (rk_actor_org_id i)
           (rk_sa_user_id i) (rk_organisation_id i) (rk_old_key_id i) (k_id key))) (\<lambda>_.
         ret \<lparr> am_key = key, am_plaintext = g_plaintext g \<rparr>)
     | Err DuplicatePrefix \<Rightarrow> rotate_key_attempts n E i name scopes
     | Err (KeyOther e) \<Rightarrow> fail (RkOther e)))"

definition rotate_api_key ::
    "env \<Rightarrow> rotate_api_key_input \<Rightarrow> (rotate_api_key_error, api_key_material) action" where
  "rotate_api_key E i =
     bindE (map_err RkOther (sa_find E (rk_organisation_id i) (rk_sa_user_id i))) (\<lambda>sa.
     if sa = None then fail RkNotFound
     else
       bindE (map_err RkOther (keys_find E (rk_sa_user_id i) (rk_old_key_id i))) (\<lambda>found.
       bindE (lift (ok_or RkKeyNotFound found)) (\<lambda>old.
       let name = (case rk_name i of Some s \<Rightarrow> s | None \<Rightarrow> k_name old) in
       (case rk_scopes i of
          Some s \<Rightarrow> if s = Some [] then fail RkEmptyScopes else rotate_key_attempts 2 E i name s
        | None \<Rightarrow> rotate_key_attempts 2 E i name (k_scopes old)))))"

datatype revoke_api_key_error = RvNotFound | RvKeyNotFound | RvOther anyhow

definition revoke_api_key ::
    "env \<Rightarrow> uuid \<Rightarrow> uuid \<Rightarrow> uuid \<Rightarrow> uuid \<Rightarrow> uuid \<Rightarrow> (revoke_api_key_error, unit) action" where
  "revoke_api_key E oid sa key_id actor_user actor_org =
     bindE (map_err RvOther (sa_find E oid sa)) (\<lambda>found.
     if found = None then fail RvNotFound
     else
       bindE (map_err RvOther (keys_revoke E sa key_id)) (\<lambda>done.
       if \<not> done then fail RvKeyNotFound
       else audit E (\<lambda>eid now. api_key_revoked eid now actor_user actor_org sa oid key_id)))"

datatype list_api_keys_error = LkNotFound | LkOther anyhow

definition list_api_keys ::
    "env \<Rightarrow> uuid \<Rightarrow> uuid \<Rightarrow> (list_api_keys_error, api_key list) action" where
  "list_api_keys E oid sa =
     bindE (map_err LkOther (sa_find E oid sa)) (\<lambda>found.
     if found = None then fail LkNotFound
     else map_err LkOther (list_by_sa E sa))"

section \<open>Listing users\<close>

record user_with_memberships =
  uw_id :: uuid
  uw_username :: string
  uw_email :: string
  uw_created_at :: datetime
  uw_memberships :: "user_membership list"

record list_users_input =
  lu_org_id :: "uuid option"
  lu_q :: "string option"
  lu_after :: "string option"
  lu_limit :: u32

datatype list_users_error = LuInvalidCursor | LuRepo user_repo_error

definition list_users ::
    "env \<Rightarrow> bool \<Rightarrow> uuid option \<Rightarrow> list_users_input \<Rightarrow>
     (list_users_error, user_with_memberships list \<times> string option) action" where
  "list_users E is_operator own_org i =
     bindE (lift (decode_cursor E UserCursor LuInvalidCursor (lu_after i))) (\<lambda>c.
     let effective_org = (if is_operator then lu_org_id i else own_org) in
     bindE (map_err LuRepo (repo_list_users E effective_org (lu_q i) c (saturating_add (lu_limit i) 1)))
       (\<lambda>rows.
     let (us, nxt) = cut_page user_cursor_key (unat (lu_limit i)) rows in
     bindE (map_err LuRepo (list_memberships_for_users E (map u_id us))) (\<lambda>raw.
     let mems = (\<lambda>u. map snd (filter (\<lambda>p. fst p = u_id u) raw));
         visible = (\<lambda>ms. if \<not> is_operator
                         then (case own_org of
                                 Some org \<Rightarrow> filter (\<lambda>m. um_org_id m = org) ms
                               | None \<Rightarrow> ms)
                         else ms) in
     ret (map (\<lambda>u. \<lparr> uw_id = u_id u, uw_username = u_username u, uw_email = u_email u,
                     uw_created_at = u_created_at u, uw_memberships = visible (mems u) \<rparr>) us,
          map_option (cursor_encode E UserCursor) nxt))))"

section \<open>The first administrator\<close>

record seed_admin_input =
  se_email :: string
  se_username :: string
  se_password :: string
  se_role_code :: string
  se_operator_org_name :: string

datatype seed_admin_error =
  SeOperatorOrgNotFound string | SeUserAlreadyExists string | SeInternal anyhow

definition bootstrap_seed_admin :: "env \<Rightarrow> seed_admin_input \<Rightarrow> (seed_admin_error, uuid) action" where
  "bootstrap_seed_admin E i =
     bindE (map_err (\<lambda>_. SeInternal opaque) (query E (\<lambda>_ d.
       map_option o_id (find (\<lambda>r. o_name r = se_operator_org_name i) (organisations d))))) (\<lambda>org.
     bindE (lift (ok_or (SeOperatorOrgNotFound (se_operator_org_name i)) org)) (\<lambda>oid.
     bindE (map_err (\<lambda>_. SeInternal opaque) (query E (\<lambda>_ d.
       list_ex (\<lambda>u. email_param_eq E (u_email u) (se_email i)) (users d)))) (\<lambda>exs.
     if exs then fail (SeUserAlreadyExists (se_email i))
     else
       bindE (map_err SeInternal (hash_password E (se_password i))) (\<lambda>h.
       bindE (new_uuid E) (\<lambda>uid.
       bindE (map_err (\<lambda>_. SeInternal opaque) (stmt E (\<lambda>now d. map_sum id (Pair ())
         (insert_user E (new_user uid (se_username i) (se_email i) h Human now) d)))) (\<lambda>_.
       bindE (map_err (\<lambda>_. SeInternal opaque) (query E (\<lambda>_. role_id_by_code (se_role_code i)))) (\<lambda>rid.
       bindE (lift (ok_or (SeInternal opaque) rid)) (\<lambda>role_id.
       bindE (map_err (\<lambda>_. SeInternal opaque) (stmt E (\<lambda>now d. map_sum id (Pair ())
         (insert_membership_if_new
           \<lparr> m_user = uid, m_org = oid, m_role = role_id, m_created_at = now \<rparr> d)))) (\<lambda>_.
       bindE (new_uuid E) (\<lambda>eid.
       bindE utc_now (\<lambda>now.
       bindE (map_err (\<lambda>_. SeInternal opaque)
         (audit_insert E (admin_seeded eid now uid oid (se_role_code i)))) (\<lambda>_.
       ret uid))))))))))))"

end
