(* ===== verification/TenantsApi.thy ===== *)
theory TenantsApi
  imports Tenants
begin

text \<open>
  The HTTP handlers of \<^verbatim>\<open>src/tenants/interface.rs\<close>: extractors in the order of the handler's
  parameters, then the handler's own checks, the service call and the translation of its
  errors. A handler takes the request's extensions and its parsed parameters; bodies that do
  not parse never reach it. Status codes of success are part of the result where they vary.
\<close>

definition field_error :: "string \<Rightarrow> string \<Rightarrow> app_error" where
  "field_error field code = Validation [(field, [code])]"

text \<open>
  \<^verbatim>\<open>req.validate()\<close> with \<^verbatim>\<open>length\<close> attributes, and \<^verbatim>\<open>validation_errors_to_map\<close>.
\<close>

definition validate_lengths :: "env \<Rightarrow> (string \<times> nat \<times> nat \<times> string) list \<Rightarrow> app_error + unit" where
  "validate_lengths E flds =
     (let bad = filter (\<lambda>(_, lo, hi, v). \<not> length_ok E lo hi v) flds in
      if bad = [] then Ok ()
      else Err (Validation (map (\<lambda>(f, _). (f, [''length''])) bad)))"

section \<open>Organisations\<close>

fun map_service_error :: "create_organisation_error \<Rightarrow> app_error" where
  "map_service_error CoDuplicateName = Conflict ''organisation name already exists''"
| "map_service_error CoInvalidName =
     field_error ''name'' (''invalid: must be non-empty and '' @ [CHR 0xE2, CHR 0x89, CHR 0xA4] @ '' 120 chars'')"
| "map_service_error CoInvalidBusiness =
     field_error ''business'' (''invalid: must be non-empty and '' @ [CHR 0xE2, CHR 0x89, CHR 0xA4] @ '' 120 chars'')"
| "map_service_error (CoRepo r) = Internal opaque"
| "map_service_error (CoInternal e) = Internal e"

definition post_create_organisation ::
    "env \<Rightarrow> extensions \<Rightarrow> create_organisation_input \<Rightarrow> (app_error, create_organisation_output) action" where
  "post_create_organisation E x req =
     bindE (lift (extract_authed_caller x)) (\<lambda>c.
     bindE (lift (perm TenantsCreate x)) (\<lambda>_.
     bindE (lift (validate_lengths E
       [(''name'', 1, 120, co_name req), (''business'', 1, 120, co_business req)])) (\<lambda>_.
     map_err map_service_error
       (create_organisation E (cl_sub (ac_claims c)) (cl_org (ac_claims c)) req))))"

fun map_list_my_orgs_error :: "list_my_orgs_error \<Rightarrow> app_error" where
  "map_list_my_orgs_error LoInvalidCursor = field_error ''after'' ''invalid_cursor''"
| "map_list_my_orgs_error (LoRepo r) = Internal opaque"

definition get_list_my_organisations ::
    "env \<Rightarrow> extensions \<Rightarrow> string option \<Rightarrow> u32 option \<Rightarrow>
     (app_error, organisation_summary list \<times> string option) action" where
  "get_list_my_organisations E x after lim =
     bindE (lift (extract_authed_caller x)) (\<lambda>c.
     map_err map_list_my_orgs_error (list_my_organisations E (cl_sub (ac_claims c)) after
       (case lim of None \<Rightarrow> 50 | Some n \<Rightarrow> n)))"

fun map_list_members_error :: "list_members_error \<Rightarrow> app_error" where
  "map_list_members_error LmNotFound = NotFound ''organisation''"
| "map_list_members_error LmInvalidCursor = field_error ''after'' ''invalid_cursor''"
| "map_list_members_error (LmRepo r) = Internal opaque"

definition get_list_members ::
    "env \<Rightarrow> extensions \<Rightarrow> uuid \<Rightarrow> string option \<Rightarrow> u32 option \<Rightarrow>
     (app_error, member_summary list \<times> string option) action" where
  "get_list_members E x oid after lim =
     bindE (lift (perm TenantsMembersList x)) (\<lambda>_.
     bindE (lift (extract_authed_caller x)) (\<lambda>c.
     map_err map_list_members_error (list_organisation_members E (cl_sub (ac_claims c))
       (is_operator_over_tenants (ac_permissions c)) oid after
       (case lim of None \<Rightarrow> 50 | Some n \<Rightarrow> n))))"

fun map_assign_role_error :: "assign_role_error \<Rightarrow> app_error" where
  "map_assign_role_error ArNotFound = NotFound ''organisation''"
| "map_assign_role_error ArUnknownRoleCode = field_error ''role_code'' ''unknown_role_code''"
| "map_assign_role_error ArUnknownUser = field_error ''user_id'' ''not_a_member''"
| "map_assign_role_error ArServiceAccountCrossOrgForbidden =
     field_error ''user_id'' ''service_account_cross_org_forbidden''"
| "map_assign_role_error (ArRepo r) = Internal opaque"
| "map_assign_role_error (ArInternal e) = Internal e"

definition post_assign_role ::
    "env \<Rightarrow> extensions \<Rightarrow> uuid \<Rightarrow> uuid \<Rightarrow> string \<Rightarrow> (app_error, bool) action" where
  "post_assign_role E x oid user_id role_code =
     bindE (lift (perm TenantsRolesAssign x)) (\<lambda>_.
     bindE (lift (extract_authed_caller x)) (\<lambda>c.
     bindE (lift (validate_lengths E [(''role_code'', 1, 64, role_code)])) (\<lambda>_.
     map_err map_assign_role_error (assign_role E (cl_sub (ac_claims c)) (cl_org (ac_claims c))
       (is_operator_over_tenants (ac_permissions c)) oid user_id role_code))))"

fun map_add_user_error :: "add_user_error \<Rightarrow> app_error" where
  "map_add_user_error AuNotFound = NotFound ''organisation or user''"
| "map_add_user_error AuUnknownRoleCode = field_error ''role_code'' ''unknown_role_code''"
| "map_add_user_error (AuRepo r) = Internal opaque"
| "map_add_user_error (AuInternal e) = Internal e"

definition post_add_user_to_organisation ::
    "env \<Rightarrow> extensions \<Rightarrow> uuid \<Rightarrow> uuid \<Rightarrow> string \<Rightarrow> (app_error, nat) action" where
  "post_add_user_to_organisation E x user_id oid role_code =
     bindE (lift (extract_authed_caller x)) (\<lambda>c.
     bindE (lift (perm TenantsMembersAdd x)) (\<lambda>_.
     bindE (map_err map_add_user_error (add_user_to_organisation E (cl_sub (ac_claims c))
       (cl_org (ac_claims c)) user_id oid role_code)) (\<lambda>_.
     ret 204)))"

fun map_remove_user_error :: "remove_user_error \<Rightarrow> app_error" where
  "map_remove_user_error RuNotMember = NotFound ''membership''"
| "map_remove_user_error RuLastOwner = Conflict ''cannot remove the last owner''"
| "map_remove_user_error (RuRepo r) = Internal opaque"
| "map_remove_user_error (RuInternal e) = Internal e"

definition post_remove_user_from_organisation ::
    "env \<Rightarrow> extensions \<Rightarrow> uuid \<Rightarrow> uuid \<Rightarrow> (app_error, nat) action" where
  "post_remove_user_from_organisation E x user_id oid =
     bindE (lift (extract_authed_caller x)) (\<lambda>c.
     bindE (lift (perm TenantsMembersRemove x)) (\<lambda>_.
     bindE (map_err map_remove_user_error (remove_user_from_organisation E (cl_sub (ac_claims c))
       (cl_org (ac_claims c)) user_id oid)) (\<lambda>_.
     ret 204)))"

section \<open>Channels\<close>

text \<open>The body of a channel response is the channel itself, API key included.\<close>

fun map_create_channel_error :: "create_channel_error \<Rightarrow> app_error" where
  "map_create_channel_error CcDuplicateName =
     Conflict ''channel name already taken in this organisation''"
| "map_create_channel_error CcInvalidName = field_error ''name'' ''invalid''"
| "map_create_channel_error CcInvalidDescription = field_error ''description'' ''invalid''"
| "map_create_channel_error (CcRepo e) = Internal opaque"

fun map_update_channel_error :: "update_channel_error \<Rightarrow> app_error" where
  "map_update_channel_error UcNotFound = NotFound ''channel''"
| "map_update_channel_error UcDuplicateName = Conflict ''channel name already taken''"
| "map_update_channel_error UcInvalidName = field_error ''name'' ''invalid''"
| "map_update_channel_error UcInvalidDescription = field_error ''description'' ''invalid''"
| "map_update_channel_error (UcRepo e) = Internal opaque"

definition post_create_channel ::
    "env \<Rightarrow> extensions \<Rightarrow> uuid \<Rightarrow> channel_input \<Rightarrow> (app_error, inbound_channel) action" where
  "post_create_channel E x oid req =
     bindE (lift (extract_authed_caller x)) (\<lambda>c.
     bindE (lift (perm ChannelsManage x)) (\<lambda>_.
     bindE (lift (same_org_or_operator c oid)) (\<lambda>_.
     bindE (lift (validate_lengths E [(''name'', 1, 120, ci_name req)])) (\<lambda>_.
     map_err map_create_channel_error (create_inbound_channel E (cl_sub (ac_claims c))
       (cl_org (ac_claims c)) oid req)))))"

fun map_list_channels_error :: "list_channels_error \<Rightarrow> app_error" where
  "map_list_channels_error LcInvalidCursor = field_error ''after'' ''invalid_cursor''"
| "map_list_channels_error (LcRepo e) = Internal opaque"

definition get_list_channels ::
    "env \<Rightarrow> extensions \<Rightarrow> uuid \<Rightarrow> string option \<Rightarrow> u32 option \<Rightarrow>
     (app_error, inbound_channel list \<times> string option) action" where
  "get_list_channels E x oid after lim =
     bindE (lift (extract_authed_caller x)) (\<lambda>c.
     bindE (lift (perm ChannelsManage x)) (\<lambda>_.
     bindE (lift (same_org_or_operator c oid)) (\<lambda>_.
     map_err map_list_channels_error (list_inbound_channels E oid after
       (min (case lim of None \<Rightarrow> 50 | Some n \<Rightarrow> n) 200)))))"

fun map_get_channel_error :: "get_channel_error \<Rightarrow> app_error" where
  "map_get_channel_error GcNotFound = NotFound ''channel''"
| "map_get_channel_error (GcRepo e) = Internal opaque"

definition get_channel ::
    "env \<Rightarrow> extensions \<Rightarrow> uuid \<Rightarrow> uuid \<Rightarrow> (app_error, inbound_channel) action" where
  "get_channel E x oid cid =
     bindE (lift (extract_authed_caller x)) (\<lambda>c.
     bindE (lift (perm ChannelsManage x)) (\<lambda>_.
     bindE (lift (same_org_or_operator c oid)) (\<lambda>_.
     map_err map_get_channel_error (get_inbound_channel E oid cid))))"

definition put_update_channel ::
    "env \<Rightarrow> extensions \<Rightarrow> uuid \<Rightarrow> uuid \<Rightarrow> channel_input \<Rightarrow> (app_error, inbound_channel) action" where
  "put_update_channel E x oid cid req =
     bindE (lift (extract_authed_caller x)) (\<lambda>c.
     bindE (lift (perm ChannelsManage x)) (\<lambda>_.
     bindE (lift (same_org_or_operator c oid)) (\<lambda>_.
     bindE (lift (validate_lengths E [(''name'', 1, 120, ci_name req)])) (\<lambda>_.
     map_err map_update_channel_error (update_inbound_channel E (cl_sub (ac_claims c))
       (cl_org (ac_claims c)) oid cid req)))))"

fun map_delete_channel_error :: "delete_channel_error \<Rightarrow> app_error" where
  "map_delete_channel_error DcNotFound = NotFound ''channel''"
| "map_delete_channel_error (DcRepo e) = Internal opaque"

definition delete_channel :: "env \<Rightarrow> extensions \<Rightarrow> uuid \<Rightarrow> uuid \<Rightarrow> (app_error, nat) action" where
  "delete_channel E x oid cid =
     bindE (lift (extract_authed_caller x)) (\<lambda>c.
     bindE (lift (perm ChannelsManage x)) (\<lambda>_.
     bindE (lift (same_org_or_operator c oid)) (\<lambda>_.
     bindE (map_err map_delete_channel_error (delete_inbound_channel E (cl_sub (ac_claims c))
       (cl_org (ac_claims c)) oid cid)) (\<lambda>_.
     ret 204))))"

end
