(* ===== verification/SecurityApi.thy ===== *)
theory SecurityApi
  imports Security TenantsApi
begin

text \<open>
  The HTTP handlers of \<^verbatim>\<open>src/security/interface.rs\<close>: public ones (login, password reset) and
  those behind the auth layer, most of them gated to human callers.
\<close>

section \<open>Accounts and sessions\<close>

fun register_error_to_app :: "register_user_error \<Rightarrow> app_error" where
  "register_error_to_app RgDuplicateUsername = Conflict ''username already taken''"
| "register_error_to_app RgDuplicateEmail = Conflict ''email already registered''"
| "register_error_to_app RgInvalidUsername = field_error ''username'' ''invalid''"
| "register_error_to_app RgInvalidEmail = field_error ''email'' ''invalid''"
| "register_error_to_app RgPasswordTooShort = field_error ''password'' ''too_short''"
| "register_error_to_app RgPasswordTooLong = field_error ''password'' ''too_long''"
| "register_error_to_app RgOrgNotFound = NotFound ''organisation''"
| "register_error_to_app RgUnknownRoleCode = field_error ''role_code'' ''unknown_role_code''"
| "register_error_to_app (RgInternal e) = Internal e"

definition post_register ::
    "env \<Rightarrow> extensions \<Rightarrow> register_user_input \<Rightarrow> (app_error, uuid) action" where
  "post_register E x req =
     bindE (lift (require_human_caller x)) (\<lambda>_.
     bindE (lift (extract_authed_caller x)) (\<lambda>c.
     bindE (lift (perm TenantsMembersAdd x)) (\<lambda>_.
     map_err register_error_to_app
       (register_user E (cl_sub (ac_claims c)) (cl_org (ac_claims c)) req))))"

fun login_error_to_app :: "login_error \<Rightarrow> app_error" where
  "login_error_to_app LgInvalidCredentials = InvalidCredentials"
| "login_error_to_app LgNoOrganisation = UserNoOrganisation"
| "login_error_to_app (LgInternal e) = Internal e"

definition post_login ::
    "env \<Rightarrow> jwt_config \<Rightarrow> string \<Rightarrow> string \<Rightarrow> (app_error, login_output) action" where
  "post_login E jc username_or_email password =
     map_err login_error_to_app (login E jc username_or_email password)"

fun logout_error_to_app :: "logout_error \<Rightarrow> app_error" where
  "logout_error_to_app (LoInternal e) = Internal e"

text \<open>
  \<^verbatim>\<open>DateTime::from_timestamp\<close> fails only beyond the calendar of chrono (some 262000 years);
  the expiry of a token that was just accepted is its own timestamp here.
\<close>

definition post_logout :: "env \<Rightarrow> extensions \<Rightarrow> (app_error, nat) action" where
  "post_logout E x =
     bindE (lift (require_human_caller x)) (\<lambda>_.
     bindE (lift (extract_authed_caller x)) (\<lambda>c.
     bindE (map_err logout_error_to_app (logout E (cl_sub (ac_claims c)) (cl_org (ac_claims c))
       (cl_jti (ac_claims c)) (seconds (cl_exp (ac_claims c))))) (\<lambda>_.
     ret 204)))"

fun change_password_error_to_app :: "change_password_error \<Rightarrow> app_error" where
  "change_password_error_to_app CpWrongCurrentPassword = InvalidCredentials"
| "change_password_error_to_app CpPasswordTooShort = field_error ''new_password'' ''too_short''"
| "change_password_error_to_app CpUserNotFound = NotFound ''user''"
| "change_password_error_to_app (CpInternal e) = Internal e"

definition post_change_password ::
    "env \<Rightarrow> extensions \<Rightarrow> string \<Rightarrow> string \<Rightarrow> (app_error, nat) action" where
  "post_change_password E x current_password new_password =
     bindE (lift (require_human_caller x)) (\<lambda>_.
     bindE (lift (extract_authed_caller x)) (\<lambda>c.
     bindE (map_err change_password_error_to_app
       (change_password E (cl_sub (ac_claims c)) current_password new_password)) (\<lambda>_.
     ret 204)))"

fun switch_org_error_to_app :: "switch_org_error \<Rightarrow> app_error" where
  "switch_org_error_to_app SwNotMember = PermissionDenied ''not_member''"
| "switch_org_error_to_app (SwInternal e) = Internal e"

definition post_switch_org ::
    "env \<Rightarrow> jwt_config \<Rightarrow> extensions \<Rightarrow> uuid \<Rightarrow> (app_error, string) action" where
  "post_switch_org E jc x oid =
     bindE (lift (require_human_caller x)) (\<lambda>_.
     bindE (lift (extract_authed_caller x)) (\<lambda>c.
     map_err switch_org_error_to_app
       (switch_org E jc (cl_sub (ac_claims c)) (cl_org (ac_claims c)) oid)))"

fun reset_request_error_to_app :: "password_reset_request_error \<Rightarrow> app_error" where
  "reset_request_error_to_app (PrInternal e) = Internal e"

definition post_password_reset_request :: "env \<Rightarrow> int \<Rightarrow> string \<Rightarrow> (app_error, nat) action" where
  "post_password_reset_request E ttl_secs email =
     bindE (map_err reset_request_error_to_app (password_reset_request E ttl_secs email)) (\<lambda>_.
     ret 204)"

fun reset_confirm_error_to_app :: "password_reset_confirm_error \<Rightarrow> app_error" where
  "reset_confirm_error_to_app PcInvalidToken = InvalidCredentials"
| "reset_confirm_error_to_app PcPasswordTooShort = field_error ''new_password'' ''too_short''"
| "reset_confirm_error_to_app (PcInternal e) = Internal e"

definition post_password_reset_confirm ::
    "env \<Rightarrow> string \<Rightarrow> string \<Rightarrow> (app_error, nat) action" where
  "post_password_reset_confirm E token new_password =
     bindE (map_err reset_confirm_error_to_app (password_reset_confirm E token new_password)) (\<lambda>_.
     ret 204)"

record list_users_query =
  lq_after :: "string option"
  lq_limit :: "u32 option"
  lq_org_id :: "uuid option"
  lq_q :: "string option"

fun list_users_error_to_app :: "list_users_error \<Rightarrow> app_error" where
  "list_users_error_to_app LuInvalidCursor = field_error ''after'' ''invalid_cursor''"
| "list_users_error_to_app (LuRepo e) = Internal opaque"

definition get_list_users ::
    "env \<Rightarrow> extensions \<Rightarrow> list_users_query \<Rightarrow>
     (app_error, user_with_memberships list \<times> string option) action" where
  "get_list_users E x q =
     bindE (lift (extract_authed_caller x)) (\<lambda>c.
     bindE (lift (perm UsersRead x)) (\<lambda>_.
     let is_operator = is_operator_over_users (ac_permissions c);
         own_org = (if is_operator then None else Some (cl_org (ac_claims c)));
         limit = (case lq_limit q of None \<Rightarrow> 20 | Some n \<Rightarrow> n) in
     if \<not> (1 \<le> limit \<and> limit \<le> 100) then fail (field_error ''limit'' ''invalid_limit'')
     else
       bindE (map_err list_users_error_to_app (list_users E is_operator own_org
         \<lparr> lu_org_id = lq_org_id q, lu_q = lq_q q, lu_after = lq_after q, lu_limit = limit \<rparr>)) (\<lambda>out.
       bindE (audit E (\<lambda>eid now. users_list eid now (cl_sub (ac_claims c)) (cl_org (ac_claims c)))) (\<lambda>_.
       ret out))))"

section \<open>Service accounts\<close>

record service_account_response =
  sr_user_id :: uuid
  sr_organisation_id :: uuid
  sr_name :: string
  sr_description :: "string option"
  sr_created_at :: datetime
  sr_last_used_at :: "datetime option"

definition sa_response :: "service_account \<Rightarrow> service_account_response" where
  "sa_response s =
     \<lparr> sr_user_id = sa_user_id s, sr_organisation_id = sa_organisation_id s, sr_name = sa_name s,
       sr_description = sa_description s, sr_created_at = sa_created_at s,
       sr_last_used_at = sa_last_used_at s \<rparr>"

fun create_sa_error_to_app :: "create_sa_error \<Rightarrow> app_error" where
  "create_sa_error_to_app CsDuplicateName =
     Conflict ''service-account name already used in this organisation''"
| "create_sa_error_to_app (CsOther e) = Internal e"

definition post_create_service_account ::
    "env \<Rightarrow> extensions \<Rightarrow> uuid \<Rightarrow> string \<Rightarrow> string option \<Rightarrow>
     (app_error, service_account_response) action" where
  "post_create_service_account E x oid name description =
     bindE (lift (require_human_caller x)) (\<lambda>_.
     bindE (lift (extract_authed_caller x)) (\<lambda>c.
     bindE (lift (perm ServiceAccountsManage x)) (\<lambda>_.
     bindE (lift (same_org_or_operator c oid)) (\<lambda>_.
     bindE (map_err create_sa_error_to_app (create_service_account E oid name description
       (cl_sub (ac_claims c)) (cl_org (ac_claims c)))) (\<lambda>sa.
     ret (sa_response sa))))))"

definition get_list_service_accounts ::
    "env \<Rightarrow> extensions \<Rightarrow> uuid \<Rightarrow> u32 option \<Rightarrow> string option \<Rightarrow>
     (app_error, service_account_response list \<times> string option) action" where
  "get_list_service_accounts E x oid lim after =
     bindE (lift (require_human_caller x)) (\<lambda>_.
     bindE (lift (extract_authed_caller x)) (\<lambda>c.
     bindE (lift (perm ServiceAccountsRead x)) (\<lambda>_.
     bindE (lift (same_org_or_operator c oid)) (\<lambda>_.
     let limit = clamp (case lim of None \<Rightarrow> 50 | Some n \<Rightarrow> n) 1 200 in
     bindE (lift (case after of
                    None \<Rightarrow> Ok None
                  | Some s \<Rightarrow> map_sum id Some
                      (ok_or (field_error ''after'' ''invalid_cursor'') (decode_sa_cursor E s)))) (\<lambda>cur.
     bindE (map_err Internal (list_service_accounts E oid limit cur)) (\<lambda>(items, nxt).
     ret (map sa_response items, map_option (encode_sa_cursor E) nxt)))))))"

definition get_service_account ::
    "env \<Rightarrow> extensions \<Rightarrow> uuid \<Rightarrow> (app_error, service_account_response) action" where
  "get_service_account E x sa_id =
     bindE (lift (require_human_caller x)) (\<lambda>_.
     bindE (lift (extract_authed_caller x)) (\<lambda>c.
     bindE (lift (perm ServiceAccountsRead x)) (\<lambda>_.
     bindE (map_err Internal (sa_find E (cl_org (ac_claims c)) sa_id)) (\<lambda>found.
     bindE (lift (ok_or (NotFound ''service_account'') found)) (\<lambda>sa.
     ret (sa_response sa))))))"

fun delete_sa_error_to_app :: "delete_sa_error \<Rightarrow> app_error" where
  "delete_sa_error_to_app DsNotFound = NotFound ''service_account''"
| "delete_sa_error_to_app (DsOther e) = Internal e"

definition delete_service_account_handler :: "env \<Rightarrow> extensions \<Rightarrow> uuid \<Rightarrow> (app_error, nat) action" where
  "delete_service_account_handler E x sa_id =
     bindE (lift (require_human_caller x)) (\<lambda>_.
     bindE (lift (extract_authed_caller x)) (\<lambda>c.
     bindE (lift (perm ServiceAccountsManage x)) (\<lambda>_.
     bindE (map_err delete_sa_error_to_app (delete_service_account E (cl_org (ac_claims c)) sa_id
       (cl_sub (ac_claims c)) (cl_org (ac_claims c)))) (\<lambda>_.
     ret 204))))"

section \<open>API keys\<close>

record api_key_response =
  kp_id :: uuid
  kp_prefix :: string
  kp_name :: string
  kp_scopes :: "string list option"
  kp_created_at :: datetime
  kp_last_used_at :: "datetime option"
  kp_revoked_at :: "datetime option"

definition key_response :: "api_key \<Rightarrow> api_key_response" where
  "key_response k =
     \<lparr> kp_id = k_id k, kp_prefix = k_prefix k, kp_name = k_name k, kp_scopes = k_scopes k,
       kp_created_at = k_created_at k, kp_last_used_at = k_last_used_at k,
       kp_revoked_at = k_revoked_at k \<rparr>"

fun create_key_error_to_app :: "create_api_key_error \<Rightarrow> app_error" where
  "create_key_error_to_app CkNotFound = NotFound ''service_account''"
| "create_key_error_to_app CkEmptyScopes = field_error ''scopes'' ''empty_scopes''"
| "create_key_error_to_app CkPrefixCollision = Internal opaque"
| "create_key_error_to_app (CkOther e) = Internal e"

definition post_create_api_key ::
    "env \<Rightarrow> extensions \<Rightarrow> uuid \<Rightarrow> string \<Rightarrow> string list option \<Rightarrow>
     (app_error, api_key_response \<times> string) action" where
  "post_create_api_key E x sa_id name scopes =
     bindE (lift (require_human_caller x)) (\<lambda>_.
     bindE (lift (extract_authed_caller x)) (\<lambda>c.
     bindE (lift (perm ServiceAccountsManage x)) (\<lambda>_.
     bindE (map_err create_key_error_to_app (create_api_key E
       \<lparr> ck_organisation_id = cl_org (ac_claims c), ck_sa_user_id = sa_id, ck_name = name,
         ck_scopes = scopes, ck_actor_user_id = cl_sub (ac_claims c),
         ck_actor_org_id = cl_org (ac_claims c) \<rparr>)) (\<lambda>mat.
     ret (key_response (am_key mat), am_plaintext mat)))))"

fun list_keys_error_to_app :: "list_api_keys_error \<Rightarrow> app_error" where
  "list_keys_error_to_app LkNotFound = NotFound ''service_account''"
| "list_keys_error_to_app (LkOther e) = Internal e"

definition get_list_api_keys :: "env \<Rightarrow> extensions \<Rightarrow> uuid \<Rightarrow> (app_error, api_key_response list) action" where
  "get_list_api_keys E x sa_id =
     bindE (lift (require_human_caller x)) (\<lambda>_.
     bindE (lift (extract_authed_caller x)) (\<lambda>c.
     bindE (lift (perm ServiceAccountsRead x)) (\<lambda>_.
     bindE (map_err list_keys_error_to_app (list_api_keys E (cl_org (ac_claims c)) sa_id)) (\<lambda>ks.
     ret (map key_response ks)))))"

fun revoke_key_error_to_app :: "revoke_api_key_error \<Rightarrow> app_error" where
  "revoke_key_error_to_app RvNotFound = NotFound ''api_key''"
| "revoke_key_error_to_app RvKeyNotFound = NotFound ''api_key''"
| "revoke_key_error_to_app (RvOther e) = Internal e"

definition delete_api_key_handler ::
    "env \<Rightarrow> extensions \<Rightarrow> uuid \<Rightarrow> uuid \<Rightarrow> (app_error, nat) action" where
  "delete_api_key_handler E x sa_id key_id =
     bindE (lift (require_human_caller x)) (\<lambda>_.
     bindE (lift (extract_authed_caller x)) (\<lambda>c.
     bindE (lift (perm ServiceAccountsManage x)) (\<lambda>_.
     bindE (map_err revoke_key_error_to_app (revoke_api_key E (cl_org (ac_claims c)) sa_id key_id
       (cl_sub (ac_claims c)) (cl_org (ac_claims c)))) (\<lambda>_.
     ret 204))))"

fun rotate_key_error_to_app :: "rotate_api_key_error \<Rightarrow> app_error" where
  "rotate_key_error_to_app RkNotFound = NotFound ''api_key''"
| "rotate_key_error_to_app RkKeyNotFound = NotFound ''api_key''"
| "rotate_key_error_to_app RkEmptyScopes = field_error ''scopes'' ''empty_scopes''"
| "rotate_key_error_to_app RkPrefixCollision = Internal opaque"
| "rotate_key_error_to_app (RkOther e) = Internal e"

definition post_rotate_api_key ::
    "env \<Rightarrow> extensions \<Rightarrow> uuid \<Rightarrow> uuid \<Rightarrow> string option \<Rightarrow> string list option \<Rightarrow>
     (app_error, api_key_response \<times> string) action" where
  "post_rotate_api_key E x sa_id key_id name scopes =
     bindE (lift (require_human_caller x)) (\<lambda>_.
     bindE (lift (extract_authed_caller x)) (\<lambda>c.
     bindE (lift (perm ServiceAccountsManage x)) (\<lambda>_.
     bindE (map_err rotate_key_error_to_app (rotate_api_key E
       \<lparr> rk_organisation_id = cl_org (ac_claims c), rk_sa_user_id = sa_id, rk_old_key_id = key_id,
         rk_name = name, rk_scopes = map_option Some scopes,
         rk_actor_user_id = cl_sub (ac_claims c), rk_actor_org_id = cl_org (ac_claims c) \<rparr>)) (\<lambda>mat.
     ret (key_response (am_key mat), am_plaintext mat)))))"

end
