(* ===== verification/Platform.thy ===== *)
theory Platform
  imports Auth
begin

text \<open>
  The small parts: the echo endpoint (\<^verbatim>\<open>src/echo\<close>), the configuration checks
  (\<^verbatim>\<open>src/config.rs\<close>), and the CORS policy and readiness probe of \<^verbatim>\<open>src/lib.rs\<close>.
\<close>

section \<open>Echo\<close>

record echo_response =
  ec_method :: string
  ec_payload :: "json option"
  ec_org_id :: uuid
  ec_key_id :: "uuid option"
  ec_principal_user_id :: uuid
  ec_received_at :: datetime

definition build_echo :: "string \<Rightarrow> json option \<Rightarrow> caller \<Rightarrow> datetime \<Rightarrow> echo_response" where
  "build_echo meth body c now =
     (case c of
        UserCaller uid oid _ \<Rightarrow>
          \<lparr> ec_method = meth, ec_payload = body, ec_org_id = oid, ec_key_id = None,
            ec_principal_user_id = uid, ec_received_at = now \<rparr>
      | ApiKeyCaller kid sa oid \<Rightarrow>
          \<lparr> ec_method = meth, ec_payload = body, ec_org_id = oid, ec_key_id = Some kid,
            ec_principal_user_id = sa, ec_received_at = now \<rparr>)"

definition get_echo :: "extensions \<Rightarrow> (app_error, echo_response) action" where
  "get_echo x =
     bindE (lift (extract_caller x)) (\<lambda>c.
     bindE (lift (perm EchoInvoke x)) (\<lambda>_.
     bindE utc_now (\<lambda>now. ret (build_echo ''GET'' None c now))))"

definition post_echo :: "extensions \<Rightarrow> json option \<Rightarrow> (app_error, echo_response) action" where
  "post_echo x body =
     bindE (lift (extract_caller x)) (\<lambda>c.
     bindE (lift (perm EchoInvoke x)) (\<lambda>_.
     bindE utc_now (\<lambda>now. ret (build_echo ''POST'' body c now))))"

lemma build_echo_principal:
  "ec_org_id (build_echo m b c now) = org_id c \<and>
   ec_principal_user_id (build_echo m b c now) = principal_user_id c \<and>
   (ec_key_id (build_echo m b c now) = None \<longleftrightarrow> is_user c)"
  by (cases c) (simp_all add: build_echo_def org_id_def principal_user_id_def is_user_def)

section \<open>Configuration\<close>

record app_config =
  ac_database_url :: string
  ac_database_max_connections :: u32
  ac_bind_address :: string
  ac_jwt_secret :: string
  ac_jwt_ttl_secs :: int
  ac_jwt_issuer :: string
  ac_log_level :: string
  ac_log_format :: string
  ac_cors_allowed_origins :: string
  ac_password_reset_ttl_secs :: int
  ac_operator_org_name :: string
  ac_audit_channel_capacity :: nat
  ac_audit_max_retries :: u32
  ac_audit_retry_backoff_ms_initial :: u64

text \<open>The defaults of the fields that have one.\<close>

definition config_defaults :: "string \<Rightarrow> string \<Rightarrow> app_config" where
  "config_defaults database_url jwt_secret =
     \<lparr> ac_database_url = database_url, ac_database_max_connections = 10,
       ac_bind_address = ''0.0.0.0:8080'', ac_jwt_secret = jwt_secret, ac_jwt_ttl_secs = 3600,
       ac_jwt_issuer = ''egras'', ac_log_level = ''info'', ac_log_format = ''json'',
       ac_cors_allowed_origins = [], ac_password_reset_ttl_secs = 3600,
       ac_operator_org_name = ''operator'', ac_audit_channel_capacity = 4096,
       ac_audit_max_retries = 3, ac_audit_retry_backoff_ms_initial = 100 \<rparr>"

definition validate_config :: "app_config \<Rightarrow> anyhow + unit" where
  "validate_config cfg =
     (if length (ac_jwt_secret cfg) < 32 then Err opaque
      else if ac_log_format cfg \<notin> set [''json'', ''pretty''] then Err opaque
      else Ok ())"

section \<open>CORS and readiness\<close>

datatype cors_policy = AnyOrigin | Origins "string list"

text \<open>\<^verbatim>\<open>str::split\<close> at a character.\<close>

fun split_char :: "char \<Rightarrow> string \<Rightarrow> string list" where
  "split_char c [] = [[]]"
| "split_char c (x # xs) =
     (if x = c then [] # split_char c xs
      else case split_char c xs of [] \<Rightarrow> [[x]] | p # ps \<Rightarrow> (x # p) # ps)"

text \<open>
  \<^verbatim>\<open>HeaderValue::from_str\<close> accepts the tab and everything from the blank up except \<^verbatim>\<open>DEL\<close>.
\<close>

definition header_value_ok :: "string \<Rightarrow> bool" where
  "header_value_ok s = list_all (\<lambda>c. (32 \<le> byte c \<and> byte c \<noteq> 127) \<or> byte c = 9) s"

definition build_cors :: "app_config \<Rightarrow> anyhow + cors_policy" where
  "build_cors cfg =
     (if trim (ac_cors_allowed_origins cfg) = [] then Err opaque
      else
        let entries = filter (\<lambda>s. s \<noteq> [])
              (map trim (split_char CHR '','' (ac_cors_allowed_origins cfg))) in
        if ''*'' \<in> set entries then Ok AnyOrigin
        else
          let origins = filter header_value_ok entries in
          if origins = [] then Err opaque else Ok (Origins origins))"

definition ready :: "env \<Rightarrow> (nat, unit) action" where
  "ready E = map_err (\<lambda>_. 503) (control E)"

text \<open>A configured policy is never empty, and its origins are the trimmed entries of the list.\<close>

lemma build_cors_Origins:
  "build_cors cfg = Ok (Origins os) \<Longrightarrow>
   os \<noteq> [] \<and> ''*'' \<notin> set os \<and>
   (\<forall>s \<in> set os. s \<noteq> [] \<and> s \<in> trim ` set (split_char CHR '','' (ac_cors_allowed_origins cfg)))"
  by (auto simp: build_cors_def Let_def split: if_splits)

end
