(* ===== verification/Routes.thy ===== *)
theory Routes
  imports Platform
begin

text \<open>
  The routing tables: the routers of the components (\<^verbatim>\<open>router\<close> in \<^verbatim>\<open>src/tenants/interface.rs\<close> and
  \<^verbatim>\<open>src/echo/interface.rs\<close>, \<^verbatim>\<open>public_router\<close> and \<^verbatim>\<open>protected_router\<close> in
  \<^verbatim>\<open>src/security/interface.rs\<close>, \<^verbatim>\<open>protected_router\<close> in \<^verbatim>\<open>src/features/interface.rs\<close>) and how
  \<^verbatim>\<open>build_app\<close> (\<^verbatim>\<open>src/lib.rs\<close>) nests and merges them into a public and a protected half. A table
  lists the registered path templates, each with the handler of every method; the handler is
  a constructor of \<open>endpoint\<close>. The Swagger UI pages are left out.

  axum's matcher is a parameter: \<open>pm t p\<close> says that the template \<open>t\<close> matches the request
  path \<open>p\<close>, and \<open>captures pm\<close> is what its documentation promises of it.
\<close>

section \<open>Endpoints\<close>

datatype meth = Get | Post | Put | Patch | Delete

datatype endpoint =
    Health | Ready
  | PostLogin | PostPasswordResetRequest | PostPasswordResetConfirm
  | PostCreateOrganisation | GetListMyOrganisations | GetListMembers | PostAssignRole
  | PostAddUserToOrganisation | PostRemoveUserFromOrganisation
  | PostCreateChannel | GetListChannels | GetChannel | PutUpdateChannel | DeleteChannel
  | PostRegister | PostLogout | PostChangePassword | PostSwitchOrg
  | PostCreateServiceAccount | GetListServiceAccounts | GetServiceAccount
  | DeleteServiceAccountHandler
  | PostCreateApiKey | GetListApiKeys | DeleteApiKeyHandler | PostRotateApiKey
  | GetListUsers
  | GetDefinitions | GetOrgFeatures | PutOrgFeature | DeleteOrgFeature
  | GetEcho | PostEcho

type_synonym method_router = "(meth \<times> endpoint) list"
type_synonym router = "(string \<times> method_router) list"

section \<open>The routers of the components\<close>

definition security_public_router :: router where
  "security_public_router =
     [(''/login'', [(Post, PostLogin)]),
      (''/password-reset-request'', [(Post, PostPasswordResetRequest)]),
      (''/password-reset-confirm'', [(Post, PostPasswordResetConfirm)])]"

definition security_protected_router :: router where
  "security_protected_router =
     [(''/register'', [(Post, PostRegister)]),
      (''/logout'', [(Post, PostLogout)]),
      (''/change-password'', [(Post, PostChangePassword)]),
      (''/switch-org'', [(Post, PostSwitchOrg)]),
      (''/service-accounts'', [(Post, PostCreateServiceAccount), (Get, GetListServiceAccounts)]),
      (''/service-accounts/:sa_id'', [(Get, GetServiceAccount), (Delete, DeleteServiceAccountHandler)]),
      (''/service-accounts/:sa_id/api-keys'', [(Post, PostCreateApiKey), (Get, GetListApiKeys)]),
      (''/service-accounts/:sa_id/api-keys/:key_id'', [(Delete, DeleteApiKeyHandler)]),
      (''/service-accounts/:sa_id/api-keys/:key_id/rotate'', [(Post, PostRotateApiKey)])]"

definition tenants_router :: router where
  "tenants_router =
     [(''/organisations'', [(Post, PostCreateOrganisation)]),
      (''/me/organisations'', [(Get, GetListMyOrganisations)]),
      (''/organisations/:id/members'', [(Get, GetListMembers)]),
      (''/organisations/:id/memberships'', [(Post, PostAssignRole)]),
      (''/add-user-to-organisation'', [(Post, PostAddUserToOrganisation)]),
      (''/remove-user-from-organisation'', [(Post, PostRemoveUserFromOrganisation)]),
      (''/organisations/:org_id/channels'', [(Post, PostCreateChannel), (Get, GetListChannels)]),
      (''/organisations/:org_id/channels/:channel_id'',
        [(Get, GetChannel), (Put, PutUpdateChannel), (Delete, DeleteChannel)])]"

definition features_router :: router where
  "features_router =
     [(''/'', [(Get, GetDefinitions)]),
      (''/orgs/:org_id'', [(Get, GetOrgFeatures)]),
      (''/orgs/:org_id/:slug'', [(Put, PutOrgFeature), (Delete, DeleteOrgFeature)])]"

definition echo_router :: router where
  "echo_router = [(''/'', [(Get, GetEcho), (Post, PostEcho)])]"

section \<open>The application's router\<close>

text \<open>\<^verbatim>\<open>Router::nest\<close> puts a prefix before every path; the nested root is the prefix itself.\<close>

definition nest :: "string \<Rightarrow> router \<Rightarrow> router" where
  "nest prefix r = map (\<lambda>(p, ms). (if p = ''/'' then prefix else prefix @ p, ms)) r"

definition public_routes :: router where
  "public_routes =
     [(''/health'', [(Get, Health)]), (''/ready'', [(Get, Ready)])]
     @ nest ''/api/v1/security'' security_public_router"

definition protected_routes :: router where
  "protected_routes =
     nest ''/api/v1/tenants'' tenants_router
     @ nest ''/api/v1/security'' security_protected_router
     @ [(''/api/v1/users'', [(Get, GetListUsers)])]
     @ nest ''/api/v1/features'' features_router
     @ nest ''/api/v1/echo'' echo_router"

definition app_routes :: router where
  "app_routes = public_routes @ protected_routes"

text \<open>Every method and template with its handler.\<close>

definition operations :: "router \<Rightarrow> ((meth \<times> string) \<times> endpoint) list" where
  "operations r = concat (map (\<lambda>(p, ms). map (\<lambda>(m, e). ((m, p), e)) ms) r)"

definition endpoints :: "router \<Rightarrow> endpoint list" where
  "endpoints r = map snd (operations r)"

definition is_protected :: "endpoint \<Rightarrow> bool" where
  "is_protected e \<longleftrightarrow> e \<in> set (endpoints protected_routes)"

section \<open>Dispatch\<close>

text \<open>
  The result of matching a request: no template matches, the template has no handler for the
  method, or the handler.
\<close>

datatype dispatched = NoRoute | MethodNotAllowed | Handler endpoint

definition dispatch_route :: "(string \<Rightarrow> string \<Rightarrow> bool) \<Rightarrow> router \<Rightarrow> meth \<Rightarrow> string \<Rightarrow> dispatched" where
  "dispatch_route pm r m p =
     (case find (\<lambda>(t, _). pm t p) r of
        None \<Rightarrow> NoRoute
      | Some (_, ms) \<Rightarrow> (case map_of ms m of None \<Rightarrow> MethodNotAllowed | Some e \<Rightarrow> Handler e))"

text \<open>
  A template matches only paths with as many segments, whose literal segments it repeats and
  whose segment at a parameter \<^verbatim>\<open>:name\<close> is arbitrary but not empty.
\<close>

definition segments :: "string \<Rightarrow> string list" where
  "segments = split_char CHR ''/''"

definition is_param :: "string \<Rightarrow> bool" where
  "is_param s \<longleftrightarrow> s \<noteq> [] \<and> hd s = CHR '':''"

definition fits :: "string \<Rightarrow> string \<Rightarrow> bool" where
  "fits t p \<longleftrightarrow> list_all2 (\<lambda>a b. if is_param a then b \<noteq> [] else a = b) (segments t) (segments p)"

definition captures :: "(string \<Rightarrow> string \<Rightarrow> bool) \<Rightarrow> bool" where
  "captures pm \<longleftrightarrow> (\<forall>t p. pm t p \<longrightarrow> fits t p)"

text \<open>Two templates that no path can fit at once.\<close>

definition apart :: "string \<Rightarrow> string \<Rightarrow> bool" where
  "apart t u \<longleftrightarrow> length (segments t) \<noteq> length (segments u) \<or>
     list_ex (\<lambda>(a, b). \<not> is_param a \<and> \<not> is_param b \<and> a \<noteq> b) (zip (segments t) (segments u))"

lemma apart_sound:
  assumes "apart t u" and "fits t p"
  shows "\<not> fits u p"
  using assms unfolding apart_def fits_def list_all2_conv_all_nth
  by (auto simp: list_ex_iff in_set_zip) metis

fun all_apart :: "string list \<Rightarrow> bool" where
  "all_apart [] = True"
| "all_apart (t # ts) = (list_all (apart t) ts \<and> all_apart ts)"

lemma all_apart_nth:
  "all_apart ts \<Longrightarrow> i < j \<Longrightarrow> j < length ts \<Longrightarrow> apart (ts ! i) (ts ! j)"
proof (induction ts arbitrary: i j)
  case (Cons t ts)
  then show ?case by (cases i; cases j) (auto simp: list_all_iff)
qed simp

lemma all_apart_unique:
  assumes "all_apart ts" and "t \<in> set ts" and "u \<in> set ts" and "fits t p" and "fits u p"
  shows "t = u"
proof -
  obtain i j where ij: "i < length ts" "t = ts ! i" "j < length ts" "u = ts ! j"
    using assms(2,3) by (auto simp: in_set_conv_nth)
  consider "i = j" | "i < j" | "j < i" by linarith
  then show ?thesis
    using all_apart_nth [OF assms(1)] apart_sound assms(4,5) ij by cases blast+
qed

lemmas router_defs = app_routes_def public_routes_def protected_routes_def nest_def
  security_public_router_def security_protected_router_def tenants_router_def
  features_router_def echo_router_def

lemma app_routes_apart: "all_apart (map fst app_routes)"
  by code_simp

text \<open>The application never registers a path twice, nor a method twice on a path.\<close>

lemma app_routes_distinct: "distinct (map fst app_routes)" "list_all (\<lambda>r. distinct (map fst (snd r))) app_routes"
  by code_simp+

lemma dispatch_unique:
  assumes "captures pm" and "(t, ms) \<in> set app_routes" and "pm t p"
  shows "dispatch_route pm app_routes m p =
    (case map_of ms m of None \<Rightarrow> MethodNotAllowed | Some e \<Rightarrow> Handler e)"
proof -
  have "find (\<lambda>(t, _). pm t p) app_routes = Some (t, ms)"
  proof (rule ccontr)
    assume "\<not> ?thesis"
    moreover obtain t' ms' where f: "find (\<lambda>(t, _). pm t p) app_routes = Some (t', ms')"
      using assms(2,3) by (cases "find (\<lambda>(t, _). pm t p) app_routes")
        (auto simp: find_None_iff)
    then have in': "(t', ms') \<in> set app_routes" "pm t' p"
      by (auto simp: find_Some_iff in_set_conv_nth)
    have "t' = t"
      by (rule all_apart_unique [OF app_routes_apart, where p = p])
        (use in' assms captures_def in \<open>force+\<close>)
    with in'(1) assms(2) app_routes_distinct(1) have "ms' = ms"
      by (metis eq_key_imp_eq_value)
    ultimately show False using f \<open>t' = t\<close> by simp
  qed
  then show ?thesis by (simp add: dispatch_route_def)
qed

text \<open>The whole table.\<close>

lemma app_operations:
  "operations app_routes =
     [((Get, ''/health''), Health),
      ((Get, ''/ready''), Ready),
      ((Post, ''/api/v1/security/login''), PostLogin),
      ((Post, ''/api/v1/security/password-reset-request''), PostPasswordResetRequest),
      ((Post, ''/api/v1/security/password-reset-confirm''), PostPasswordResetConfirm),
      ((Post, ''/api/v1/tenants/organisations''), PostCreateOrganisation),
      ((Get, ''/api/v1/tenants/me/organisations''), GetListMyOrganisations),
      ((Get, ''/api/v1/tenants/organisations/:id/members''), GetListMembers),
      ((Post, ''/api/v1/tenants/organisations/:id/memberships''), PostAssignRole),
      ((Post, ''/api/v1/tenants/add-user-to-organisation''), PostAddUserToOrganisation),
      ((Post, ''/api/v1/tenants/remove-user-from-organisation''), PostRemoveUserFromOrganisation),
      ((Post, ''/api/v1/tenants/organisations/:org_id/channels''), PostCreateChannel),
      ((Get, ''/api/v1/tenants/organisations/:org_id/channels''), GetListChannels),
      ((Get, ''/api/v1/tenants/organisations/:org_id/channels/:channel_id''), GetChannel),
      ((Put, ''/api/v1/tenants/organisations/:org_id/channels/:channel_id''), PutUpdateChannel),
      ((Delete, ''/api/v1/tenants/organisations/:org_id/channels/:channel_id''), DeleteChannel),
      ((Post, ''/api/v1/security/register''), PostRegister),
      ((Post, ''/api/v1/security/logout''), PostLogout),
      ((Post, ''/api/v1/security/change-password''), PostChangePassword),
      ((Post, ''/api/v1/security/switch-org''), PostSwitchOrg),
      ((Post, ''/api/v1/security/service-accounts''), PostCreateServiceAccount),
      ((Get, ''/api/v1/security/service-accounts''), GetListServiceAccounts),
      ((Get, ''/api/v1/security/service-accounts/:sa_id''), GetServiceAccount),
      ((Delete, ''/api/v1/security/service-accounts/:sa_id''), DeleteServiceAccountHandler),
      ((Post, ''/api/v1/security/service-accounts/:sa_id/api-keys''), PostCreateApiKey),
      ((Get, ''/api/v1/security/service-accounts/:sa_id/api-keys''), GetListApiKeys),
      ((Delete, ''/api/v1/security/service-accounts/:sa_id/api-keys/:key_id''), DeleteApiKeyHandler),
      ((Post, ''/api/v1/security/service-accounts/:sa_id/api-keys/:key_id/rotate''), PostRotateApiKey),
      ((Get, ''/api/v1/users''), GetListUsers),
      ((Get, ''/api/v1/features''), GetDefinitions),
      ((Get, ''/api/v1/features/orgs/:org_id''), GetOrgFeatures),
      ((Put, ''/api/v1/features/orgs/:org_id/:slug''), PutOrgFeature),
      ((Delete, ''/api/v1/features/orgs/:org_id/:slug''), DeleteOrgFeature),
      ((Get, ''/api/v1/echo''), GetEcho),
      ((Post, ''/api/v1/echo''), PostEcho)]"
  by code_simp

text \<open>
  Exactly five endpoints are public, no endpoint is both public and protected, and every
  endpoint is reachable under one method and path.
\<close>

lemma public_endpoints:
  "endpoints public_routes =
     [Health, Ready, PostLogin, PostPasswordResetRequest, PostPasswordResetConfirm]"
  by code_simp

lemma endpoints_distinct: "distinct (endpoints app_routes)"
  by code_simp

text \<open>The protected endpoints, in the order in which they are registered.\<close>

lemma protected_endpoints:
  "endpoints protected_routes =
     [PostCreateOrganisation, GetListMyOrganisations, GetListMembers, PostAssignRole,
      PostAddUserToOrganisation, PostRemoveUserFromOrganisation, PostCreateChannel,
      GetListChannels, GetChannel, PutUpdateChannel, DeleteChannel, PostRegister, PostLogout,
      PostChangePassword, PostSwitchOrg, PostCreateServiceAccount, GetListServiceAccounts,
      GetServiceAccount, DeleteServiceAccountHandler, PostCreateApiKey, GetListApiKeys,
      DeleteApiKeyHandler, PostRotateApiKey, GetListUsers, GetDefinitions, GetOrgFeatures,
      PutOrgFeature, DeleteOrgFeature, GetEcho, PostEcho]"
  by code_simp

lemma endpoints_append: "endpoints (r @ s) = endpoints r @ endpoints s"
  by (simp add: endpoints_def operations_def)

lemma endpoints_complete: "e \<in> set (endpoints app_routes)"
  unfolding app_routes_def endpoints_append public_endpoints protected_endpoints
  by (cases e) simp_all

lemma protected_iff:
  "is_protected e \<longleftrightarrow>
     e \<notin> {Health, Ready, PostLogin, PostPasswordResetRequest, PostPasswordResetConfirm}"
  unfolding is_protected_def protected_endpoints by (cases e) simp_all

end
