(* ===== verification/Wire.thy ===== *)
theory Wire
  imports SecurityApi Routes
begin

text \<open>
  What travels: the request and response structs of the interface modules, the conversions
  between them and the types of the services, and \<open>call\<close>, a request that axum and serde have
  routed and parsed. A field with \<^verbatim>\<open>#[serde(default = ...)]\<close> is an option in the request and
  gets its default in the conversion. Requests that do not parse are answered by axum and
  never become a \<open>call\<close>.
\<close>

section \<open>Requests: tenants\<close>

definition default_true :: bool where
  "default_true = True"

record create_organisation_request =
  cor_name :: string
  cor_business :: string
  cor_seed_creator_as_owner :: "bool option"

definition create_organisation_input_of :: "create_organisation_request \<Rightarrow> create_organisation_input" where
  "create_organisation_input_of r =
     \<lparr> co_name = cor_name r, co_business = cor_business r,
       co_seed_creator_as_owner =
         (case cor_seed_creator_as_owner r of None \<Rightarrow> default_true | Some b \<Rightarrow> b) \<rparr>"

record list_query =
  lsq_after :: "string option"
  lsq_limit :: "u32 option"

record assign_role_request =
  arr_user_id :: uuid
  arr_role_code :: string

record add_user_to_organisation_request =
  aur_user_id :: uuid
  aur_org_id :: uuid
  aur_role_code :: string

record remove_user_from_organisation_request =
  rur_user_id :: uuid
  rur_org_id :: uuid

record create_channel_request =
  ccr_name :: string
  ccr_description :: "string option"
  ccr_channel_type :: channel_type
  ccr_is_active :: "bool option"

record update_channel_request =
  ucr_name :: string
  ucr_description :: "string option"
  ucr_channel_type :: channel_type
  ucr_is_active :: bool

definition create_channel_input_of :: "create_channel_request \<Rightarrow> channel_input" where
  "create_channel_input_of r =
     \<lparr> ci_name = ccr_name r, ci_description = ccr_description r,
       ci_channel_type = ccr_channel_type r,
       ci_is_active = (case ccr_is_active r of None \<Rightarrow> default_true | Some b \<Rightarrow> b) \<rparr>"

definition update_channel_input_of :: "update_channel_request \<Rightarrow> channel_input" where
  "update_channel_input_of r =
     \<lparr> ci_name = ucr_name r, ci_description = ucr_description r,
       ci_channel_type = ucr_channel_type r, ci_is_active = ucr_is_active r \<rparr>"

section \<open>Requests: security and features\<close>

record register_request =
  rgr_username :: string
  rgr_email :: string
  rgr_password :: string
  rgr_org_id :: uuid
  rgr_role_code :: string

definition register_user_input_of :: "register_request \<Rightarrow> register_user_input" where
  "register_user_input_of r =
     \<lparr> ru_username = rgr_username r, ru_email = rgr_email r, ru_password = rgr_password r,
       ru_target_org_id = rgr_org_id r, ru_role_code = rgr_role_code r \<rparr>"

record login_request =
  lgr_username_or_email :: string
  lgr_password :: string

record change_password_request =
  cpr_current_password :: string
  cpr_new_password :: string

record switch_org_request =
  sor_org_id :: uuid

record password_reset_request_body =
  prb_email :: string

record password_reset_confirm_body =
  pcb_token :: string
  pcb_new_password :: string

record create_service_account_request =
  csr_organisation_id :: uuid
  csr_name :: string
  csr_description :: "string option"

record list_service_accounts_query =
  lsa_organisation_id :: uuid
  lsa_limit :: "u32 option"
  lsa_after :: "string option"

record create_api_key_request =
  ckr_name :: string
  ckr_scopes :: "string list option"

record rotate_api_key_request =
  rkr_name :: "string option"
  rkr_scopes :: "string list option"

record put_feature_request =
  pfr_value :: json

section \<open>Parsed requests\<close>

datatype call =
    CHealth
  | CReady
  | CLogin login_request
  | CPasswordResetRequest password_reset_request_body
  | CPasswordResetConfirm password_reset_confirm_body
  | CCreateOrganisation create_organisation_request
  | CListMyOrganisations list_query
  | CListMembers uuid list_query
  | CAssignRole uuid assign_role_request
  | CAddUserToOrganisation add_user_to_organisation_request
  | CRemoveUserFromOrganisation remove_user_from_organisation_request
  | CCreateChannel uuid create_channel_request
  | CListChannels uuid list_query
  | CGetChannel uuid uuid
  | CUpdateChannel uuid uuid update_channel_request
  | CDeleteChannel uuid uuid
  | CRegister register_request
  | CLogout
  | CChangePassword change_password_request
  | CSwitchOrg switch_org_request
  | CCreateServiceAccount create_service_account_request
  | CListServiceAccounts list_service_accounts_query
  | CGetServiceAccount uuid
  | CDeleteServiceAccount uuid
  | CCreateApiKey uuid create_api_key_request
  | CListApiKeys uuid
  | CDeleteApiKey uuid uuid
  | CRotateApiKey uuid uuid rotate_api_key_request
  | CListUsers list_users_query
  | CGetDefinitions
  | CGetOrgFeatures uuid
  | CPutOrgFeature uuid string put_feature_request
  | CDeleteOrgFeature uuid string
  | CGetEcho
  | CPostEcho "json option"

text \<open>The endpoint whose extractors produce such a call.\<close>

fun endpoint_of :: "call \<Rightarrow> endpoint" where
  "endpoint_of CHealth = Health"
| "endpoint_of CReady = Ready"
| "endpoint_of (CLogin _) = PostLogin"
| "endpoint_of (CPasswordResetRequest _) = PostPasswordResetRequest"
| "endpoint_of (CPasswordResetConfirm _) = PostPasswordResetConfirm"
| "endpoint_of (CCreateOrganisation _) = PostCreateOrganisation"
| "endpoint_of (CListMyOrganisations _) = GetListMyOrganisations"
| "endpoint_of (CListMembers _ _) = GetListMembers"
| "endpoint_of (CAssignRole _ _) = PostAssignRole"
| "endpoint_of (CAddUserToOrganisation _) = PostAddUserToOrganisation"
| "endpoint_of (CRemoveUserFromOrganisation _) = PostRemoveUserFromOrganisation"
| "endpoint_of (CCreateChannel _ _) = PostCreateChannel"
| "endpoint_of (CListChannels _ _) = GetListChannels"
| "endpoint_of (CGetChannel _ _) = GetChannel"
| "endpoint_of (CUpdateChannel _ _ _) = PutUpdateChannel"
| "endpoint_of (CDeleteChannel _ _) = DeleteChannel"
| "endpoint_of (CRegister _) = PostRegister"
| "endpoint_of CLogout = PostLogout"
| "endpoint_of (CChangePassword _) = PostChangePassword"
| "endpoint_of (CSwitchOrg _) = PostSwitchOrg"
| "endpoint_of (CCreateServiceAccount _) = PostCreateServiceAccount"
| "endpoint_of (CListServiceAccounts _) = GetListServiceAccounts"
| "endpoint_of (CGetServiceAccount _) = GetServiceAccount"
| "endpoint_of (CDeleteServiceAccount _) = DeleteServiceAccountHandler"
| "endpoint_of (CCreateApiKey _ _) = PostCreateApiKey"
| "endpoint_of (CListApiKeys _) = GetListApiKeys"
| "endpoint_of (CDeleteApiKey _ _) = DeleteApiKeyHandler"
| "endpoint_of (CRotateApiKey _ _ _) = PostRotateApiKey"
| "endpoint_of (CListUsers _) = GetListUsers"
| "endpoint_of CGetDefinitions = GetDefinitions"
| "endpoint_of (CGetOrgFeatures _) = GetOrgFeatures"
| "endpoint_of (CPutOrgFeature _ _ _) = PutOrgFeature"
| "endpoint_of (CDeleteOrgFeature _ _) = DeleteOrgFeature"
| "endpoint_of CGetEcho = GetEcho"
| "endpoint_of (CPostEcho _) = PostEcho"

section \<open>Responses: tenants\<close>

record organisation_body =
  ogb_id :: uuid
  ogb_name :: string
  ogb_business :: string
  ogb_role_codes :: "string list"

definition created_organisation_body :: "create_organisation_output \<Rightarrow> organisation_body" where
  "created_organisation_body out =
     \<lparr> ogb_id = coo_id out, ogb_name = coo_name out, ogb_business = coo_business out,
       ogb_role_codes = coo_role_codes out \<rparr>"

definition listed_organisation_body :: "organisation_summary \<Rightarrow> organisation_body" where
  "listed_organisation_body s =
     \<lparr> ogb_id = os_id s, ogb_name = os_name s, ogb_business = os_business s,
       ogb_role_codes = os_role_codes s \<rparr>"

record paged_organisations =
  pgo_items :: "organisation_body list"
  pgo_next_cursor :: "string option"

record member_body =
  mb_user_id :: uuid
  mb_username :: string
  mb_email :: string
  mb_role_codes :: "string list"

definition member_body_of :: "member_summary \<Rightarrow> member_body" where
  "member_body_of m =
     \<lparr> mb_user_id = ms_user_id m, mb_username = ms_username m, mb_email = ms_email m,
       mb_role_codes = ms_role_codes m \<rparr>"

record paged_members =
  pgm_items :: "member_body list"
  pgm_next_cursor :: "string option"

record assign_role_response_body =
  arb_assigned :: bool

record channel_body =
  cb_id :: uuid
  cb_organisation_id :: uuid
  cb_name :: string
  cb_description :: "string option"
  cb_channel_type :: channel_type
  cb_api_key :: string
  cb_is_active :: bool
  cb_created_at :: datetime
  cb_updated_at :: datetime

definition channel_body_of :: "inbound_channel \<Rightarrow> channel_body" where
  "channel_body_of ch =
     \<lparr> cb_id = c_id ch, cb_organisation_id = c_organisation_id ch, cb_name = c_name ch,
       cb_description = c_description ch, cb_channel_type = c_channel_type ch,
       cb_api_key = c_api_key ch, cb_is_active = c_is_active ch,
       cb_created_at = c_created_at ch, cb_updated_at = c_updated_at ch \<rparr>"

record paged_channels =
  pgc_items :: "channel_body list"
  pgc_next_cursor :: "string option"

section \<open>Responses: security\<close>

record register_response =
  rgp_user_id :: uuid

record membership_dto =
  mdt_org_id :: uuid
  mdt_org_name :: string
  mdt_role_codes :: "string list"
  mdt_joined_at :: datetime

definition membership_dto_of :: "user_membership \<Rightarrow> membership_dto" where
  "membership_dto_of m =
     \<lparr> mdt_org_id = um_org_id m, mdt_org_name = um_org_name m,
       mdt_role_codes = um_role_codes m, mdt_joined_at = um_joined_at m \<rparr>"

record login_response =
  lgp_token :: string
  lgp_user_id :: uuid
  lgp_active_org_id :: uuid
  lgp_memberships :: "membership_dto list"

definition login_response_of :: "login_output \<Rightarrow> login_response" where
  "login_response_of out =
     \<lparr> lgp_token = lo_token out, lgp_user_id = lo_user_id out,
       lgp_active_org_id = lo_active_org_id out,
       lgp_memberships = map membership_dto_of (lo_memberships out) \<rparr>"

record token_response =
  tkp_token :: string

record user_summary_dto =
  usd_id :: uuid
  usd_username :: string
  usd_email :: string
  usd_created_at :: datetime
  usd_memberships :: "membership_dto list"

definition user_summary_dto_of :: "user_with_memberships \<Rightarrow> user_summary_dto" where
  "user_summary_dto_of u =
     \<lparr> usd_id = uw_id u, usd_username = uw_username u, usd_email = uw_email u,
       usd_created_at = uw_created_at u,
       usd_memberships = map membership_dto_of (uw_memberships u) \<rparr>"

record list_users_response =
  lup_items :: "user_summary_dto list"
  lup_next_cursor :: "string option"

record list_service_accounts_response =
  lsp_items :: "service_account_response list"
  lsp_next_cursor :: "string option"

record create_api_key_response =
  cky_key :: api_key_response
  cky_plaintext :: string

record list_api_keys_response =
  lky_items :: "api_key_response list"

section \<open>Responses\<close>

text \<open>
  The body of a response is one of the \<^verbatim>\<open>Json\<close> types, empty, a probe's status document (without the error text of \<^verbatim>\<open>ready\<close>), or a
  problem document.
\<close>

datatype body =
    NoBody
  | ProbeBody string
  | ProblemBody error_body
  | OrganisationB organisation_body
  | PagedOrganisationsB paged_organisations
  | PagedMembersB paged_members
  | AssignRoleB assign_role_response_body
  | ChannelB channel_body
  | PagedChannelsB paged_channels
  | RegisterB register_response
  | LoginB login_response
  | TokenB token_response
  | ListUsersB list_users_response
  | ServiceAccountB service_account_response
  | ListServiceAccountsB list_service_accounts_response
  | CreateApiKeyB create_api_key_response
  | ListApiKeysB list_api_keys_response
  | FeatureDefinitionsB "feature_definition list"
  | EvaluatedFeaturesB "evaluated_feature list"
  | EvaluatedFeatureB evaluated_feature
  | EchoB echo_response

record response =
  rs_status :: nat
  rs_content_type :: string
  rs_body :: body

definition json_response :: "nat \<Rightarrow> body \<Rightarrow> response" where
  "json_response status b =
     \<lparr> rs_status = status, rs_content_type = ''application/json'', rs_body = b \<rparr>"

text \<open>A bare status code: no body and no content type.\<close>

definition status_response :: "nat \<Rightarrow> response" where
  "status_response status = \<lparr> rs_status = status, rs_content_type = [], rs_body = NoBody \<rparr>"

definition problem_response :: "app_error \<Rightarrow> response" where
  "problem_response e =
     (case into_response e of (status, ct, b) \<Rightarrow>
        \<lparr> rs_status = status, rs_content_type = ct, rs_body = ProblemBody b \<rparr>)"

text \<open>No information is lost or altered on the way out: the bodies determine what the services said.\<close>

lemma channel_body_inj: "channel_body_of a = channel_body_of b \<Longrightarrow> a = b"
  by (simp add: channel_body_of_def)

lemma membership_dto_inj: "membership_dto_of a = membership_dto_of b \<Longrightarrow> a = b"
  by (simp add: membership_dto_of_def)

end
