(* ===== verification/Jobs.thy ===== *)
theory Jobs
  imports Tables
begin

text \<open>
  Background jobs (\<^verbatim>\<open>src/jobs\<close>): the job states (\<^verbatim>\<open>model.rs\<close>), the repository with its
  claim query (\<^verbatim>\<open>persistence/jobs_repository_pg.rs\<close>), the backoff, \<^verbatim>\<open>dispatch\<close> and one turn
  of the runner's loop (\<^verbatim>\<open>runner.rs\<close>). A \<^verbatim>\<open>std::time::Duration\<close> is its number of nanoseconds.
  Handlers are the caller's code: a map from kinds to actions.

  The step relation \<open>job_step\<close> interleaves the repository operations of any number of
  workers with the passing of time; its invariant is that a row is locked exactly while it is
  running.
\<close>

section \<open>Model\<close>

fun job_state_as_str :: "job_state \<Rightarrow> string" where
  "job_state_as_str Pending = ''pending''"
| "job_state_as_str Running = ''running''"
| "job_state_as_str Done = ''done''"
| "job_state_as_str Dead = ''dead''"

definition job_state_from_str :: "string \<Rightarrow> anyhow + job_state" where
  "job_state_from_str s =
     (if s = ''pending'' then Ok Pending
      else if s = ''running'' then Ok Running
      else if s = ''done'' then Ok Done
      else if s = ''dead'' then Ok Dead
      else Err opaque)"

lemma job_state_roundtrip: "job_state_from_str (job_state_as_str s) = Ok s"
  by (cases s) (simp_all add: job_state_from_str_def)

record enqueue_request =
  eq_kind :: string
  eq_payload :: json
  eq_max_attempts :: int
  eq_run_at :: datetime

definition enqueue_request_now :: "datetime \<Rightarrow> string \<Rightarrow> json \<Rightarrow> enqueue_request" where
  "enqueue_request_now now kind payload =
     \<lparr> eq_kind = kind, eq_payload = payload, eq_max_attempts = 5, eq_run_at = now \<rparr>"

definition with_max_attempts :: "int \<Rightarrow> enqueue_request \<Rightarrow> enqueue_request" where
  "with_max_attempts n r = r\<lparr>eq_max_attempts := n\<rparr>"

definition with_run_at :: "datetime \<Rightarrow> enqueue_request \<Rightarrow> enqueue_request" where
  "with_run_at t r = r\<lparr>eq_run_at := t\<rparr>"

section \<open>The repository\<close>

definition new_job :: "uuid \<Rightarrow> enqueue_request \<Rightarrow> datetime \<Rightarrow> job" where
  "new_job jid req now =
     \<lparr> j_id = jid, j_kind = eq_kind req, j_payload = eq_payload req, j_state = Pending,
       j_attempts = 0, j_max_attempts = eq_max_attempts req, j_run_at = eq_run_at req,
       j_locked_until = None, j_locked_by = None, j_last_error = None, j_created_at = now,
       j_updated_at = now \<rparr>"

definition enqueue_in_tx :: "env \<Rightarrow> enqueue_request \<Rightarrow> (anyhow, uuid) action" where
  "enqueue_in_tx E req =
     bindE (new_uuid E) (\<lambda>jid.
     bindE (map_err (\<lambda>_. opaque) (stmt E (\<lambda>now d.
       map_sum id (Pair ()) (insert_job (new_job jid req now) d)))) (\<lambda>_.
     ret jid))"

definition enqueue :: "env \<Rightarrow> enqueue_request \<Rightarrow> (anyhow, uuid) action" where
  "enqueue E req = in_tx E (\<lambda>_. opaque) (enqueue_in_tx E req)"

type_synonym duration = nat

definition as_secs :: "duration \<Rightarrow> u64" where
  "as_secs t = of_nat (t div 10 ^ 9)"

definition from_secs :: "u64 \<Rightarrow> duration" where
  "from_secs s = unat s * 10 ^ 9"

definition from_millis :: "u64 \<Rightarrow> duration" where
  "from_millis ms = unat ms * 10 ^ 6"

definition due :: "string list \<Rightarrow> datetime \<Rightarrow> job \<Rightarrow> bool" where
  "due kinds now j \<longleftrightarrow>
     j_kind j \<in> set kinds \<and>
     ((j_state j = Pending \<and> j_run_at j \<le> now) \<or>
      (j_state j = Running \<and> (case j_locked_until j of None \<Rightarrow> False | Some t \<Rightarrow> t \<le> now)))"

definition due_ids :: "string list \<Rightarrow> nat \<Rightarrow> (uuid \<Rightarrow> bool) \<Rightarrow> datetime \<Rightarrow> db \<Rightarrow> uuid list" where
  "due_ids kinds limit locked now d =
     map j_id (take limit (filter (\<lambda>j. \<not> locked (j_id j))
       (sort_key j_run_at (filter (due kinds now) (jobs d)))))"

definition lock_job :: "string \<Rightarrow> datetime \<Rightarrow> datetime \<Rightarrow> job \<Rightarrow> job" where
  "lock_job worker_id until now j =
     j\<lparr>j_state := Running, j_locked_until := Some until, j_locked_by := Some worker_id,
       j_updated_at := now\<rparr>"

definition claim_rows ::
    "string \<Rightarrow> string list \<Rightarrow> duration \<Rightarrow> nat \<Rightarrow> (uuid \<Rightarrow> bool) \<Rightarrow> datetime \<Rightarrow> db \<Rightarrow> job list \<times> db" where
  "claim_rows worker_id kinds visibility limit locked now d =
     (let ids = due_ids kinds limit locked now d;
          until = now + seconds (int (unat (as_secs visibility)));
          upd = (\<lambda>j. if j_id j \<in> set ids then lock_job worker_id until now j else j) in
      (map upd (filter (\<lambda>j. j_id j \<in> set ids) (jobs d)), d\<lparr>jobs := map upd (jobs d)\<rparr>))"

definition claim_due ::
    "env \<Rightarrow> string \<Rightarrow> string list \<Rightarrow> duration \<Rightarrow> u32 \<Rightarrow> (anyhow, job list) action" where
  "claim_due E worker_id kinds visibility limit =
     (if kinds = [] then ret []
      else
        bindE stmt_no (\<lambda>n.
        map_err (\<lambda>_. opaque) (stmt E (\<lambda>now d.
          Ok (claim_rows worker_id kinds visibility (unat limit) (row_locked E n) now d)))))"

definition update_job :: "uuid \<Rightarrow> (job \<Rightarrow> job) \<Rightarrow> db \<Rightarrow> db" where
  "update_job jid f d = d\<lparr>jobs := map (\<lambda>j. if j_id j = jid then f j else j) (jobs d)\<rparr>"

definition done_job :: "datetime \<Rightarrow> job \<Rightarrow> job" where
  "done_job now j =
     j\<lparr>j_state := Done, j_locked_until := None, j_locked_by := None, j_updated_at := now\<rparr>"

definition retry_job :: "string \<Rightarrow> datetime \<Rightarrow> datetime \<Rightarrow> job \<Rightarrow> job" where
  "retry_job err next_run_at now j =
     j\<lparr>j_state := Pending, j_attempts := j_attempts j + 1, j_last_error := Some err,
       j_run_at := next_run_at, j_locked_until := None, j_locked_by := None, j_updated_at := now\<rparr>"

definition dead_job :: "string \<Rightarrow> datetime \<Rightarrow> job \<Rightarrow> job" where
  "dead_job err now j =
     j\<lparr>j_state := Dead, j_attempts := j_attempts j + 1, j_last_error := Some err,
       j_locked_until := None, j_locked_by := None, j_updated_at := now\<rparr>"

definition mark_done :: "env \<Rightarrow> uuid \<Rightarrow> (anyhow, unit) action" where
  "mark_done E jid =
     map_err (\<lambda>_. opaque) (stmt E (\<lambda>now d. Ok ((), update_job jid (done_job now) d)))"

definition mark_failed_retry :: "env \<Rightarrow> uuid \<Rightarrow> string \<Rightarrow> datetime \<Rightarrow> (anyhow, unit) action" where
  "mark_failed_retry E jid err next_run_at =
     map_err (\<lambda>_. opaque) (stmt E (\<lambda>now d. Ok ((), update_job jid (retry_job err next_run_at now) d)))"

definition mark_dead :: "env \<Rightarrow> uuid \<Rightarrow> string \<Rightarrow> (anyhow, unit) action" where
  "mark_dead E jid err =
     map_err (\<lambda>_. opaque) (stmt E (\<lambda>now d. Ok ((), update_job jid (dead_job err now) d)))"

definition jobs_find :: "env \<Rightarrow> uuid \<Rightarrow> (anyhow, job option) action" where
  "jobs_find E jid = map_err (\<lambda>_. opaque) (query E (\<lambda>_ d. find (\<lambda>j. j_id j = jid) (jobs d)))"

section \<open>The runner\<close>

datatype job_error = Retryable string | Permanent string

type_synonym handler = "json \<Rightarrow> (job_error, unit) action"

record job_runner_config =
  jr_poll_interval :: duration
  jr_visibility_timeout :: duration
  jr_batch_size :: u32
  jr_backoff_initial :: duration
  jr_backoff_factor :: u32
  jr_backoff_max :: duration

definition job_runner_config_default :: job_runner_config where
  "job_runner_config_default =
     \<lparr> jr_poll_interval = from_millis 500, jr_visibility_timeout = from_secs 60, jr_batch_size = 16,
       jr_backoff_initial = from_secs 5, jr_backoff_factor = 4,
       jr_backoff_max = from_secs 3600 \<rparr>"

definition compute_backoff :: "u32 \<Rightarrow> duration \<Rightarrow> u32 \<Rightarrow> duration \<Rightarrow> duration" where
  "compute_backoff attempt initial factor maxd =
     (let ex = saturating_sub attempt 1;
          mult = saturating_pow (ucast factor) ex;
          secs = saturating_mul (as_secs initial) mult;
          t = from_secs secs
      in if maxd < t then maxd else t)"

text \<open>
  \<^verbatim>\<open>chrono::Duration::from_std\<close> refuses more than \<^verbatim>\<open>i64::MAX\<close> milliseconds; the code then
  waits five seconds. The result is in microseconds.
\<close>

definition chrono_from_std :: "duration \<Rightarrow> int" where
  "chrono_from_std t =
     (if int t \<le> (2 ^ 63 - 1) * 10 ^ 6 then int (t div 1000) else seconds 5)"

record runner =
  rn_worker_id :: string
  rn_handlers :: "string \<Rightarrow> handler option"
  rn_kinds :: "string list"
  rn_cfg :: job_runner_config

definition register :: "string \<Rightarrow> handler \<Rightarrow> runner \<Rightarrow> runner" where
  "register kind h r =
     r\<lparr>rn_handlers := (rn_handlers r)(kind \<mapsto> h), rn_kinds := List.insert kind (rn_kinds r)\<rparr>"

text \<open>An error while the outcome is written down is logged and ignored.\<close>

definition ignore :: "(anyhow, unit) action \<Rightarrow> ('e, unit) action" where
  "ignore m = matchE m (\<lambda>_. ret ())"

definition settle :: "env \<Rightarrow> job_runner_config \<Rightarrow> job \<Rightarrow> job_error + unit \<Rightarrow> ('e, unit) action" where
  "settle E cfg j outcome =
     (case outcome of
        Ok _ \<Rightarrow> ignore (mark_done E (j_id j))
      | Err (Permanent msg) \<Rightarrow> ignore (mark_dead E (j_id j) msg)
      | Err (Retryable msg) \<Rightarrow>
          let next_attempt = j_attempts j + 1 in
          if next_attempt \<ge> j_max_attempts j then ignore (mark_dead E (j_id j) msg)
          else
            let backoff = compute_backoff (of_int next_attempt) (jr_backoff_initial cfg)
                  (jr_backoff_factor cfg) (jr_backoff_max cfg) in
            bindE utc_now (\<lambda>now.
            ignore (mark_failed_retry E (j_id j) msg (now + chrono_from_std backoff))))"

definition dispatch :: "env \<Rightarrow> runner \<Rightarrow> job \<Rightarrow> ('e, unit) action" where
  "dispatch E r j =
     matchE (case rn_handlers r (j_kind j) of
               None \<Rightarrow> fail (Permanent (''no handler for kind '' @ [CHR 0x27] @ j_kind j @ [CHR 0x27]))
             | Some h \<Rightarrow> h (j_payload j))
       (settle E (rn_cfg r) j)"

text \<open>
  One turn of the loop: claim a batch and dispatch it job by job; a failing claim counts as
  an empty batch. Returns how many jobs were dispatched.
\<close>

definition runner_turn :: "env \<Rightarrow> runner \<Rightarrow> ('e, nat) action" where
  "runner_turn E r =
     matchE (claim_due E (rn_worker_id r) (rn_kinds r) (jr_visibility_timeout (rn_cfg r))
               (jr_batch_size (rn_cfg r))) (\<lambda>res.
     let claimed = (case res of Ok js \<Rightarrow> js | Err _ \<Rightarrow> []) in
     bindE (for_each (dispatch E r) claimed) (\<lambda>_.
     ret (length claimed)))"

section \<open>Backoff\<close>

lemma unat_as_secs: "t div 10 ^ 9 < 2 ^ 64 \<Longrightarrow> unat (as_secs t) = t div 10 ^ 9"
  by (simp add: as_secs_def unat_of_nat)

lemma compute_backoff_le: "compute_backoff attempt initial factor maxd \<le> maxd"
  by (simp add: compute_backoff_def Let_def)

text \<open>The closed form: geometric in the attempt, saturating, and capped.\<close>

lemma compute_backoff_eq:
  "compute_backoff attempt initial factor maxd =
     min maxd (min (unat (as_secs initial) *
       min (unat factor ^ (unat attempt - 1)) u64_max) u64_max * 10 ^ 9)"
proof -
  have "unat factor < 2 ^ LENGTH(32)" by (rule unsigned_less)
  then have f: "unat (ucast factor :: u64) = unat factor"
    by (simp add: unsigned_ucast_eq take_bit_nat_eq_self_iff)
  show ?thesis
    by (simp add: compute_backoff_def Let_def from_secs_def unat_saturating_mul unat_saturating_pow
        unat_saturating_sub f min_def)
qed

lemma compute_backoff_mono:
  assumes "0 < factor" and "a \<le> b"
  shows "compute_backoff a initial factor maxd \<le> compute_backoff b initial factor maxd"
proof -
  have "unat a - 1 \<le> unat b - 1" using assms(2) by (simp add: word_le_nat_alt diff_le_mono)
  moreover have "1 \<le> unat factor" using assms(1) by (simp add: word_less_nat_alt Suc_le_eq)
  ultimately have "unat factor ^ (unat a - 1) \<le> unat factor ^ (unat b - 1)"
    by (intro power_increasing) auto
  then have "unat (as_secs initial) * min (unat factor ^ (unat a - 1)) u64_max \<le>
      unat (as_secs initial) * min (unat factor ^ (unat b - 1)) u64_max"
    by (intro mult_le_mono2 min.mono) auto
  then show ?thesis
    unfolding compute_backoff_eq by (intro min.mono mult_le_mono1) auto
qed

section \<open>The life of a job\<close>

text \<open>A row is locked exactly while it is running, and has not been retried a negative number of times.\<close>

definition job_ok :: "job \<Rightarrow> bool" where
  "job_ok j \<longleftrightarrow>
     (j_state j = Running \<longleftrightarrow> j_locked_by j \<noteq> None) \<and>
     (j_locked_by j = None \<longleftrightarrow> j_locked_until j = None) \<and> 0 \<le> j_attempts j"

lemma job_ok_intros:
  "job_ok (new_job jid req now)"
  "job_ok j \<Longrightarrow> job_ok (lock_job wid until now j)"
  "job_ok j \<Longrightarrow> job_ok (done_job now j)"
  "job_ok j \<Longrightarrow> job_ok (retry_job err t now j)"
  "job_ok j \<Longrightarrow> job_ok (dead_job err now j)"
  by (simp_all add: job_ok_def new_job_def lock_job_def done_job_def retry_job_def dead_job_def)

text \<open>
  What any number of runners can do to the table, one statement at a time: time passes, a
  job is enqueued, a worker claims a batch, or a worker writes down the outcome of some job
  (whoever holds it now).
\<close>

inductive job_step :: "datetime \<times> db \<Rightarrow> datetime \<times> db \<Rightarrow> bool" where
  tick: "now \<le> now' \<Longrightarrow> job_step (now, d) (now', d)"
| enqueue: "insert_job (new_job jid req now) d = Ok d' \<Longrightarrow> job_step (now, d) (now, d')"
| claim: "claim_rows wid kinds vis limit locked now d = (js, d') \<Longrightarrow> job_step (now, d) (now, d')"
| finish: "job_step (now, d) (now, update_job jid (done_job now) d)"
| retry: "job_step (now, d) (now, update_job jid (retry_job err t now) d)"
| die: "job_step (now, d) (now, update_job jid (dead_job err now) d)"

inductive_cases job_stepE: "job_step s s'"

definition jobs_ok :: "db \<Rightarrow> bool" where
  "jobs_ok d \<longleftrightarrow> distinct (map j_id (jobs d)) \<and> (\<forall>j \<in> set (jobs d). job_ok j)"

lemma map_j_id_update:
  "(\<And>j. j_id (f j) = j_id j) \<Longrightarrow> map j_id (map (\<lambda>j. if P j then f j else j) js) = map j_id js"
  by (rule map_key_update) simp

lemma j_id_updates [simp]:
  "j_id (lock_job wid until now j) = j_id j" "j_id (done_job now j) = j_id j"
  "j_id (retry_job err t now j) = j_id j" "j_id (dead_job err now j) = j_id j"
  by (simp_all add: lock_job_def done_job_def retry_job_def dead_job_def)

lemma jobs_ok_update:
  assumes "jobs_ok d" and "\<And>j. j_id (f j) = j_id j" and "\<And>j. job_ok j \<Longrightarrow> job_ok (f j)"
  shows "jobs_ok (d\<lparr>jobs := map (\<lambda>j. if P j then f j else j) (jobs d)\<rparr>)"
proof -
  have "distinct (map j_id (map (\<lambda>j. if P j then f j else j) (jobs d)))"
    using assms(1,2) by (subst map_j_id_update) (auto simp: jobs_ok_def)
  then show ?thesis using assms by (auto simp: jobs_ok_def)
qed

lemma jobs_ok_step: "job_step s s' \<Longrightarrow> jobs_ok (snd s) \<Longrightarrow> jobs_ok (snd s')"
proof (induction rule: job_step.induct)
  case (enqueue jid req now d d')
  then show ?case
    by (auto simp: insert_job_def jobs_ok_def job_ok_intros split: if_splits)
next
  case (claim wid kinds vis limit locked now d js d')
  then show ?case
    by (auto simp: claim_rows_def Let_def intro!: jobs_ok_update job_ok_intros)
qed (auto simp: update_job_def intro!: jobs_ok_update job_ok_intros)

lemma jobs_ok_reachable: "job_step\<^sup>*\<^sup>* s s' \<Longrightarrow> jobs_ok (snd s) \<Longrightarrow> jobs_ok (snd s')"
  by (induction rule: rtranclp_induct) (auto intro: jobs_ok_step)

text \<open>
  Exclusivity of a claim: what \<open>claim_rows\<close> returns was due, is now running under this
  worker's name until the visibility timeout, and cannot be claimed again before that.
\<close>

lemma claim_rows_claimed:
  assumes ok: "jobs_ok d" and run: "claim_rows wid kinds vis limit locked now d = (js, d')"
    and j: "j \<in> set js"
  shows "j \<in> set (jobs d') \<and> j_state j = Running \<and> j_locked_by j = Some wid \<and>
     j_locked_until j = Some (now + seconds (int (unat (as_secs vis)))) \<and>
     (\<exists>j0 \<in> set (jobs d). j_id j0 = j_id j \<and> due kinds now j0 \<and> \<not> locked (j_id j0) \<and>
        j_attempts j = j_attempts j0 \<and> j_max_attempts j = j_max_attempts j0)"
proof -
  let ?ids = "due_ids kinds limit locked now d"
  from run j obtain j0 where j0: "j0 \<in> set (jobs d)" "j_id j0 \<in> set ?ids"
    and eq: "j = lock_job wid (now + seconds (int (unat (as_secs vis)))) now j0"
    and d': "d' = d\<lparr>jobs := map (\<lambda>j. if j_id j \<in> set ?ids
        then lock_job wid (now + seconds (int (unat (as_secs vis)))) now j else j) (jobs d)\<rparr>"
    by (auto simp: claim_rows_def Let_def)
  from j0(2) obtain j1 where j1: "j1 \<in> set (jobs d)" "due kinds now j1" "\<not> locked (j_id j1)"
    "j_id j1 = j_id j0"
    by (fastforce simp: due_ids_def dest!: in_set_takeD)
  have "j1 = j0" using ok j0(1) j1(1,4) by (auto simp: jobs_ok_def distinct_map inj_on_def)
  with j0 j1 eq d' show ?thesis by (auto simp: lock_job_def image_iff)
qed

lemma locked_not_due:
  assumes "job_ok j" and "j_locked_until j = Some t" and "now < t"
  shows "\<not> due kinds now j"
  using assms by (auto simp: due_def job_ok_def)

lemma claim_rows_disjoint:
  assumes ok: "jobs_ok d" "jobs_ok d'"
    and first: "claim_rows wid kinds vis limit locked now d = (js, d')"
    and second: "claim_rows wid' kinds' vis' limit' locked' now' d' = (js', d'')"
    and early: "now' < now + seconds (int (unat (as_secs vis)))"
  shows "j_id ` set js \<inter> j_id ` set js' = {}"
proof -
  have False if "j \<in> set js" "j' \<in> set js'" "j_id j = j_id j'" for j j'
  proof -
    from claim_rows_claimed [OF ok(1) first that(1)] have
      j: "j \<in> set (jobs d')" "j_locked_until j = Some (now + seconds (int (unat (as_secs vis))))" by auto
    from claim_rows_claimed [OF ok(2) second that(2)] obtain j0 where
      j0: "j0 \<in> set (jobs d')" "j_id j0 = j_id j'" "due kinds' now' j0" by auto
    have "j0 = j" using ok(2) j(1) j0(1,2) that(3) by (auto simp: jobs_ok_def distinct_map inj_on_def)
    moreover have "job_ok j" using ok(2) j(1) by (simp add: jobs_ok_def)
    ultimately show False using locked_not_due [OF _ j(2) early] j0(3) by simp
  qed
  then show ?thesis by blast
qed

section \<open>What a failed attempt does\<close>

lemma settle_retryable:
  assumes "\<not> db_fault E (w_stmts w)"
  shows "\<exists>w'. settle E cfg j (Err (Retryable msg)) w = (Ok (), w') \<and>
     w_db w' = update_job (j_id j)
       (if j_attempts j + 1 \<ge> j_max_attempts j then dead_job msg (w_now w)
        else retry_job msg (w_now w + chrono_from_std (compute_backoff (of_int (j_attempts j + 1))
          (jr_backoff_initial cfg) (jr_backoff_factor cfg) (jr_backoff_max cfg))) (w_now w)) (w_db w)"
  using assms
  by (simp add: settle_def ignore_def matchE_def bindE_def utc_now_def mark_dead_def
      mark_failed_retry_def map_err_def stmt_def Let_def)

text \<open>
  A job whose every attempt ends in a retryable error: \<open>n\<close> times its row is read and the
  outcome of the attempt settled. The loop between two attempts only moves the lock, which
  settling clears.
\<close>

fun attempts_fail :: "env \<Rightarrow> job_runner_config \<Rightarrow> string \<Rightarrow> uuid \<Rightarrow> nat \<Rightarrow> world \<Rightarrow> world" where
  "attempts_fail E cfg msg jid 0 w = w"
| "attempts_fail E cfg msg jid (Suc n) w =
     (case find (\<lambda>j. j_id j = jid) (jobs (w_db w)) of
        None \<Rightarrow> w
      | Some j \<Rightarrow> attempts_fail E cfg msg jid n
          (snd (settle E cfg j (Err (Retryable msg)) w :: (anyhow + unit) \<times> world)))"

lemma find_update_job:
  "(\<And>j. j_id (f j) = j_id j) \<Longrightarrow>
   find (\<lambda>j. j_id j = jid) (jobs (update_job jid f d)) = map_option f (find (\<lambda>j. j_id j = jid) (jobs d))"
proof -
  assume f: "\<And>j. j_id (f j) = j_id j"
  have "find (\<lambda>j. j_id j = jid) (map (\<lambda>j. if j_id j = jid then f j else j) js) =
      map_option f (find (\<lambda>j. j_id j = jid) js)" for js
    by (induction js) (simp_all add: f)
  then show ?thesis by (simp add: update_job_def)
qed

lemma settle_retryable_row:
  assumes "\<And>n. \<not> db_fault E n" and "find (\<lambda>j. j_id j = jid) (jobs (w_db w)) = Some j"
  shows "\<exists>k. find (\<lambda>j. j_id j = jid)
       (jobs (w_db (snd (settle E cfg j (Err (Retryable msg)) w :: (anyhow + unit) \<times> world)))) = Some k \<and>
     j_attempts k = j_attempts j + 1 \<and> j_max_attempts k = j_max_attempts j \<and>
     j_state k = (if j_attempts j + 1 \<ge> j_max_attempts j then Dead else Pending)"
proof -
  have "j_id j = jid" using assms(2) by (auto simp: find_Some_iff)
  moreover obtain w' where "settle E cfg j (Err (Retryable msg)) w = ((Ok () :: anyhow + unit), w')"
    and "w_db w' = update_job (j_id j)
       (if j_attempts j + 1 \<ge> j_max_attempts j then dead_job msg (w_now w)
        else retry_job msg (w_now w + chrono_from_std (compute_backoff (of_int (j_attempts j + 1))
          (jr_backoff_initial cfg) (jr_backoff_factor cfg) (jr_backoff_max cfg))) (w_now w)) (w_db w)"
    using settle_retryable [OF assms(1)] by blast
  ultimately show ?thesis using assms(2)
    by (auto simp: find_update_job dead_job_def retry_job_def)
qed

lemma attempts_fail_state:
  assumes "\<And>n. \<not> db_fault E n" and "find (\<lambda>j. j_id j = jid) (jobs (w_db w)) = Some j"
    and "j_attempts j + int (Suc n) \<le> j_max_attempts j"
  shows "\<exists>k. find (\<lambda>j. j_id j = jid) (jobs (w_db (attempts_fail E cfg msg jid (Suc n) w))) = Some k \<and>
     j_attempts k = j_attempts j + int (Suc n) \<and>
     j_state k = (if j_attempts j + int (Suc n) = j_max_attempts j then Dead else Pending)"
  using assms(2,3)
proof (induction n arbitrary: w j)
  case 0
  then show ?case using settle_retryable_row [OF assms(1) 0(1), of cfg msg] by auto
next
  case (Suc n)
  let ?w = "snd (settle E cfg j (Err (Retryable msg)) w :: (anyhow + unit) \<times> world)"
  obtain k where k: "find (\<lambda>j. j_id j = jid) (jobs (w_db ?w)) = Some k"
    "j_attempts k = j_attempts j + 1" "j_max_attempts k = j_max_attempts j"
    using settle_retryable_row [OF assms(1) Suc.prems(1)] by blast
  have "j_attempts k + int (Suc n) \<le> j_max_attempts k" using Suc.prems(2) k by simp
  from Suc.IH [OF k(1) this] k Suc.prems show ?case by (auto simp: algebra_simps)
qed

end
