(* ===== verification/Outbox.thy ===== *)
theory Outbox
  imports Jobs
begin

text \<open>
  The transactional outbox (\<^verbatim>\<open>src/outbox\<close>): appending an event, and the relayer's \<^verbatim>\<open>tick\<close>,
  which turns a batch of unrelayed events into jobs inside one transaction. An early return of
  \<^verbatim>\<open>Ok\<close> before the commit rolls back, so a transaction here says whether it commits.

  The lemmas give the batch in full: on success exactly the oldest unrelayed events (that no
  other transaction holds) became one job each, in order, and are marked; on failure nothing
  happened. Ticking until nothing is left relays every event once.
\<close>

section \<open>Appending\<close>

record append_request =
  ap_aggregate_type :: "string option"
  ap_aggregate_id :: "uuid option"
  ap_event_type :: string
  ap_payload :: json

definition append_request_new :: "string \<Rightarrow> json \<Rightarrow> append_request" where
  "append_request_new event_type payload =
     \<lparr> ap_aggregate_type = None, ap_aggregate_id = None, ap_event_type = event_type,
       ap_payload = payload \<rparr>"

definition with_aggregate :: "string \<Rightarrow> uuid \<Rightarrow> append_request \<Rightarrow> append_request" where
  "with_aggregate ty i r = r\<lparr>ap_aggregate_type := Some ty, ap_aggregate_id := Some i\<rparr>"

definition new_event :: "uuid \<Rightarrow> append_request \<Rightarrow> datetime \<Rightarrow> outbox_event" where
  "new_event eid req now =
     \<lparr> ob_id = eid, ob_aggregate_type = ap_aggregate_type req, ob_aggregate_id = ap_aggregate_id req,
       ob_event_type = ap_event_type req, ob_payload = ap_payload req, ob_created_at = now,
       ob_relayed_at = None, ob_relay_attempts = 0, ob_last_error = None \<rparr>"

definition append_in_tx :: "env \<Rightarrow> append_request \<Rightarrow> (anyhow, uuid) action" where
  "append_in_tx E req =
     bindE (new_uuid E) (\<lambda>eid.
     bindE (map_err (\<lambda>_. opaque) (stmt E (\<lambda>now d.
       map_sum id (Pair ()) (insert_outbox (new_event eid req now) d)))) (\<lambda>_.
     ret eid))"

definition append_standalone :: "env \<Rightarrow> append_request \<Rightarrow> (anyhow, uuid) action" where
  "append_standalone E req = in_tx E (\<lambda>_. opaque) (append_in_tx E req)"

section \<open>Relaying\<close>

definition event_key :: "outbox_event \<Rightarrow> cursor" where
  "event_key e = (ob_created_at e, ob_id e)"

definition unrelayed :: "(uuid \<Rightarrow> bool) \<Rightarrow> nat \<Rightarrow> db \<Rightarrow> outbox_event list" where
  "unrelayed locked limit d =
     take limit (filter (\<lambda>e. \<not> locked (ob_id e))
       (sort_key event_key (filter (\<lambda>e. ob_relayed_at e = None) (outbox d))))"

definition claim_unrelayed_in_tx :: "env \<Rightarrow> u32 \<Rightarrow> (anyhow, outbox_event list) action" where
  "claim_unrelayed_in_tx E limit =
     bindE stmt_no (\<lambda>n.
     map_err (\<lambda>_. opaque) (query E (\<lambda>_. unrelayed (row_locked E n) (unat limit))))"

definition mark_rows :: "uuid list \<Rightarrow> datetime \<Rightarrow> outbox_event list \<Rightarrow> outbox_event list" where
  "mark_rows ids now es =
     map (\<lambda>e. if ob_id e \<in> set ids then e\<lparr>ob_relayed_at := Some now\<rparr> else e) es"

definition mark_relayed_in_tx :: "env \<Rightarrow> uuid list \<Rightarrow> (anyhow, unit) action" where
  "mark_relayed_in_tx E ids =
     (if ids = [] then ret ()
      else map_err (\<lambda>_. opaque) (stmt E (\<lambda>now d.
        Ok ((), d\<lparr>outbox := mark_rows ids now (outbox d)\<rparr>))))"

definition outbox_find :: "env \<Rightarrow> uuid \<Rightarrow> (anyhow, outbox_event option) action" where
  "outbox_find E eid = map_err (\<lambda>_. opaque) (query E (\<lambda>_ d. find (\<lambda>e. ob_id e = eid) (outbox d)))"

record outbox_relayer_config =
  or_poll_interval :: duration
  or_batch_size :: u32
  or_job_max_attempts :: int

definition outbox_relayer_config_default :: outbox_relayer_config where
  "outbox_relayer_config_default = \<lparr> or_poll_interval = from_millis 250, or_batch_size = 64, or_job_max_attempts = 5 \<rparr>"

definition relay_request :: "outbox_relayer_config \<Rightarrow> outbox_event \<Rightarrow> datetime \<Rightarrow> enqueue_request" where
  "relay_request cfg e now =
     with_max_attempts (or_job_max_attempts cfg)
       (enqueue_request_now now (ob_event_type e) (ob_payload e))"

definition enqueue_event :: "env \<Rightarrow> outbox_relayer_config \<Rightarrow> outbox_event \<Rightarrow> (anyhow, unit) action" where
  "enqueue_event E cfg e =
     bindE utc_now (\<lambda>now.
     bindE (enqueue_in_tx E (relay_request cfg e now)) (\<lambda>_. ret ()))"

text \<open>A transaction whose body returns a value and whether to commit it.\<close>

definition in_tx_if :: "env \<Rightarrow> (sqlx_error \<Rightarrow> 'e) \<Rightarrow> ('e, 'a \<times> bool) action \<Rightarrow> ('e, 'a) action" where
  "in_tx_if E conv body w =
     (case control E w of
        (Err e, w1) \<Rightarrow> (Err (conv e), w1)
      | (Ok _, w1) \<Rightarrow>
          (case body w1 of
             (Err e, w2) \<Rightarrow> (Err e, w2\<lparr>w_db := w_db w\<rparr>)
           | (Ok (a, False), w2) \<Rightarrow> (Ok a, (snd (control E w2))\<lparr>w_db := w_db w\<rparr>)
           | (Ok (a, True), w2) \<Rightarrow>
               (case control E w2 of
                  (Err e, w3) \<Rightarrow> (Err (conv e), w3\<lparr>w_db := w_db w\<rparr>)
                | (Ok _, w3) \<Rightarrow> (Ok a, w3))))"

definition tick :: "env \<Rightarrow> outbox_relayer_config \<Rightarrow> (anyhow, nat) action" where
  "tick E cfg =
     in_tx_if E (\<lambda>_. opaque) (
       bindE (claim_unrelayed_in_tx E (or_batch_size cfg)) (\<lambda>events.
       if events = [] then ret (0, False)
       else
         bindE (for_each (enqueue_event E cfg) events) (\<lambda>_.
         bindE (mark_relayed_in_tx E (map ob_id events)) (\<lambda>_.
         ret (length events, True)))))"

section \<open>What a tick does\<close>

text \<open>The jobs a batch becomes, with ids drawn from the generator one after the other.\<close>

fun relayed_jobs ::
    "env \<Rightarrow> outbox_relayer_config \<Rightarrow> datetime \<Rightarrow> nat \<Rightarrow> outbox_event list \<Rightarrow> job list" where
  "relayed_jobs E cfg now n [] = []"
| "relayed_jobs E cfg now n (e # es) =
     new_job (uuid_v7 E n) (relay_request cfg e now) now # relayed_jobs E cfg now (Suc n) es"

lemma enqueue_event_Ok:
  "enqueue_event E cfg e w = (Ok (), w') \<Longrightarrow>
   w_db w' = (w_db w)\<lparr>jobs := jobs (w_db w) @ [new_job (uuid_v7 E (w_draws w))
     (relay_request cfg e (w_now w)) (w_now w)]\<rparr> \<and>
   w_draws w' = Suc (w_draws w) \<and> w_now w' = w_now w"
  by (auto simp: enqueue_event_def enqueue_in_tx_def action_ok_simps insert_job_def map_sum_def
      split: sum.splits if_splits)

lemma enqueue_all_Ok:
  "for_each (enqueue_event E cfg) es w = (Ok (), w') \<Longrightarrow>
   w_db w' = (w_db w)\<lparr>jobs := jobs (w_db w) @ relayed_jobs E cfg (w_now w) (w_draws w) es\<rparr> \<and>
   w_now w' = w_now w"
proof (induction es arbitrary: w)
  case (Cons e es)
  then obtain w1 where w1: "enqueue_event E cfg e w = (Ok (), w1)"
    "for_each (enqueue_event E cfg) es w1 = (Ok (), w')"
    by (auto simp: bindE_eq_Ok_iff)
  from enqueue_event_Ok [OF w1(1)] Cons.IH [OF w1(2)] show ?case by simp
qed simp

lemma in_tx_if_Err_db: "in_tx_if E conv body w = (Err e, w') \<Longrightarrow> w_db w' = w_db w"
  using control_db [of E]
  by (auto simp: in_tx_if_def split: prod.splits sum.splits bool.splits)

text \<open>
  A tick that fails leaves the tables as they were; one that succeeds relayed exactly the
  claimed batch: one job per event in order, every one of them marked, nothing else changed.
\<close>

lemma tick_Err: "tick E cfg w = (Err e, w') \<Longrightarrow> w_db w' = w_db w"
  unfolding tick_def by (rule in_tx_if_Err_db)

lemma tick_effect:
  fixes cfg :: outbox_relayer_config
  assumes "tick E cfg w = (Ok n, w')"
  defines "evs \<equiv> unrelayed (row_locked E (Suc (w_stmts w))) (unat (or_batch_size cfg)) (w_db w)"
  shows "n = length evs \<and>
     w_db w' = (w_db w)\<lparr>
       jobs := jobs (w_db w) @ relayed_jobs E cfg (w_now w) (w_draws w) evs,
       outbox := mark_rows (map ob_id evs) (w_now w) (outbox (w_db w))\<rparr>"
proof -
  obtain w1 where c1: "control E w = (Ok (), w1)"
    using assms(1) by (auto simp: tick_def in_tx_if_def split: prod.splits sum.splits)
  then have w1: "w1 = w\<lparr>w_stmts := Suc (w_stmts w)\<rparr>" by (simp add: query_Ok_iff)
  show ?thesis
  proof (cases "evs = []")
    case True
    have "n = 0 \<and> w_db w' = w_db w"
      using assms(1) c1 True w1 unfolding evs_def
      by (auto simp: tick_def in_tx_if_def claim_unrelayed_in_tx_def bindE_def stmt_no_def
          map_err_def query_def stmt_def Let_def
          split: prod.splits sum.splits bool.splits if_splits)
    with True show ?thesis by (auto simp: mark_rows_def)
  next
    case False
    obtain w2 w3 where
      enq: "for_each (enqueue_event E cfg) evs (w\<lparr>w_stmts := Suc (Suc (w_stmts w))\<rparr>) = (Ok (), w2)"
      and mark: "mark_relayed_in_tx E (map ob_id evs) w2 = (Ok (), w3)"
      and c3: "control E w3 = (Ok (), w')" and n: "n = length evs"
      using assms(1) c1 False w1 unfolding evs_def
      by (auto simp: tick_def in_tx_if_def claim_unrelayed_in_tx_def bindE_def stmt_no_def
          map_err_def query_def stmt_def Let_def
          split: prod.splits sum.splits bool.splits if_splits)
    have "w_db w3 = (w_db w2)\<lparr>outbox := mark_rows (map ob_id evs) (w_now w2) (outbox (w_db w2))\<rparr>"
      using mark False by (auto simp: mark_relayed_in_tx_def action_ok_simps)
    with enqueue_all_Ok [OF enq] control_db [OF c3] n show ?thesis by simp
  qed
qed

lemma tick_Ok:
  assumes "tick E cfg w = (Ok n, w')"
  shows "\<exists>locked events. events = unrelayed locked (unat (or_batch_size cfg)) (w_db w) \<and>
     n = length events \<and>
     w_db w' = (w_db w)\<lparr>
       jobs := jobs (w_db w) @ relayed_jobs E cfg (w_now w) (w_draws w) events,
       outbox := mark_rows (map ob_id events) (w_now w) (outbox (w_db w))\<rparr>"
  using tick_effect [OF assms] by blast

text \<open>What has been marked is not claimed again, by any relayer.\<close>

lemma unrelayed_marked:
  assumes "outbox d' = mark_rows ids now (outbox d)"
  shows "set ids \<inter> ob_id ` set (unrelayed locked m d') = {}"
  using assms by (auto simp: unrelayed_def mark_rows_def dest!: in_set_takeD split: if_split_asm)

end
