(* ===== verification/Integrity.thy ===== *)
theory Integrity
  imports SecurityApi Outbox
begin

text \<open>
  Referential integrity, end to end: every service that writes keeps \<open>wf_db\<close> (primary keys,
  unique columns and foreign keys), whatever it returns and whichever statements fail. Each
  repository call gets one lemma; a service is then a composition the calculus of
  \<open>keeps_db\<close> closes by itself.
\<close>

section \<open>Updates in place\<close>

text \<open>
  Tables that nothing refers to can be replaced by any table with unique keys and valid
  references of its own.
\<close>

lemma wf_set_memberships:
  "wf_db E d \<Longrightarrow> distinct (map membership_key ms) \<Longrightarrow> set ms \<subseteq> set (memberships d) \<Longrightarrow>
   wf_db E (d\<lparr>memberships := ms\<rparr>)"
  by (simp add: wf_defs subset_iff)

lemma wf_filter_memberships:
  "wf_db E d \<Longrightarrow> wf_db E (d\<lparr>memberships := filter P (memberships d)\<rparr>)"
  by (rule wf_set_memberships) (auto simp: wf_defs distinct_map_filter)

lemma wf_filter_channels: "wf_db E d \<Longrightarrow> wf_db E (d\<lparr>channels := filter P (channels d)\<rparr>)"
  by (simp add: wf_defs distinct_map_filter)

lemma wf_filter_reset_tokens:
  "wf_db E d \<Longrightarrow> wf_db E (d\<lparr>reset_tokens := filter P (reset_tokens d)\<rparr>)"
  by (simp add: wf_defs distinct_map_filter)

lemma wf_filter_overrides:
  "wf_db E d \<Longrightarrow> wf_db E (d\<lparr>feature_overrides := filter P (feature_overrides d)\<rparr>)"
  by (simp add: wf_defs distinct_map_filter)

text \<open>An update that keeps the keys and references of every row.\<close>

lemma unique_emails_map:
  "(\<And>u. u_email (f u) = u_email u) \<Longrightarrow> unique_emails E (map f us) = unique_emails E us"
  by (simp add: unique_emails_def sorted_wrt_map)

lemma wf_map_users:
  assumes "wf_db E d"
    and "\<And>u. u_id (f u) = u_id u" "\<And>u. u_username (f u) = u_username u" "\<And>u. u_email (f u) = u_email u"
  shows "wf_db E (d\<lparr>users := map f (users d)\<rparr>)"
  using assms by (simp add: wf_defs o_def unique_emails_map image_image)

lemma wf_map_reset_tokens:
  assumes "wf_db E d" and "\<And>t. t_id (f t) = t_id t" "\<And>t. t_token_hash (f t) = t_token_hash t"
    "\<And>t. t_user_id (f t) = t_user_id t"
  shows "wf_db E (d\<lparr>reset_tokens := map f (reset_tokens d)\<rparr>)"
  using assms by (simp add: wf_defs o_def)

lemma wf_map_service_accounts:
  assumes "wf_db E d" and "\<And>s. sa_user_id (f s) = sa_user_id s" "\<And>s. sa_key (f s) = sa_key s"
    "\<And>s. sa_organisation_id (f s) = sa_organisation_id s" "\<And>s. sa_created_by (f s) = sa_created_by s"
  shows "wf_db E (d\<lparr>service_accounts := map f (service_accounts d)\<rparr>)"
  using assms by (simp add: wf_defs o_def image_image)

lemma wf_map_api_keys:
  assumes "wf_db E d" and "\<And>k. kr_id (f k) = kr_id k" "\<And>k. kr_prefix (f k) = kr_prefix k"
    "\<And>k. kr_sa (f k) = kr_sa k" "\<And>k. k_created_by (kr_key (f k)) = k_created_by (kr_key k)"
    "\<And>k. k_scopes (kr_key (f k)) = k_scopes (kr_key k)"
  shows "wf_db E (d\<lparr>api_keys := map f (api_keys d)\<rparr>)"
  using assms by (simp add: wf_defs o_def)

lemma wf_map_jobs:
  assumes "wf_db E d" and "\<And>j. j_id (f j) = j_id j"
  shows "wf_db E (d\<lparr>jobs := map f (jobs d)\<rparr>)"
  using assms by (simp add: wf_defs o_def)

lemma wf_map_outbox:
  assumes "wf_db E d" and "\<And>e. ob_id (f e) = ob_id e"
  shows "wf_db E (d\<lparr>outbox := map f (outbox d)\<rparr>)"
  using assms by (simp add: wf_defs o_def)

lemma wf_updates [wf_intros]:
  "wf_db E d \<Longrightarrow> wf_db E (set_password_hash uid h now d)"
  "wf_db E d \<Longrightarrow> wf_db E (consume_row tid now d)"
  "wf_db E d \<Longrightarrow> wf_db E (d\<lparr>api_keys := revoke_rows P now (api_keys d)\<rparr>)"
  "wf_db E d \<Longrightarrow> wf_db E (d\<lparr>outbox := mark_rows ids now (outbox d)\<rparr>)"
  unfolding set_password_hash_def consume_row_def revoke_rows_def mark_rows_def
  by (auto intro!: wf_map_users wf_map_reset_tokens wf_map_api_keys wf_map_outbox)

lemma wf_set_channels:
  "wf_db E d \<Longrightarrow> distinct (map c_id cs) \<Longrightarrow> distinct (map channel_key cs) \<Longrightarrow>
   \<forall>c \<in> set cs. c_organisation_id c \<in> o_id ` set (organisations d) \<Longrightarrow>
   wf_db E (d\<lparr>channels := cs\<rparr>)"
  by (simp add: wf_defs)

lemma wf_channel_org:
  "wf_db E d \<Longrightarrow> c \<in> set (channels d) \<Longrightarrow> c_organisation_id c \<in> o_id ` set (organisations d)"
  by (simp add: wf_defs)

lemma wf_update_channel_row:
  assumes wf: "wf_db E d" and upd: "update_channel_row oid cid f d = Ok (r, d')"
    and f: "\<And>c. c_id (f c) = c_id c" "\<And>c. c_organisation_id (f c) = c_organisation_id c"
  shows "wf_db E d'"
proof (cases "find_channel oid cid d")
  case None
  with wf upd show ?thesis by (simp add: update_channel_row_def)
next
  case (Some c)
  let ?g = "\<lambda>x. if c_id x = cid then f x else x"
  have c: "c \<in> set (channels d)" "c_id c = cid"
    using Some by (auto simp: find_channel_def dest!: find_Some_in)
  have ids: "distinct (map c_id (channels d))" and keys: "distinct (map channel_key (channels d))"
    using wf by (simp_all add: wf_defs)
  have only: "x = c" if "x \<in> set (channels d)" "c_id x = cid" for x
    using ids c that by (auto simp: distinct_map inj_on_def)
  have d': "d' = d\<lparr>channels := map ?g (channels d)\<rparr>"
    and new: "\<forall>x \<in> set (channels d). c_id x \<noteq> cid \<longrightarrow> channel_key x \<noteq> channel_key (f c)"
    using upd Some by (auto simp: update_channel_row_def list_ex_iff split: if_splits)
  have "inj_on (channel_key \<circ> ?g) (set (channels d))"
    using keys only new by (auto simp: inj_on_def distinct_map)
  then have "distinct (map channel_key (map ?g (channels d)))"
    using ids by (simp add: distinct_map)
  moreover have "distinct (map c_id (map ?g (channels d)))"
    using ids f(1) by (simp add: o_def if_distrib [of c_id] cong: if_cong)
  moreover have "\<forall>x \<in> set (map ?g (channels d)). c_organisation_id x \<in> o_id ` set (organisations d)"
    unfolding set_map ball_simps(9) using wf_channel_org [OF wf] f(2) by simp
  ultimately show ?thesis unfolding d' by (intro wf_set_channels wf)
qed

section \<open>Repositories\<close>

lemma map_sum_Pair_Ok [simp]: "map_sum id (Pair a) x = Ok (b, d) \<longleftrightarrow> x = Ok d \<and> b = a"
  by (cases x) auto

lemma keeps_db_case_list [keeps_db_intros]:
  "(x = [] \<Longrightarrow> keeps_db Q m) \<Longrightarrow> (\<And>a xs. x = a # xs \<Longrightarrow> keeps_db Q (f a xs)) \<Longrightarrow>
   keeps_db Q (case x of [] \<Rightarrow> m | a # xs \<Rightarrow> f a xs)"
  by (cases x) auto

lemma keeps_db_case_key_error [keeps_db_intros]:
  "keeps_db Q m \<Longrightarrow> (\<And>e. keeps_db Q (f e)) \<Longrightarrow>
   keeps_db Q (case x of DuplicatePrefix \<Rightarrow> m | KeyOther e \<Rightarrow> f e)"
  by (cases x) auto

abbreviation keeps_wf :: "env \<Rightarrow> ('e, 'a) action \<Rightarrow> bool" where
  "keeps_wf E \<equiv> keeps_db (wf_db E)"

lemma reads_lookups [reads_db_intros]:
  "reads w_db (find_by_username_or_email E s)" "reads w_db (find_by_id E uid)"
  "reads w_db (list_memberships E uid)" "reads w_db (count_pending_for_user E uid)"
  "reads w_db (find_valid E th)" "reads w_db (sa_find E oid sa)" "reads w_db (keys_find E sa kid)"
  "reads w_db (list_by_sa E sa)" "reads w_db (is_member E uid oid)" "reads w_db (find_by_code E code)"
  "reads w_db (has_role E uid oid rid)" "reads w_db (get_definition E slg)"
  "reads w_db (hash_password E p)" "reads w_db (verify_password E p h)"
  "reads w_db (generate E)" "reads w_db (encode_access_token E sec iss uid oid ttl)"
  "reads w_db (list_members E oid c l)" "reads w_db (list_for_user E uid c l)"
  "reads w_db (channel_list E oid c l)" "reads w_db (channel_get E oid cid)"
  "reads w_db (repo_list_users E oo q c l)" "reads w_db (list_memberships_for_users E us)"
  "reads w_db (sa_list E oid l c)" "reads w_db (generate_api_key E)"
  unfolding find_by_username_or_email_def find_by_id_def list_memberships_def
    count_pending_for_user_def find_valid_def sa_find_def keys_find_def list_by_sa_def
    is_member_def find_by_code_def has_role_def get_definition_def hash_password_def
    verify_password_def generate_def encode_access_token_def list_members_def list_for_user_def
    channel_list_def channel_get_def repo_list_users_def list_memberships_for_users_def
    sa_list_def generate_api_key_def
  by (intro reads_db_intros)+

lemmas keeps_lookups [keeps_db_intros] = reads_lookups [THEN keeps_db_reads]

lemma keeps_wf_users [keeps_db_intros]:
  "keeps_wf E (create_and_add_to_org E un em h oid rc)"
  "keeps_wf E (update_password_hash E uid h)"
  unfolding create_and_add_to_org_def update_password_hash_def Let_def
  by (intro keeps_db_intros; auto intro: wf_intros)+

lemma keeps_wf_tokens [keeps_db_intros]:
  "keeps_wf E (tokens_insert E uid th t)"
  "keeps_wf E (consume E tid)"
  "keeps_wf E (tokens_revoke E jti uid t)"
  unfolding tokens_insert_def consume_def tokens_revoke_def Let_def
  by (intro keeps_db_intros; auto intro: wf_intros wf_filter_reset_tokens)+

lemma keeps_wf_service_accounts [keeps_db_intros]:
  "keeps_wf E (sa_create E req)"
  "keeps_wf E (sa_delete E oid sa)"
  "keeps_wf E (sa_touch_last_used E sa)"
  unfolding sa_create_def sa_delete_def sa_touch_last_used_def Let_def
  by (intro keeps_db_intros;
      auto intro!: wf_map_service_accounts intro: wf_intros simp: sa_key_def)+

lemma keeps_wf_api_keys [keeps_db_intros]:
  "keeps_wf E (insert_key E row)"
  "keeps_wf E (keys_create E row)"
  "keeps_wf E (keys_revoke E sa kid)"
  "keeps_wf E (keys_touch_last_used E kid)"
  "keeps_wf E (keys_rotate E old row)"
  unfolding keys_create_def keys_revoke_def keys_touch_last_used_def keys_rotate_def
    insert_key_def Let_def
  by (intro keeps_db_intros; auto intro!: wf_map_api_keys intro: wf_intros)+

lemma keeps_wf_organisations [keeps_db_intros]:
  "keeps_wf E (org_create E n b)"
  "keeps_wf E (create_with_initial_owner E n b uid rc)"
  "keeps_wf E (add_member E uid oid rc)"
  "keeps_wf E (remove_member_checked E uid oid)"
  "keeps_wf E (assign E uid oid rid)"
  unfolding org_create_def create_with_initial_owner_def insert_org_stmt_def add_member_def
    remove_member_checked_def assign_def Let_def
  by (intro keeps_db_intros; auto intro: wf_intros wf_filter_memberships)+

lemma keeps_wf_channel_update [keeps_db_intros]: "keeps_wf E (channel_update E oid cid n ds ty a)"
  unfolding channel_update_def
  by (intro keeps_db_intros) (erule (1) wf_update_channel_row, simp_all)

lemma keeps_wf_channels [keeps_db_intros]:
  "keeps_wf E (channel_create E oid n ds ty a)"
  "keeps_wf E (channel_delete E oid cid)"
  unfolding channel_create_def channel_delete_def Let_def
  by (intro keeps_db_intros; auto intro: wf_intros wf_filter_channels)+

lemma keeps_wf_features [keeps_db_intros]:
  "keeps_wf E (upsert_override E org slg v uid)"
  "keeps_wf E (delete_override E org slg)"
  unfolding upsert_override_def delete_override_def Let_def
  by (intro keeps_db_intros; auto intro: wf_intros wf_filter_overrides)+

lemmas keeps_db_cache [keeps_db_intros] = reads_cache [THEN keeps_db_reads]

lemma keeps_wf_jobs [keeps_db_intros]:
  "keeps_wf E (enqueue_in_tx E req)"
  "keeps_wf E (enqueue_event E cfg ev)"
  "keeps_wf E (append_in_tx E areq)"
  "keeps_wf E (mark_relayed_in_tx E ids)"
  unfolding enqueue_event_def enqueue_in_tx_def append_in_tx_def mark_relayed_in_tx_def
  by (intro keeps_db_intros; auto intro: wf_intros)+

lemma keeps_wf_audit_insert [keeps_db_intros]: "keeps_wf E (audit_insert E e)"
  unfolding audit_insert_def by (intro keeps_db_intros) (auto intro: wf_intros)

end
