(* ===== verification/AuditQuery.thy ===== *)
theory AuditQuery
  imports AuditLog Auth Pagination
begin

text \<open>
  Reading the audit trail: \<^verbatim>\<open>AuditRepositoryPg::list_events\<close> and the authorisation in
  \<^verbatim>\<open>src/audit/service/list_audit_events.rs\<close>. \<^verbatim>\<open>host(ip_address)\<close> of a stored address is the
  text the column was filled with.
\<close>

section \<open>The query\<close>

record audit_query_filter =
  aq_organisation_id :: "uuid option"
  aq_actor_user_id :: "uuid option"
  aq_event_type :: "string option"
  aq_category :: "string option"
  aq_outcome :: "string option"
  aq_from :: "datetime option"
  aq_to :: "datetime option"
  aq_cursor :: "cursor option"
  aq_limit :: int

definition opt_all :: "('a \<Rightarrow> bool) \<Rightarrow> 'a option \<Rightarrow> bool" where
  "opt_all P x = (case x of None \<Rightarrow> True | Some a \<Rightarrow> P a)"

definition audit_matches :: "audit_query_filter \<Rightarrow> audit_row \<Rightarrow> bool" where
  "audit_matches f r \<longleftrightarrow>
     opt_all (\<lambda>oid. ar_target_organisation_id r = Some oid) (aq_organisation_id f) \<and>
     opt_all (\<lambda>uid. ar_actor_user_id r = Some uid) (aq_actor_user_id f) \<and>
     opt_all (\<lambda>t. ar_event_type r = t) (aq_event_type f) \<and>
     opt_all (\<lambda>c. ar_category r = c) (aq_category f) \<and>
     opt_all (\<lambda>s. ar_outcome r = s) (aq_outcome f) \<and>
     opt_all (\<lambda>t. t \<le> ar_occurred_at r) (aq_from f) \<and>
     opt_all (\<lambda>t. ar_occurred_at r \<le> t) (aq_to f)"

definition audit_cursor_key :: "audit_row \<Rightarrow> cursor" where
  "audit_cursor_key r = (ar_occurred_at r, ar_id r)"

definition audit_rows :: "audit_query_filter \<Rightarrow> db \<Rightarrow> audit_row list" where
  "audit_rows f d = filter (audit_matches f) (audit_events d)"

definition event_of_row :: "audit_row \<Rightarrow> anyhow + audit_event" where
  "event_of_row r =
     (case category_try_from_str (ar_category r) of
        None \<Rightarrow> Err opaque
      | Some c \<Rightarrow>
          (case outcome_try_from_str (ar_outcome r) of
             None \<Rightarrow> Err opaque
           | Some o_c \<Rightarrow>
               Ok \<lparr> ev_id = ar_id r, ev_occurred_at = ar_occurred_at r, ev_category = c,
                    ev_event_type = ar_event_type r, ev_actor_user_id = ar_actor_user_id r,
                    ev_actor_organisation_id = ar_actor_organisation_id r,
                    ev_target_type = ar_target_type r, ev_target_id = ar_target_id r,
                    ev_target_organisation_id = ar_target_organisation_id r,
                    ev_request_id = ar_request_id r, ev_ip_address = ar_ip_address r,
                    ev_user_agent = ar_user_agent r, ev_outcome = o_c,
                    ev_reason_code = ar_reason_code r, ev_payload = ar_payload r \<rparr>))"

fun collect :: "('r \<Rightarrow> 'e + 'a) \<Rightarrow> 'r list \<Rightarrow> 'e + 'a list" where
  "collect f [] = Ok []"
| "collect f (r # rs) =
     (case f r of
        Err e \<Rightarrow> Err e
      | Ok a \<Rightarrow> (case collect f rs of Err e \<Rightarrow> Err e | Ok xs \<Rightarrow> Ok (a # xs)))"

definition list_events ::
    "env \<Rightarrow> audit_query_filter \<Rightarrow> (anyhow, audit_event list \<times> cursor option) action" where
  "list_events E f =
     bindE (map_err (\<lambda>_. opaque) (query E (\<lambda>_ d.
       keyset_desc audit_cursor_key (aq_cursor f) (nat (aq_limit f + 1)) (audit_rows f d)))) (\<lambda>rows.
     bindE (lift (collect event_of_row (take (nat (aq_limit f)) rows))) (\<lambda>items.
     ret (items,
       if aq_limit f < int (length rows)
       then (if items = [] then None
             else Some (ev_occurred_at (last items), ev_id (last items)))
       else None)))"

section \<open>The service\<close>

record list_audit_events_request =
  la_organisation_id :: "uuid option"
  la_actor_user_id :: "uuid option"
  la_event_type :: "string option"
  la_category :: "string option"
  la_outcome :: "string option"
  la_from :: "datetime option"
  la_to :: "datetime option"
  la_cursor :: "string option"
  la_limit :: "int option"

definition effective_org_filter ::
    "list_audit_events_request \<Rightarrow> uuid \<Rightarrow> permission_set \<Rightarrow> app_error + uuid option" where
  "effective_org_filter req own_org perms =
     (if is_audit_read_all perms then Ok (la_organisation_id req)
      else if has perms ''audit.read_own_org'' then
        (case la_organisation_id req of
           None \<Rightarrow> Ok (Some own_org)
         | Some oid \<Rightarrow> if oid = own_org then Ok (Some oid) else Err (NotFound ''organisation''))
      else Err (PermissionDenied ''audit.read_own_org''))"

definition audit_filter ::
    "list_audit_events_request \<Rightarrow> uuid option \<Rightarrow> cursor option \<Rightarrow> audit_query_filter" where
  "audit_filter req oid c =
     \<lparr> aq_organisation_id = oid, aq_actor_user_id = la_actor_user_id req,
       aq_event_type = la_event_type req, aq_category = la_category req,
       aq_outcome = la_outcome req, aq_from = la_from req, aq_to = la_to req, aq_cursor = c,
       aq_limit = clamp (case la_limit req of None \<Rightarrow> 100 | Some n \<Rightarrow> n) 1 200 \<rparr>"

definition list_audit_events ::
    "env \<Rightarrow> list_audit_events_request \<Rightarrow> uuid \<Rightarrow> permission_set \<Rightarrow>
     (app_error, audit_event list \<times> string option) action" where
  "list_audit_events E req own_org perms =
     bindE (lift (effective_org_filter req own_org perms)) (\<lambda>oid.
     bindE (lift (case la_cursor req of
                    None \<Rightarrow> Ok None
                  | Some s \<Rightarrow>
                      (case cursor_decode E AuditCursor s of
                         None \<Rightarrow> Err (Validation [(''cursor'', [''invalid''])])
                       | Some c \<Rightarrow> Ok (Some c)))) (\<lambda>c.
     bindE (map_err Internal (list_events E (audit_filter req oid c))) (\<lambda>(items, nxt).
     ret (items, map_option (cursor_encode E AuditCursor) nxt))))"

section \<open>Round trip and authorisation\<close>

lemma event_of_row_of_event:
  "ev_ip_address e = None \<or> (\<exists>a. ev_ip_address e = Some a \<and> parse_ip E a = Some a) \<Longrightarrow>
   event_of_row (audit_row_of E e) = Ok e"
  by (cases "ev_category e"; cases "ev_outcome e")
    (auto simp: event_of_row_def audit_row_of_def category_try_from_str_def outcome_try_from_str_def)

lemma collect_Ok:
  "collect f rs = Ok xs \<Longrightarrow> length xs = length rs \<and> (\<forall>i < length rs. f (rs ! i) = Ok (xs ! i))"
proof (induction rs arbitrary: xs)
  case (Cons r rs)
  then obtain a ys where ys: "f r = Ok a" "collect f rs = Ok ys" "xs = a # ys"
    by (auto split: sum.splits)
  from Cons.IH [OF ys(2)] ys show ?case by (auto simp: nth_Cons split: nat.splits)
qed simp

lemma collect_Ok_in:
  assumes "collect f rs = Ok xs" and "x \<in> set xs"
  shows "\<exists>r \<in> set rs. f r = Ok x"
  using collect_Ok [OF assms(1)] assms(2) by (metis in_set_conv_nth)

lemma event_of_row_org:
  "event_of_row r = Ok e \<Longrightarrow> ev_target_organisation_id e = ar_target_organisation_id r"
  by (auto simp: event_of_row_def split: option.splits)

lemma list_events_Ok:
  assumes "list_events E f w = (Ok (items, nxt), w')" and "e \<in> set items"
  shows "\<exists>r \<in> set (audit_events (w_db w)). audit_matches f r \<and> event_of_row r = Ok e"
proof -
  from assms(1) obtain rows where rows: "rows = keyset_desc audit_cursor_key (aq_cursor f)
      (nat (aq_limit f + 1)) (audit_rows f (w_db w))"
    and items: "collect event_of_row (take (nat (aq_limit f)) rows) = Ok items"
    by (auto simp: list_events_def action_ok_simps)
  from collect_Ok_in [OF items assms(2)] obtain r where r: "r \<in> set rows" "event_of_row r = Ok e"
    by (auto dest: in_set_takeD)
  from r(1) have "r \<in> set (audit_rows f (w_db w))"
    unfolding rows keyset_desc_def by (auto dest!: in_set_takeD split: option.splits)
  with r(2) show ?thesis by (auto simp: audit_rows_def)
qed

lemma effective_org_filter_Ok:
  "effective_org_filter req own perms = Ok oid \<Longrightarrow>
   is_audit_read_all perms \<and> oid = la_organisation_id req \<or> oid = Some own"
  by (auto simp: effective_org_filter_def split: if_splits option.splits)

text \<open>Without \<^verbatim>\<open>audit.read_all\<close> a caller sees only events filed under its own organisation.\<close>

lemma list_audit_events_scoped:
  assumes "list_audit_events E req own perms w = (Ok (items, nxt), w')"
    and "\<not> is_audit_read_all perms" and "e \<in> set items"
  shows "ev_target_organisation_id e = Some own"
proof -
  from assms(1) obtain oid c nx v where
    oid: "effective_org_filter req own perms = Ok oid"
    and le: "list_events E (audit_filter req oid c) w = (Ok (items, nx), v)"
    by (auto simp: list_audit_events_def action_ok_simps)
  from oid assms(2) have "oid = Some own" by (auto dest: effective_org_filter_Ok)
  with list_events_Ok [OF le assms(3)] show ?thesis
    by (auto simp: audit_filter_def audit_matches_def opt_all_def event_of_row_org)
qed

end
