(* ===== verification/System.thy ===== *)
theory System
  imports Integrity AuditQuery Platform
begin

text \<open>
  The running system: \<open>sys_step\<close> is one thing the process can do to its world (a service
  call with any arguments, a turn of a background worker, the passing of time), with any
  statement failing at any moment. \<open>reachable\<close> closes it; the invariants that hold in every
  reachable world are proved here by rule induction:

  \<^item> \<open>wf_db\<close>, referential integrity;
  \<^item> \<open>overrides_typed\<close>, every stored flag value has its declared type;
  \<^item> \<open>coherent\<close>, the flag cache agrees with the tables.

  A step is a whole service call, so calls are served one after the other here. Requests that
  overlap, statement by statement, are in \<^verbatim>\<open>Overlap\<close>, and what two calls can do to the cache
  between their statements is in \<^verbatim>\<open>Interleaving\<close>.
\<close>

section \<open>Integrity of the services\<close>

lemma keeps_wf_tenants [keeps_db_intros]:
  "keeps_wf E (create_organisation E u oid i)"
  "keeps_wf E (add_user_to_organisation E u oid u' oid' rc)"
  "keeps_wf E (remove_user_from_organisation E u oid u' oid')"
  "keeps_wf E (assign_role E u oid op oid' t rc)"
  "keeps_wf E (create_inbound_channel E u oid oid' ci)"
  "keeps_wf E (update_inbound_channel E u oid oid' cid ci)"
  "keeps_wf E (delete_inbound_channel E u oid oid' cid)"
  unfolding create_organisation_def add_user_to_organisation_def remove_user_from_organisation_def
    assign_role_def create_inbound_channel_def update_inbound_channel_def
    delete_inbound_channel_def Let_def
  by (intro keeps_db_intros)+

lemma keeps_wf_rehash [keeps_db_intros]: "keeps_wf E (rehash E u p)"
  unfolding rehash_def by (intro keeps_db_intros)

lemma keeps_wf_fresh_key_row [keeps_db_intros]: "keeps_wf E (fresh_key_row E sa n sc cb)"
  unfolding fresh_key_row_def hash_secret_def by (intro keeps_db_intros)

lemma keeps_wf_create_key_attempts [keeps_db_intros]: "keeps_wf E (create_key_attempts n E i)"
proof (induction n)
  case 0
  show ?case unfolding create_key_attempts.simps by (intro keeps_db_intros)
next
  case (Suc n)
  show ?case unfolding create_key_attempts.simps by (intro keeps_db_intros Suc.IH)
qed

lemma keeps_wf_rotate_key_attempts [keeps_db_intros]: "keeps_wf E (rotate_key_attempts n E i nm sc)"
proof (induction n)
  case 0
  show ?case unfolding rotate_key_attempts.simps by (intro keeps_db_intros)
next
  case (Suc n)
  show ?case unfolding rotate_key_attempts.simps by (intro keeps_db_intros Suc.IH)
qed

lemma keeps_wf_security [keeps_db_intros]:
  "keeps_wf E (register_user E u oid ri)"
  "keeps_wf E (login E jc un pw)"
  "keeps_wf E (logout E u oid jti t)"
  "keeps_wf E (change_password E u p q)"
  "keeps_wf E (switch_org E jc u oid oid')"
  "keeps_wf E (password_reset_request E ttl em)"
  "keeps_wf E (password_reset_confirm E tok p)"
  unfolding register_user_def login_def logout_def change_password_def switch_org_def
    password_reset_request_def password_reset_confirm_def Let_def
  by (intro keeps_db_intros)+

lemma keeps_wf_keys [keeps_db_intros]:
  "keeps_wf E (create_service_account E oid n ds u oid')"
  "keeps_wf E (delete_service_account E oid sa u oid')"
  "keeps_wf E (create_api_key E ci)"
  "keeps_wf E (rotate_api_key E rki)"
  "keeps_wf E (revoke_api_key E oid sa kid u oid')"
  "keeps_wf E (bootstrap_seed_admin E si)"
  unfolding create_service_account_def delete_service_account_def create_api_key_def
    rotate_api_key_def revoke_api_key_def bootstrap_seed_admin_def Let_def
  by (intro keeps_db_intros; auto intro: wf_intros)+

lemma keeps_wf_flags [keeps_db_intros]:
  "keeps_wf E (set_org_feature E fi)"
  "keeps_wf E (clear_org_feature E fc)"
  unfolding set_org_feature_def clear_org_feature_def
  by (intro keeps_db_intros)+

section \<open>Integrity of the workers\<close>

lemma keeps_wf_claim_due [keeps_db_intros]: "keeps_wf E (claim_due E wid kinds vis lim)"
  unfolding claim_due_def claim_rows_def Let_def
  by (intro keeps_db_intros) (auto intro!: wf_map_jobs simp: lock_job_def)

lemma keeps_wf_settle [keeps_db_intros]: "keeps_wf E (settle E cfg j outcome)"
  unfolding settle_def ignore_def mark_done_def mark_dead_def mark_failed_retry_def update_job_def
  by (cases outcome; rename_tac x; case_tac x)
    (auto simp: Let_def done_job_def dead_job_def retry_job_def intro!: keeps_db_intros wf_map_jobs)

lemma keeps_db_in_tx_if [keeps_db_intros]:
  assumes "keeps_db Q body"
  shows "keeps_db Q (in_tx_if E conv body)"
proof (rule keeps_dbI)
  fix w r w'
  assume Q: "Q (w_db w)" and run: "in_tx_if E conv body w = (r, w')"
  have "w_db w' = w_db w \<or> (\<exists>w1 a w2. control E w = (Ok (), w1) \<and> body w1 = (Ok a, w2) \<and>
      w_db w' = w_db w2)"
    using run control_db [of E]
    by (auto simp: in_tx_if_def split: prod.splits sum.splits bool.splits)
  with Q assms show "Q (w_db w')" by (metis control_db keeps_dbD)
qed

lemma keeps_wf_tick [keeps_db_intros]: "keeps_wf E (tick E cfg)"
  unfolding tick_def claim_unrelayed_in_tx_def by (intro keeps_db_intros)

lemma keeps_wf_touch [keeps_db_intros]: "keeps_wf E (pg_touch_last_used E kid sa)"
  unfolding pg_touch_last_used_def by (intro keeps_db_intros)

lemma keeps_wf_evaluate [keeps_db_intros]: "keeps_wf E (evaluate E ttl org slg)"
  by (rule keeps_db_reads) (rule reads_evaluate)

lemma keeps_wf_enqueue [keeps_db_intros]:
  "keeps_wf E (enqueue E req)" "keeps_wf E (append_standalone E areq)"
  unfolding enqueue_def append_standalone_def by (intro keeps_db_intros)+

text \<open>
  What the audit worker leaves behind: any assertion that survives an insert into the trail,
  the sleeps and the removal of events from the queue.
\<close>

lemma write_with_retry_keeps:
  assumes run: "write_with_retry E m e a b w = Some w'" and "I w"
    and ins: "\<And>w r w'. I w \<Longrightarrow> audit_insert E e w = (r, w') \<Longrightarrow> I w'"
    and sleep: "\<And>w ms. I w \<Longrightarrow> I (sleep_ms ms w)"
  shows "I w'"
proof -
  have "E = E \<longrightarrow> e = e \<longrightarrow> I w \<longrightarrow> I w'"
  proof (rule write_with_retry.raw_induct
      [where P = "\<lambda>E' m' e' a' b' w w'. E' = E \<longrightarrow> e' = e \<longrightarrow> I w \<longrightarrow> I w'", OF _ run])
    fix f E' m' e' a' b' w w'
    assume IH: "\<And>E' m' e' a' b' w w'. f E' m' e' a' b' w = Some w' \<Longrightarrow>
        E' = E \<longrightarrow> e' = e \<longrightarrow> I w \<longrightarrow> I w'"
      and eq: "(let (r, w1) = audit_insert E' e' w in
        if \<not> isl r then Some w1
        else let attempt' = a' + 1 in
          if m' < attempt' then Some w1
          else f E' m' e' attempt' (saturating_mul b' 4) (sleep_ms b' w1)) = Some w'"
    obtain r w1 where w1: "audit_insert E' e' w = (r, w1)" by (meson surj_pair)
    have "w' = w1 \<or> f E' m' e' (a' + 1) (saturating_mul b' 4) (sleep_ms b' w1) = Some w'"
      using eq w1 by (auto simp: Let_def split: if_splits)
    with IH w1 ins sleep show "E' = E \<longrightarrow> e' = e \<longrightarrow> I w \<longrightarrow> I w'" by metis
  qed
  with \<open>I w\<close> show ?thesis by simp
qed

lemma worker_run_keeps:
  assumes "worker_run E k es w = Some w'" and "I w"
    and ins: "\<And>e w r w'. I w \<Longrightarrow> audit_insert E e w = (r, w') \<Longrightarrow> I w'"
    and sleep: "\<And>w ms. I w \<Longrightarrow> I (sleep_ms ms w)"
    and queue: "\<And>w es. I w \<Longrightarrow> I (w\<lparr>w_audit := es\<rparr>)"
  shows "I w'"
  using assms(1,2)
proof (induction es arbitrary: w)
  case (Cons e es)
  then obtain w1 where w1: "write_with_retry E (wk_max_retries k) e 0 (wk_backoff_initial_ms k)
      (w\<lparr>w_audit := es\<rparr>) = Some w1" and rest: "worker_run E k es w1 = Some w'"
    by (auto simp: bind_eq_Some_conv)
  have "I w1"
    by (rule write_with_retry_keeps [where I = I, OF w1]) (use Cons.prems ins sleep queue in blast)+
  with rest show ?case by (rule Cons.IH)
qed simp

section \<open>What feature flags depend on\<close>

text \<open>The part of the world that decides the value of a flag and the state of the cache.\<close>

definition feature_frame ::
    "world \<Rightarrow> (uuid \<times> string \<Rightarrow> (json \<times> datetime) option) \<times> datetime \<times>
       feature_override list \<times> feature_definition list" where
  "feature_frame w =
     (w_cache w, w_now w, feature_overrides (w_db w), feature_definitions (w_db w))"

abbreviation same_flags :: "db \<Rightarrow> db \<Rightarrow> bool" where
  "same_flags d d' \<equiv>
     feature_overrides d' = feature_overrides d \<and> feature_definitions d' = feature_definitions d"

lemma reads_frame_stmt [reads_db_intros]:
  assumes "\<And>now d a d'. f now d = Ok (a, d') \<Longrightarrow> feature_overrides d' = feature_overrides d \<and>
     feature_definitions d' = feature_definitions d"
  shows "reads feature_frame (stmt E f)"
  by (rule readsI) (auto simp: stmt_def Let_def feature_frame_def split: if_splits sum.splits prod.splits
      dest: assms)

lemma reads_frame_leaf [reads_db_intros]:
  "reads feature_frame utc_now" "reads feature_frame (draw g)" "reads feature_frame stmt_no"
  "reads feature_frame (query E f)" "reads feature_frame (audit E mk)"
  by (simp_all add: reads_def feature_frame_def utc_now_def draw_def stmt_no_def query_def stmt_def
      Let_def audit_eq)

lemma reads_case_prod [reads_db_intros]:
  "(\<And>a b. x = (a, b) \<Longrightarrow> reads p (f a b)) \<Longrightarrow> reads p (case x of (a, b) \<Rightarrow> f a b)"
  by (cases x) auto

lemma reads_case_list [reads_db_intros]:
  "(x = [] \<Longrightarrow> reads p m) \<Longrightarrow> (\<And>a xs. x = a # xs \<Longrightarrow> reads p (f a xs)) \<Longrightarrow>
   reads p (case x of [] \<Rightarrow> m | a # xs \<Rightarrow> f a xs)"
  by (cases x) auto

lemma reads_case_key_error [reads_db_intros]:
  "reads p m \<Longrightarrow> (\<And>e. reads p (f e)) \<Longrightarrow>
   reads p (case x of DuplicatePrefix \<Rightarrow> m | KeyOther e \<Rightarrow> f e)"
  by (cases x) auto

lemma reads_for_each [reads_db_intros]:
  "(\<And>x. reads p (f x)) \<Longrightarrow> reads p (for_each f xs)"
  by (induction xs) (auto intro: reads_db_intros)

lemma control_frame: "control E w = (r, w') \<Longrightarrow> feature_frame w' = feature_frame w"
  by (rule readsD [OF reads_frame_leaf(4)])

lemma frame_rollback:
  "feature_frame v = feature_frame w \<Longrightarrow> feature_frame (v\<lparr>w_db := w_db w\<rparr>) = feature_frame w"
  by (simp add: feature_frame_def)

lemma reads_frame_in_tx [reads_db_intros]:
  "reads feature_frame body \<Longrightarrow> reads feature_frame (in_tx E conv body)"
  by (rule readsI) (auto simp: in_tx_def control_frame frame_rollback split: prod.splits sum.splits
      dest!: control_frame readsD)

lemma snd_control_frame: "feature_frame (snd (control E w)) = feature_frame w"
  by (metis control_frame prod.collapse)

lemma reads_frame_in_tx_if [reads_db_intros]:
  "reads feature_frame body \<Longrightarrow> reads feature_frame (in_tx_if E conv body)"
  by (rule readsI) (auto simp: in_tx_if_def frame_rollback snd_control_frame
      split: prod.splits sum.splits bool.splits dest!: control_frame readsD)

lemma insert_frames:
  "insert_organisation org d = Ok d' \<Longrightarrow> same_flags d d'"
  "insert_user E u d = Ok d' \<Longrightarrow> same_flags d d'"
  "insert_membership m d = Ok d' \<Longrightarrow> same_flags d d'"
  "insert_membership_if_new m d = Ok d' \<Longrightarrow> same_flags d d'"
  "insert_channel c d = Ok d' \<Longrightarrow> same_flags d d'"
  "insert_service_account sa d = Ok d' \<Longrightarrow> same_flags d d'"
  "insert_api_key k d = Ok d' \<Longrightarrow> same_flags d d'"
  "insert_reset_token t d = Ok d' \<Longrightarrow> same_flags d d'"
  "insert_revoked_if_new v d = Ok d' \<Longrightarrow> same_flags d d'"
  "insert_job j d = Ok d' \<Longrightarrow> same_flags d d'"
  "insert_outbox ob d = Ok d' \<Longrightarrow> same_flags d d'"
  "insert_audit ar d = Ok d' \<Longrightarrow> same_flags d d'"
  "delete_sa_user uid d = Ok (n, d') \<Longrightarrow> same_flags d d'"
  "update_channel_row oid cid f d = Ok (ch, d') \<Longrightarrow> same_flags d d'"
  by (auto simp: insert_organisation_def insert_user_def insert_membership_def
      insert_membership_if_new_def insert_channel_def insert_service_account_def insert_api_key_def
      insert_reset_token_def insert_revoked_if_new_def insert_job_def insert_outbox_def
      insert_audit_def delete_sa_user_def cascade_user_def update_channel_row_def Let_def
      split: if_splits option.splits)

lemma frame_tenants [reads_db_intros]:
  "reads feature_frame (create_organisation E u oid i)"
  "reads feature_frame (add_user_to_organisation E u oid u' oid' rc)"
  "reads feature_frame (remove_user_from_organisation E u oid u' oid')"
  "reads feature_frame (assign_role E u oid op oid' t rc)"
  "reads feature_frame (create_inbound_channel E u oid oid' ci)"
  "reads feature_frame (update_inbound_channel E u oid oid' cid ci)"
  "reads feature_frame (delete_inbound_channel E u oid oid' cid)"
  unfolding create_organisation_def add_user_to_organisation_def remove_user_from_organisation_def
    assign_role_def create_inbound_channel_def update_inbound_channel_def delete_inbound_channel_def
    create_with_initial_owner_def org_create_def insert_org_stmt_def add_member_def
    remove_member_checked_def is_member_def find_by_id_def sa_find_def find_by_code_def has_role_def
    assign_def channel_create_def generate_api_key_def channel_update_def channel_delete_def Let_def
  by (intro reads_db_intros; auto dest: insert_frames)+

lemma frame_keys [reads_db_intros]:
  "reads feature_frame (hash_password E p)"
  "reads feature_frame (verify_password E p h)"
  "reads feature_frame (rehash E usr p)"
  "reads feature_frame (fresh_key_row E sa n sc cb)"
  "reads feature_frame (keys_create E row)"
  "reads feature_frame (keys_rotate E old row)"
  "reads feature_frame (keys_find E sa kid)"
  "reads feature_frame (sa_find E oid sa)"
  "reads feature_frame (find_by_username_or_email E s)"
  unfolding hash_password_def verify_password_def rehash_def fresh_key_row_def hash_secret_def
    generate_def keys_create_def keys_rotate_def insert_key_def update_password_hash_def
    set_password_hash_def keys_find_def sa_find_def find_by_username_or_email_def Let_def
  by (intro reads_db_intros; auto dest: insert_frames)+

lemma frame_create_key_attempts [reads_db_intros]: "reads feature_frame (create_key_attempts n E i)"
proof (induction n)
  case 0
  show ?case unfolding create_key_attempts.simps by (intro reads_db_intros)
next
  case (Suc n)
  show ?case unfolding create_key_attempts.simps by (intro reads_db_intros Suc.IH)
qed

lemma frame_rotate_key_attempts [reads_db_intros]:
  "reads feature_frame (rotate_key_attempts n E i nm sc)"
proof (induction n)
  case 0
  show ?case unfolding rotate_key_attempts.simps by (intro reads_db_intros)
next
  case (Suc n)
  show ?case unfolding rotate_key_attempts.simps by (intro reads_db_intros Suc.IH)
qed

lemma frame_security [reads_db_intros]:
  "reads feature_frame (register_user E u oid ri)"
  "reads feature_frame (login E jc un pw)"
  "reads feature_frame (logout E u oid jti t)"
  "reads feature_frame (change_password E u p q)"
  "reads feature_frame (switch_org E jc u oid oid')"
  "reads feature_frame (password_reset_request E ttl em)"
  "reads feature_frame (password_reset_confirm E tok p)"
  unfolding register_user_def login_def logout_def change_password_def switch_org_def
    password_reset_request_def password_reset_confirm_def create_and_add_to_org_def
    list_memberships_def encode_access_token_def tokens_revoke_def find_by_id_def
    update_password_hash_def set_password_hash_def is_member_def tokens_insert_def
    count_pending_for_user_def find_valid_def consume_def consume_row_def Let_def
  by (intro reads_db_intros; auto dest: insert_frames)+

lemma frame_service_accounts [reads_db_intros]:
  "reads feature_frame (create_service_account E oid n ds u oid')"
  "reads feature_frame (delete_service_account E oid sa u oid')"
  "reads feature_frame (create_api_key E ci)"
  "reads feature_frame (rotate_api_key E rki)"
  "reads feature_frame (revoke_api_key E oid sa kid u oid')"
  "reads feature_frame (bootstrap_seed_admin E si)"
  "reads feature_frame (pg_touch_last_used E kid sa)"
  unfolding create_service_account_def delete_service_account_def create_api_key_def
    rotate_api_key_def revoke_api_key_def bootstrap_seed_admin_def sa_create_def sa_delete_def
    keys_revoke_def audit_insert_def pg_touch_last_used_def keys_touch_last_used_def
    sa_touch_last_used_def Let_def
  by (intro reads_db_intros; auto dest: insert_frames)+

lemma frame_workers [reads_db_intros]:
  "reads feature_frame (claim_due E wid kinds vis lim)"
  "reads feature_frame (tick E cfg)"
  "reads feature_frame (enqueue E req)"
  "reads feature_frame (append_standalone E areq)"
  "reads feature_frame (audit_insert E e)"
  unfolding claim_due_def claim_rows_def tick_def claim_unrelayed_in_tx_def enqueue_def
    enqueue_event_def enqueue_in_tx_def mark_relayed_in_tx_def append_standalone_def
    append_in_tx_def audit_insert_def Let_def
  by (intro reads_db_intros; auto dest: insert_frames)+

lemma frame_settle [reads_db_intros]: "reads feature_frame (settle E cfg j outcome)"
  unfolding settle_def ignore_def mark_done_def mark_dead_def mark_failed_retry_def update_job_def
  by (cases outcome; rename_tac x; case_tac x) (auto simp: Let_def intro!: reads_db_intros)

section \<open>The transition system\<close>

text \<open>
  One step of the process: a service runs to completion with whatever arguments (and
  whatever result), a background task makes one move, or time passes. A statement that only
  reads is a \<open>read\<close> step whatever it selects, since it changes nothing but the statement
  counter, and an event a handler records itself is a \<open>recorded\<close> step. The outcome of a job is
  written down by \<open>settle\<close>; what the job's handler itself does is code of the application.
\<close>

inductive sys_step :: "env \<Rightarrow> world \<Rightarrow> world \<Rightarrow> bool" for E where
  organisation: "sys_step E w (snd (create_organisation E u oid i w))"
| add_user: "sys_step E w (snd (add_user_to_organisation E u oid u' oid' rc w))"
| remove_user: "sys_step E w (snd (remove_user_from_organisation E u oid u' oid' w))"
| role: "sys_step E w (snd (assign_role E u oid op oid' t rc w))"
| channel_created: "sys_step E w (snd (create_inbound_channel E u oid oid' ci w))"
| channel_updated: "sys_step E w (snd (update_inbound_channel E u oid oid' cid ci w))"
| channel_deleted: "sys_step E w (snd (delete_inbound_channel E u oid oid' cid w))"
| registered: "sys_step E w (snd (register_user E u oid ri w))"
| login: "sys_step E w (snd (login E jc un pw w))"
| logout: "sys_step E w (snd (logout E u oid jti t w))"
| password: "sys_step E w (snd (change_password E u p q w))"
| switched: "sys_step E w (snd (switch_org E jc u oid oid' w))"
| reset_request: "sys_step E w (snd (password_reset_request E secs em w))"
| reset_confirm: "sys_step E w (snd (password_reset_confirm E tok p w))"
| sa_created: "sys_step E w (snd (create_service_account E oid n ds u oid' w))"
| sa_deleted: "sys_step E w (snd (delete_service_account E oid sa u oid' w))"
| key_created: "sys_step E w (snd (create_api_key E ki w))"
| key_rotated: "sys_step E w (snd (rotate_api_key E rki w))"
| key_revoked: "sys_step E w (snd (revoke_api_key E oid sa kid u oid' w))"
| key_used: "sys_step E w (snd (pg_touch_last_used E kid sa w :: (anyhow + unit) \<times> world))"
| seeded: "sys_step E w (snd (bootstrap_seed_admin E si w))"
| flag_set: "sys_step E w (snd (set_org_feature E fi w))"
| flag_cleared: "sys_step E w (snd (clear_org_feature E fc w))"
| flag_read: "sys_step E w (snd (evaluate E ttl org slg w))"
| appended: "sys_step E w (snd (append_standalone E areq w))"
| relayed: "sys_step E w (snd (tick E cfg w))"
| enqueued: "sys_step E w (snd (enqueue E req w))"
| claimed: "sys_step E w (snd (claim_due E wid kinds vis lim w))"
| settled: "sys_step E w (snd (settle E jcfg j outcome w :: (anyhow + unit) \<times> world))"
| read: "sys_step E w (snd (control E w))"
| recorded: "sys_step E w (snd (audit E mk w :: (unit + unit) \<times> world))"
| audited: "worker_run E k (w_audit w) w = Some w' \<Longrightarrow> sys_step E w w'"
| time: "w_now w \<le> now \<Longrightarrow> sys_step E w (w\<lparr>w_now := now\<rparr>)"

abbreviation reachable :: "env \<Rightarrow> world \<Rightarrow> world \<Rightarrow> bool" where
  "reachable E \<equiv> (sys_step E)\<^sup>*\<^sup>*"

section \<open>Invariants\<close>

lemma wf_snd: "keeps_wf E m \<Longrightarrow> wf_db E (w_db w) \<Longrightarrow> wf_db E (w_db (snd (m w)))"
  by (metis keeps_dbD prod.collapse)

lemma sys_step_wf: "sys_step E w w' \<Longrightarrow> wf_db E (w_db w) \<Longrightarrow> wf_db E (w_db w')"
proof (induction rule: sys_step.induct)
  case (audited k w w')
  show ?case
    by (rule worker_run_keeps [OF audited(1), where I = "\<lambda>w. wf_db E (w_db w)"])
      (auto simp: sleep_ms_def audited.prems dest: keeps_dbD [OF keeps_wf_audit_insert])
qed (auto intro!: wf_snd keeps_db_intros)

lemma reachable_wf: "reachable E w w' \<Longrightarrow> wf_db E (w_db w) \<Longrightarrow> wf_db E (w_db w')"
  by (induction rule: rtranclp_induct) (auto intro: sys_step_wf)

text \<open>Typed overrides and a coherent cache are facts about the frame.\<close>

lemma overrides_typed_frame:
  "feature_frame w' = feature_frame w \<Longrightarrow> overrides_typed (w_db w') = overrides_typed (w_db w)"
  by (simp add: feature_frame_def overrides_typed_def find_definition_def)

lemma effective_same_flags: "same_flags d d' \<Longrightarrow> effective d' org slg = effective d org slg"
  unfolding effective_def find_override_def find_definition_def by (simp split: option.splits)

lemma coherent_frame: "feature_frame w' = feature_frame w \<Longrightarrow> coherent w' = coherent w"
  unfolding coherent_def by (simp add: feature_frame_def effective_same_flags [of "w_db w" "w_db w'"])

lemma coherent_later: "coherent w \<Longrightarrow> w_now w \<le> now \<Longrightarrow> coherent (w\<lparr>w_now := now\<rparr>)"
  unfolding coherent_def by auto

definition flags_ok :: "world \<Rightarrow> bool" where
  "flags_ok w \<longleftrightarrow> overrides_typed (w_db w) \<and> coherent w"

lemma flags_ok_frame: "feature_frame w' = feature_frame w \<Longrightarrow> flags_ok w \<Longrightarrow> flags_ok w'"
  unfolding flags_ok_def using overrides_typed_frame coherent_frame by blast

lemma flags_ok_later: "flags_ok w \<Longrightarrow> w_now w \<le> now \<Longrightarrow> flags_ok (w\<lparr>w_now := now\<rparr>)"
  by (simp add: flags_ok_def coherent_later)

lemma flags_ok_snd: "reads feature_frame m \<Longrightarrow> flags_ok w \<Longrightarrow> flags_ok (snd (m w))"
  by (rule flags_ok_frame) (simp add: reads_def)

lemma overrides_typed_subset:
  "overrides_typed d \<Longrightarrow> set vs \<subseteq> set (feature_overrides d) \<Longrightarrow>
   overrides_typed (d\<lparr>feature_overrides := vs\<rparr>)"
  by (auto simp: overrides_typed_def find_definition_def)

text \<open>A refused \<open>set_org_feature\<close> or \<open>clear_org_feature\<close> leaves the frame alone.\<close>

lemma safe_frame_stmt: "safe_err feature_frame (stmt E f)"
  by (auto simp: safe_err_def stmt_Err_iff feature_frame_def)

lemma audit_invalidate_total: "bindE (invalidate org slg) (\<lambda>_. audit E mk) w \<noteq> (Err e, w')"
  by (simp add: bindE_def invalidate_def audit_eq)

lemma safe_frame_set: "safe_err feature_frame (set_org_feature E i)"
  unfolding set_org_feature_def get_definition_def upsert_override_def
  by (intro safe_err_bindE_reads reads_db_intros)
    (auto split: sum.splits intro!: safe_err_fail safe_err_bindE_total safe_err_map_err
      safe_frame_stmt simp: audit_invalidate_total)

lemma safe_frame_clear: "safe_err feature_frame (clear_org_feature E i)"
  unfolding clear_org_feature_def get_definition_def delete_override_def
  by (intro safe_err_bindE_reads reads_db_intros)
    (auto intro!: safe_err_fail safe_err_bindE_total safe_err_map_err
      safe_frame_stmt simp: audit_invalidate_total)

lemma flags_ok_set: "flags_ok w \<Longrightarrow> flags_ok (snd (set_org_feature E i w))"
proof -
  assume ok: "flags_ok w"
  obtain r w' where run: "set_org_feature E i w = (r, w')" by (meson surj_pair)
  have "flags_ok w'"
  proof (cases r)
    case (Inl e)
    with run ok safe_errD [OF safe_frame_set] flags_ok_frame show ?thesis by metis
  next
    case (Inr u)
    with run have "set_org_feature E i w = (Ok (), w')" by simp
    with ok run show ?thesis
      using set_org_feature_typed set_org_feature_effective unfolding flags_ok_def by blast
  qed
  with run show ?thesis by simp
qed

lemma flags_ok_clear: "flags_ok w \<Longrightarrow> flags_ok (snd (clear_org_feature E i w))"
proof -
  assume ok: "flags_ok w"
  obtain r w' where run: "clear_org_feature E i w = (r, w')" by (meson surj_pair)
  have "flags_ok w'"
  proof (cases r)
    case (Inl e)
    with run ok safe_errD [OF safe_frame_clear] flags_ok_frame show ?thesis by metis
  next
    case (Inr u)
    with run have run': "clear_org_feature E i w = (Ok (), w')" by simp
    from clear_org_feature_Ok [OF this] ok have "overrides_typed (w_db w')"
      by (auto simp: flags_ok_def intro!: overrides_typed_subset)
    with ok run' show ?thesis
      using clear_org_feature_effective unfolding flags_ok_def by blast
  qed
  with run show ?thesis by simp
qed

lemma flags_ok_evaluate: "flags_ok w \<Longrightarrow> flags_ok (snd (evaluate E ttl org slg w))"
  using answersD [OF evaluate_answers, of w E ttl org slg] reads_evaluate [of E ttl org slg]
  by (metis flags_ok_def prod.collapse readsD)

lemma sys_step_flags: "sys_step E w w' \<Longrightarrow> flags_ok w \<Longrightarrow> flags_ok w'"
proof (induction rule: sys_step.induct)
  case (audited k w w')
  show ?case
  proof (rule worker_run_keeps [OF audited(1), where I = flags_ok, OF audited(2)])
    show "flags_ok w'" if "flags_ok w" "audit_insert E e w = (r, w')" for e w r w'
      using that readsD [OF frame_workers(5)] flags_ok_frame by blast
    show "flags_ok (sleep_ms ms w)" if "flags_ok w" for w ms
      using that by (simp add: sleep_ms_def flags_ok_later)
    show "flags_ok (w\<lparr>w_audit := es\<rparr>)" if "flags_ok w" for w es
      using that by (rule flags_ok_frame [rotated]) (simp add: feature_frame_def)
  qed
next
  case (flag_set w fi)
  then show ?case by (rule flags_ok_set)
next
  case (flag_cleared w fc)
  then show ?case by (rule flags_ok_clear)
next
  case (flag_read w ttl org slg)
  then show ?case by (rule flags_ok_evaluate)
next
  case (time w now)
  then show ?case by (simp add: flags_ok_later)
qed (assumption | rule flags_ok_snd frame_tenants frame_security frame_service_accounts
      frame_workers frame_settle reads_frame_leaf)+

lemma reachable_flags: "reachable E w w' \<Longrightarrow> flags_ok w \<Longrightarrow> flags_ok w'"
  by (induction rule: rtranclp_induct) (auto intro: sys_step_flags)

end
