(* ===== verification/Access.thy ===== *)
theory Access
  imports TenantsApi SecurityApi AuditQuery Platform
begin

text \<open>
  What the HTTP layer guarantees whatever the services do: who may call a handler at all,
  and that a refused call has no effect. The extractors run before the first statement, so a
  refusal leaves the whole world as it was.
\<close>

definition refuses :: "('e, 'a) action \<Rightarrow> bool" where
  "refuses h \<longleftrightarrow> (\<forall>w. \<exists>e. h w = (Err e, w))"

text \<open>
  \<open>guarded g h\<close>: without \<open>g\<close>, whatever the world, \<open>h\<close> answers an error and touches nothing.
\<close>

definition guarded :: "bool \<Rightarrow> ('e, 'a) action \<Rightarrow> bool" where
  "guarded g h \<longleftrightarrow> (\<not> g \<longrightarrow> refuses h)"

definition permitted :: "permission \<Rightarrow> extensions \<Rightarrow> bool" where
  "permitted p x \<longleftrightarrow> (\<exists>s. ext_perms x = Some s \<and> accepts p s)"

definition reaches :: "extensions \<Rightarrow> uuid \<Rightarrow> bool" where
  "reaches x oid \<longleftrightarrow> (\<exists>c s. ext_claims x = Some c \<and> ext_perms x = Some s \<and>
     (cl_org c = oid \<or> is_operator_over_tenants s))"

lemma guarded_skip: "(\<And>a. r = Ok a \<Longrightarrow> guarded g (f a)) \<Longrightarrow> guarded g (bindE (lift r) f)"
  by (cases r) (auto simp: guarded_def refuses_def bindE_def lift_def)

lemma guarded_lift: "(\<And>a. r = Ok a \<Longrightarrow> g) \<Longrightarrow> guarded g (bindE (lift r) f)"
  by (cases r) (auto simp: guarded_def refuses_def bindE_def lift_def)

lemma guarded_perm: "guarded (permitted p x) (bindE (lift (perm p x)) f)"
  by (rule guarded_lift) (auto simp: permitted_def perm_Ok_iff)

lemma guarded_reach:
  assumes "extract_authed_caller x = Ok c"
  shows "guarded (reaches x oid) (bindE (lift (same_org_or_operator c oid)) f)"
  using assms by (intro guarded_lift)
    (auto simp: reaches_def extract_authed_caller_Ok_iff same_org_or_operator_def split: if_split_asm)

lemmas tenant_handler_defs = post_create_organisation_def get_list_members_def post_assign_role_def
  post_add_user_to_organisation_def post_remove_user_from_organisation_def post_create_channel_def
  get_list_channels_def get_channel_def put_update_channel_def delete_channel_def

lemmas feature_handler_defs = get_definitions_def get_org_features_def put_org_feature_def
  delete_org_feature_def

lemmas account_handler_defs = post_create_service_account_def get_list_service_accounts_def
  get_service_account_def delete_service_account_handler_def post_create_api_key_def
  get_list_api_keys_def delete_api_key_handler_def post_rotate_api_key_def

lemmas session_handler_defs = post_register_def post_logout_def post_change_password_def
  post_switch_org_def get_list_users_def

section \<open>Permissions\<close>

lemma guarded_tenant_handlers:
  "guarded (permitted TenantsCreate x) (post_create_organisation E x i)"
  "guarded (permitted TenantsMembersList x) (get_list_members E x oid a l)"
  "guarded (permitted TenantsRolesAssign x) (post_assign_role E x oid u rc)"
  "guarded (permitted TenantsMembersAdd x) (post_add_user_to_organisation E x u oid rc)"
  "guarded (permitted TenantsMembersRemove x) (post_remove_user_from_organisation E x u oid)"
  "guarded (permitted ChannelsManage x) (post_create_channel E x oid ci)"
  "guarded (permitted ChannelsManage x) (get_list_channels E x oid a l)"
  "guarded (permitted ChannelsManage x) (get_channel E x oid cid)"
  "guarded (permitted ChannelsManage x) (put_update_channel E x oid cid ci)"
  "guarded (permitted ChannelsManage x) (delete_channel E x oid cid)"
  unfolding tenant_handler_defs by (intro guarded_perm guarded_skip)+

lemma guarded_feature_handlers:
  "guarded (permitted TenantsManageAll x) (get_definitions E x)"
  "guarded (permitted FeaturesRead x) (get_org_features E ttl x oid)"
  "guarded (permitted FeaturesManage x) (put_org_feature E ttl x oid slg v)"
  "guarded (permitted FeaturesManage x) (delete_org_feature E x oid slg)"
  unfolding feature_handler_defs by (intro guarded_perm guarded_skip)+

lemma guarded_security_handlers:
  "guarded (permitted TenantsMembersAdd x) (post_register E x ri)"
  "guarded (permitted UsersRead x) (get_list_users E x q)"
  "guarded (permitted ServiceAccountsManage x) (post_create_service_account E x oid n ds)"
  "guarded (permitted ServiceAccountsRead x) (get_list_service_accounts E x oid l a)"
  "guarded (permitted ServiceAccountsRead x) (get_service_account E x sa)"
  "guarded (permitted ServiceAccountsManage x) (delete_service_account_handler E x sa)"
  "guarded (permitted ServiceAccountsManage x) (post_create_api_key E x sa n sc)"
  "guarded (permitted ServiceAccountsRead x) (get_list_api_keys E x sa)"
  "guarded (permitted ServiceAccountsManage x) (delete_api_key_handler E x sa kid)"
  "guarded (permitted ServiceAccountsManage x) (post_rotate_api_key E x sa kid on os)"
  unfolding session_handler_defs account_handler_defs by (intro guarded_perm guarded_skip)+

section \<open>The tenant boundary\<close>

lemma reach_channel_handlers:
  "guarded (reaches x oid) (post_create_channel E x oid ci)"
  "guarded (reaches x oid) (get_list_channels E x oid a l)"
  "guarded (reaches x oid) (get_channel E x oid cid)"
  "guarded (reaches x oid) (put_update_channel E x oid cid ci)"
  "guarded (reaches x oid) (delete_channel E x oid cid)"
  unfolding tenant_handler_defs by - ((rule guarded_reach, assumption) | rule guarded_skip)+

lemma reach_other_handlers:
  "guarded (reaches x oid) (get_org_features E ttl x oid)"
  "guarded (reaches x oid) (put_org_feature E ttl x oid slg v)"
  "guarded (reaches x oid) (delete_org_feature E x oid slg)"
  "guarded (reaches x oid) (post_create_service_account E x oid n ds)"
  "guarded (reaches x oid) (get_list_service_accounts E x oid l a)"
  unfolding feature_handler_defs account_handler_defs
  by - ((rule guarded_reach, assumption) | rule guarded_skip)+

section \<open>Credentials of a person\<close>

text \<open>
  The endpoints that mint, list or destroy credentials refuse a caller that is itself an API
  key before anything else is looked at.
\<close>

lemma human_gate:
  assumes "ext_caller x = Some (ApiKeyCaller k sa oid)"
  shows "bindE (lift (require_human_caller x)) f w = (Err RequiresUserCredentials, w)"
  using assms by (simp add: require_human_caller_def bindE_def lift_def)

lemma human_only:
  assumes "ext_caller x = Some (ApiKeyCaller k s o')"
  shows "post_register E x ri w = (Err RequiresUserCredentials, w)"
    "post_logout E x w = (Err RequiresUserCredentials, w)"
    "post_change_password E x p q w = (Err RequiresUserCredentials, w)"
    "post_switch_org E jc x oid w = (Err RequiresUserCredentials, w)"
    "post_create_service_account E x oid n ds w = (Err RequiresUserCredentials, w)"
    "get_list_service_accounts E x oid l a w = (Err RequiresUserCredentials, w)"
    "get_service_account E x sa w = (Err RequiresUserCredentials, w)"
    "delete_service_account_handler E x sa w = (Err RequiresUserCredentials, w)"
    "post_create_api_key E x sa n sc w = (Err RequiresUserCredentials, w)"
    "get_list_api_keys E x sa w = (Err RequiresUserCredentials, w)"
    "delete_api_key_handler E x sa kid w = (Err RequiresUserCredentials, w)"
    "post_rotate_api_key E x sa kid on os w = (Err RequiresUserCredentials, w)"
  unfolding session_handler_defs account_handler_defs by (rule human_gate [OF assms])+

end
