(* ===== verification/App.thy ===== *)
theory App
  imports Wire System Access
begin

text \<open>
  The composed application of \<^verbatim>\<open>build_app\<close> (\<^verbatim>\<open>src/lib.rs\<close>): \<open>handle\<close> runs the handler of a parsed
  request and builds its response, \<open>serve_request\<close> puts the authentication layer before the protected
  half. The task that \<^verbatim>\<open>AuthLayer\<close> spawns to record the use of an API key is returned beside the
  response, since it runs whenever the scheduler likes: it is a \<open>key_used\<close> step of \<open>sys_step\<close>.
\<close>

section \<open>State\<close>

text \<open>
  The configured part of \<^verbatim>\<open>AppState\<close>. Its other fields are the repositories, the recorder, the
  enqueuer and the evaluator, which are the operations of the model.
\<close>

record app_state =
  as_jwt_config :: jwt_config
  as_password_reset_ttl_secs :: int

definition app_state_of :: "app_config \<Rightarrow> app_state" where
  "app_state_of cfg =
     \<lparr> as_jwt_config = \<lparr> jc_secret = ac_jwt_secret cfg, jc_issuer = ac_jwt_issuer cfg,
         jc_ttl_secs = ac_jwt_ttl_secs cfg \<rparr>,
       as_password_reset_ttl_secs = ac_password_reset_ttl_secs cfg \<rparr>"

section \<open>Handlers\<close>

definition respond :: "('a \<Rightarrow> response) \<Rightarrow> (app_error, 'a) action \<Rightarrow> (app_error, response) action" where
  "respond f m = bindE m (\<lambda>a. ret (f a))"

definition health :: response where
  "health = json_response 200 (ProbeBody ''ok'')"

definition ready_handler :: "env \<Rightarrow> (app_error, response) action" where
  "ready_handler E = matchE (ready E) (\<lambda>r.
     case r of
       Ok _ \<Rightarrow> ret (json_response 200 (ProbeBody ''ready''))
     | Err status \<Rightarrow> ret (json_response status (ProbeBody ''not_ready'')))"

fun handle :: "env \<Rightarrow> app_state \<Rightarrow> extensions \<Rightarrow> call \<Rightarrow> (app_error, response) action" where
  "handle E st x CHealth = ret health"
| "handle E st x CReady = ready_handler E"
| "handle E st x (CLogin r) =
     respond (\<lambda>out. json_response 200 (LoginB (login_response_of out)))
       (post_login E (as_jwt_config st) (lgr_username_or_email r) (lgr_password r))"
| "handle E st x (CPasswordResetRequest r) =
     respond status_response (post_password_reset_request E (as_password_reset_ttl_secs st) (prb_email r))"
| "handle E st x (CPasswordResetConfirm r) =
     respond status_response (post_password_reset_confirm E (pcb_token r) (pcb_new_password r))"
| "handle E st x (CCreateOrganisation r) =
     respond (\<lambda>out. json_response 201 (OrganisationB (created_organisation_body out)))
       (post_create_organisation E x (create_organisation_input_of r))"
| "handle E st x (CListMyOrganisations q) =
     respond (\<lambda>(items, nxt). json_response 200 (PagedOrganisationsB
         \<lparr> pgo_items = map listed_organisation_body items, pgo_next_cursor = nxt \<rparr>))
       (get_list_my_organisations E x (lsq_after q) (lsq_limit q))"
| "handle E st x (CListMembers oid q) =
     respond (\<lambda>(items, nxt). json_response 200 (PagedMembersB
         \<lparr> pgm_items = map member_body_of items, pgm_next_cursor = nxt \<rparr>))
       (get_list_members E x oid (lsq_after q) (lsq_limit q))"
| "handle E st x (CAssignRole oid r) =
     respond (\<lambda>new. json_response 200 (AssignRoleB \<lparr> arb_assigned = new \<rparr>))
       (post_assign_role E x oid (arr_user_id r) (arr_role_code r))"
| "handle E st x (CAddUserToOrganisation r) =
     respond status_response
       (post_add_user_to_organisation E x (aur_user_id r) (aur_org_id r) (aur_role_code r))"
| "handle E st x (CRemoveUserFromOrganisation r) =
     respond status_response
       (post_remove_user_from_organisation E x (rur_user_id r) (rur_org_id r))"
| "handle E st x (CCreateChannel oid r) =
     respond (\<lambda>ch. json_response 201 (ChannelB (channel_body_of ch)))
       (post_create_channel E x oid (create_channel_input_of r))"
| "handle E st x (CListChannels oid q) =
     respond (\<lambda>(items, nxt). json_response 200 (PagedChannelsB
         \<lparr> pgc_items = map channel_body_of items, pgc_next_cursor = nxt \<rparr>))
       (get_list_channels E x oid (lsq_after q) (lsq_limit q))"
| "handle E st x (CGetChannel oid cid) =
     respond (\<lambda>ch. json_response 200 (ChannelB (channel_body_of ch))) (get_channel E x oid cid)"
| "handle E st x (CUpdateChannel oid cid r) =
     respond (\<lambda>ch. json_response 200 (ChannelB (channel_body_of ch)))
       (put_update_channel E x oid cid (update_channel_input_of r))"
| "handle E st x (CDeleteChannel oid cid) = respond status_response (delete_channel E x oid cid)"
| "handle E st x (CRegister r) =
     respond (\<lambda>uid. json_response 201 (RegisterB \<lparr> rgp_user_id = uid \<rparr>))
       (post_register E x (register_user_input_of r))"
| "handle E st x CLogout = respond status_response (post_logout E x)"
| "handle E st x (CChangePassword r) =
     respond status_response
       (post_change_password E x (cpr_current_password r) (cpr_new_password r))"
| "handle E st x (CSwitchOrg r) =
     respond (\<lambda>tok. json_response 200 (TokenB \<lparr> tkp_token = tok \<rparr>))
       (post_switch_org E (as_jwt_config st) x (sor_org_id r))"
| "handle E st x (CCreateServiceAccount r) =
     respond (\<lambda>sa. json_response 201 (ServiceAccountB sa))
       (post_create_service_account E x (csr_organisation_id r) (csr_name r) (csr_description r))"
| "handle E st x (CListServiceAccounts q) =
     respond (\<lambda>(items, nxt). json_response 200 (ListServiceAccountsB
         \<lparr> lsp_items = items, lsp_next_cursor = nxt \<rparr>))
       (get_list_service_accounts E x (lsa_organisation_id q) (lsa_limit q) (lsa_after q))"
| "handle E st x (CGetServiceAccount sa) =
     respond (\<lambda>s. json_response 200 (ServiceAccountB s)) (get_service_account E x sa)"
| "handle E st x (CDeleteServiceAccount sa) =
     respond status_response (delete_service_account_handler E x sa)"
| "handle E st x (CCreateApiKey sa r) =
     respond (\<lambda>(k, plaintext). json_response 201 (CreateApiKeyB
         \<lparr> cky_key = k, cky_plaintext = plaintext \<rparr>))
       (post_create_api_key E x sa (ckr_name r) (ckr_scopes r))"
| "handle E st x (CListApiKeys sa) =
     respond (\<lambda>ks. json_response 200 (ListApiKeysB \<lparr> lky_items = ks \<rparr>)) (get_list_api_keys E x sa)"
| "handle E st x (CDeleteApiKey sa kid) =
     respond status_response (delete_api_key_handler E x sa kid)"
| "handle E st x (CRotateApiKey sa kid r) =
     respond (\<lambda>(k, plaintext). json_response 201 (CreateApiKeyB
         \<lparr> cky_key = k, cky_plaintext = plaintext \<rparr>))
       (post_rotate_api_key E x sa kid (rkr_name r) (rkr_scopes r))"
| "handle E st x (CListUsers q) =
     respond (\<lambda>(items, nxt). json_response 200 (ListUsersB
         \<lparr> lup_items = map user_summary_dto_of items, lup_next_cursor = nxt \<rparr>))
       (get_list_users E x q)"
| "handle E st x CGetDefinitions =
     respond (\<lambda>ds. json_response 200 (FeatureDefinitionsB ds)) (get_definitions E x)"
| "handle E st x (CGetOrgFeatures oid) =
     respond (\<lambda>fs. json_response 200 (EvaluatedFeaturesB fs)) (get_org_features E DEFAULT_TTL x oid)"
| "handle E st x (CPutOrgFeature oid slg r) =
     respond (\<lambda>f. json_response 200 (EvaluatedFeatureB f))
       (put_org_feature E DEFAULT_TTL x oid slg (pfr_value r))"
| "handle E st x (CDeleteOrgFeature oid slg) =
     respond status_response (delete_org_feature E x oid slg)"
| "handle E st x CGetEcho = respond (\<lambda>e. json_response 200 (EchoB e)) (get_echo x)"
| "handle E st x (CPostEcho b) = respond (\<lambda>e. json_response 200 (EchoB e)) (post_echo x b)"

section \<open>Serving a request\<close>

definition run_handler :: "env \<Rightarrow> app_state \<Rightarrow> extensions \<Rightarrow> call \<Rightarrow> (unit, response) action" where
  "run_handler E st x c =
     matchE (handle E st x c) (\<lambda>r. ret (case r of Err e \<Rightarrow> problem_response e | Ok rs \<Rightarrow> rs))"

type_synonym spawned = "(uuid \<times> uuid) option"

definition serve_request ::
    "env \<Rightarrow> app_config \<Rightarrow> request \<Rightarrow> call \<Rightarrow> (unit, response \<times> spawned) action" where
  "serve_request E cfg rq c =
     (let st = app_state_of cfg in
      if is_protected (endpoint_of c) then
        bindE (auth_call E (pg_strategies E DEFAULT_TTL) (ac_jwt_secret cfg) (ac_jwt_issuer cfg) rq)
          (\<lambda>outcome. case outcome of
             Rejected e \<Rightarrow> ret (problem_response e, None)
           | ServerError \<Rightarrow> ret (status_response 500, None)
           | Forward x touch \<Rightarrow> bindE (run_handler E st x c) (\<lambda>rs. ret (rs, touch)))
      else bindE (run_handler E st (rq_extensions rq) c) (\<lambda>rs. ret (rs, None)))"

end
