(* ===== verification/OpenApi.thy ===== *)
theory OpenApi
  imports App
begin

text \<open>
  The published contract. Every handler carries a \<^verbatim>\<open>#[utoipa::path(...)]\<close> annotation, and
  \<^verbatim>\<open>ApiDoc\<close> (\<^verbatim>\<open>src/openapi.rs\<close>) collects them into the document the service serves and
  \<^verbatim>\<open>dump-openapi\<close> prints: one definition per annotation, then the lists of \<^verbatim>\<open>ApiDoc\<close>. Descriptions
  are left out.

  The document is compared with the router (same operations, same authentication, same path
  parameters) and with the handlers (statuses and body types of their responses).
\<close>

section \<open>Operations\<close>

datatype schema = Ref string | ArrayOf string | AnyJson

datatype param_in = InPath | InQuery

record operation =
  op_meth :: meth
  op_path :: string
  op_tag :: string
  op_request :: "schema option"
  op_secured :: bool
  op_params :: "(string \<times> param_in) list"
  op_responses :: "(nat \<times> schema option) list"

definition post_create_organisation_doc :: operation where
  "post_create_organisation_doc =
     \<lparr> op_meth = Post, op_path = ''/api/v1/tenants/organisations'', op_tag = ''tenants'',
       op_request = Some (Ref ''CreateOrganisationRequest''), op_secured = True,
       op_params = [],
       op_responses =
         [(201, Some (Ref ''OrganisationBody'')),
          (400, Some (Ref ''ErrorBody'')),
          (401, Some (Ref ''ErrorBody'')),
          (403, Some (Ref ''ErrorBody'')),
          (409, Some (Ref ''ErrorBody''))] \<rparr>"

definition get_list_my_organisations_doc :: operation where
  "get_list_my_organisations_doc =
     \<lparr> op_meth = Get, op_path = ''/api/v1/tenants/me/organisations'', op_tag = ''tenants'',
       op_request = None, op_secured = True,
       op_params = [(''after'', InQuery), (''limit'', InQuery)],
       op_responses =
         [(200, Some (Ref ''PagedOrganisations'')),
          (400, Some (Ref ''ErrorBody'')),
          (401, Some (Ref ''ErrorBody'')),
          (403, Some (Ref ''ErrorBody''))] \<rparr>"

definition get_list_members_doc :: operation where
  "get_list_members_doc =
     \<lparr> op_meth = Get, op_path = ''/api/v1/tenants/organisations/{id}/members'', op_tag = ''tenants'',
       op_request = None, op_secured = True,
       op_params = [(''id'', InPath), (''after'', InQuery), (''limit'', InQuery)],
       op_responses =
         [(200, Some (Ref ''PagedMembers'')),
          (400, Some (Ref ''ErrorBody'')),
          (401, Some (Ref ''ErrorBody'')),
          (403, Some (Ref ''ErrorBody'')),
          (404, Some (Ref ''ErrorBody''))] \<rparr>"

definition post_assign_role_doc :: operation where
  "post_assign_role_doc =
     \<lparr> op_meth = Post, op_path = ''/api/v1/tenants/organisations/{id}/memberships'', op_tag = ''tenants'',
       op_request = Some (Ref ''AssignRoleRequest''), op_secured = True,
       op_params = [(''id'', InPath)],
       op_responses =
         [(200, Some (Ref ''AssignRoleResponseBody'')),
          (400, Some (Ref ''ErrorBody'')),
          (401, Some (Ref ''ErrorBody'')),
          (403, Some (Ref ''ErrorBody'')),
          (404, Some (Ref ''ErrorBody''))] \<rparr>"

definition post_add_user_to_organisation_doc :: operation where
  "post_add_user_to_organisation_doc =
     \<lparr> op_meth = Post, op_path = ''/api/v1/tenants/add-user-to-organisation'', op_tag = ''tenants'',
       op_request = Some (Ref ''AddUserToOrganisationRequest''), op_secured = True,
       op_params = [],
       op_responses =
         [(204, None),
          (401, Some (Ref ''ErrorBody'')),
          (403, Some (Ref ''ErrorBody'')),
          (404, Some (Ref ''ErrorBody''))] \<rparr>"

definition post_remove_user_from_organisation_doc :: operation where
  "post_remove_user_from_organisation_doc =
     \<lparr> op_meth = Post, op_path = ''/api/v1/tenants/remove-user-from-organisation'', op_tag = ''tenants'',
       op_request = Some (Ref ''RemoveUserFromOrganisationRequest''), op_secured = True,
       op_params = [],
       op_responses =
         [(204, None),
          (401, Some (Ref ''ErrorBody'')),
          (403, Some (Ref ''ErrorBody'')),
          (404, Some (Ref ''ErrorBody'')),
          (409, Some (Ref ''ErrorBody''))] \<rparr>"

definition post_create_channel_doc :: operation where
  "post_create_channel_doc =
     \<lparr> op_meth = Post, op_path = ''/api/v1/tenants/organisations/{org_id}/channels'', op_tag = ''tenants'',
       op_request = Some (Ref ''CreateChannelRequest''), op_secured = True,
       op_params = [(''org_id'', InPath)],
       op_responses =
         [(201, Some (Ref ''ChannelBody'')),
          (400, Some (Ref ''ErrorBody'')),
          (401, Some (Ref ''ErrorBody'')),
          (403, Some (Ref ''ErrorBody'')),
          (404, Some (Ref ''ErrorBody'')),
          (409, Some (Ref ''ErrorBody''))] \<rparr>"

definition get_list_channels_doc :: operation where
  "get_list_channels_doc =
     \<lparr> op_meth = Get, op_path = ''/api/v1/tenants/organisations/{org_id}/channels'', op_tag = ''tenants'',
       op_request = None, op_secured = True,
       op_params = [(''org_id'', InPath), (''after'', InQuery), (''limit'', InQuery)],
       op_responses =
         [(200, Some (Ref ''PagedChannels'')),
          (401, Some (Ref ''ErrorBody'')),
          (403, Some (Ref ''ErrorBody'')),
          (404, Some (Ref ''ErrorBody''))] \<rparr>"

definition get_channel_doc :: operation where
  "get_channel_doc =
     \<lparr> op_meth = Get, op_path = ''/api/v1/tenants/organisations/{org_id}/channels/{channel_id}'', op_tag = ''tenants'',
       op_request = None, op_secured = True,
       op_params = [(''org_id'', InPath), (''channel_id'', InPath)],
       op_responses =
         [(200, Some (Ref ''ChannelBody'')),
          (401, Some (Ref ''ErrorBody'')),
          (403, Some (Ref ''ErrorBody'')),
          (404, Some (Ref ''ErrorBody''))] \<rparr>"

definition put_update_channel_doc :: operation where
  "put_update_channel_doc =
     \<lparr> op_meth = Put, op_path = ''/api/v1/tenants/organisations/{org_id}/channels/{channel_id}'', op_tag = ''tenants'',
       op_request = Some (Ref ''UpdateChannelRequest''), op_secured = True,
       op_params = [(''org_id'', InPath), (''channel_id'', InPath)],
       op_responses =
         [(200, Some (Ref ''ChannelBody'')),
          (400, Some (Ref ''ErrorBody'')),
          (401, Some (Ref ''ErrorBody'')),
          (403, Some (Ref ''ErrorBody'')),
          (404, Some (Ref ''ErrorBody'')),
          (409, Some (Ref ''ErrorBody''))] \<rparr>"

definition delete_channel_doc :: operation where
  "delete_channel_doc =
     \<lparr> op_meth = Delete, op_path = ''/api/v1/tenants/organisations/{org_id}/channels/{channel_id}'', op_tag = ''tenants'',
       op_request = None, op_secured = True,
       op_params = [(''org_id'', InPath), (''channel_id'', InPath)],
       op_responses =
         [(204, None),
          (401, Some (Ref ''ErrorBody'')),
          (403, Some (Ref ''ErrorBody'')),
          (404, Some (Ref ''ErrorBody''))] \<rparr>"

definition post_register_doc :: operation where
  "post_register_doc =
     \<lparr> op_meth = Post, op_path = ''/api/v1/security/register'', op_tag = ''security'',
       op_request = Some (Ref ''RegisterRequest''), op_secured = True,
       op_params = [],
       op_responses =
         [(201, Some (Ref ''RegisterResponse'')),
          (400, Some (Ref ''ErrorBody'')),
          (401, Some (Ref ''ErrorBody'')),
          (403, Some (Ref ''ErrorBody'')),
          (409, Some (Ref ''ErrorBody''))] \<rparr>"

definition post_login_doc :: operation where
  "post_login_doc =
     \<lparr> op_meth = Post, op_path = ''/api/v1/security/login'', op_tag = ''security'',
       op_request = Some (Ref ''LoginRequest''), op_secured = False,
       op_params = [],
       op_responses =
         [(200, Some (Ref ''LoginResponse'')),
          (401, Some (Ref ''ErrorBody''))] \<rparr>"

definition post_logout_doc :: operation where
  "post_logout_doc =
     \<lparr> op_meth = Post, op_path = ''/api/v1/security/logout'', op_tag = ''security'',
       op_request = None, op_secured = True,
       op_params = [],
       op_responses =
         [(204, None),
          (401, Some (Ref ''ErrorBody''))] \<rparr>"

definition post_change_password_doc :: operation where
  "post_change_password_doc =
     \<lparr> op_meth = Post, op_path = ''/api/v1/security/change-password'', op_tag = ''security'',
       op_request = Some (Ref ''ChangePasswordRequest''), op_secured = True,
       op_params = [],
       op_responses =
         [(204, None),
          (400, Some (Ref ''ErrorBody'')),
          (401, Some (Ref ''ErrorBody''))] \<rparr>"

definition post_switch_org_doc :: operation where
  "post_switch_org_doc =
     \<lparr> op_meth = Post, op_path = ''/api/v1/security/switch-org'', op_tag = ''security'',
       op_request = Some (Ref ''SwitchOrgRequest''), op_secured = True,
       op_params = [],
       op_responses =
         [(200, Some (Ref ''TokenResponse'')),
          (401, Some (Ref ''ErrorBody'')),
          (403, Some (Ref ''ErrorBody''))] \<rparr>"

definition post_password_reset_request_doc :: operation where
  "post_password_reset_request_doc =
     \<lparr> op_meth = Post, op_path = ''/api/v1/security/password-reset-request'', op_tag = ''security'',
       op_request = Some (Ref ''PasswordResetRequestBody''), op_secured = False,
       op_params = [],
       op_responses =
         [(204, None)] \<rparr>"

definition post_password_reset_confirm_doc :: operation where
  "post_password_reset_confirm_doc =
     \<lparr> op_meth = Post, op_path = ''/api/v1/security/password-reset-confirm'', op_tag = ''security'',
       op_request = Some (Ref ''PasswordResetConfirmBody''), op_secured = False,
       op_params = [],
       op_responses =
         [(204, None),
          (400, Some (Ref ''ErrorBody''))] \<rparr>"

definition get_list_users_doc :: operation where
  "get_list_users_doc =
     \<lparr> op_meth = Get, op_path = ''/api/v1/users'', op_tag = ''security'',
       op_request = None, op_secured = True,
       op_params = [(''after'', InQuery), (''limit'', InQuery), (''org_id'', InQuery), (''q'', InQuery)],
       op_responses =
         [(200, Some (Ref ''ListUsersResponse'')),
          (400, Some (Ref ''ErrorBody'')),
          (401, Some (Ref ''ErrorBody'')),
          (403, Some (Ref ''ErrorBody''))] \<rparr>"

definition post_create_service_account_doc :: operation where
  "post_create_service_account_doc =
     \<lparr> op_meth = Post, op_path = ''/api/v1/security/service-accounts'', op_tag = ''service-accounts'',
       op_request = Some (Ref ''CreateServiceAccountRequest''), op_secured = True,
       op_params = [],
       op_responses =
         [(201, Some (Ref ''ServiceAccountResponse'')),
          (400, Some (Ref ''ErrorBody'')),
          (401, Some (Ref ''ErrorBody'')),
          (403, Some (Ref ''ErrorBody'')),
          (409, Some (Ref ''ErrorBody''))] \<rparr>"

definition get_list_service_accounts_doc :: operation where
  "get_list_service_accounts_doc =
     \<lparr> op_meth = Get, op_path = ''/api/v1/security/service-accounts'', op_tag = ''service-accounts'',
       op_request = None, op_secured = True,
       op_params = [(''organisation_id'', InQuery), (''limit'', InQuery), (''after'', InQuery)],
       op_responses =
         [(200, Some (Ref ''ListServiceAccountsResponse'')),
          (401, Some (Ref ''ErrorBody'')),
          (403, Some (Ref ''ErrorBody''))] \<rparr>"

definition get_service_account_doc :: operation where
  "get_service_account_doc =
     \<lparr> op_meth = Get, op_path = ''/api/v1/security/service-accounts/{sa_id}'', op_tag = ''service-accounts'',
       op_request = None, op_secured = True,
       op_params = [(''sa_id'', InPath)],
       op_responses =
         [(200, Some (Ref ''ServiceAccountResponse'')),
          (401, Some (Ref ''ErrorBody'')),
          (403, Some (Ref ''ErrorBody'')),
          (404, Some (Ref ''ErrorBody''))] \<rparr>"

definition delete_service_account_handler_doc :: operation where
  "delete_service_account_handler_doc =
     \<lparr> op_meth = Delete, op_path = ''/api/v1/security/service-accounts/{sa_id}'', op_tag = ''service-accounts'',
       op_request = None, op_secured = True,
       op_params = [(''sa_id'', InPath)],
       op_responses =
         [(204, None),
          (401, Some (Ref ''ErrorBody'')),
          (403, Some (Ref ''ErrorBody'')),
          (404, Some (Ref ''ErrorBody''))] \<rparr>"

definition post_create_api_key_doc :: operation where
  "post_create_api_key_doc =
     \<lparr> op_meth = Post, op_path = ''/api/v1/security/service-accounts/{sa_id}/api-keys'', op_tag = ''service-accounts'',
       op_request = Some (Ref ''CreateApiKeyRequest''), op_secured = True,
       op_params = [(''sa_id'', InPath)],
       op_responses =
         [(201, Some (Ref ''CreateApiKeyResponse'')),
          (400, Some (Ref ''ErrorBody'')),
          (401, Some (Ref ''ErrorBody'')),
          (403, Some (Ref ''ErrorBody'')),
          (404, Some (Ref ''ErrorBody''))] \<rparr>"

definition get_list_api_keys_doc :: operation where
  "get_list_api_keys_doc =
     \<lparr> op_meth = Get, op_path = ''/api/v1/security/service-accounts/{sa_id}/api-keys'', op_tag = ''service-accounts'',
       op_request = None, op_secured = True,
       op_params = [(''sa_id'', InPath)],
       op_responses =
         [(200, Some (Ref ''ListApiKeysResponse'')),
          (401, Some (Ref ''ErrorBody'')),
          (403, Some (Ref ''ErrorBody'')),
          (404, Some (Ref ''ErrorBody''))] \<rparr>"

definition delete_api_key_handler_doc :: operation where
  "delete_api_key_handler_doc =
     \<lparr> op_meth = Delete, op_path = ''/api/v1/security/service-accounts/{sa_id}/api-keys/{key_id}'', op_tag = ''service-accounts'',
       op_request = None, op_secured = True,
       op_params = [(''sa_id'', InPath), (''key_id'', InPath)],
       op_responses =
         [(204, None),
          (401, Some (Ref ''ErrorBody'')),
          (403, Some (Ref ''ErrorBody'')),
          (404, Some (Ref ''ErrorBody''))] \<rparr>"

definition post_rotate_api_key_doc :: operation where
  "post_rotate_api_key_doc =
     \<lparr> op_meth = Post, op_path = ''/api/v1/security/service-accounts/{sa_id}/api-keys/{key_id}/rotate'', op_tag = ''service-accounts'',
       op_request = Some (Ref ''RotateApiKeyRequest''), op_secured = True,
       op_params = [(''sa_id'', InPath), (''key_id'', InPath)],
       op_responses =
         [(201, Some (Ref ''CreateApiKeyResponse'')),
          (400, Some (Ref ''ErrorBody'')),
          (401, Some (Ref ''ErrorBody'')),
          (403, Some (Ref ''ErrorBody'')),
          (404, Some (Ref ''ErrorBody''))] \<rparr>"

definition get_definitions_doc :: operation where
  "get_definitions_doc =
     \<lparr> op_meth = Get, op_path = ''/api/v1/features'', op_tag = ''features'',
       op_request = None, op_secured = True,
       op_params = [],
       op_responses =
         [(200, Some (ArrayOf ''FeatureDefinition'')),
          (401, Some (Ref ''ErrorBody'')),
          (403, Some (Ref ''ErrorBody''))] \<rparr>"

definition get_org_features_doc :: operation where
  "get_org_features_doc =
     \<lparr> op_meth = Get, op_path = ''/api/v1/features/orgs/{org_id}'', op_tag = ''features'',
       op_request = None, op_secured = True,
       op_params = [(''org_id'', InPath)],
       op_responses =
         [(200, Some (ArrayOf ''EvaluatedFeature'')),
          (401, Some (Ref ''ErrorBody'')),
          (403, Some (Ref ''ErrorBody'')),
          (404, Some (Ref ''ErrorBody''))] \<rparr>"

definition put_org_feature_doc :: operation where
  "put_org_feature_doc =
     \<lparr> op_meth = Put, op_path = ''/api/v1/features/orgs/{org_id}/{slug}'', op_tag = ''features'',
       op_request = Some (Ref ''PutFeatureRequest''), op_secured = True,
       op_params = [(''org_id'', InPath), (''slug'', InPath)],
       op_responses =
         [(200, Some (Ref ''EvaluatedFeature'')),
          (400, Some (Ref ''ErrorBody'')),
          (401, Some (Ref ''ErrorBody'')),
          (403, Some (Ref ''ErrorBody'')),
          (404, Some (Ref ''ErrorBody''))] \<rparr>"

definition delete_org_feature_doc :: operation where
  "delete_org_feature_doc =
     \<lparr> op_meth = Delete, op_path = ''/api/v1/features/orgs/{org_id}/{slug}'', op_tag = ''features'',
       op_request = None, op_secured = True,
       op_params = [(''org_id'', InPath), (''slug'', InPath)],
       op_responses =
         [(204, None),
          (401, Some (Ref ''ErrorBody'')),
          (403, Some (Ref ''ErrorBody'')),
          (404, Some (Ref ''ErrorBody''))] \<rparr>"

definition get_echo_doc :: operation where
  "get_echo_doc =
     \<lparr> op_meth = Get, op_path = ''/api/v1/echo'', op_tag = ''echo'',
       op_request = None, op_secured = True,
       op_params = [],
       op_responses =
         [(200, Some (Ref ''EchoResponse'')),
          (401, Some (Ref ''ErrorBody'')),
          (403, Some (Ref ''ErrorBody''))] \<rparr>"

definition post_echo_doc :: operation where
  "post_echo_doc =
     \<lparr> op_meth = Post, op_path = ''/api/v1/echo'', op_tag = ''echo'',
       op_request = Some AnyJson, op_secured = True,
       op_params = [],
       op_responses =
         [(200, Some (Ref ''EchoResponse'')),
          (401, Some (Ref ''ErrorBody'')),
          (403, Some (Ref ''ErrorBody''))] \<rparr>"

definition api_paths :: "(endpoint \<times> operation) list" where
  "api_paths =
     [(PostCreateOrganisation, post_create_organisation_doc),
      (GetListMyOrganisations, get_list_my_organisations_doc),
      (GetListMembers, get_list_members_doc),
      (PostAssignRole, post_assign_role_doc),
      (PostAddUserToOrganisation, post_add_user_to_organisation_doc),
      (PostRemoveUserFromOrganisation, post_remove_user_from_organisation_doc),
      (PostRegister, post_register_doc),
      (PostLogin, post_login_doc),
      (PostLogout, post_logout_doc),
      (PostChangePassword, post_change_password_doc),
      (PostSwitchOrg, post_switch_org_doc),
      (PostPasswordResetRequest, post_password_reset_request_doc),
      (PostPasswordResetConfirm, post_password_reset_confirm_doc),
      (GetListUsers, get_list_users_doc),
      (PostCreateServiceAccount, post_create_service_account_doc),
      (GetListServiceAccounts, get_list_service_accounts_doc),
      (GetServiceAccount, get_service_account_doc),
      (DeleteServiceAccountHandler, delete_service_account_handler_doc),
      (PostCreateApiKey, post_create_api_key_doc),
      (GetListApiKeys, get_list_api_keys_doc),
      (DeleteApiKeyHandler, delete_api_key_handler_doc),
      (PostRotateApiKey, post_rotate_api_key_doc),
      (PostCreateChannel, post_create_channel_doc),
      (GetListChannels, get_list_channels_doc),
      (GetChannel, get_channel_doc),
      (PutUpdateChannel, put_update_channel_doc),
      (DeleteChannel, delete_channel_doc),
      (GetDefinitions, get_definitions_doc),
      (GetOrgFeatures, get_org_features_doc),
      (PutOrgFeature, put_org_feature_doc),
      (DeleteOrgFeature, delete_org_feature_doc),
      (GetEcho, get_echo_doc),
      (PostEcho, post_echo_doc)]"

definition api_schemas :: "string list" where
  "api_schemas =
     [''CreateChannelRequest'', ''UpdateChannelRequest'', ''ChannelBody'', ''PagedChannels'',
      ''ChannelType'', ''CreateOrganisationRequest'', ''OrganisationBody'',
      ''PagedOrganisations'', ''MemberBody'', ''PagedMembers'', ''AssignRoleRequest'',
      ''AssignRoleResponseBody'', ''AddUserToOrganisationRequest'',
      ''RemoveUserFromOrganisationRequest'', ''RegisterRequest'', ''RegisterResponse'',
      ''LoginRequest'', ''LoginResponse'', ''MembershipDto'', ''ChangePasswordRequest'',
      ''SwitchOrgRequest'', ''TokenResponse'', ''PasswordResetRequestBody'',
      ''PasswordResetConfirmBody'', ''UserSummaryDto'', ''ListUsersResponse'',
      ''CreateServiceAccountRequest'', ''ServiceAccountResponse'',
      ''ListServiceAccountsResponse'', ''CreateApiKeyRequest'', ''ApiKeyResponse'',
      ''CreateApiKeyResponse'', ''ListApiKeysResponse'', ''RotateApiKeyRequest'', ''ErrorBody'',
      ''PutFeatureRequest'', ''FeatureDefinition'', ''EvaluatedFeature'', ''FeatureValueType'',
      ''FeatureSource'', ''EchoResponse'']"

definition api_tags :: "string list" where
  "api_tags = [''tenants'', ''security'', ''service-accounts'', ''features'', ''echo'']"

lemmas doc_defs =
  post_create_organisation_doc_def get_list_my_organisations_doc_def get_list_members_doc_def
  post_assign_role_doc_def post_add_user_to_organisation_doc_def
  post_remove_user_from_organisation_doc_def post_create_channel_doc_def
  get_list_channels_doc_def get_channel_doc_def put_update_channel_doc_def
  delete_channel_doc_def post_register_doc_def post_login_doc_def post_logout_doc_def
  post_change_password_doc_def post_switch_org_doc_def post_password_reset_request_doc_def
  post_password_reset_confirm_doc_def get_list_users_doc_def
  post_create_service_account_doc_def get_list_service_accounts_doc_def
  get_service_account_doc_def delete_service_account_handler_doc_def
  post_create_api_key_doc_def get_list_api_keys_doc_def delete_api_key_handler_doc_def
  post_rotate_api_key_doc_def get_definitions_doc_def get_org_features_doc_def
  put_org_feature_doc_def delete_org_feature_doc_def get_echo_doc_def post_echo_doc_def

section \<open>The document and the router\<close>

text \<open>\<^verbatim>\<open>{name}\<close> in the document is \<^verbatim>\<open>:name\<close> in a route.\<close>

fun route_template :: "string \<Rightarrow> string" where
  "route_template [] = []"
| "route_template (c # s) =
     (if c = CHR ''{'' then CHR '':'' # route_template s
      else if c = CHR ''}'' then route_template s
      else c # route_template s)"

definition documented_operations :: "((meth \<times> string) \<times> endpoint) list" where
  "documented_operations = map (\<lambda>(e, d). ((op_meth d, route_template (op_path d)), e)) api_paths"

definition path_params :: "operation \<Rightarrow> string list" where
  "path_params d = map fst (filter (\<lambda>p. snd p = InPath) (op_params d))"

fun schema_refs :: "schema \<Rightarrow> string list" where
  "schema_refs (Ref n) = [n]"
| "schema_refs (ArrayOf n) = [n]"
| "schema_refs AnyJson = []"

definition mentioned_schemas :: "operation \<Rightarrow> string list" where
  "mentioned_schemas d =
     concat (map schema_refs (List.map_filter id (op_request d # map snd (op_responses d))))"

lemma documented_table:
  "documented_operations =
     [((Post, ''/api/v1/tenants/organisations''), PostCreateOrganisation),
      ((Get, ''/api/v1/tenants/me/organisations''), GetListMyOrganisations),
      ((Get, ''/api/v1/tenants/organisations/:id/members''), GetListMembers),
      ((Post, ''/api/v1/tenants/organisations/:id/memberships''), PostAssignRole),
      ((Post, ''/api/v1/tenants/add-user-to-organisation''), PostAddUserToOrganisation),
      ((Post, ''/api/v1/tenants/remove-user-from-organisation''), PostRemoveUserFromOrganisation),
      ((Post, ''/api/v1/security/register''), PostRegister),
      ((Post, ''/api/v1/security/login''), PostLogin),
      ((Post, ''/api/v1/security/logout''), PostLogout),
      ((Post, ''/api/v1/security/change-password''), PostChangePassword),
      ((Post, ''/api/v1/security/switch-org''), PostSwitchOrg),
      ((Post, ''/api/v1/security/password-reset-request''), PostPasswordResetRequest),
      ((Post, ''/api/v1/security/password-reset-confirm''), PostPasswordResetConfirm),
      ((Get, ''/api/v1/users''), GetListUsers),
      ((Post, ''/api/v1/security/service-accounts''), PostCreateServiceAccount),
      ((Get, ''/api/v1/security/service-accounts''), GetListServiceAccounts),
      ((Get, ''/api/v1/security/service-accounts/:sa_id''), GetServiceAccount),
      ((Delete, ''/api/v1/security/service-accounts/:sa_id''), DeleteServiceAccountHandler),
      ((Post, ''/api/v1/security/service-accounts/:sa_id/api-keys''), PostCreateApiKey),
      ((Get, ''/api/v1/security/service-accounts/:sa_id/api-keys''), GetListApiKeys),
      ((Delete, ''/api/v1/security/service-accounts/:sa_id/api-keys/:key_id''), DeleteApiKeyHandler),
      ((Post, ''/api/v1/security/service-accounts/:sa_id/api-keys/:key_id/rotate''), PostRotateApiKey),
      ((Post, ''/api/v1/tenants/organisations/:org_id/channels''), PostCreateChannel),
      ((Get, ''/api/v1/tenants/organisations/:org_id/channels''), GetListChannels),
      ((Get, ''/api/v1/tenants/organisations/:org_id/channels/:channel_id''), GetChannel),
      ((Put, ''/api/v1/tenants/organisations/:org_id/channels/:channel_id''), PutUpdateChannel),
      ((Delete, ''/api/v1/tenants/organisations/:org_id/channels/:channel_id''), DeleteChannel),
      ((Get, ''/api/v1/features''), GetDefinitions),
      ((Get, ''/api/v1/features/orgs/:org_id''), GetOrgFeatures),
      ((Put, ''/api/v1/features/orgs/:org_id/:slug''), PutOrgFeature),
      ((Delete, ''/api/v1/features/orgs/:org_id/:slug''), DeleteOrgFeature),
      ((Get, ''/api/v1/echo''), GetEcho),
      ((Post, ''/api/v1/echo''), PostEcho)]"
  by code_simp

lemma documented_routed: "set documented_operations \<subseteq> set (operations app_routes)"
  unfolding documented_table app_operations list.set
  by (intro insert_subsetI empty_subsetI; (rule insertI1 | rule insertI2)+)

lemma routed_documented:
  "set (operations app_routes) \<subseteq>
   {((Get, ''/health''), Health), ((Get, ''/ready''), Ready)} \<union> set documented_operations"
  unfolding documented_table app_operations list.set Un_insert_left Un_empty_left
  by (intro insert_subsetI empty_subsetI; (rule insertI1 | rule insertI2)+)

lemma documented_endpoints: "snd ` set documented_operations = UNIV - {Health, Ready}"
proof -
  have "e \<in> snd ` set documented_operations \<longleftrightarrow> e \<noteq> Health \<and> e \<noteq> Ready" for e
    unfolding documented_operations_def api_paths_def by (cases e) simp_all
  then show ?thesis by blast
qed

lemma all_but_two:
  assumes "A \<subseteq> B" and "B \<subseteq> {(k, x), (l, y)} \<union> A" and "snd ` A = UNIV - {x, y}"
  shows "A = {p \<in> B. snd p \<noteq> x \<and> snd p \<noteq> y}"
proof -
  have "snd p \<noteq> x \<and> snd p \<noteq> y" if "p \<in> A" for p
    using imageI [OF that, of snd] assms(3) by simp
  moreover have "p \<in> A" if "p \<in> B" "snd p \<noteq> x" "snd p \<noteq> y" for p
    using subsetD [OF assms(2) that(1)] that(2,3) by auto
  ultimately show ?thesis using assms(1) by blast
qed

lemma documented_operations_eq:
  "set documented_operations = {p \<in> set (operations app_routes). snd p \<noteq> Health \<and> snd p \<noteq> Ready}"
  using documented_routed routed_documented documented_endpoints by (rule all_but_two)

lemma api_paths_distinct: "distinct (map fst api_paths)"
  by (simp add: api_paths_def)

lemma document_consistent:
  "list_all (\<lambda>(e, d). op_secured d \<longleftrightarrow> is_protected e) api_paths"
  "list_all (\<lambda>(e, d). path_params d =
     map tl (filter is_param (segments (route_template (op_path d))))) api_paths"
  "list_all (\<lambda>(e, d). list_all (\<lambda>n. n \<in> set api_schemas) (mentioned_schemas d)) api_paths"
  "list_all (\<lambda>(e, d). op_tag d \<in> set api_tags) api_paths"
  by code_simp+

text \<open>The document as a table, indexed by endpoint.\<close>

lemma api_lookup:
  "map_of api_paths PostCreateOrganisation = Some post_create_organisation_doc"
  "map_of api_paths GetListMyOrganisations = Some get_list_my_organisations_doc"
  "map_of api_paths GetListMembers = Some get_list_members_doc"
  "map_of api_paths PostAssignRole = Some post_assign_role_doc"
  "map_of api_paths PostAddUserToOrganisation = Some post_add_user_to_organisation_doc"
  "map_of api_paths PostRemoveUserFromOrganisation = Some post_remove_user_from_organisation_doc"
  "map_of api_paths PostRegister = Some post_register_doc"
  "map_of api_paths PostLogin = Some post_login_doc"
  "map_of api_paths PostLogout = Some post_logout_doc"
  "map_of api_paths PostChangePassword = Some post_change_password_doc"
  "map_of api_paths PostSwitchOrg = Some post_switch_org_doc"
  "map_of api_paths PostPasswordResetRequest = Some post_password_reset_request_doc"
  "map_of api_paths PostPasswordResetConfirm = Some post_password_reset_confirm_doc"
  "map_of api_paths GetListUsers = Some get_list_users_doc"
  "map_of api_paths PostCreateServiceAccount = Some post_create_service_account_doc"
  "map_of api_paths GetListServiceAccounts = Some get_list_service_accounts_doc"
  "map_of api_paths GetServiceAccount = Some get_service_account_doc"
  "map_of api_paths DeleteServiceAccountHandler = Some delete_service_account_handler_doc"
  "map_of api_paths PostCreateApiKey = Some post_create_api_key_doc"
  "map_of api_paths GetListApiKeys = Some get_list_api_keys_doc"
  "map_of api_paths DeleteApiKeyHandler = Some delete_api_key_handler_doc"
  "map_of api_paths PostRotateApiKey = Some post_rotate_api_key_doc"
  "map_of api_paths PostCreateChannel = Some post_create_channel_doc"
  "map_of api_paths GetListChannels = Some get_list_channels_doc"
  "map_of api_paths GetChannel = Some get_channel_doc"
  "map_of api_paths PutUpdateChannel = Some put_update_channel_doc"
  "map_of api_paths DeleteChannel = Some delete_channel_doc"
  "map_of api_paths GetDefinitions = Some get_definitions_doc"
  "map_of api_paths GetOrgFeatures = Some get_org_features_doc"
  "map_of api_paths PutOrgFeature = Some put_org_feature_doc"
  "map_of api_paths DeleteOrgFeature = Some delete_org_feature_doc"
  "map_of api_paths GetEcho = Some get_echo_doc"
  "map_of api_paths PostEcho = Some post_echo_doc"
  by (simp_all add: api_paths_def)

lemma doc_success:
  "hd (op_responses post_create_organisation_doc) = (201, Some (Ref ''OrganisationBody''))"
  "hd (op_responses get_list_my_organisations_doc) = (200, Some (Ref ''PagedOrganisations''))"
  "hd (op_responses get_list_members_doc) = (200, Some (Ref ''PagedMembers''))"
  "hd (op_responses post_assign_role_doc) = (200, Some (Ref ''AssignRoleResponseBody''))"
  "hd (op_responses post_add_user_to_organisation_doc) = (204, None)"
  "hd (op_responses post_remove_user_from_organisation_doc) = (204, None)"
  "hd (op_responses post_register_doc) = (201, Some (Ref ''RegisterResponse''))"
  "hd (op_responses post_login_doc) = (200, Some (Ref ''LoginResponse''))"
  "hd (op_responses post_logout_doc) = (204, None)"
  "hd (op_responses post_change_password_doc) = (204, None)"
  "hd (op_responses post_switch_org_doc) = (200, Some (Ref ''TokenResponse''))"
  "hd (op_responses post_password_reset_request_doc) = (204, None)"
  "hd (op_responses post_password_reset_confirm_doc) = (204, None)"
  "hd (op_responses get_list_users_doc) = (200, Some (Ref ''ListUsersResponse''))"
  "hd (op_responses post_create_service_account_doc) = (201, Some (Ref ''ServiceAccountResponse''))"
  "hd (op_responses get_list_service_accounts_doc) = (200, Some (Ref ''ListServiceAccountsResponse''))"
  "hd (op_responses get_service_account_doc) = (200, Some (Ref ''ServiceAccountResponse''))"
  "hd (op_responses delete_service_account_handler_doc) = (204, None)"
  "hd (op_responses post_create_api_key_doc) = (201, Some (Ref ''CreateApiKeyResponse''))"
  "hd (op_responses get_list_api_keys_doc) = (200, Some (Ref ''ListApiKeysResponse''))"
  "hd (op_responses delete_api_key_handler_doc) = (204, None)"
  "hd (op_responses post_rotate_api_key_doc) = (201, Some (Ref ''CreateApiKeyResponse''))"
  "hd (op_responses post_create_channel_doc) = (201, Some (Ref ''ChannelBody''))"
  "hd (op_responses get_list_channels_doc) = (200, Some (Ref ''PagedChannels''))"
  "hd (op_responses get_channel_doc) = (200, Some (Ref ''ChannelBody''))"
  "hd (op_responses put_update_channel_doc) = (200, Some (Ref ''ChannelBody''))"
  "hd (op_responses delete_channel_doc) = (204, None)"
  "hd (op_responses get_definitions_doc) = (200, Some (ArrayOf ''FeatureDefinition''))"
  "hd (op_responses get_org_features_doc) = (200, Some (ArrayOf ''EvaluatedFeature''))"
  "hd (op_responses put_org_feature_doc) = (200, Some (Ref ''EvaluatedFeature''))"
  "hd (op_responses delete_org_feature_doc) = (204, None)"
  "hd (op_responses get_echo_doc) = (200, Some (Ref ''EchoResponse''))"
  "hd (op_responses post_echo_doc) = (200, Some (Ref ''EchoResponse''))"
  by (simp_all add: doc_defs)

lemma doc_statuses:
  "map fst (op_responses post_create_organisation_doc) = [201, 400, 401, 403, 409]"
  "map fst (op_responses get_list_my_organisations_doc) = [200, 400, 401, 403]"
  "map fst (op_responses get_list_members_doc) = [200, 400, 401, 403, 404]"
  "map fst (op_responses post_assign_role_doc) = [200, 400, 401, 403, 404]"
  "map fst (op_responses post_add_user_to_organisation_doc) = [204, 401, 403, 404]"
  "map fst (op_responses post_remove_user_from_organisation_doc) = [204, 401, 403, 404, 409]"
  "map fst (op_responses post_register_doc) = [201, 400, 401, 403, 409]"
  "map fst (op_responses post_login_doc) = [200, 401]"
  "map fst (op_responses post_logout_doc) = [204, 401]"
  "map fst (op_responses post_change_password_doc) = [204, 400, 401]"
  "map fst (op_responses post_switch_org_doc) = [200, 401, 403]"
  "map fst (op_responses post_password_reset_request_doc) = [204]"
  "map fst (op_responses post_password_reset_confirm_doc) = [204, 400]"
  "map fst (op_responses get_list_users_doc) = [200, 400, 401, 403]"
  "map fst (op_responses post_create_service_account_doc) = [201, 400, 401, 403, 409]"
  "map fst (op_responses get_list_service_accounts_doc) = [200, 401, 403]"
  "map fst (op_responses get_service_account_doc) = [200, 401, 403, 404]"
  "map fst (op_responses delete_service_account_handler_doc) = [204, 401, 403, 404]"
  "map fst (op_responses post_create_api_key_doc) = [201, 400, 401, 403, 404]"
  "map fst (op_responses get_list_api_keys_doc) = [200, 401, 403, 404]"
  "map fst (op_responses delete_api_key_handler_doc) = [204, 401, 403, 404]"
  "map fst (op_responses post_rotate_api_key_doc) = [201, 400, 401, 403, 404]"
  "map fst (op_responses post_create_channel_doc) = [201, 400, 401, 403, 404, 409]"
  "map fst (op_responses get_list_channels_doc) = [200, 401, 403, 404]"
  "map fst (op_responses get_channel_doc) = [200, 401, 403, 404]"
  "map fst (op_responses put_update_channel_doc) = [200, 400, 401, 403, 404, 409]"
  "map fst (op_responses delete_channel_doc) = [204, 401, 403, 404]"
  "map fst (op_responses get_definitions_doc) = [200, 401, 403]"
  "map fst (op_responses get_org_features_doc) = [200, 401, 403, 404]"
  "map fst (op_responses put_org_feature_doc) = [200, 400, 401, 403, 404]"
  "map fst (op_responses delete_org_feature_doc) = [204, 401, 403, 404]"
  "map fst (op_responses get_echo_doc) = [200, 401, 403]"
  "map fst (op_responses post_echo_doc) = [200, 401, 403]"
  by (simp_all add: doc_defs)

end
