(* ===== verification/Requests.thy ===== *)
theory Requests
  imports App
begin

text \<open>
  What a request can do. Every request is a sequence of steps of the transition system, so
  that whatever holds in all reachable worlds holds after any traffic; and a protected
  request has an effect, or succeeds, only for a live credential whose roles grant the
  permission of the endpoint, within the organisation it names.
\<close>

section \<open>Requests are steps\<close>

lemma keeps_step: "(\<And>v. sys_step E v (snd (m v))) \<Longrightarrow> keeps (reachable E w) m"
  by (auto simp: keeps_def intro: rtranclp.rtrancl_into_rtrancl)

lemma snd_query: "snd (query E f w) = snd (control E w)"
  by (simp add: query_def stmt_def Let_def)

named_theorems steps_intros \<open>actions that are sequences of system steps\<close>

lemma steps_query [steps_intros]: "keeps (reachable E w) (query E f)"
  by (rule keeps_step) (metis snd_query sys_step.read)

lemma steps_utc_now [steps_intros]: "keeps (reachable E w) utc_now"
  by (simp add: keeps_def utc_now_def)

lemma steps_audit [steps_intros]: "keeps (reachable E w) (audit E mk)"
  using sys_step.recorded [of E _ mk] by (intro keeps_step) (simp add: audit_eq)

lemma steps_evaluate [steps_intros]: "keeps (reachable E w) (evaluate E ttl org slg)"
  by (rule keeps_step) (rule sys_step.flag_read)

lemma steps_evaluate_all [steps_intros]: "keeps (reachable E w) (evaluate_all E ttl org ovs ds)"
proof (induction ds)
  case Nil
  show ?case unfolding evaluate_all.simps by (intro keeps_intros)
next
  case (Cons def ds)
  show ?case unfolding evaluate_all.simps by (intro keeps_intros steps_intros Cons.IH)
qed

lemma steps_features [steps_intros]:
  "keeps (reachable E w) (list_org_features E ttl org)"
  "keeps (reachable E w) (list_definitions E)"
  unfolding list_org_features_def list_definitions_def repo_list_definitions_def
    list_overrides_for_org_def
  by (intro keeps_intros steps_intros)+

lemma steps_listings [steps_intros]:
  "keeps (reachable E w) (list_my_organisations E u a l)"
  "keeps (reachable E w) (list_organisation_members E u op oid a l)"
  "keeps (reachable E w) (list_inbound_channels E oid a l)"
  "keeps (reachable E w) (get_inbound_channel E oid cid)"
  "keeps (reachable E w) (list_users E op own i)"
  "keeps (reachable E w) (list_service_accounts E oid l c)"
  "keeps (reachable E w) (list_api_keys E oid sa)"
  "keeps (reachable E w) (sa_find E oid sa)"
  unfolding list_my_organisations_def list_for_user_def list_organisation_members_def is_member_def
    list_members_def list_inbound_channels_def channel_list_def get_inbound_channel_def
    channel_get_def list_users_def repo_list_users_def list_memberships_for_users_def
    list_service_accounts_def sa_list_def list_api_keys_def sa_find_def list_by_sa_def
  by (intro keeps_intros steps_intros)+

lemma steps_services [steps_intros]:
  "keeps (reachable E w) (create_organisation E u oid i)"
  "keeps (reachable E w) (add_user_to_organisation E u oid u' oid' rc)"
  "keeps (reachable E w) (remove_user_from_organisation E u oid u' oid')"
  "keeps (reachable E w) (assign_role E u oid op oid' u' rc)"
  "keeps (reachable E w) (create_inbound_channel E u oid oid' ci)"
  "keeps (reachable E w) (update_inbound_channel E u oid oid' cid ci)"
  "keeps (reachable E w) (delete_inbound_channel E u oid oid' cid)"
  "keeps (reachable E w) (register_user E u oid ri)"
  "keeps (reachable E w) (login E jc un pw)"
  "keeps (reachable E w) (logout E u oid jti t)"
  "keeps (reachable E w) (change_password E u p q)"
  "keeps (reachable E w) (switch_org E jc u oid oid')"
  "keeps (reachable E w) (password_reset_request E secs em)"
  "keeps (reachable E w) (password_reset_confirm E tok p)"
  "keeps (reachable E w) (create_service_account E oid n ds u oid')"
  "keeps (reachable E w) (delete_service_account E oid sa u oid')"
  "keeps (reachable E w) (create_api_key E ki)"
  "keeps (reachable E w) (rotate_api_key E rki)"
  "keeps (reachable E w) (revoke_api_key E oid sa kid u oid')"
  "keeps (reachable E w) (set_org_feature E fi)"
  "keeps (reachable E w) (clear_org_feature E fc)"
  by (intro keeps_step sys_step.intros)+

lemmas other_handler_defs = get_list_my_organisations_def post_login_def
  post_password_reset_request_def post_password_reset_confirm_def get_echo_def post_echo_def
  ready_handler_def ready_def

lemma steps_handle [steps_intros]: "keeps (reachable E w) (handle E st x c)"
  by (cases c; simp only: handle.simps respond_def tenant_handler_defs feature_handler_defs
      account_handler_defs session_handler_defs other_handler_defs)
    (intro keeps_intros steps_intros)+

lemma steps_strategies [steps_intros]:
  "keeps (reachable E w) (st_load (pg_strategies E ttl) u oid)"
  "keeps (reachable E w) (st_is_revoked (pg_strategies E ttl) jti)"
  "keeps (reachable E w) (st_verify (pg_strategies E ttl) p s)"
  "keeps (reachable E w) (st_evaluate (pg_strategies E ttl) oid slg)"
  unfolding pg_strategies_def strategies.simps pg_load_def pg_is_revoked_def pg_verify_def
    find_active_by_prefix_def verify_secret_def verify_password_def
  by (intro keeps_intros steps_intros)+

lemma keeps_case_bool [keeps_intros]:
  "(b \<Longrightarrow> keeps P m) \<Longrightarrow> (\<not> b \<Longrightarrow> keeps P n) \<Longrightarrow> keeps P (case b of True \<Rightarrow> m | False \<Rightarrow> n)"
  by (cases b) auto

lemma steps_auth_call [steps_intros]:
  "keeps (reachable E w) (auth_call E (pg_strategies E ttl) secret issuer rq)"
proof -
  have key: "keeps (reachable E w) (handle_api_key (pg_strategies E ttl) issuer p s src x)" for p s src x
    unfolding handle_api_key_def by (intro keeps_intros steps_intros)
  have jwt: "keeps (reachable E w) (handle_jwt E (pg_strategies E ttl) secret issuer t x)" for t x
    unfolding handle_jwt_def by (intro keeps_intros steps_intros)
  show ?thesis
    unfolding auth_call_def
    by (auto intro!: keeps_intros key jwt split: header_source.split)
qed

lemma steps_serve: "keeps (reachable E w) (serve_request E cfg rq c)"
  unfolding serve_request_def run_handler_def Let_def
  by (intro keeps_intros steps_intros) (auto intro!: keeps_intros steps_intros split: auth_outcome.split)

lemma serve_reachable: "serve_request E cfg rq c w = (r, w') \<Longrightarrow> reachable E w w'"
  by (rule keepsD [OF steps_serve]) auto

section \<open>Who may do what\<close>

text \<open>
  The specification of access: the permission an endpoint asks for, the organisation its
  parameters put it in, and whether it is closed to API keys.
\<close>

fun required :: "call \<Rightarrow> permission option" where
  "required (CCreateOrganisation _) = Some TenantsCreate"
| "required (CListMembers _ _) = Some TenantsMembersList"
| "required (CAssignRole _ _) = Some TenantsRolesAssign"
| "required (CAddUserToOrganisation _) = Some TenantsMembersAdd"
| "required (CRemoveUserFromOrganisation _) = Some TenantsMembersRemove"
| "required (CCreateChannel _ _) = Some ChannelsManage"
| "required (CListChannels _ _) = Some ChannelsManage"
| "required (CGetChannel _ _) = Some ChannelsManage"
| "required (CUpdateChannel _ _ _) = Some ChannelsManage"
| "required (CDeleteChannel _ _) = Some ChannelsManage"
| "required (CRegister _) = Some TenantsMembersAdd"
| "required (CCreateServiceAccount _) = Some ServiceAccountsManage"
| "required (CListServiceAccounts _) = Some ServiceAccountsRead"
| "required (CGetServiceAccount _) = Some ServiceAccountsRead"
| "required (CDeleteServiceAccount _) = Some ServiceAccountsManage"
| "required (CCreateApiKey _ _) = Some ServiceAccountsManage"
| "required (CListApiKeys _) = Some ServiceAccountsRead"
| "required (CDeleteApiKey _ _) = Some ServiceAccountsManage"
| "required (CRotateApiKey _ _ _) = Some ServiceAccountsManage"
| "required (CListUsers _) = Some UsersRead"
| "required CGetDefinitions = Some TenantsManageAll"
| "required (CGetOrgFeatures _) = Some FeaturesRead"
| "required (CPutOrgFeature _ _ _) = Some FeaturesManage"
| "required (CDeleteOrgFeature _ _) = Some FeaturesManage"
| "required CGetEcho = Some EchoInvoke"
| "required (CPostEcho _) = Some EchoInvoke"
| "required _ = None"

fun target_org :: "call \<Rightarrow> uuid option" where
  "target_org (CCreateChannel oid _) = Some oid"
| "target_org (CListChannels oid _) = Some oid"
| "target_org (CGetChannel oid _) = Some oid"
| "target_org (CUpdateChannel oid _ _) = Some oid"
| "target_org (CDeleteChannel oid _) = Some oid"
| "target_org (CCreateServiceAccount r) = Some (csr_organisation_id r)"
| "target_org (CListServiceAccounts q) = Some (lsa_organisation_id q)"
| "target_org (CGetOrgFeatures oid) = Some oid"
| "target_org (CPutOrgFeature oid _ _) = Some oid"
| "target_org (CDeleteOrgFeature oid _) = Some oid"
| "target_org _ = None"

definition humans_only :: "call \<Rightarrow> bool" where
  "humans_only c \<longleftrightarrow> endpoint_of c \<in>
     {PostRegister, PostLogout, PostChangePassword, PostSwitchOrg, PostCreateServiceAccount,
      GetListServiceAccounts, GetServiceAccount, DeleteServiceAccountHandler, PostCreateApiKey,
      GetListApiKeys, DeleteApiKeyHandler, PostRotateApiKey}"

lemma guarded_respond: "guarded g m \<Longrightarrow> guarded g (respond f m)"
  unfolding guarded_def refuses_def respond_def by (metis bindE_Err)

lemma guarded_echo:
  "guarded (permitted EchoInvoke x) (get_echo x)" "guarded (permitted EchoInvoke x) (post_echo x b)"
  unfolding get_echo_def post_echo_def by (intro guarded_perm guarded_skip)+

lemma handle_permission: "required c = Some p \<Longrightarrow> guarded (permitted p x) (handle E st x c)"
  by (cases c) (auto intro!: guarded_respond guarded_tenant_handlers guarded_feature_handlers
      guarded_security_handlers guarded_echo)

lemma handle_tenant: "target_org c = Some oid \<Longrightarrow> guarded (reaches x oid) (handle E st x c)"
  by (cases c) (auto intro!: guarded_respond reach_channel_handlers reach_other_handlers)

lemma guarded_human: "guarded (\<exists>k. ext_caller x = Some k \<and> is_user k) (bindE (lift (require_human_caller x)) f)"
  by (rule guarded_lift) (simp add: require_human_caller_Ok_iff [symmetric])

lemma handle_human:
  "humans_only c \<Longrightarrow> guarded (\<exists>k. ext_caller x = Some k \<and> is_user k) (handle E st x c)"
  by (cases c) (auto simp: humans_only_def session_handler_defs account_handler_defs
      intro!: guarded_respond guarded_human)

section \<open>Complete mediation\<close>

text \<open>
  What the layer accepts as a credential: an access token that decodes and is not revoked, or
  a live API key. \<open>cl\<close> and \<open>k\<close> are the claims and the caller it stands for, \<open>s\<close> what the key's
  scopes leave of the permissions of its roles (all of them for a token).
\<close>

definition authenticates ::
    "env \<Rightarrow> app_config \<Rightarrow> world \<Rightarrow> request \<Rightarrow> claims \<Rightarrow> caller \<Rightarrow> permission_set \<Rightarrow> bool" where
  "authenticates E cfg w rq cl k s \<longleftrightarrow>
     (\<exists>token src. credential rq = Some (token, src) \<and>
       (case parse token of
          None \<Rightarrow>
            src = AuthorizationBearer \<and>
            decode_access_token E (ac_jwt_secret cfg) (ac_jwt_issuer cfg) (timestamp (w_now w)) token = Ok cl \<and>
            \<not> revoked (cl_jti cl) (w_now w) (w_db w) \<and>
            k = UserCaller (cl_sub cl) (cl_org cl) (cl_jti cl) \<and>
            s = set (granted_codes (w_db w) (cl_sub cl) (cl_org cl))
        | Some p \<Rightarrow>
            \<exists>v. key_of_db E (w_db w) (p_prefix p) (p_secret p) = Some v \<and>
              cl = synth_claims (ac_jwt_issuer cfg) v (timestamp (w_now w)) \<and>
              k = ApiKeyCaller (vk_key_id v) (vk_sa_user_id v) (vk_organisation_id v) \<and>
              s = set (granted_codes (w_db w) (vk_sa_user_id v) (vk_organisation_id v)) \<inter>
                (case vk_scopes v of None \<Rightarrow> UNIV | Some sc \<Rightarrow> set sc)))"

lemma authenticates_granted:
  "authenticates E cfg w rq cl k s \<Longrightarrow>
   s \<subseteq> set (granted_codes (w_db w) (cl_sub cl) (cl_org cl)) \<and>
   principal_user_id k = cl_sub cl \<and> org_id k = cl_org cl"
  by (auto simp: authenticates_def synth_claims_def principal_user_id_def org_id_def
      split: option.splits)

lemma forward_authenticates:
  assumes "coherent w"
    and "auth_call E (pg_strategies E ttl) (ac_jwt_secret cfg) (ac_jwt_issuer cfg) rq w = (Ok (Forward x touch), w')"
  shows "\<exists>cl k s. authenticates E cfg w rq cl k s \<and>
     ext_claims x = Some cl \<and> ext_caller x = Some k \<and> ext_perms x = Some s"
proof -
  from assms(2) obtain token src where cred: "credential rq = Some (token, src)"
    by (auto simp: auth_call_def split: option.splits)
  show ?thesis
  proof (cases "parse token")
    case None
    with assms(2) cred have src: "src = AuthorizationBearer" and
      "handle_jwt E (pg_strategies E ttl) (ac_jwt_secret cfg) (ac_jwt_issuer cfg) token (rq_extensions rq) w =
        (Ok (Forward x touch), w')"
      by (auto simp: auth_call_def split: header_source.splits)
    from pg.handle_jwt_forward [OF assms(1) this(2) refl] cred None src show ?thesis
      unfolding authenticates_def by auto
  next
    case (Some p)
    with assms(2) cred have
      "handle_api_key (pg_strategies E ttl) (ac_jwt_issuer cfg) (p_prefix p) (p_secret p) src (rq_extensions rq) w =
        (Ok (Forward x touch), w')"
      by (auto simp: auth_call_def split: header_source.splits)
    from pg.handle_api_key_forward [OF assms(1) this refl] cred Some show ?thesis
      unfolding authenticates_def by auto
  qed
qed

text \<open>The layer itself touches neither the tables nor the audit queue, and forwards the coherent cache.\<close>

definition effects :: "world \<Rightarrow> db \<times> audit_event list" where
  "effects w = (w_db w, w_audit w)"

lemma reads_case_bool [reads_db_intros]:
  "(b \<Longrightarrow> reads p m) \<Longrightarrow> (\<not> b \<Longrightarrow> reads p n) \<Longrightarrow> reads p (case b of True \<Rightarrow> m | False \<Rightarrow> n)"
  by (cases b) auto

lemma effects_leaf [reads_db_intros]:
  "reads effects (query E f)" "reads effects utc_now" "reads effects (cache_get org slg)"
  "reads effects (cache_insert org slg v t)"
  by (simp_all add: reads_def effects_def query_def stmt_def Let_def utc_now_def cache_get_def
      cache_insert_def)

lemma effects_strategies [reads_db_intros]:
  "reads effects (st_load (pg_strategies E ttl) u oid)"
  "reads effects (st_is_revoked (pg_strategies E ttl) jti)"
  "reads effects (st_verify (pg_strategies E ttl) p s)"
  "reads effects (st_evaluate (pg_strategies E ttl) oid slg)"
  unfolding pg_strategies_def strategies.simps pg_load_def pg_is_revoked_def pg_verify_def
    find_active_by_prefix_def verify_secret_def verify_password_def evaluate_def repo_value_def
    get_override_def get_definition_def Let_def
  by (intro reads_db_intros)+

lemma effects_auth_call: "reads effects (auth_call E (pg_strategies E ttl) secret issuer rq)"
proof -
  have key: "reads effects (handle_api_key (pg_strategies E ttl) issuer p s src x)" for p s src x
    unfolding handle_api_key_def by (intro reads_db_intros)
  have jwt: "reads effects (handle_jwt E (pg_strategies E ttl) secret issuer t x)" for t x
    unfolding handle_jwt_def by (intro reads_db_intros)
  show ?thesis
    unfolding auth_call_def by (auto intro!: reads_db_intros key jwt split: header_source.split)
qed

lemma http_status_error: "400 \<le> http_status e"
  by (cases e) simp_all

lemma problem_status: "rs_status (problem_response e) = http_status e"
  by (simp add: problem_response_def into_response_def)

text \<open>A guard that does not hold turns the whole handler into an error response without effect.\<close>

lemma refused_run:
  assumes "guarded g (handle E st x c)" and "run_handler E st x c w = (Ok rs, w')"
    and "rs_status rs < 400 \<or> effects w' \<noteq> effects w"
  shows g
proof (rule ccontr)
  assume "\<not> g"
  with assms(1) obtain e where "handle E st x c w = (Err e, w)"
    unfolding guarded_def refuses_def by blast
  with assms(2) have "rs = problem_response e" "w' = w"
    by (auto simp: run_handler_def matchE_def)
  with assms(3) http_status_error [of e] show False by (auto simp: problem_status)
qed

lemma serve_Forward:
  assumes "is_protected (endpoint_of c)" and "serve_request E cfg rq c w = (Ok (rs, touch), w')"
    and "rs_status rs < 400 \<or> effects w' \<noteq> effects w"
  obtains x w1 where
    "auth_call E (pg_strategies E DEFAULT_TTL) (ac_jwt_secret cfg) (ac_jwt_issuer cfg) rq w =
       (Ok (Forward x touch), w1)"
    "run_handler E (app_state_of cfg) x c w1 = (Ok rs, w')"
    "rs_status rs < 400 \<or> effects w' \<noteq> effects w1"
proof -
  let ?auth = "auth_call E (pg_strategies E DEFAULT_TTL) (ac_jwt_secret cfg) (ac_jwt_issuer cfg) rq"
  from assms(1,2) obtain out w1 where a: "?auth w = (Ok out, w1)"
    by (auto simp: serve_request_def Let_def bindE_eq_Ok_iff)
  have same: "effects w1 = effects w" by (rule readsD [OF effects_auth_call a])
  from assms a same http_status_error obtain x where
    "out = Forward x touch" "run_handler E (app_state_of cfg) x c w1 = (Ok rs, w')"
    by (auto simp: serve_request_def Let_def bindE_eq_Ok_iff problem_status status_response_def
        split: auth_outcome.splits) (meson not_le)+
  with a assms(3) same that show thesis by simp
qed

lemma mediated:
  assumes "coherent w" and "is_protected (endpoint_of c)"
    and "serve_request E cfg rq c w = (Ok (rs, touch), w')"
    and "rs_status rs < 400 \<or> effects w' \<noteq> effects w"
  shows "\<exists>cl k s. authenticates E cfg w rq cl k s \<and>
     (\<forall>p. required c = Some p \<longrightarrow> accepts p s) \<and>
     (\<forall>oid. target_org c = Some oid \<longrightarrow> cl_org cl = oid \<or> is_operator_over_tenants s) \<and>
     (humans_only c \<longrightarrow> is_user k)"
proof -
  obtain x w1 where a:
    "auth_call E (pg_strategies E DEFAULT_TTL) (ac_jwt_secret cfg) (ac_jwt_issuer cfg) rq w =
       (Ok (Forward x touch), w1)"
    and h: "run_handler E (app_state_of cfg) x c w1 = (Ok rs, w')"
    and e: "rs_status rs < 400 \<or> effects w' \<noteq> effects w1"
    by (rule serve_Forward [OF assms(2-4)])
  from forward_authenticates [OF assms(1) a] obtain cl k s where
    auth: "authenticates E cfg w rq cl k s"
    and x: "ext_claims x = Some cl" "ext_caller x = Some k" "ext_perms x = Some s" by blast
  have "accepts p s" if "required c = Some p" for p
    using refused_run [OF handle_permission [OF that] h e] x by (simp add: permitted_def)
  moreover have "cl_org cl = oid \<or> is_operator_over_tenants s" if "target_org c = Some oid" for oid
    using refused_run [OF handle_tenant [OF that] h e] x by (simp add: reaches_def)
  moreover have "is_user k" if "humans_only c"
    using refused_run [OF handle_human [OF that] h e] x by simp
  ultimately show ?thesis using auth by blast
qed

end
