(* ===== verification/Process.thy ===== *)
theory Process
  imports OpenApi Requests
begin

text \<open>
  The process around the application: loading the configuration (\<^verbatim>\<open>src/config.rs\<close>), what
  \<^verbatim>\<open>build_app\<close> starts (\<^verbatim>\<open>src/lib.rs\<close>), the loops of the job runner and the outbox relayer with their
  shutdown (\<^verbatim>\<open>src/jobs/runner.rs\<close>, \<^verbatim>\<open>src/outbox/relayer.rs\<close>), and the commands of the binary
  (\<^verbatim>\<open>src/main.rs\<close>, \<^verbatim>\<open>src/db.rs\<close>).

  What the operating system and the crates answer is in the record \<open>host\<close>: connecting,
  migrating, binding, the traffic up to the signal, and at which pass a loop sees the
  shutdown flag and how long it waits. A loop that never sees the flag does not return
  (\<^verbatim>\<open>None\<close>).
\<close>

section \<open>Configuration\<close>

text \<open>\<open>extract\<close> is figment's reading of the variables with prefix \<^verbatim>\<open>EGRAS_\<close> into the struct.\<close>

definition from_env :: "('v \<Rightarrow> anyhow + app_config) \<Rightarrow> 'v \<Rightarrow> anyhow + app_config" where
  "from_env extract vars =
     (case extract vars of
        Err _ \<Rightarrow> Err opaque
      | Ok cfg \<Rightarrow> (case validate_config cfg of Err e \<Rightarrow> Err e | Ok _ \<Rightarrow> Ok cfg))"

lemma from_env_Ok:
  "from_env extract vars = Ok cfg \<Longrightarrow>
   32 \<le> length (ac_jwt_secret cfg) \<and> ac_log_format cfg \<in> {''json'', ''pretty''}"
  by (auto simp: from_env_def validate_config_def split: sum.splits if_splits)

section \<open>Background loops\<close>

text \<open>\<^verbatim>\<open>select!\<close> between the poll interval and a change of the flag: at most the interval passes.\<close>

definition idle :: "duration \<Rightarrow> duration \<Rightarrow> world \<Rightarrow> world" where
  "idle poll waited w = w\<lparr>w_now := w_now w + int (min waited poll div 1000)\<rparr>"

record watch =
  wt_shutdown :: "nat \<Rightarrow> bool"
  wt_waited :: "nat \<Rightarrow> duration"

text \<open>
  The common shape of the two \<^verbatim>\<open>run\<close> methods: leave when the flag is set, else make one pass
  and, unless it found work, wait.
\<close>

partial_function (option) poll_loop ::
    "(world \<Rightarrow> bool \<times> world) \<Rightarrow> duration \<Rightarrow> watch \<Rightarrow> nat \<Rightarrow> world \<Rightarrow> world option" where
  "poll_loop pass poll h n w =
     (if wt_shutdown h n then Some w
      else let (busy, w') = pass w in
        poll_loop pass poll h (Suc n) (if busy then w' else idle poll (wt_waited h n) w'))"

definition runner_pass :: "env \<Rightarrow> runner \<Rightarrow> world \<Rightarrow> bool \<times> world" where
  "runner_pass E r w =
     (case (runner_turn E r w :: (unit + nat) \<times> world) of (res, w') \<Rightarrow>
        (case res of Ok n \<Rightarrow> n \<noteq> 0 | Err _ \<Rightarrow> False, w'))"

definition runner_run :: "env \<Rightarrow> runner \<Rightarrow> watch \<Rightarrow> world \<Rightarrow> world option" where
  "runner_run E r h w = poll_loop (runner_pass E r) (jr_poll_interval (rn_cfg r)) h 0 w"

definition relayer_pass :: "env \<Rightarrow> outbox_relayer_config \<Rightarrow> world \<Rightarrow> bool \<times> world" where
  "relayer_pass E cfg w =
     (case tick E cfg w of
        (Ok n, w') \<Rightarrow> (n \<noteq> 0, w')
      | (Err _, w') \<Rightarrow> (False, w'))"

definition relayer_run :: "env \<Rightarrow> outbox_relayer_config \<Rightarrow> watch \<Rightarrow> world \<Rightarrow> world option" where
  "relayer_run E cfg h w = poll_loop (relayer_pass E cfg) (or_poll_interval cfg) h 0 w"

section \<open>What is started\<close>

text \<open>
  The worker's name: \<^verbatim>\<open>HOSTNAME\<close>, else the trimmed output of the \<^verbatim>\<open>hostname\<close> command, else
  \<^verbatim>\<open>unknown\<close>, and a fresh UUID.
\<close>

definition hostname :: "string option \<Rightarrow> string option \<Rightarrow> string option" where
  "hostname env_var command_output =
     (case env_var of Some h \<Rightarrow> Some h | None \<Rightarrow> map_option trim command_output)"

definition runner_new :: "string option \<Rightarrow> string \<Rightarrow> job_runner_config \<Rightarrow> runner" where
  "runner_new host_name simple_uuid cfg =
     \<lparr> rn_worker_id = (case host_name of None \<Rightarrow> ''unknown'' | Some h \<Rightarrow> h) @ ''-'' @ simple_uuid,
       rn_handlers = Map.empty, rn_kinds = [], rn_cfg = cfg \<rparr>"

record app_handles =
  ah_cors :: cors_policy
  ah_audit :: worker
  ah_jobs :: runner
  ah_outbox :: outbox_relayer_config

datatype built = Panicked | NotBuilt anyhow | Built app_handles world

text \<open>
  \<^verbatim>\<open>mpsc::channel\<close> panics on a capacity of zero. The channel is open and empty at the start,
  the feature cache empty.
\<close>

definition build_app :: "string option \<Rightarrow> string \<Rightarrow> app_config \<Rightarrow> world \<Rightarrow> built" where
  "build_app host_name simple_uuid cfg w =
     (if ac_audit_channel_capacity cfg = 0 then Panicked
      else
        case build_cors cfg of
          Err e \<Rightarrow> NotBuilt e
        | Ok cors \<Rightarrow>
            Built
              \<lparr> ah_cors = cors,
                ah_audit = \<lparr> wk_max_retries = ac_audit_max_retries cfg,
                  wk_backoff_initial_ms = ac_audit_retry_backoff_ms_initial cfg \<rparr>,
                ah_jobs = runner_new host_name simple_uuid job_runner_config_default,
                ah_outbox = outbox_relayer_config_default \<rparr>
              (w\<lparr> w_audit := [], w_audit_capacity := ac_audit_channel_capacity cfg,
                  w_audit_open := True, w_cache := (\<lambda>_. None) \<rparr>))"

section \<open>Commands\<close>

datatype commands = Serve | SeedAdmin string string string "string option" | DumpOpenapi

record host =
  ho_connect :: "app_config \<Rightarrow> bool"
  ho_migrate :: "db \<Rightarrow> anyhow + db"
  ho_bind :: "string \<Rightarrow> bool"
  ho_traffic :: "world \<Rightarrow> world"
  ho_served :: bool
  ho_hostname :: "string option"
  ho_simple_uuid :: string
  ho_relayer :: watch
  ho_runner :: watch

text \<open>How the process ends: its exit status and what it printed; a panic exits with 101.\<close>

record ending =
  en_status :: nat
  en_stdout :: "string list"

definition finished :: ending where
  "finished = \<lparr> en_status = 0, en_stdout = [] \<rparr>"

definition failed :: ending where
  "failed = \<lparr> en_status = 1, en_stdout = [] \<rparr>"

definition panicked :: ending where
  "panicked = \<lparr> en_status = 101, en_stdout = [] \<rparr>"

text \<open>Pool and migrations, shared by the commands that use the database.\<close>

definition open_database :: "host \<Rightarrow> app_config \<Rightarrow> world \<Rightarrow> anyhow + world" where
  "open_database H cfg w =
     (if \<not> ho_connect H cfg then Err opaque
      else case ho_migrate H (w_db w) of
          Err e \<Rightarrow> Err e
        | Ok d \<Rightarrow> Ok (w\<lparr>w_db := d\<rparr>))"

text \<open>
  The end of \<^verbatim>\<open>run_serve\<close>: relayer, runner and audit worker are stopped in this order. When the
  server has returned, the router with the last sender of the audit channel is gone: the
  channel is closed and the audit worker ends once it has drained it.
\<close>

definition shutdown_workers :: "env \<Rightarrow> host \<Rightarrow> app_handles \<Rightarrow> world \<Rightarrow> world option" where
  "shutdown_workers E H hs w =
     Option.bind (relayer_run E (ah_outbox hs) (ho_relayer H) (w\<lparr>w_audit_open := False\<rparr>)) (\<lambda>w1.
     Option.bind (runner_run E (ah_jobs hs) (ho_runner H) w1) (\<lambda>w2.
     worker_run E (ah_audit hs) (w_audit w2) w2))"

definition run_serve :: "env \<Rightarrow> host \<Rightarrow> app_config \<Rightarrow> world \<Rightarrow> (ending \<times> world) option" where
  "run_serve E H cfg w =
     (case open_database H cfg w of
        Err _ \<Rightarrow> Some (failed, w)
      | Ok w1 \<Rightarrow>
          (case build_app (ho_hostname H) (ho_simple_uuid H) cfg w1 of
             Panicked \<Rightarrow> Some (panicked, w1)
           | NotBuilt _ \<Rightarrow> Some (failed, w1)
           | Built hs w2 \<Rightarrow>
               if \<not> ho_bind H (ac_bind_address cfg) then Some (failed, w2)
               else if \<not> ho_served H then Some (failed, ho_traffic H w2)
               else map_option (Pair finished) (shutdown_workers E H hs (ho_traffic H w2))))"

definition run_seed_admin ::
    "env \<Rightarrow> host \<Rightarrow> app_config \<Rightarrow> string \<Rightarrow> string \<Rightarrow> string \<Rightarrow> string \<Rightarrow> world \<Rightarrow> ending \<times> world" where
  "run_seed_admin E H cfg email username password role_code w =
     (case open_database H cfg w of
        Err _ \<Rightarrow> (failed, w)
      | Ok w1 \<Rightarrow>
          (case bootstrap_seed_admin E
              \<lparr> se_email = email, se_username = username, se_password = password,
                se_role_code = role_code, se_operator_org_name = ac_operator_org_name cfg \<rparr> w1 of
             (Ok uid, w2) \<Rightarrow> (\<lparr> en_status = 0, en_stdout = [uuid_fmt E uid] \<rparr>, w2)
           | (Err (SeOperatorOrgNotFound _), w2) \<Rightarrow> (failed, w2)
           | (Err (SeUserAlreadyExists _), w2) \<Rightarrow> (failed, w2)
           | (Err (SeInternal _), w2) \<Rightarrow> (failed, w2)))"

text \<open>\<open>render\<close> is utoipa's JSON serialisation of the document.\<close>

definition run_dump_openapi :: "((endpoint \<times> operation) list \<Rightarrow> string option) \<Rightarrow> ending" where
  "run_dump_openapi render =
     (case render api_paths of
        None \<Rightarrow> failed
      | Some json \<Rightarrow> \<lparr> en_status = 0, en_stdout = [json] \<rparr>)"

definition main_program ::
    "env \<Rightarrow> host \<Rightarrow> ('v \<Rightarrow> anyhow + app_config) \<Rightarrow> ((endpoint \<times> operation) list \<Rightarrow> string option) \<Rightarrow>
     'v \<Rightarrow> commands option \<Rightarrow> world \<Rightarrow> (ending \<times> world) option" where
  "main_program E H extract render vars command w =
     (case from_env extract vars of
        Err _ \<Rightarrow> Some (failed, w)
      | Ok cfg \<Rightarrow>
          (case (case command of None \<Rightarrow> Serve | Some c \<Rightarrow> c) of
             Serve \<Rightarrow> run_serve E H cfg w
           | SeedAdmin email username password role_code \<Rightarrow>
               Some (run_seed_admin E H cfg email username password
                 (case role_code of None \<Rightarrow> ''operator_admin'' | Some r \<Rightarrow> r) w)
           | DumpOpenapi \<Rightarrow> Some (run_dump_openapi render, w)))"

section \<open>The loops stop\<close>

text \<open>
  What a polling loop relies on in its pass: one pass keeps the invariant, and so does
  waiting. It then returns as soon as it sees the flag, with the invariant intact.
\<close>

locale polling =
  fixes pass :: "world \<Rightarrow> bool \<times> world"
    and I :: "world \<Rightarrow> bool"
  assumes pass_keeps: "I w \<Longrightarrow> I (snd (pass w))"
    and later_keeps: "I w \<Longrightarrow> w_now w \<le> t \<Longrightarrow> I (w\<lparr>w_now := t\<rparr>)"
begin

lemma loop_stops:
  assumes "wt_shutdown h m" and "n \<le> m" and "I w"
  shows "\<exists>w'. poll_loop pass poll h n w = Some w' \<and> I w'"
  using assms(2,3)
proof (induction "m - n" arbitrary: n w rule: less_induct)
  case less
  show ?case
  proof (cases "wt_shutdown h n")
    case True
    with less.prems show ?thesis by (subst poll_loop.simps) simp
  next
    case False
    with assms(1) less.prems have "n < m" by (metis le_neq_implies_less)
    let ?w = "if fst (pass w) then snd (pass w) else idle poll (wt_waited h n) (snd (pass w))"
    have "I ?w" using pass_keeps [OF less.prems(2)] later_keeps by (simp add: idle_def)
    then obtain w' where "poll_loop pass poll h (Suc n) ?w = Some w'" "I w'"
      using less.hyps [OF diff_less_mono2 [OF lessI \<open>n < m\<close>] Suc_leI [OF \<open>n < m\<close>]] by blast
    with False show ?thesis by (subst poll_loop.simps) (auto simp: case_prod_beta Let_def)
  qed
qed

end

text \<open>A runner without handlers, as \<^verbatim>\<open>build_app\<close> spawns it, claims nothing.\<close>

lemma claim_nothing:
  assumes "claim_due E wid [] vis lim w = (r, w')"
  shows "w_db w' = w_db w \<and> (\<forall>js. r = Ok js \<longrightarrow> js = [])"
  using assms
  by (auto simp: claim_due_def claim_rows_def due_ids_def due_def Let_def bindE_def stmt_no_def
      utc_now_def map_err_def stmt_def split: if_splits sum.splits prod.splits)

lemma runner_pass_idle:
  assumes "rn_kinds r = []"
  shows "runner_pass E r w = (False, snd (claim_due E (rn_worker_id r) []
    (jr_visibility_timeout (rn_cfg r)) (jr_batch_size (rn_cfg r)) w))"
proof -
  obtain res w1 where c: "claim_due E (rn_worker_id r) [] (jr_visibility_timeout (rn_cfg r))
      (jr_batch_size (rn_cfg r)) w = (res, w1)" by (meson surj_pair)
  have "(case res of Ok js \<Rightarrow> js | Err _ \<Rightarrow> []) = []"
    using claim_nothing [OF c] by (cases res) simp_all
  then show ?thesis by (simp add: runner_pass_def runner_turn_def matchE_def assms c)
qed

interpretation relayer: polling "relayer_pass E cfg" "reachable E w0" for E cfg w0
proof
  show "reachable E w0 (snd (relayer_pass E cfg w))" if "reachable E w0 w" for w
  proof -
    have "snd (relayer_pass E cfg w) = snd (tick E cfg w)"
      by (auto simp: relayer_pass_def split: prod.split sum.split)
    with that sys_step.relayed [of E w cfg] show ?thesis
      by (metis rtranclp.rtrancl_into_rtrancl)
  qed
  show "reachable E w0 (w\<lparr>w_now := t\<rparr>)" if "reachable E w0 w" "w_now w \<le> t" for w t
    using that sys_step.time by (metis rtranclp.rtrancl_into_rtrancl)
qed

interpretation idle_runner: polling
    "runner_pass E (runner_new host_name simple_uuid cfg)" "reachable E w0" for E host_name simple_uuid cfg w0
proof
  show "reachable E w0 (snd (runner_pass E (runner_new host_name simple_uuid cfg) w))"
    if "reachable E w0 w" for w
    using that sys_step.claimed
    by (simp add: runner_pass_idle runner_new_def) (metis rtranclp.rtrancl_into_rtrancl)
  show "reachable E w0 (w\<lparr>w_now := t\<rparr>)" if "reachable E w0 w" "w_now w \<le> t" for w t
    using that sys_step.time by (metis rtranclp.rtrancl_into_rtrancl)
qed

end
