(* ===== verification/Relay.thy ===== *)
theory Relay
  imports Process
begin

text \<open>
  Progress of the outbox relayer, and the end of the process: a relayer that runs long enough
  without faults turns every appended event into a job, and a server that is asked to stop
  stops with the audit queue written out.
\<close>

section \<open>A tick makes progress\<close>

definition pending_events :: "db \<Rightarrow> outbox_event list" where
  "pending_events d = filter (\<lambda>e. ob_relayed_at e = None) (outbox d)"

definition calm :: "env \<Rightarrow> bool" where
  "calm E \<longleftrightarrow> (\<forall>n. \<not> db_fault E n) \<and> (\<forall>n x. \<not> row_locked E n x)"

text \<open>The next \<open>k\<close> ids the generator yields are new to the job table and all different.\<close>

definition fresh_job_ids :: "env \<Rightarrow> nat \<Rightarrow> world \<Rightarrow> bool" where
  "fresh_job_ids E k w \<longleftrightarrow>
     inj_on (uuid_v7 E) {w_draws w ..< w_draws w + k} \<and>
     (\<forall>n \<in> {w_draws w ..< w_draws w + k}. uuid_v7 E n \<notin> j_id ` set (jobs (w_db w)))"

lemma fresh_job_ids_mono: "fresh_job_ids E k w \<Longrightarrow> l \<le> k \<Longrightarrow> fresh_job_ids E l w"
  unfolding fresh_job_ids_def by (auto elim: inj_on_subset)

lemma fresh_job_ids_later:
  assumes "fresh_job_ids E (n + k) w" and "w_draws w' = w_draws w + n"
    and "j_id ` set (jobs (w_db w')) \<subseteq> j_id ` set (jobs (w_db w)) \<union> uuid_v7 E ` {w_draws w ..< w_draws w + n}"
  shows "fresh_job_ids E k w'"
proof -
  have inj: "inj_on (uuid_v7 E) {w_draws w ..< w_draws w + (n + k)}"
    and new: "\<And>i. w_draws w \<le> i \<Longrightarrow> i < w_draws w + (n + k) \<Longrightarrow> uuid_v7 E i \<notin> j_id ` set (jobs (w_db w))"
    using assms(1) by (auto simp: fresh_job_ids_def)
  have "uuid_v7 E i \<notin> j_id ` set (jobs (w_db w'))" if i: "w_draws w' \<le> i" "i < w_draws w' + k" for i
  proof
    assume "uuid_v7 E i \<in> j_id ` set (jobs (w_db w'))"
    moreover have "uuid_v7 E i \<notin> j_id ` set (jobs (w_db w))" using new i assms(2) by simp
    ultimately have "uuid_v7 E i \<in> uuid_v7 E ` {w_draws w ..< w_draws w + n}" using assms(3) by blast
    then obtain l where "uuid_v7 E i = uuid_v7 E l" "w_draws w \<le> l" "l < w_draws w + n" by auto
    with inj_onD [OF inj, of i l] i assms(2) show False by simp
  qed
  moreover have "inj_on (uuid_v7 E) {w_draws w' ..< w_draws w' + k}"
    using inj by (rule inj_on_subset) (use assms(2) in auto)
  ultimately show ?thesis by (simp add: fresh_job_ids_def)
qed

lemma relayed_jobs_ids:
  "map j_id (relayed_jobs E cfg now n es) = map (uuid_v7 E) [n ..< n + length es]"
  by (induction es arbitrary: n) (simp_all add: new_job_def upt_conv_Cons del: upt_Suc)

lemma relayed_jobs_event:
  "e \<in> set es \<Longrightarrow> \<exists>j \<in> set (relayed_jobs E cfg now n es). j_kind j = ob_event_type e \<and> j_payload j = ob_payload e"
  by (induction es arbitrary: n)
    (auto simp: new_job_def relay_request_def with_max_attempts_def enqueue_request_now_def)

lemma enqueue_event_calm:
  assumes "calm E" and "uuid_v7 E (w_draws w) \<notin> j_id ` set (jobs (w_db w))"
  shows "\<exists>w'. enqueue_event E cfg e w = (Ok (), w')"
  using assms
  by (auto simp: enqueue_event_def enqueue_in_tx_def calm_def bindE_def utc_now_def draw_def map_err_def
      stmt_def Let_def insert_job_def new_job_def key_in_def)

lemma enqueue_all_calm:
  assumes "calm E" and "fresh_job_ids E (length es) w"
  shows "\<exists>w'. for_each (enqueue_event E cfg) es w = (Ok (), w') \<and> w_draws w' = w_draws w + length es"
  using assms(2)
proof (induction es arbitrary: w)
  case Nil
  then show ?case by simp
next
  case (Cons e es)
  have "uuid_v7 E (w_draws w) \<notin> j_id ` set (jobs (w_db w))"
    using Cons.prems by (force simp: fresh_job_ids_def)
  then obtain w1 where w1: "enqueue_event E cfg e w = (Ok (), w1)"
    using enqueue_event_calm [OF assms(1)] by blast
  note eff = enqueue_event_Ok [OF w1]
  have "fresh_job_ids E (length es) w1"
    by (rule fresh_job_ids_later [of E 1]) (use Cons.prems eff in \<open>auto simp: new_job_def\<close>)
  with Cons.IH obtain w' where "for_each (enqueue_event E cfg) es w1 = (Ok (), w')"
    "w_draws w' = w_draws w1 + length es" by blast
  with w1 eff show ?case by (auto simp: bindE_def)
qed

lemma unrelayed_calm: "unrelayed (\<lambda>_. False) k d = take k (sort_key event_key (pending_events d))"
  by (simp add: unrelayed_def pending_events_def)

lemma tick_calm:
  fixes cfg :: outbox_relayer_config
  assumes "calm E" and "fresh_job_ids E (length (pending_events (w_db w))) w"
  defines "evs \<equiv> unrelayed (\<lambda>_. False) (unat (or_batch_size cfg)) (w_db w)"
  shows "\<exists>w'. tick E cfg w = (Ok (length evs), w') \<and> w_draws w' = w_draws w + length evs"
proof -
  have nolock: "row_locked E n = (\<lambda>_. False)" for n using assms(1) by (auto simp: calm_def)
  have nofault: "\<not> db_fault E n" for n using assms(1) by (simp add: calm_def)
  let ?w = "w\<lparr>w_stmts := Suc (Suc (w_stmts w))\<rparr>"
  have len: "length evs \<le> length (pending_events (w_db w))"
    by (simp add: evs_def unrelayed_calm)
  have "fresh_job_ids E (length evs) ?w"
    using fresh_job_ids_mono [OF assms(2) len] by (simp add: fresh_job_ids_def)
  with enqueue_all_calm [OF assms(1)] obtain w2 where
    enq: "for_each (enqueue_event E cfg) evs ?w = (Ok (), w2)" "w_draws w2 = w_draws w + length evs"
    by force
  have claim: "claim_unrelayed_in_tx E (or_batch_size cfg) (w\<lparr>w_stmts := Suc (w_stmts w)\<rparr>) = (Ok evs, ?w)"
    using nofault nolock
    by (simp add: claim_unrelayed_in_tx_def bindE_def stmt_no_def map_err_def query_def stmt_def evs_def)
  show ?thesis
    using nofault claim enq
    by (auto simp: tick_def in_tx_if_def query_def stmt_def bindE_def mark_relayed_in_tx_def map_err_def)
qed

section \<open>Draining\<close>

text \<open>A batch that is marked leaves at least its own length fewer pending events.\<close>

lemma pending_mark:
  "pending_events (d\<lparr>outbox := mark_rows ids now (outbox d)\<rparr>) =
   filter (\<lambda>e. ob_id e \<notin> set ids) (pending_events d)"
proof -
  have "filter (\<lambda>e. ob_relayed_at e = None)
      (map (\<lambda>e. if ob_id e \<in> X then e\<lparr>ob_relayed_at := Some now\<rparr> else e) xs) =
    filter (\<lambda>e. ob_id e \<notin> X) (filter (\<lambda>e. ob_relayed_at e = None) xs)" for X xs
    by (induction xs) auto
  then show ?thesis by (simp add: pending_events_def mark_rows_def)
qed

lemma batch_length:
  fixes d :: db and k :: nat
  defines "evs \<equiv> take k (sort_key event_key (pending_events d))"
  shows "length (filter (\<lambda>e. ob_id e \<notin> ob_id ` set evs) (pending_events d)) + length evs \<le>
    length (pending_events d)"
proof -
  let ?P = "\<lambda>e. ob_id e \<in> ob_id ` set evs"
  have "length evs = length (filter ?P evs)" by simp
  also have "\<dots> \<le> length (filter ?P (sort_key event_key (pending_events d)))"
    unfolding evs_def by (metis append_take_drop_id filter_append le_add1 length_append)
  also have "\<dots> = length (filter ?P (pending_events d))"
    by (simp add: filter_sort)
  finally show ?thesis using sum_length_filter_compl [of ?P "pending_events d"] by linarith
qed

text \<open>What a pass does to a calm world: some jobs are added, the batch is no longer pending.\<close>

lemma relayer_pass_calm:
  assumes "calm E" and "fresh_job_ids E (length (pending_events (w_db w))) w"
    and "distinct (map ob_id (outbox (w_db w)))" and "0 < or_batch_size cfg"
  obtains w' where "snd (relayer_pass E cfg w) = w'"
    "set (jobs (w_db w)) \<subseteq> set (jobs (w_db w'))"
    "distinct (map ob_id (outbox (w_db w')))"
    "fresh_job_ids E (length (pending_events (w_db w'))) w'"
    "pending_events (w_db w) \<noteq> [] \<Longrightarrow> length (pending_events (w_db w')) < length (pending_events (w_db w))"
    "length (pending_events (w_db w')) \<le> length (pending_events (w_db w))"
    "\<And>e. e \<in> set (pending_events (w_db w)) \<Longrightarrow> e \<in> set (pending_events (w_db w')) \<or>
       (\<exists>j \<in> set (jobs (w_db w')). j_kind j = ob_event_type e \<and> j_payload j = ob_payload e)"
proof -
  define evs where "evs = take (unat (or_batch_size cfg)) (sort_key event_key (pending_events (w_db w)))"
  obtain w' where t: "tick E cfg w = (Ok (length evs), w')" and dr: "w_draws w' = w_draws w + length evs"
    using tick_calm [OF assms(1,2)] unfolding unrelayed_calm evs_def by blast
  have nolock: "row_locked E n = (\<lambda>_. False)" for n using assms(1) by (auto simp: calm_def)
  have db: "w_db w' = (w_db w)\<lparr>
       jobs := jobs (w_db w) @ relayed_jobs E cfg (w_now w) (w_draws w) evs,
       outbox := mark_rows (map ob_id evs) (w_now w) (outbox (w_db w))\<rparr>"
    using tick_effect [OF t] nolock by (simp add: unrelayed_calm evs_def)
  have pend: "pending_events (w_db w') = filter (\<lambda>e. ob_id e \<notin> ob_id ` set evs) (pending_events (w_db w))"
    using pending_mark [where d = "w_db w" and ids = "map ob_id evs"] by (simp add: db pending_events_def)
  have le: "length (pending_events (w_db w')) + length evs \<le> length (pending_events (w_db w))"
    unfolding pend using batch_length evs_def by blast
  have ne: "evs \<noteq> []" if "pending_events (w_db w) \<noteq> []"
    using that assms(4) length_sort [of event_key "pending_events (w_db w)"]
    by (auto simp: evs_def unat_eq_0 simp del: length_sort)
  show thesis
  proof (rule that [of w'])
    show "snd (relayer_pass E cfg w) = w'" by (simp add: relayer_pass_def t)
    show "fresh_job_ids E (length (pending_events (w_db w'))) w'"
    proof (rule fresh_job_ids_later [of E "length evs"])
      show "fresh_job_ids E (length evs + length (pending_events (w_db w'))) w"
        using fresh_job_ids_mono [OF assms(2)] le by (simp add: add.commute)
      have "set (map j_id (relayed_jobs E cfg (w_now w) (w_draws w) evs)) =
          uuid_v7 E ` {w_draws w ..< w_draws w + length evs}"
        unfolding relayed_jobs_ids by simp
      then show "j_id ` set (jobs (w_db w')) \<subseteq>
          j_id ` set (jobs (w_db w)) \<union> uuid_v7 E ` {w_draws w ..< w_draws w + length evs}"
        by (auto simp: db)
    qed (rule dr)
    show "distinct (map ob_id (outbox (w_db w')))"
      using assms(3) by (simp add: db mark_rows_def o_def if_distrib cong: if_cong)
    show "length (pending_events (w_db w')) < length (pending_events (w_db w))"
      if "pending_events (w_db w) \<noteq> []"
      using ne [OF that] le by (cases evs) auto
    show "e \<in> set (pending_events (w_db w')) \<or>
       (\<exists>j \<in> set (jobs (w_db w')). j_kind j = ob_event_type e \<and> j_payload j = ob_payload e)"
      if e: "e \<in> set (pending_events (w_db w))" for e
    proof (cases "ob_id e \<in> ob_id ` set evs")
      case True
      then obtain f where f: "f \<in> set evs" "ob_id f = ob_id e" by auto
      then have "f \<in> set (outbox (w_db w))" "e \<in> set (outbox (w_db w))"
        using e by (auto simp: evs_def pending_events_def dest!: in_set_takeD)
      with f(2) assms(3) have "f = e" by (metis distinct_map inj_onD)
      with f(1) relayed_jobs_event [of e evs E cfg "w_now w" "w_draws w"] show ?thesis by (auto simp: db)
    next
      case False
      with e show ?thesis by (simp add: pend)
    qed
  qed (use le db in auto)
qed

text \<open>
  The loop: with as many passes before the shutdown as there are pending events, none is left
  and each has become a job.
\<close>

lemma relayer_drains_from:
  assumes calm: "calm E" and batch: "0 < or_batch_size cfg"
    and stop: "wt_shutdown h m" and run: "\<And>k. k < m \<Longrightarrow> \<not> wt_shutdown h k"
  shows "n \<le> m \<Longrightarrow> length (pending_events (w_db w)) \<le> m - n \<Longrightarrow>
    fresh_job_ids E (length (pending_events (w_db w))) w \<Longrightarrow> distinct (map ob_id (outbox (w_db w))) \<Longrightarrow>
    \<exists>w'. poll_loop (relayer_pass E cfg) poll h n w = Some w' \<and> pending_events (w_db w') = [] \<and>
      set (jobs (w_db w)) \<subseteq> set (jobs (w_db w')) \<and>
      (\<forall>e \<in> set (pending_events (w_db w)).
         \<exists>j \<in> set (jobs (w_db w')). j_kind j = ob_event_type e \<and> j_payload j = ob_payload e)"
proof (induction "m - n" arbitrary: n w)
  case 0
  then have "n = m" "pending_events (w_db w) = []" by auto
  with stop show ?case by (subst poll_loop.simps) auto
next
  case (Suc k)
  then have lt: "n < m" by auto
  obtain w1 where pass: "snd (relayer_pass E cfg w) = w1"
    and w1: "set (jobs (w_db w)) \<subseteq> set (jobs (w_db w1))" "distinct (map ob_id (outbox (w_db w1)))"
      "fresh_job_ids E (length (pending_events (w_db w1))) w1"
    and dec: "pending_events (w_db w) \<noteq> [] \<Longrightarrow>
        length (pending_events (w_db w1)) < length (pending_events (w_db w))"
      "length (pending_events (w_db w1)) \<le> length (pending_events (w_db w))"
    and jobs1: "\<And>e. e \<in> set (pending_events (w_db w)) \<Longrightarrow> e \<in> set (pending_events (w_db w1)) \<or>
       (\<exists>j \<in> set (jobs (w_db w1)). j_kind j = ob_event_type e \<and> j_payload j = ob_payload e)"
    by (rule relayer_pass_calm [OF calm Suc.prems(3,4) batch]) blast
  define w2 where "w2 = (if fst (relayer_pass E cfg w) then w1 else idle poll (wt_waited h n) w1)"
  have w2: "w_db w2 = w_db w1" "w_draws w2 = w_draws w1" by (simp_all add: w2_def idle_def)
  have le: "length (pending_events (w_db w1)) \<le> m - Suc n"
  proof (cases "pending_events (w_db w) = []")
    case True
    with dec(2) show ?thesis by simp
  next
    case False
    with dec(1) Suc.prems(2) show ?thesis by linarith
  qed
  have "\<exists>w'. poll_loop (relayer_pass E cfg) poll h (Suc n) w2 = Some w' \<and> pending_events (w_db w') = [] \<and>
      set (jobs (w_db w2)) \<subseteq> set (jobs (w_db w')) \<and>
      (\<forall>e \<in> set (pending_events (w_db w2)).
         \<exists>j \<in> set (jobs (w_db w')). j_kind j = ob_event_type e \<and> j_payload j = ob_payload e)"
    by (rule Suc.hyps(1)) (use Suc.hyps(2) lt le w1 w2 in \<open>simp_all add: fresh_job_ids_def\<close>)
  moreover have "poll_loop (relayer_pass E cfg) poll h n w = poll_loop (relayer_pass E cfg) poll h (Suc n) w2"
    using run [OF lt] pass by (subst poll_loop.simps) (simp add: case_prod_beta w2_def Let_def)
  ultimately obtain w' where r: "poll_loop (relayer_pass E cfg) poll h n w = Some w'"
    "pending_events (w_db w') = []" "set (jobs (w_db w1)) \<subseteq> set (jobs (w_db w'))"
    and later: "\<And>e. e \<in> set (pending_events (w_db w1)) \<Longrightarrow>
         \<exists>j \<in> set (jobs (w_db w')). j_kind j = ob_event_type e \<and> j_payload j = ob_payload e"
    unfolding w2 by auto
  have "\<exists>j \<in> set (jobs (w_db w')). j_kind j = ob_event_type e \<and> j_payload j = ob_payload e"
    if "e \<in> set (pending_events (w_db w))" for e
    using jobs1 [OF that] later [of e] r(3) by blast
  with r w1(1) show ?case by blast
qed

section \<open>The end of the process\<close>

lemma write_keeps_queue:
  assumes "write_with_retry E m e a b w = Some w'"
  shows "w_audit w' = w_audit w"
  by (rule write_with_retry_keeps [OF assms, where I = "\<lambda>v. w_audit v = w_audit w"])
    (auto simp: sleep_ms_def dest: audit_insert_stmts)

lemma worker_run_empties:
  "worker_run E k es w = Some w' \<Longrightarrow> w_audit w = es \<Longrightarrow> w_audit w' = []"
  by (induction es arbitrary: w) (auto simp: bind_eq_Some_conv dest: write_keeps_queue)

lemma worker_run_reachable: "worker_run E k (w_audit w) w = Some w' \<Longrightarrow> reachable E w w'"
  by (rule r_into_rtranclp) (rule sys_step.audited)

lemma shutdown_workers_returns:
  assumes "wt_shutdown (ho_relayer H) m" and "wt_shutdown (ho_runner H) m'"
    and "unat (wk_max_retries (ah_audit hs)) < 2 ^ 32 - 1"
    and "ah_jobs hs = runner_new host_name simple_uuid cfg"
  shows "\<exists>w'. shutdown_workers E H hs w = Some w' \<and> w_audit w' = [] \<and>
    reachable E (w\<lparr>w_audit_open := False\<rparr>) w'"
proof -
  let ?w = "w\<lparr>w_audit_open := False\<rparr>"
  obtain w1 where w1: "relayer_run E (ah_outbox hs) (ho_relayer H) ?w = Some w1" "reachable E ?w w1"
    unfolding relayer_run_def using relayer.loop_stops [OF assms(1) le0] by blast
  obtain w2 where w2: "runner_run E (ah_jobs hs) (ho_runner H) w1 = Some w2" "reachable E ?w w2"
    unfolding runner_run_def assms(4) using idle_runner.loop_stops [OF assms(2) le0 w1(2)] by blast
  obtain w3 where w3: "worker_run E (ah_audit hs) (w_audit w2) w2 = Some w3"
    using worker_run_terminates [OF assms(3)] by blast
  have "reachable E ?w w3" using w2(2) worker_run_reachable [OF w3] by (rule rtranclp_trans)
  with w1 w2 w3 worker_run_empties [OF w3] show ?thesis by (simp add: shutdown_workers_def)
qed

lemma run_serve_finishes:
  assumes "open_database H cfg w = Ok w1"
    and "build_app (ho_hostname H) (ho_simple_uuid H) cfg w1 = Built hs w2"
    and "ho_bind H (ac_bind_address cfg)" and "ho_served H"
    and "wt_shutdown (ho_relayer H) m" and "wt_shutdown (ho_runner H) m'"
    and "unat (ac_audit_max_retries cfg) < 2 ^ 32 - 1"
  shows "\<exists>w'. run_serve E H cfg w = Some (finished, w') \<and> w_audit w' = [] \<and>
    reachable E ((ho_traffic H w2)\<lparr>w_audit_open := False\<rparr>) w'"
proof -
  have hs: "ah_jobs hs = runner_new (ho_hostname H) (ho_simple_uuid H) job_runner_config_default"
    "wk_max_retries (ah_audit hs) = ac_audit_max_retries cfg"
    using assms(2) by (auto simp: build_app_def split: if_splits sum.splits)
  from shutdown_workers_returns [OF assms(5,6) _ hs(1), of E "ho_traffic H w2"] hs(2) assms
  show ?thesis by (auto simp: run_serve_def)
qed

section \<open>Seeding the administrator\<close>

text \<open>
  A successful run created a human user with the given e-mail and name, who holds the role in
  the operator organisation, and an audit row about it.
\<close>

lemma insert_membership_if_new_holds:
  "insert_membership_if_new m d = Ok d' \<Longrightarrow>
   holds_role (m_user m) (m_org m) (m_role m) d' \<and> users d' = users d"
  by (auto simp: insert_membership_if_new_def insert_membership_def holds_role_def membership_key_def
      key_in_def list_ex_iff split: if_splits)

lemma lift_Ok: "lift r w = (Ok a, w') \<longleftrightarrow> r = Ok a \<and> w' = w"
  by (auto simp: lift_def)

lemma ok_or_Ok: "ok_or e x = Ok a \<longleftrightarrow> x = Some a"
  by (simp add: ok_or_def split: option.split)

lemma inserted_Ok: "map_sum id (Pair ()) r = Ok (u, d) \<longleftrightarrow> r = Ok d"
  by (cases r) auto

lemma bootstrap_seed_admin_Ok:
  assumes "bootstrap_seed_admin E i w = (Ok uid, w')"
  shows "\<exists>u org r. u \<in> set (users (w_db w')) \<and> u_id u = uid \<and> u_email u = se_email i \<and>
     u_username u = se_username i \<and> u_kind u = Human \<and>
     org \<in> set (organisations (w_db w)) \<and> o_name org = se_operator_org_name i \<and>
     r \<in> set (roles (w_db w)) \<and> r_code r = se_role_code i \<and>
     holds_role uid (o_id org) (r_id r) (w_db w')"
proof -
  from assms obtain oid w1 h wh rid d1 d2 eid w4 where
    oid: "map_option o_id (find (\<lambda>r. o_name r = se_operator_org_name i) (organisations (w_db w))) = Some oid"
    and hash: "hash_password E (se_password i) w1 = (Ok h, wh)" and same: "w_db w1 = w_db w"
    and user: "insert_user E (new_user uid (se_username i) (se_email i) h Human (w_now wh)) (w_db wh) = Ok d1"
    and rid: "role_id_by_code (se_role_code i) d1 = Some rid"
    and mem: "insert_membership_if_new
      \<lparr> m_user = uid, m_org = oid, m_role = rid, m_created_at = w_now wh \<rparr> d1 = Ok d2"
    and aud: "audit_insert E (admin_seeded eid (w_now wh) uid oid (se_role_code i)) w4 = (Ok (), w')"
      "w_db w4 = d2"
    by (auto simp: bootstrap_seed_admin_def action_ok_simps ok_or_Ok lift_Ok inserted_Ok
        split: if_splits)
  from readsD [OF reads_lookups(13) hash] same have wh: "w_db wh = w_db w" by simp
  have d1: "users d1 = users (w_db w) @ [new_user uid (se_username i) (se_email i) h Human (w_now wh)]"
    "roles d1 = roles (w_db w)" using user wh by (auto simp: insert_user_def split: if_splits)
  have w': "users (w_db w') = users d2" "memberships (w_db w') = memberships d2"
    using aud by (auto simp: audit_insert_def stmt_Ok_iff insert_audit_def map_sum_def split: sum.splits if_splits)
  from oid obtain org where "org \<in> set (organisations (w_db w))" "o_name org = se_operator_org_name i" "o_id org = oid"
    by (auto dest!: find_Some_in)
  moreover from rid d1(2) obtain r where "r \<in> set (roles (w_db w))" "r_code r = se_role_code i" "r_id r = rid"
    by (auto simp: role_id_by_code_def dest!: find_Some_in)
  ultimately show ?thesis
    using insert_membership_if_new_holds [OF mem] d1(1) w'
    by (intro exI [of _ "new_user uid (se_username i) (se_email i) h Human (w_now wh)"])
      (auto simp: new_user_def holds_role_def)
qed

end
