(* ===== verification/Contract.thy ===== *)
theory Contract
  imports OpenApi Requests
begin

text \<open>
  The responses the application really gives, against the published document: every success
  has the status and the body type that its annotation declares first, every error is a
  problem document, and the status of every error is declared too, except the ones listed in
  \<open>undocumented\<close> and the 500 of an internal error, which no annotation mentions.
\<close>

section \<open>Successes\<close>

fun schema_of :: "body \<Rightarrow> schema option" where
  "schema_of NoBody = None"
| "schema_of (ProbeBody _) = Some AnyJson"
| "schema_of (ProblemBody _) = Some (Ref ''ErrorBody'')"
| "schema_of (OrganisationB _) = Some (Ref ''OrganisationBody'')"
| "schema_of (PagedOrganisationsB _) = Some (Ref ''PagedOrganisations'')"
| "schema_of (PagedMembersB _) = Some (Ref ''PagedMembers'')"
| "schema_of (AssignRoleB _) = Some (Ref ''AssignRoleResponseBody'')"
| "schema_of (ChannelB _) = Some (Ref ''ChannelBody'')"
| "schema_of (PagedChannelsB _) = Some (Ref ''PagedChannels'')"
| "schema_of (RegisterB _) = Some (Ref ''RegisterResponse'')"
| "schema_of (LoginB _) = Some (Ref ''LoginResponse'')"
| "schema_of (TokenB _) = Some (Ref ''TokenResponse'')"
| "schema_of (ListUsersB _) = Some (Ref ''ListUsersResponse'')"
| "schema_of (ServiceAccountB _) = Some (Ref ''ServiceAccountResponse'')"
| "schema_of (ListServiceAccountsB _) = Some (Ref ''ListServiceAccountsResponse'')"
| "schema_of (CreateApiKeyB _) = Some (Ref ''CreateApiKeyResponse'')"
| "schema_of (ListApiKeysB _) = Some (Ref ''ListApiKeysResponse'')"
| "schema_of (FeatureDefinitionsB _) = Some (ArrayOf ''FeatureDefinition'')"
| "schema_of (EvaluatedFeaturesB _) = Some (ArrayOf ''EvaluatedFeature'')"
| "schema_of (EvaluatedFeatureB _) = Some (Ref ''EvaluatedFeature'')"
| "schema_of (EchoB _) = Some (Ref ''EchoResponse'')"

definition typed :: "response \<Rightarrow> nat \<times> schema option" where
  "typed rs = (rs_status rs, schema_of (rs_body rs))"

definition succeeds_with :: "nat \<times> schema option \<Rightarrow> (app_error, response) action \<Rightarrow> bool" where
  "succeeds_with t m \<longleftrightarrow> (\<forall>w rs w'. m w = (Ok rs, w') \<longrightarrow> typed rs = t)"

lemma succeeds_respond: "(\<And>a. typed (f a) = t) \<Longrightarrow> succeeds_with t (respond f m)"
  by (auto simp: succeeds_with_def respond_def bindE_eq_Ok_iff)

text \<open>A command whose only result is \<open>v\<close>.\<close>

definition yields :: "'a \<Rightarrow> ('w, 'e, 'a) cmd \<Rightarrow> bool" where
  "yields v m \<longleftrightarrow> (\<forall>w a w'. m w = (Ok a, w') \<longrightarrow> a = v)"

lemma yields_ret: "yields v (ret v)"
  by (simp add: yields_def)

lemma yields_bindE: "(\<And>a. yields v (f a)) \<Longrightarrow> yields v (bindE m f)"
  by (auto simp: yields_def bindE_eq_Ok_iff)

lemma succeeds_status: "yields n m \<Longrightarrow> succeeds_with (n, None) (respond status_response m)"
  unfolding succeeds_with_def respond_def yields_def
  by (fastforce simp: bindE_eq_Ok_iff typed_def status_response_def)

lemma no_content:
  "yields 204 (post_add_user_to_organisation E x u oid rc)"
  "yields 204 (post_remove_user_from_organisation E x u oid)"
  "yields 204 (delete_channel E x oid cid)"
  "yields 204 (post_logout E x)"
  "yields 204 (post_change_password E x p q)"
  "yields 204 (post_password_reset_request E ttl em)"
  "yields 204 (post_password_reset_confirm E tok p)"
  "yields 204 (delete_service_account_handler E x sa)"
  "yields 204 (delete_api_key_handler E x sa kid)"
  "yields 204 (delete_org_feature E x oid slg)"
  unfolding tenant_handler_defs session_handler_defs account_handler_defs feature_handler_defs
    other_handler_defs
  by (intro yields_bindE yields_ret)+

lemma probes_lookup: "map_of api_paths Health = None" "map_of api_paths Ready = None"
  by (simp_all add: api_paths_def)

lemma handle_success:
  assumes "map_of api_paths (endpoint_of c) = Some d"
  shows "succeeds_with (hd (op_responses d)) (handle E st x c)"
  using assms
  by (cases c) (auto simp: api_lookup doc_success probes_lookup typed_def json_response_def
      intro!: succeeds_respond succeeds_status no_content)

section \<open>Errors\<close>

definition fails_in :: "nat set \<Rightarrow> (app_error, 'a) action \<Rightarrow> bool" where
  "fails_in S m \<longleftrightarrow> (\<forall>w e w'. m w = (Err e, w') \<longrightarrow> http_status e \<in> S)"

named_theorems fails_intros \<open>the statuses an action can fail with\<close>

lemma fails_ret [fails_intros]: "fails_in S (ret a)"
  by (simp add: fails_in_def)

lemma fails_bindE [fails_intros]:
  "fails_in S m \<Longrightarrow> (\<And>a. fails_in S (f a)) \<Longrightarrow> fails_in S (bindE m f)"
  by (fastforce simp: fails_in_def bindE_eq_Err_iff)

lemma fails_map_err: "(\<And>e. http_status (g e) \<in> S) \<Longrightarrow> fails_in S (map_err g m)"
  by (auto simp: fails_in_def map_err_eq_Err_iff)

lemma fails_if [fails_intros]:
  "(b \<Longrightarrow> fails_in S m) \<Longrightarrow> (\<not> b \<Longrightarrow> fails_in S n) \<Longrightarrow> fails_in S (if b then m else n)"
  by simp

lemma fails_fail [fails_intros]: "http_status e \<in> S \<Longrightarrow> fails_in S (fail e)"
  by (simp add: fails_in_def)

lemma fails_Let [fails_intros]: "(\<And>x. fails_in S (f x)) \<Longrightarrow> fails_in S (Let v f)"
  by (simp add: Let_def)

lemma fails_case_prod [fails_intros]:
  "(\<And>a b. fails_in S (f a b)) \<Longrightarrow> fails_in S (case p of (a, b) \<Rightarrow> f a b)"
  by (cases p) simp

lemma fails_audit [fails_intros]: "fails_in S (audit E mk)"
  by (simp add: fails_in_def audit_eq)

lemma fails_utc_now [fails_intros]: "fails_in S utc_now"
  by (simp add: fails_in_def utc_now_def)

lemma fails_lift: "(\<And>e. r = Err e \<Longrightarrow> http_status e \<in> S) \<Longrightarrow> fails_in S (lift r)"
  by (cases r) (auto simp: fails_in_def lift_def)

lemma fails_extractors [fails_intros]:
  "401 \<in> S \<Longrightarrow> fails_in S (lift (extract_authed_caller x))"
  "401 \<in> S \<Longrightarrow> fails_in S (lift (extract_caller x))"
  "401 \<in> S \<Longrightarrow> 403 \<in> S \<Longrightarrow> fails_in S (lift (perm p x))"
  "401 \<in> S \<Longrightarrow> 403 \<in> S \<Longrightarrow> fails_in S (lift (require_human_caller x))"
  "404 \<in> S \<Longrightarrow> fails_in S (lift (same_org_or_operator c oid))"
  "400 \<in> S \<Longrightarrow> fails_in S (lift (validate_lengths E fs))"
  "http_status e \<in> S \<Longrightarrow> fails_in S (lift (ok_or e opt))"
  by (rule fails_lift, auto simp: extract_authed_caller_def extract_caller_def perm_def
      require_human_caller_def same_org_or_operator_def validate_lengths_def ok_or_def Let_def
      split: option.splits if_splits caller.splits)+

lemma fails_sa_cursor [fails_intros]:
  "400 \<in> S \<Longrightarrow> fails_in S (lift (case after of
     None \<Rightarrow> Ok None
   | Some s \<Rightarrow> map_sum id Some (ok_or (field_error ''after'' ''invalid_cursor'') (decode_sa_cursor E s))))"
  by (rule fails_lift) (auto simp: ok_or_def field_error_def split: option.splits)

text \<open>The error statuses of each handler, from its extractors, its own checks and its error map.\<close>

fun may_fail :: "endpoint \<Rightarrow> nat list" where
  "may_fail Health = []"
| "may_fail Ready = []"
| "may_fail PostLogin = [401, 403, 500]"
| "may_fail PostPasswordResetRequest = [500]"
| "may_fail PostPasswordResetConfirm = [400, 401, 500]"
| "may_fail PostCreateOrganisation = [400, 401, 403, 409, 500]"
| "may_fail GetListMyOrganisations = [400, 401, 500]"
| "may_fail GetListMembers = [400, 401, 403, 404, 500]"
| "may_fail PostAssignRole = [400, 401, 403, 404, 500]"
| "may_fail PostAddUserToOrganisation = [400, 401, 403, 404, 500]"
| "may_fail PostRemoveUserFromOrganisation = [401, 403, 404, 409, 500]"
| "may_fail PostCreateChannel = [400, 401, 403, 404, 409, 500]"
| "may_fail GetListChannels = [400, 401, 403, 404, 500]"
| "may_fail GetChannel = [401, 403, 404, 500]"
| "may_fail PutUpdateChannel = [400, 401, 403, 404, 409, 500]"
| "may_fail DeleteChannel = [401, 403, 404, 500]"
| "may_fail PostRegister = [400, 401, 403, 404, 409, 500]"
| "may_fail PostLogout = [401, 403, 500]"
| "may_fail PostChangePassword = [400, 401, 403, 404, 500]"
| "may_fail PostSwitchOrg = [401, 403, 500]"
| "may_fail PostCreateServiceAccount = [401, 403, 404, 409, 500]"
| "may_fail GetListServiceAccounts = [400, 401, 403, 404, 500]"
| "may_fail GetServiceAccount = [401, 403, 404, 500]"
| "may_fail DeleteServiceAccountHandler = [401, 403, 404, 500]"
| "may_fail PostCreateApiKey = [400, 401, 403, 404, 500]"
| "may_fail GetListApiKeys = [401, 403, 404, 500]"
| "may_fail DeleteApiKeyHandler = [401, 403, 404, 500]"
| "may_fail PostRotateApiKey = [400, 401, 403, 404, 500]"
| "may_fail GetListUsers = [400, 401, 403, 500]"
| "may_fail GetDefinitions = [401, 403, 500]"
| "may_fail GetOrgFeatures = [401, 403, 404, 500]"
| "may_fail PutOrgFeature = [400, 401, 403, 404, 500]"
| "may_fail DeleteOrgFeature = [401, 403, 404, 500]"
| "may_fail GetEcho = [401, 403]"
| "may_fail PostEcho = [401, 403]"

lemma fails_ready [fails_intros]: "fails_in S (ready_handler E)"
  unfolding ready_handler_def fails_in_def
  by (auto simp: matchE_def split: prod.splits sum.splits)

lemma handle_fails: "fails_in (set (may_fail (endpoint_of c))) (handle E st x c)"
  by (cases c; simp only: handle.simps respond_def endpoint_of.simps may_fail.simps
      tenant_handler_defs feature_handler_defs account_handler_defs session_handler_defs
      get_list_my_organisations_def post_login_def post_password_reset_request_def
      post_password_reset_confirm_def get_echo_def post_echo_def)
    (intro fails_intros | (rule fails_map_err; (case_tac e; simp add: field_error_def))
      | (simp add: field_error_def; fail))+

text \<open>The statuses above that the annotations do not declare.\<close>

fun undocumented :: "endpoint \<Rightarrow> nat list" where
  "undocumented PostAddUserToOrganisation = [400]"
| "undocumented GetListChannels = [400]"
| "undocumented PostRegister = [404]"
| "undocumented PostLogin = [403]"
| "undocumented PostLogout = [403]"
| "undocumented PostChangePassword = [403, 404]"
| "undocumented PostPasswordResetConfirm = [401]"
| "undocumented PostCreateServiceAccount = [404]"
| "undocumented GetListServiceAccounts = [400, 404]"
| "undocumented _ = []"

lemma statuses_documented:
  assumes "map_of api_paths e = Some d" and "s \<in> set (may_fail e)" and "s \<noteq> 500"
  shows "s \<in> set (map fst (op_responses d)) \<or> s \<in> set (undocumented e)"
  using assms by (cases e) (auto simp: api_lookup doc_statuses)

section \<open>The contract\<close>

lemma doc_errors:
  assumes "map_of api_paths e = Some d" and "(n, b) \<in> set (op_responses d)" and "400 \<le> n"
  shows "b = Some (Ref ''ErrorBody'')"
  using assms by (cases e) (auto simp: api_lookup probes_lookup doc_defs)

lemma success_declared:
  "map_of api_paths e = Some d \<Longrightarrow> hd (op_responses d) \<in> set (op_responses d)"
  by (rule hd_in_set) (cases e; auto simp: api_lookup probes_lookup doc_statuses dest!: arg_cong [of _ _ "map fst"])

text \<open>A rejection by the layer is always a 401.\<close>

definition rejects_401 :: "(unit, auth_outcome) action \<Rightarrow> bool" where
  "rejects_401 m \<longleftrightarrow> (\<forall>w e w'. m w = (Ok (Rejected e), w') \<longrightarrow> http_status e = 401)"

lemma rejects_intros:
  "http_status e = 401 \<Longrightarrow> rejects_401 (ret (Rejected e))"
  "rejects_401 (ret ServerError)"
  "rejects_401 (ret (Forward x t))"
  "(\<And>a. rejects_401 (f a)) \<Longrightarrow> rejects_401 (bindE m f)"
  "(\<And>r. rejects_401 (g r)) \<Longrightarrow> rejects_401 (matchE n g)"
  by (auto simp: rejects_401_def bindE_eq_Ok_iff matchE_def split: prod.splits)

lemma rejects_auth_call: "rejects_401 (auth_call E st secret issuer rq)"
proof -
  have key: "rejects_401 (handle_api_key st issuer p s src x)" for p s src x
    unfolding handle_api_key_def Let_def
    by (auto intro!: rejects_intros split: sum.split option.split)
  have jwt: "rejects_401 (handle_jwt E st secret issuer tok x)" for tok x
    unfolding handle_jwt_def by (auto intro!: rejects_intros split: sum.split bool.split)
  show ?thesis
    unfolding auth_call_def
    by (auto intro!: rejects_intros key jwt split: option.split header_source.split)
qed

lemma protected_401: "is_protected e \<Longrightarrow> 401 \<in> set (may_fail e)"
  unfolding protected_iff by (cases e) simp_all

definition conforms :: "endpoint \<Rightarrow> operation \<Rightarrow> response \<Rightarrow> bool" where
  "conforms e d rs \<longleftrightarrow>
     typed rs \<in> set (op_responses d) \<or>
     (rs_status rs \<in> set (undocumented e) \<and> schema_of (rs_body rs) = Some (Ref ''ErrorBody'')) \<or>
     rs_status rs = 500"

lemma problem_conforms:
  assumes "map_of api_paths e = Some d" and "http_status err \<in> set (may_fail e)"
  shows "conforms e d (problem_response err)"
proof -
  have ty: "typed (problem_response err) = (http_status err, Some (Ref ''ErrorBody''))"
    by (simp add: typed_def problem_response_def into_response_def)
  have "http_status err = 500 \<or> http_status err \<in> set (map fst (op_responses d)) \<or>
      http_status err \<in> set (undocumented e)"
    using statuses_documented [OF assms] by blast
  then show ?thesis
    using doc_errors [OF assms(1)] http_status_error [of err] ty
    by (auto simp: conforms_def typed_def problem_status)
qed

lemma run_handler_conforms:
  assumes "map_of api_paths (endpoint_of c) = Some d" and "run_handler E st x c w = (Ok rs, w')"
  shows "conforms (endpoint_of c) d rs"
proof -
  obtain r w1 where r: "handle E st x c w = (r, w1)" by (meson surj_pair)
  show ?thesis
  proof (cases r)
    case (Inl err)
    with r assms(2) have "rs = problem_response err" by (auto simp: run_handler_def matchE_def)
    moreover have "http_status err \<in> set (may_fail (endpoint_of c))"
      using handle_fails r Inl unfolding fails_in_def by blast
    ultimately show ?thesis using problem_conforms [OF assms(1)] by simp
  next
    case (Inr rs')
    with r assms(2) have "handle E st x c w = (Ok rs, w1)" by (auto simp: run_handler_def matchE_def)
    with handle_success [OF assms(1)] have "typed rs = hd (op_responses d)"
      unfolding succeeds_with_def by blast
    with success_declared [OF assms(1)] show ?thesis by (simp add: conforms_def)
  qed
qed

lemma serve_conforms:
  assumes "map_of api_paths (endpoint_of c) = Some d" and "serve_request E cfg rq c w = (Ok (rs, t), w')"
  shows "conforms (endpoint_of c) d rs"
proof (cases "is_protected (endpoint_of c)")
  case False
  with assms(2) obtain w1 where
    "run_handler E (app_state_of cfg) (rq_extensions rq) c w = (Ok rs, w1)"
    by (auto simp: serve_request_def Let_def bindE_eq_Ok_iff)
  with run_handler_conforms assms(1) show ?thesis by blast
next
  case True
  with assms(2) obtain out w1 where
    a: "auth_call E (pg_strategies E DEFAULT_TTL) (ac_jwt_secret cfg) (ac_jwt_issuer cfg) rq w = (Ok out, w1)"
    and b: "(case out of
             Rejected e \<Rightarrow> ret (problem_response e, None)
           | ServerError \<Rightarrow> ret (status_response 500, None)
           | Forward x touch \<Rightarrow> bindE (run_handler E (app_state_of cfg) x c) (\<lambda>rs. ret (rs, touch))) w1 =
        (Ok (rs, t), w')"
    by (auto simp: serve_request_def Let_def bindE_eq_Ok_iff)
  show ?thesis
  proof (cases out)
    case (Rejected e)
    with a rejects_auth_call have "http_status e = 401" unfolding rejects_401_def by blast
    with b Rejected protected_401 [OF True] problem_conforms [OF assms(1), of e] show ?thesis by auto
  next
    case ServerError
    with b show ?thesis by (auto simp: conforms_def status_response_def)
  next
    case (Forward x touch)
    with b have "\<exists>w2. run_handler E (app_state_of cfg) x c w1 = (Ok rs, w2)"
      by (auto simp: bindE_eq_Ok_iff)
    with run_handler_conforms [OF assms(1)] show ?thesis by blast
  qed
qed

text \<open>Every request is answered: no path through layer and handlers ends without a response.\<close>

definition always_ok :: "('e, 'a) action \<Rightarrow> bool" where
  "always_ok m \<longleftrightarrow> (\<forall>w. \<exists>a w'. m w = (Ok a, w'))"

lemma always_ok_intros:
  "always_ok (ret a)" "always_ok utc_now"
  "always_ok m \<Longrightarrow> (\<And>a. always_ok (f a)) \<Longrightarrow> always_ok (bindE m f)"
  "(\<And>r. always_ok (g r)) \<Longrightarrow> always_ok (matchE n g)"
proof -
  show "always_ok (bindE m f)" if ok: "always_ok m" "\<And>a. always_ok (f a)"
    unfolding always_ok_def
  proof
    fix w
    obtain a w1 where "m w = (Ok a, w1)" using ok(1) unfolding always_ok_def by blast
    moreover obtain b w2 where "f a w1 = (Ok b, w2)" using ok(2) unfolding always_ok_def by blast
    ultimately show "\<exists>a w'. bindE m f w = (Ok a, w')" by (auto simp: bindE_def)
  qed
  show "always_ok (matchE n g)" if "\<And>r. always_ok (g r)"
    using that unfolding always_ok_def matchE_def by (metis case_prod_conv surj_pair)
qed (simp_all add: always_ok_def utc_now_def)

lemma always_ok_auth_call: "always_ok (auth_call E st secret issuer rq)"
proof -
  have key: "always_ok (handle_api_key st issuer p s src x)" for p s src x
    unfolding handle_api_key_def Let_def
    by (auto intro!: always_ok_intros split: sum.split option.split)
  have jwt: "always_ok (handle_jwt E st secret issuer tok x)" for tok x
    unfolding handle_jwt_def by (auto intro!: always_ok_intros split: sum.split bool.split)
  show ?thesis
    unfolding auth_call_def
    by (auto intro!: always_ok_intros key jwt split: option.split header_source.split)
qed

lemma always_ok_serve: "always_ok (serve_request E cfg rq c)"
  unfolding serve_request_def run_handler_def Let_def
  by (auto intro!: always_ok_intros always_ok_auth_call split: auth_outcome.split)

end
