(* ===== verification/Listings.thy ===== *)
theory Listings
  imports Security AuditQuery
begin

text \<open>
  The list operations end to end. The contract \<open>keyset\<close> of \<^verbatim>\<open>Pagination\<close> is interpreted on
  the two query shapes the repositories use, ascending and descending, each followed by the
  service's \<open>cut_page\<close>. A client that follows the opaque cursor strings a service hands
  out is simulated by one that follows the keys inside them (\<open>pages_sim\<close>), so that it sees
  every row exactly once, in listing order, whatever the page size.

  The listing of service accounts is the exception: it hands out the key of the first row it
  did not return, which the next page's strict comparison skips.
\<close>

section \<open>Clients and cursors\<close>

text \<open>The answer a client gets while nobody changes the tables; an error ends the listing.\<close>

definition serve ::
    "(string option \<Rightarrow> ('e, 'r list \<times> string option) action) \<Rightarrow> world \<Rightarrow>
     string option \<Rightarrow> 'r list \<times> string option" where
  "serve m w c = (case m c w of (Ok p, _) \<Rightarrow> p | (Err _, _) \<Rightarrow> ([], None))"

lemma serve_Ok: "m c w = (Ok p, w') \<Longrightarrow> serve m w c = p"
  by (simp add: serve_def)

lemma pages_sim:
  assumes "\<And>c. step' (map_option enc c) = (map f (fst (step c)), map_option enc (snd (step c)))"
  shows "pages n step' (map_option enc c) = map (map f) (pages n step c)"
proof (induction n arbitrary: c)
  case (Suc n)
  obtain items nxt where st: "step c = (items, nxt)" by (meson surj_pair)
  then have st': "step' (map_option enc c) = (map f items, map_option enc nxt)" by (simp add: assms)
  show ?case
  proof (cases nxt)
    case None
    with st st' show ?thesis by simp
  next
    case (Some k)
    with st st' Suc.IH [of "Some k"] show ?thesis by simp
  qed
qed simp

lemma distinct_map_cursor: "distinct (map (\<lambda>r. snd (key r)) rows) \<Longrightarrow> distinct (map key rows)"
  by (auto simp: distinct_map inj_on_def)

lemma unat_clamp:
  fixes x :: u32
  assumes "unat lo \<le> unat hi" and "unat hi < 2 ^ 32 - 1"
  shows "unat (saturating_add (clamp x lo hi) 1) = Suc (unat (clamp x lo hi))"
    and "unat lo \<le> unat (clamp x lo hi)" and "unat (clamp x lo hi) \<le> unat hi"
proof -
  show b: "unat lo \<le> unat (clamp x lo hi)" "unat (clamp x lo hi) \<le> unat hi"
    using assms(1) by (auto simp: clamp_def word_less_nat_alt)
  show "unat (saturating_add (clamp x lo hi) 1) = Suc (unat (clamp x lo hi))"
    using b assms(2) by (simp add: unat_saturating_add)
qed

lemma decode_cursor_encode:
  "cursor_codecs E \<Longrightarrow> decode_cursor E k e (map_option (cursor_encode E k) c) = Ok c"
  by (cases c) (auto simp: decode_cursor_def cursor_decode_encode)

section \<open>The two query shapes\<close>

interpretation descending: keyset "\<lambda>a b :: cursor. b < a" k "\<lambda>rows. distinct (map k rows)"
    "\<lambda>rows. rev (sort_key k rows)"
    "\<lambda>rows limit c. cut_page k limit (keyset_desc k c (Suc limit) rows)" for k
  by (rule keyset_desc_page) auto

interpretation ascending: keyset "(<) :: cursor \<Rightarrow> cursor \<Rightarrow> bool" k "\<lambda>rows. distinct (map k rows)"
    "\<lambda>rows. sort_key k rows"
    "\<lambda>rows limit c. cut_page k limit (keyset_asc k c (Suc limit) rows)" for k
  by (rule keyset_asc_page) auto

text \<open>
  What a service has to show: with a cursor of its own it serves the page behind the key in
  it, up to a rendering \<open>f\<close> of the rows.
\<close>

definition serves_page ::
    "(string option \<Rightarrow> ('e, 'b list \<times> string option) action) \<Rightarrow> world \<Rightarrow> (cursor \<Rightarrow> string) \<Rightarrow>
     ('r \<Rightarrow> 'b) \<Rightarrow> (cursor option \<Rightarrow> 'r list \<times> cursor option) \<Rightarrow> bool" where
  "serves_page m w enc f step \<longleftrightarrow>
     (\<forall>c. serve m w (map_option enc c) = (map f (fst (step c)), map_option enc (snd (step c))))"

lemma serves_page_pages:
  "serves_page m w enc f step \<Longrightarrow> pages n (serve m w) None = map (map f) (pages n step None)"
  using pages_sim [of "serve m w" enc f step n None] by (simp add: serves_page_def)

lemma descending_complete:
  assumes "distinct (map k rows)" and "0 < limit"
    and "serves_page m w enc f (\<lambda>c. cut_page k limit (keyset_desc k c (Suc limit) rows))"
  shows "concat (pages (Suc (length rows)) (serve m w) None) = map f (rev (sort_key k rows)) \<and>
     (\<forall>p \<in> set (pages (Suc (length rows)) (serve m w) None). length p \<le> limit)"
  using descending.pages_complete [of k rows limit] assms(1,2)
  by (simp add: serves_page_pages [OF assms(3)] map_concat [symmetric])

lemma ascending_complete:
  assumes "distinct (map k rows)" and "0 < limit"
    and "serves_page m w enc f (\<lambda>c. cut_page k limit (keyset_asc k c (Suc limit) rows))"
  shows "concat (pages (Suc (length rows)) (serve m w) None) = map f (sort_key k rows) \<and>
     (\<forall>p \<in> set (pages (Suc (length rows)) (serve m w) None). length p \<le> limit)"
  using ascending.pages_complete [of k rows limit] assms(1,2)
  by (simp add: serves_page_pages [OF assms(3)] map_concat [symmetric])

section \<open>Organisations of a user\<close>

lemma distinct_org_keys:
  assumes "wf_db E d"
  shows "distinct (map org_cursor_key (orgs_of_user E d uid))"
proof (rule distinct_map_cursor)
  have "map (\<lambda>r. snd (org_cursor_key r)) (orgs_of_user E d uid) =
      map o_id (filter (\<lambda>org. list_ex (\<lambda>m. m_user m = uid \<and> m_org m = o_id org) (memberships d))
        (organisations d))"
    by (simp add: orgs_of_user_def org_cursor_key_def org_summary_def)
  with assms show "distinct (map (\<lambda>r. snd (org_cursor_key r)) (orgs_of_user E d uid))"
    by (simp add: wf_defs distinct_map_filter)
qed

lemma list_my_organisations_step:
  assumes "\<And>n. \<not> db_fault E n" and "cursor_codecs E"
  shows "serves_page (\<lambda>c. list_my_organisations E uid c lim) w (cursor_encode E OrganisationCursor) id
     (\<lambda>c. cut_page org_cursor_key (unat (clamp lim 1 100)) (keyset_desc org_cursor_key c
        (Suc (unat (clamp lim 1 100))) (orgs_of_user E (w_db w) uid)))"
  using assms unat_clamp(1) [of 1 100 lim]
  by (simp add: serves_page_def serve_def list_my_organisations_def list_for_user_def
      decode_cursor_encode bindE_def map_err_def query_def stmt_def Let_def split: prod.splits)

lemma list_my_organisations_pages:
  assumes "wf_db E (w_db w)" and "\<And>n. \<not> db_fault E n" and "cursor_codecs E"
  shows "concat (pages (Suc (length (orgs_of_user E (w_db w) uid)))
       (serve (\<lambda>c. list_my_organisations E uid c lim) w) None) =
       rev (sort_key org_cursor_key (orgs_of_user E (w_db w) uid)) \<and>
     (\<forall>p \<in> set (pages (Suc (length (orgs_of_user E (w_db w) uid)))
       (serve (\<lambda>c. list_my_organisations E uid c lim) w) None). length p \<le> unat (clamp lim 1 100))"
  using descending_complete [OF distinct_org_keys [OF assms(1)] _
      list_my_organisations_step [OF assms(2,3)], of lim] unat_clamp(2) [of 1 100 lim]
  by simp

section \<open>Members of an organisation\<close>

lemma distinct_member_keys:
  assumes "wf_db E d"
  shows "distinct (map member_cursor_key (members_of_org E d oid))"
proof (rule distinct_map_cursor)
  have "map (\<lambda>r. snd (member_cursor_key r)) (members_of_org E d oid) =
      map u_id (filter (\<lambda>u. list_ex (\<lambda>m. m_user m = u_id u \<and> m_org m = oid) (memberships d)) (users d))"
    by (simp add: members_of_org_def member_cursor_key_def member_row_def Let_def)
  with assms show "distinct (map (\<lambda>r. snd (member_cursor_key r)) (members_of_org E d oid))"
    by (simp add: wf_defs distinct_map_filter)
qed

lemma list_organisation_members_step:
  assumes "\<And>n. \<not> db_fault E n" and "cursor_codecs E" and "op \<or> member caller oid (w_db w)"
  shows "serves_page (\<lambda>c. list_organisation_members E caller op oid c lim) w
     (cursor_encode E MembershipCursor) id
     (\<lambda>c. cut_page member_cursor_key (unat (clamp lim 1 100)) (keyset_desc member_cursor_key c
        (Suc (unat (clamp lim 1 100))) (members_of_org E (w_db w) oid)))"
  using assms unat_clamp(1) [of 1 100 lim]
  by (auto simp: serves_page_def serve_def list_organisation_members_def list_members_def is_member_def
      decode_cursor_encode bindE_def map_err_def query_def stmt_def Let_def split: prod.splits)

lemma list_organisation_members_pages:
  assumes "wf_db E (w_db w)" and "\<And>n. \<not> db_fault E n" and "cursor_codecs E"
    and "op \<or> member caller oid (w_db w)"
  shows "concat (pages (Suc (length (members_of_org E (w_db w) oid)))
       (serve (\<lambda>c. list_organisation_members E caller op oid c lim) w) None) =
       rev (sort_key member_cursor_key (members_of_org E (w_db w) oid)) \<and>
     (\<forall>p \<in> set (pages (Suc (length (members_of_org E (w_db w) oid)))
       (serve (\<lambda>c. list_organisation_members E caller op oid c lim) w) None).
         length p \<le> unat (clamp lim 1 100))"
  using descending_complete [OF distinct_member_keys [OF assms(1)] _
      list_organisation_members_step [OF assms(2-4)], of lim] unat_clamp(2) [of 1 100 lim]
  by simp

section \<open>Channels\<close>

lemma distinct_channel_keys:
  "wf_db E d \<Longrightarrow> distinct (map channel_cursor_key (channels_of_org oid d))"
  by (rule distinct_map_cursor)
    (simp add: channels_of_org_def channel_cursor_key_def wf_defs distinct_map_filter)

text \<open>\<^verbatim>\<open>limit + 1\<close> is a wrapping addition in a release build: the page must be below \<^verbatim>\<open>u32::MAX\<close>.\<close>

lemma list_inbound_channels_step:
  assumes "\<And>n. \<not> db_fault E n" and "cursor_codecs E" and "unat lim < 2 ^ 32 - 1"
  shows "serves_page (\<lambda>c. list_inbound_channels E oid c lim) w (cursor_encode E ChannelCursor) id
     (\<lambda>c. cut_page channel_cursor_key (unat lim) (keyset_desc channel_cursor_key c
        (Suc (unat lim)) (channels_of_org oid (w_db w))))"
  using assms unat_suc_u32 [OF assms(3)]
  by (auto simp: serves_page_def serve_def list_inbound_channels_def channel_list_def
      decode_cursor_encode bindE_def map_err_def query_def stmt_def Let_def split: prod.splits)

lemma list_inbound_channels_pages:
  assumes "wf_db E (w_db w)" and "\<And>n. \<not> db_fault E n" and "cursor_codecs E"
    and "0 < unat lim" and "unat lim < 2 ^ 32 - 1"
  shows "concat (pages (Suc (length (channels_of_org oid (w_db w))))
       (serve (\<lambda>c. list_inbound_channels E oid c lim) w) None) =
       rev (sort_key channel_cursor_key (channels_of_org oid (w_db w))) \<and>
     (\<forall>p \<in> set (pages (Suc (length (channels_of_org oid (w_db w))))
       (serve (\<lambda>c. list_inbound_channels E oid c lim) w) None). length p \<le> unat lim)"
  using descending_complete [OF distinct_channel_keys [OF assms(1)] _
      list_inbound_channels_step [OF assms(2,3,5)], of oid] assms(4)
  by simp

section \<open>Users\<close>

text \<open>A row as \<^verbatim>\<open>list_users\<close> shows it: an ordinary caller sees memberships in its own organisation only.\<close>

definition user_view :: "env \<Rightarrow> bool \<Rightarrow> uuid option \<Rightarrow> db \<Rightarrow> user \<Rightarrow> user_with_memberships" where
  "user_view E op own d u =
     \<lparr> uw_id = u_id u, uw_username = u_username u, uw_email = u_email u,
       uw_created_at = u_created_at u,
       uw_memberships =
         (case own of
            Some org \<Rightarrow> (if op then user_memberships E d (u_id u)
                         else filter (\<lambda>m. um_org_id m = org) (user_memberships E d (u_id u)))
          | None \<Rightarrow> user_memberships E d (u_id u)) \<rparr>"

lemma filter_grouped:
  "distinct xs \<Longrightarrow>
   map snd (filter (\<lambda>p. fst p = x) (concat (map (\<lambda>y. map (Pair y) (g y)) xs))) =
   (if x \<in> set xs then g x else [])"
  by (induction xs) (auto simp: filter_map o_def filter_empty_conv)

lemma distinct_user_keys: "wf_db E d \<Longrightarrow> distinct (map user_cursor_key (users_matching E oo q d))"
  by (rule distinct_map_cursor)
    (simp add: users_matching_def user_cursor_key_def wf_defs distinct_map_filter)

lemma list_users_step:
  assumes "\<And>n. \<not> db_fault E n" and "cursor_codecs E" and "unat (lu_limit i) < 2 ^ 32 - 1"
  shows "serves_page (\<lambda>c. list_users E op own (i\<lparr>lu_after := c\<rparr>)) w (cursor_encode E UserCursor)
     (user_view E op own (w_db w))
     (\<lambda>c. cut_page user_cursor_key (unat (lu_limit i)) (keyset_asc user_cursor_key c
        (Suc (unat (lu_limit i)))
        (users_matching E (if op then lu_org_id i else own) (lu_q i) (w_db w))))"
proof -
  have sat: "unat (saturating_add (lu_limit i) 1) = Suc (unat (lu_limit i))"
    using assms(3) by (simp add: unat_saturating_add)
  show ?thesis
    unfolding serves_page_def
  proof
    fix c
    let ?pg = "cut_page user_cursor_key (unat (lu_limit i)) (keyset_asc user_cursor_key c
        (Suc (unat (lu_limit i)))
        (users_matching E (if op then lu_org_id i else own) (lu_q i) (w_db w)))"
    obtain us nxt where pg: "?pg = (us, nxt)" by (meson surj_pair)
    show "serve (\<lambda>c. list_users E op own (i\<lparr>lu_after := c\<rparr>)) w (map_option (cursor_encode E UserCursor) c) =
        (map (user_view E op own (w_db w)) (fst ?pg), map_option (cursor_encode E UserCursor) (snd ?pg))"
    proof (cases "us = []")
      case True
      with assms(1,2) sat pg show ?thesis
        by (cases op) (simp_all add: serve_def list_users_def repo_list_users_def list_memberships_for_users_def
            decode_cursor_encode bindE_def map_err_def query_def stmt_def Let_def)
    next
      case False
      with assms(1,2) sat pg show ?thesis
        by (cases op) (auto simp: serve_def list_users_def repo_list_users_def list_memberships_for_users_def
            decode_cursor_encode bindE_def map_err_def query_def stmt_def Let_def filter_grouped
            user_view_def split: option.splits)
    qed
  qed
qed

lemma list_users_pages:
  fixes E op own i w
  defines "rows \<equiv> users_matching E (if op then lu_org_id i else own) (lu_q i) (w_db w)"
  assumes "wf_db E (w_db w)" and "\<And>n. \<not> db_fault E n" and "cursor_codecs E"
    and "0 < unat (lu_limit i)" and "unat (lu_limit i) < 2 ^ 32 - 1"
  shows "concat (pages (Suc (length rows)) (serve (\<lambda>c. list_users E op own (i\<lparr>lu_after := c\<rparr>)) w) None) =
       map (user_view E op own (w_db w)) (sort_key user_cursor_key rows) \<and>
     (\<forall>p \<in> set (pages (Suc (length rows)) (serve (\<lambda>c. list_users E op own (i\<lparr>lu_after := c\<rparr>)) w) None).
        length p \<le> unat (lu_limit i))"
  unfolding rows_def
  by (rule ascending_complete [OF distinct_user_keys [OF assms(2)] assms(5)
      list_users_step [OF assms(3,4,6)]])

section \<open>Audit events\<close>

lemma collect_all:
  "\<forall>r \<in> set rs. \<exists>e. f r = Ok e \<Longrightarrow> collect f rs = Ok (map (\<lambda>r. projr (f r)) rs)"
  by (induction rs) auto

lemma distinct_audit_keys: "wf_db E d \<Longrightarrow> distinct (map audit_cursor_key (audit_rows f d))"
  by (rule distinct_map_cursor)
    (simp add: audit_rows_def audit_cursor_key_def wf_defs distinct_map_filter)

lemma event_of_row_key:
  "event_of_row r = Ok e \<Longrightarrow> (ev_occurred_at e, ev_id e) = audit_cursor_key r"
  by (auto simp: event_of_row_def audit_cursor_key_def split: option.splits)

lemma keyset_desc_subset: "set (keyset_desc k c n rows) \<subseteq> set rows"
  by (auto simp: keyset_desc_def dest!: in_set_takeD split: option.splits)

lemma list_events_page:
  assumes "\<And>n. \<not> db_fault E n" and "0 < aq_limit f"
    and "\<forall>r \<in> set (audit_rows f (w_db w)). \<exists>e. event_of_row r = Ok e"
  shows "\<exists>w'. list_events E f w =
     (case cut_page audit_cursor_key (nat (aq_limit f)) (keyset_desc audit_cursor_key (aq_cursor f)
        (Suc (nat (aq_limit f))) (audit_rows f (w_db w))) of
        (rows, nxt) \<Rightarrow> (Ok (map (\<lambda>r. projr (event_of_row r)) rows, nxt), w'))"
proof -
  let ?l = "nat (aq_limit f)"
  let ?rows = "keyset_desc audit_cursor_key (aq_cursor f) (Suc ?l) (audit_rows f (w_db w))"
  have readable: "\<forall>r \<in> set (take ?l ?rows). \<exists>e. event_of_row r = Ok e"
    using assms(3) keyset_desc_subset [of audit_cursor_key "aq_cursor f" "Suc ?l" "audit_rows f (w_db w)"]
    by (auto dest!: in_set_takeD)
  have last: "(ev_occurred_at (projr (event_of_row (last xs))), ev_id (projr (event_of_row (last xs)))) =
      audit_cursor_key (last xs)" if "xs \<noteq> []" "\<forall>r \<in> set xs. \<exists>e. event_of_row r = Ok e" for xs
    using that event_of_row_key [of "last xs"] by fastforce
  have n: "nat (aq_limit f + 1) = Suc ?l" "aq_limit f < int m \<longleftrightarrow> ?l < m" for m
    using assms(2) by auto
  show ?thesis
    using assms(1,2) readable last [of "take ?l ?rows"]
    by (auto simp: list_events_def bindE_def map_err_def query_def stmt_def Let_def n collect_all
        cut_page_def last_map)
qed

lemma list_audit_events_step:
  fixes E req own perms w oid
  defines "limit \<equiv> clamp (case la_limit req of None \<Rightarrow> 100 | Some n \<Rightarrow> n) 1 200"
  defines "rows \<equiv> audit_rows (audit_filter req oid None) (w_db w)"
  assumes "\<And>n. \<not> db_fault E n" and "cursor_codecs E"
    and org: "effective_org_filter req own perms = Ok oid"
    and readable: "\<forall>r \<in> set rows. \<exists>e. event_of_row r = Ok e"
  shows "serves_page (\<lambda>c. list_audit_events E (req\<lparr>la_cursor := c\<rparr>) own perms) w
     (cursor_encode E AuditCursor) (\<lambda>r. projr (event_of_row r))
     (\<lambda>c. cut_page audit_cursor_key (nat limit) (keyset_desc audit_cursor_key c (Suc (nat limit)) rows))"
  unfolding serves_page_def
proof
  fix c
  let ?f = "audit_filter req oid c"
  have f: "audit_filter (req\<lparr>la_cursor := x\<rparr>) oid c = ?f" for x by (simp add: audit_filter_def)
  have eff: "effective_org_filter (req\<lparr>la_cursor := x\<rparr>) own perms = Ok oid" for x
  proof -
    have "effective_org_filter (req\<lparr>la_cursor := x\<rparr>) own perms = effective_org_filter req own perms"
      by (simp add: effective_org_filter_def)
    with org show ?thesis by simp
  qed
  have lim: "aq_limit ?f = limit" "0 < limit" "aq_cursor ?f = c"
    by (auto simp: audit_filter_def limit_def clamp_def)
  have rows: "audit_rows ?f (w_db w) = rows"
    by (simp add: rows_def audit_rows_def audit_matches_def [abs_def] audit_filter_def)
  have dec: "(case map_option (cursor_encode E AuditCursor) c of None \<Rightarrow> Ok None
      | Some s \<Rightarrow> (case cursor_decode E AuditCursor s of
          None \<Rightarrow> Err (Validation [(''cursor'', [''invalid''])]) | Some c \<Rightarrow> Ok (Some c))) = Ok c"
    using assms(4) by (cases c) (auto simp: cursor_decode_encode)
  obtain w' where "list_events E ?f w =
     (case cut_page audit_cursor_key (nat limit) (keyset_desc audit_cursor_key c (Suc (nat limit)) rows)
      of (rows, nxt) \<Rightarrow> (Ok (map (\<lambda>r. projr (event_of_row r)) rows, nxt), w'))"
    using list_events_page [OF assms(3), of ?f w] lim rows readable by auto
  then show "serve (\<lambda>c. list_audit_events E (req\<lparr>la_cursor := c\<rparr>) own perms) w
      (map_option (cursor_encode E AuditCursor) c) =
    (map (\<lambda>r. projr (event_of_row r)) (fst (cut_page audit_cursor_key (nat limit)
       (keyset_desc audit_cursor_key c (Suc (nat limit)) rows))),
     map_option (cursor_encode E AuditCursor) (snd (cut_page audit_cursor_key (nat limit)
       (keyset_desc audit_cursor_key c (Suc (nat limit)) rows))))"
    using dec by (simp add: serve_def list_audit_events_def eff f bindE_def map_err_def
        split: prod.splits)
qed

lemma list_audit_events_pages:
  fixes E req own perms w oid
  defines "limit \<equiv> clamp (case la_limit req of None \<Rightarrow> 100 | Some n \<Rightarrow> n) 1 200"
  defines "rows \<equiv> audit_rows (audit_filter req oid None) (w_db w)"
  assumes "wf_db E (w_db w)" and "\<And>n. \<not> db_fault E n" and "cursor_codecs E"
    and "effective_org_filter req own perms = Ok oid"
    and "\<forall>r \<in> set rows. \<exists>e. event_of_row r = Ok e"
  shows "concat (pages (Suc (length rows))
       (serve (\<lambda>c. list_audit_events E (req\<lparr>la_cursor := c\<rparr>) own perms) w) None) =
       map (\<lambda>r. projr (event_of_row r)) (rev (sort_key audit_cursor_key rows)) \<and>
     (\<forall>p \<in> set (pages (Suc (length rows))
       (serve (\<lambda>c. list_audit_events E (req\<lparr>la_cursor := c\<rparr>) own perms) w) None). length p \<le> nat limit)"
  using list_audit_events_step [OF assms(4-6), of w] distinct_audit_keys [OF assms(3)] assms(7)
  unfolding rows_def limit_def
  by (intro descending_complete) (auto simp: clamp_def)

section \<open>Service accounts\<close>

definition accounts_of_org :: "uuid \<Rightarrow> db \<Rightarrow> service_account list" where
  "accounts_of_org oid d = filter (\<lambda>s. sa_organisation_id s = oid) (service_accounts d)"

lemma distinct_sa_keys: "wf_db E d \<Longrightarrow> distinct (map sa_cursor_key (accounts_of_org oid d))"
  by (rule distinct_map_cursor)
    (simp add: accounts_of_org_def sa_cursor_key_def wf_defs distinct_map_filter)

lemma list_service_accounts_Ok:
  assumes "list_service_accounts E oid lim after w = (Ok (items, nxt), w')"
  shows "\<exists>rows. rows = keyset_asc sa_cursor_key after (Suc (unat (clamp lim 1 200)))
       (accounts_of_org oid (w_db w)) \<and> w_db w' = w_db w \<and>
     (items, nxt) = (if unat (clamp lim 1 200) < length rows
        then (butlast rows, Some (sa_cursor_key (last rows))) else (rows, None))"
proof -
  have "unat (clamp lim 1 200 + 1) = Suc (unat (clamp lim 1 200))"
    using unat_clamp(3) [of 1 200 lim] by (intro unat_suc_u32) simp
  with assms show ?thesis
    by (auto simp: list_service_accounts_def sa_list_def accounts_of_org_def action_ok_simps Let_def
        split: if_splits)
qed

lemma in_keyset_asc:
  "r \<in> set (keyset_asc k c n rows) \<Longrightarrow> r \<in> set rows \<and> (\<forall>x. c = Some x \<longrightarrow> x < k r)"
  by (auto simp: keyset_asc_def dest!: in_set_takeD split: option.splits)

lemma keyset_asc_strict:
  assumes "distinct (map k rows)"
  shows "sorted_wrt (\<lambda>r s. k r < k s) (keyset_asc k c n rows)"
proof -
  have "distinct (map k (filter P rows))" for P using assms by (simp add: distinct_map_filter)
  then show ?thesis
    unfolding keyset_asc_def by (intro sorted_wrt_take sort_key_strict)
qed

text \<open>
  The account whose key the first page hands out is on neither that page nor the next, while
  the first page ends before it and the next one begins behind it.
\<close>

lemma list_service_accounts_skips:
  assumes wf: "wf_db E (w_db w)"
    and p1: "list_service_accounts E oid lim after w = (Ok (items, Some k), w1)"
    and p2: "list_service_accounts E oid lim' (Some k) w1 = (Ok (items', nxt'), w2)"
  shows "\<exists>s \<in> set (accounts_of_org oid (w_db w)). sa_cursor_key s = k \<and>
     (\<forall>x \<in> set items. sa_cursor_key x < sa_cursor_key s) \<and>
     (\<forall>x \<in> set items'. sa_cursor_key s < sa_cursor_key x)"
proof -
  let ?rows = "keyset_asc sa_cursor_key after (Suc (unat (clamp lim 1 200))) (accounts_of_org oid (w_db w))"
  from list_service_accounts_Ok [OF p1] have r1: "?rows \<noteq> []" "items = butlast ?rows"
    "k = sa_cursor_key (last ?rows)" and db: "w_db w1 = w_db w"
    by (auto split: if_splits)
  from list_service_accounts_Ok [OF p2] have "set items' \<subseteq> set (keyset_asc sa_cursor_key (Some k)
      (Suc (unat (clamp lim' 1 200))) (accounts_of_org oid (w_db w)))"
    by (auto simp: db split: if_splits dest: in_set_butlastD)
  then have behind: "\<forall>x \<in> set items'. k < sa_cursor_key x" by (auto dest!: in_keyset_asc)
  obtain ys y where ys: "?rows = ys @ [y]" using r1(1) by (cases ?rows rule: rev_cases) auto
  have "sorted_wrt (\<lambda>r s. sa_cursor_key r < sa_cursor_key s) (ys @ [y])"
    unfolding ys [symmetric] by (rule keyset_asc_strict [OF distinct_sa_keys [OF wf]])
  then have before: "\<forall>x \<in> set items. sa_cursor_key x < k"
    unfolding r1(2,3) ys by (simp add: sorted_wrt_append)
  have "last ?rows \<in> set (accounts_of_org oid (w_db w))"
    by (rule in_keyset_asc [OF last_in_set [OF r1(1)], THEN conjunct1])
  then show ?thesis
    using before behind r1(3) by (intro bexI [of _ "last ?rows"]) simp_all
qed

end
