(* ===== verification/SecurityFacts.thy ===== *)
theory SecurityFacts
  imports Integrity
begin

text \<open>
  What the security services promise, through the authentication layer that relies on them:
  a login yields a token the layer accepts with the permissions the user's roles grant, a
  logout makes it refuse that token, a freshly created API key authenticates as its service
  account and a revoked, rotated or deleted one never again; a password reset token works
  once and nobody has more than three of them pending.
\<close>

section \<open>The layer, from the front\<close>

text \<open>
  Where no statement fails the layer decides by the tables alone: these are the converses of
  \<open>handle_jwt_forward\<close> and \<open>handle_api_key_forward\<close>.
\<close>

lemma handle_jwt_accepts:
  assumes "\<And>n. \<not> db_fault E n"
    and "decode_access_token E secret issuer (timestamp (w_now w)) token = Ok c"
    and "\<not> revoked (cl_jti c) (w_now w) (w_db w)"
  shows "\<exists>w'. handle_jwt E (pg_strategies E ttl) secret issuer token x w =
     (Ok (Forward (x\<lparr> ext_claims := Some c,
        ext_perms := Some (set (granted_codes (w_db w) (cl_sub c) (cl_org c))),
        ext_caller := Some (UserCaller (cl_sub c) (cl_org c) (cl_jti c)) \<rparr>) None), w')"
  using assms
  by (simp add: handle_jwt_def pg_strategies_def pg_is_revoked_def pg_load_def bindE_def matchE_def
      map_err_def query_def stmt_def utc_now_def from_codes_def)

lemma handle_jwt_revoked:
  assumes "\<And>n. \<not> db_fault E n"
    and "decode_access_token E secret issuer (timestamp (w_now w)) token = Ok c"
    and "revoked (cl_jti c) (w_now w) (w_db w)"
  shows "fst (handle_jwt E (pg_strategies E ttl) secret issuer token x w) =
     Ok (Rejected (Unauthenticated ''token_revoked''))"
  using assms
  by (simp add: handle_jwt_def pg_strategies_def pg_is_revoked_def bindE_def matchE_def
      map_err_def query_def stmt_def utc_now_def)

section \<open>Login\<close>

lemma rehash_db:
  assumes "rehash E u p w = (r, w')"
  shows "r = Ok () \<and> w_now w' = w_now w \<and> w_draws w \<le> w_draws w' \<and>
     (w_db w' = w_db w \<or> (\<exists>n h. needs_rehash (u_password_hash u) \<and> argon2_hash E n p = Some h \<and>
        w_db w' = set_password_hash (u_id u) h (w_now w) (w_db w)))"
  using assms
  by (auto simp: rehash_def matchE_def hash_password_def bindE_def draw_def ok_or_def
      update_password_hash_def map_err_def stmt_def Let_def
      split: if_splits option.splits prod.splits sum.splits) blast

lemma set_password_hash_simps [simp]:
  "memberships (set_password_hash uid h now d) = memberships d"
  "organisations (set_password_hash uid h now d) = organisations d"
  "roles (set_password_hash uid h now d) = roles d"
  "permissions (set_password_hash uid h now d) = permissions d"
  "role_permissions (set_password_hash uid h now d) = role_permissions d"
  "revoked_tokens (set_password_hash uid h now d) = revoked_tokens d"
  "reset_tokens (set_password_hash uid h now d) = reset_tokens d"
  by (simp_all add: set_password_hash_def)

lemma user_memberships_password [simp]:
  "user_memberships E (set_password_hash uid h now d) u = user_memberships E d u"
  by (simp add: user_memberships_def membership_group_def [abs_def] role_codes_of_def [abs_def])

lemma granted_codes_password [simp]:
  "granted_codes (set_password_hash uid h now d) u = granted_codes d u"
  by (simp add: granted_codes_def [abs_def])

text \<open>
  A login that succeeds found the user, verified the password and issued a token for the
  organisation the user joined first; of the tables only the user's hash may have changed.
\<close>

lemma login_Ok:
  assumes "login E jc name pw w = (Ok out, w')"
  shows "\<exists>u m ms w1. find (\<lambda>u. u_username u = name \<or> email_param_eq E (u_email u) name) (users (w_db w))
       = Some u \<and>
     argon2_verify E pw (u_password_hash u) = Some True \<and>
     lo_user_id out = u_id u \<and> lo_memberships out = user_memberships E (w_db w) (u_id u) \<and>
     lo_memberships out = m # ms \<and> lo_active_org_id out = um_org_id m \<and>
     w_draws w \<le> w_draws w1 \<and> w_now w1 = w_now w \<and>
     fst (encode_access_token E (jc_secret jc) (jc_issuer jc) (u_id u) (um_org_id m) (jc_ttl_secs jc) w1)
       = Ok (lo_token out) \<and>
     w_now w' = w_now w \<and>
     (w_db w' = w_db w \<or> (\<exists>n h. needs_rehash (u_password_hash u) \<and> argon2_hash E n pw = Some h \<and>
        w_db w' = set_password_hash (u_id u) h (w_now w) (w_db w)))"
proof -
  from assms obtain u w0 w1 mems where
    u: "find (\<lambda>u. u_username u = name \<or> email_param_eq E (u_email u) name) (users (w_db w)) = Some u"
    and v: "argon2_verify E pw (u_password_hash u) = Some True"
    and w0: "w0 = w\<lparr>w_stmts := Suc (w_stmts w)\<rparr>"
    and rh: "rehash E u pw w0 = (Ok () :: login_error + unit, w1)"
    and mems: "user_memberships E (w_db w1) (u_id u) = mems"
    and rest: "(case mems of [] \<Rightarrow> fail LgNoOrganisation
      | m # _ \<Rightarrow> bindE (map_err LgInternal (encode_access_token E (jc_secret jc) (jc_issuer jc)
            (u_id u) (um_org_id m) (jc_ttl_secs jc))) (\<lambda>token.
          bindE (audit E (\<lambda>eid now. login_success eid now (u_id u) (um_org_id m))) (\<lambda>_.
          ret \<lparr> lo_token = token, lo_user_id = u_id u, lo_active_org_id = um_org_id m,
                lo_memberships = mems \<rparr>))) (w1\<lparr>w_stmts := Suc (w_stmts w1)\<rparr>) = (Ok out, w')"
    by (auto simp: login_def find_by_username_or_email_def verify_password_def list_memberships_def
        bindE_eq_Ok_iff query_Ok_iff audit_eq_iff ok_or_def split: option.split_asm if_split_asm)
  from rest mems obtain m ms w2 where ms: "user_memberships E (w_db w1) (u_id u) = m # ms"
    and tok: "encode_access_token E (jc_secret jc) (jc_issuer jc) (u_id u) (um_org_id m) (jc_ttl_secs jc)
       (w1\<lparr>w_stmts := Suc (w_stmts w1)\<rparr>) = (Ok (lo_token out), w2)"
    and out: "lo_user_id out = u_id u" "lo_active_org_id out = um_org_id m" "lo_memberships out = m # ms"
    and w': "w_db w' = w_db w2" "w_now w' = w_now w2"
    by (cases mems) (auto simp: bindE_eq_Ok_iff audit_eq_iff)
  have "w_db w2 = w_db w1" "w_now w2 = w_now w1"
    using tok by (auto simp: encode_access_token_def action_ok_simps Let_def)
  with rehash_db [OF rh] w0 have db: "w_now w' = w_now w"
    "w_db w' = w_db w \<or> (\<exists>n h. needs_rehash (u_password_hash u) \<and> argon2_hash E n pw = Some h \<and>
        w_db w' = set_password_hash (u_id u) h (w_now w) (w_db w))"
    and w1: "w_draws w \<le> w_draws w1" "w_now w1 = w_now w" "w_db w1 = w_db w'"
    using w' by auto
  have "user_memberships E (w_db w) (u_id u) = m # ms"
    using db(2) ms w1(3) by auto
  with u v out db w1 tok show ?thesis
    by (intro exI [of _ u] exI [of _ m] exI [of _ ms] exI [of _ "w1\<lparr>w_stmts := Suc (w_stmts w1)\<rparr>"]) auto
qed

text \<open>
  The token of a login is good for the layer until it expires, with the permissions the
  user's roles grant in the active organisation. The hypothesis on the generator is that it
  hands out no id twice: none it still has to draw is in the revocation table.
\<close>

lemma login_authenticates:
  assumes "\<And>n. \<not> db_fault E n" and "jwt_roundtrip E" and "0 \<le> jc_ttl_secs jc"
    and run: "login E jc name pw w = (Ok out, w')"
    and fresh: "\<And>n. w_draws w \<le> n \<Longrightarrow> uuid_v7 E n \<notin> rv_jti ` set (revoked_tokens (w_db w))"
  shows "\<exists>x' jti w''. handle_jwt E (pg_strategies E ttl) (jc_secret jc) (jc_issuer jc) (lo_token out) x w' =
       (Ok (Forward x' None), w'') \<and>
     ext_caller x' = Some (UserCaller (lo_user_id out) (lo_active_org_id out) jti) \<and>
     ext_perms x' = Some (set (granted_codes (w_db w) (lo_user_id out) (lo_active_org_id out)))"
proof -
  from login_Ok [OF run] obtain u :: user and m :: user_membership and w1 :: world where
    ids: "lo_user_id out = u_id u" "lo_active_org_id out = um_org_id m"
    and w1: "w_draws w \<le> w_draws w1" "w_now w1 = w_now w"
    and enc: "fst (encode_access_token E (jc_secret jc) (jc_issuer jc) (u_id u) (um_org_id m)
       (jc_ttl_secs jc) w1) = Ok (lo_token out)"
    and w': "w_now w' = w_now w"
    and db: "w_db w' = w_db w \<or> (\<exists>n h. needs_rehash (u_password_hash u) \<and>
        argon2_hash E n pw = Some h \<and> w_db w' = set_password_hash (u_id u) h (w_now w) (w_db w))"
    by (elim exE conjE) (rule that)
  obtain v where "encode_access_token E (jc_secret jc) (jc_issuer jc) (u_id u) (um_org_id m)
      (jc_ttl_secs jc) w1 = (Ok (lo_token out), v)"
    using enc by (metis prod.collapse)
  from decode_encode_access_token [OF assms(2) this, of "timestamp (w_now w')"] obtain c where
    dec: "decode_access_token E (jc_secret jc) (jc_issuer jc) (timestamp (w_now w')) (lo_token out) = Ok c"
    and c: "cl_sub c = u_id u" "cl_org c = um_org_id m" "cl_jti c = uuid_v7 E (w_draws w1)"
    using assms(3) w1 w' by auto
  have "revoked_tokens (w_db w') = revoked_tokens (w_db w)"
    and perms: "granted_codes (w_db w') = granted_codes (w_db w)"
    using db by (auto simp: fun_eq_iff)
  then have "\<not> revoked (cl_jti c) (w_now w') (w_db w')"
    using fresh [OF w1(1)] c(3) by (auto simp: revoked_def list_ex_iff image_iff)
  from handle_jwt_accepts [OF assms(1) dec this, of ttl x] c ids perms show ?thesis by auto
qed

text \<open>
  What a failed login tells the caller: the same thing whether the user exists or not, and
  the tables are as before.
\<close>

lemma login_refused:
  assumes "\<And>n. \<not> db_fault E n"
    and "\<And>u. find (\<lambda>u. u_username u = name \<or> email_param_eq E (u_email u) name) (users (w_db w)) = Some u \<Longrightarrow>
       argon2_verify E pw (u_password_hash u) = Some False"
  shows "\<exists>w' eid why. login E jc name pw w = (Err LgInvalidCredentials, w') \<and> w_db w' = w_db w \<and>
     w_audit w' = enqueued w (login_failed eid (w_now w) why name)"
  using assms
  by (cases "find (\<lambda>u. u_username u = name \<or> email_param_eq E (u_email u) name) (users (w_db w))")
    (auto simp: login_def find_by_username_or_email_def verify_password_def bindE_def map_err_def
      query_def stmt_def audit_eq enqueued_def)

text \<open>A service account has no password, but trying to log in as one is answered as a server error.\<close>

lemma login_service_account:
  assumes "\<not> db_fault E (w_stmts w)"
    and "find (\<lambda>u. u_username u = name \<or> email_param_eq E (u_email u) name) (users (w_db w)) = Some u"
    and "argon2_verify E pw (u_password_hash u) = None"
  shows "\<exists>w'. login E jc name pw w = (Err (LgInternal opaque), w') \<and> w_audit w' = w_audit w"
  using assms
  by (simp add: login_def find_by_username_or_email_def verify_password_def bindE_def map_err_def
      query_def stmt_def)

section \<open>Logout\<close>

lemma logout_Ok:
  assumes "logout E uid oid jti t w = (Ok (), w')"
  shows "w_now w' = w_now w \<and> (jti \<in> rv_jti ` set (revoked_tokens (w_db w)) \<and> w_db w' = w_db w \<or>
     jti \<notin> rv_jti ` set (revoked_tokens (w_db w)) \<and>
     w_db w' = (w_db w)\<lparr>revoked_tokens := revoked_tokens (w_db w) @
       [\<lparr> rv_jti = jti, rv_user_id = uid, rv_expires_at = t \<rparr>]\<rparr>)"
  using assms
  by (auto simp: logout_def tokens_revoke_def insert_revoked_if_new_def action_ok_simps audit_eq_iff
      split: if_splits)

section \<open>Switching organisation\<close>

lemma switch_org_Ok:
  assumes "jwt_roundtrip E" and "switch_org E jc uid cur target w = (Ok tok, w')"
    and "now \<le> timestamp (w_now w) + jc_ttl_secs jc"
  shows "member uid target (w_db w) \<and> w_db w' = w_db w \<and>
     (\<exists>c. decode_access_token E (jc_secret jc) (jc_issuer jc) now tok = Ok c \<and>
        cl_sub c = uid \<and> cl_org c = target)"
proof -
  from assms(2) obtain w1 w2 where mem: "member uid target (w_db w)"
    and w1: "w1 = w\<lparr>w_stmts := Suc (w_stmts w)\<rparr>"
    and enc: "encode_access_token E (jc_secret jc) (jc_issuer jc) uid target (jc_ttl_secs jc) w1 = (Ok tok, w2)"
    and w': "w_db w' = w_db w2"
    by (auto simp: switch_org_def is_member_def bindE_eq_Ok_iff query_Ok_iff audit_eq_iff split: if_splits)
  have "w_db w2 = w_db w1" using enc by (auto simp: encode_access_token_def action_ok_simps Let_def)
  with decode_encode_access_token [OF assms(1) enc, of now] mem w1 w' assms(3) show ?thesis by auto
qed

section \<open>Changing a password\<close>

lemma change_password_Ok:
  assumes "argon2_correct E" and "change_password E uid p q w = (Ok (), w')"
  shows "8 \<le> length q \<and> (\<exists>u h. find (\<lambda>u. u_id u = uid) (users (w_db w)) = Some u \<and>
     argon2_verify E p (u_password_hash u) = Some True \<and> argon2_verify E q h = Some True \<and>
     w_db w' = set_password_hash uid h (w_now w) (w_db w))"
  using assms
  by (auto simp: change_password_def find_by_id_def verify_password_def hash_password_def
      update_password_hash_def argon2_correct_def action_ok_simps audit_eq_iff ok_or_def
      split: if_split_asm option.split_asm)

section \<open>Resetting a password\<close>

lemma insert_reset_token_Ok:
  "insert_reset_token t d = Ok d' \<Longrightarrow>
   d' = d\<lparr>reset_tokens := reset_tokens d @ [t]\<rparr> \<and> t_token_hash t \<notin> t_token_hash ` set (reset_tokens d)"
  by (auto simp: insert_reset_token_def split: if_splits)

lemma oldest_pending_in:
  assumes "filter (pending uid now) (reset_tokens d) \<noteq> []"
  shows "\<exists>t \<in> set (reset_tokens d). pending uid now t \<and> oldest_pending uid now d = Some (t_id t)"
proof -
  obtain t ts where t: "sort_key t_created_at (filter (pending uid now) (reset_tokens d)) = t # ts"
    using assms by (cases "sort_key t_created_at (filter (pending uid now) (reset_tokens d))")
      (auto dest: arg_cong [where f = length])
  then have "t \<in> set (filter (pending uid now) (reset_tokens d))"
    by (metis list.set_intros(1) set_sort)
  with t show ?thesis by (auto simp: oldest_pending_def)
qed

lemma length_filter_strict:
  assumes "x \<in> set xs" "P x" "\<not> Q x"
  shows "length (filter P (filter Q xs)) < length (filter P xs)"
proof -
  have "length (filter Q (filter P xs)) < length (filter P xs)"
    using assms by (intro length_filter_less [of x]) auto
  moreover have "filter P (filter Q xs) = filter Q (filter P xs)"
    by (simp add: conj_commute)
  ultimately show ?thesis by simp
qed

text \<open>
  A user who has at most three pending tokens still has at most three after another request:
  the oldest makes room.
\<close>

lemma tokens_insert_Ok:
  assumes "tokens_insert E uid th t w = (Ok tok, w')"
  shows "\<exists>rest. w_db w' = (w_db w)\<lparr>reset_tokens := rest @ [tok]\<rparr> \<and>
     (rest = reset_tokens (w_db w) \<and> length (filter (pending uid (w_now w)) rest) < MAX_PENDING_TOKENS_PER_USER \<or>
      rest = filter (\<lambda>t. Some (t_id t) \<noteq> oldest_pending uid (w_now w) (w_db w)) (reset_tokens (w_db w)) \<and>
      MAX_PENDING_TOKENS_PER_USER \<le> length (filter (pending uid (w_now w)) (reset_tokens (w_db w)))) \<and>
     t_token_hash tok = th \<and> t_user_id tok = uid \<and> t_expires_at tok = t \<and> t_used_at tok = None \<and>
     th \<notin> t_token_hash ` set rest \<and> w_now w' = w_now w"
  using assms
  by (auto simp: tokens_insert_def count_pending_for_user_def action_ok_simps Let_def
      split: if_splits dest!: insert_reset_token_Ok)

lemma pending_bound:
  assumes run: "tokens_insert E uid th t w = (Ok tok, w')"
    and le: "length (filter (pending uid (w_now w)) (reset_tokens (w_db w))) \<le> 3"
  shows "length (filter (pending uid (w_now w)) (reset_tokens (w_db w'))) \<le> 3"
proof -
  from tokens_insert_Ok [OF run] obtain rest where
    db: "reset_tokens (w_db w') = rest @ [tok]"
    and rest: "rest = reset_tokens (w_db w) \<and> length (filter (pending uid (w_now w)) rest) < 3 \<or>
      rest = filter (\<lambda>t. Some (t_id t) \<noteq> oldest_pending uid (w_now w) (w_db w)) (reset_tokens (w_db w)) \<and>
      3 \<le> length (filter (pending uid (w_now w)) (reset_tokens (w_db w)))"
    by (auto simp: MAX_PENDING_TOKENS_PER_USER_def)
  have "length (filter (pending uid (w_now w)) rest) < 3"
  proof (cases "rest = reset_tokens (w_db w) \<and> length (filter (pending uid (w_now w)) rest) < 3")
    case False
    with rest have r: "rest = filter (\<lambda>t. Some (t_id t) \<noteq> oldest_pending uid (w_now w) (w_db w))
        (reset_tokens (w_db w))" and "filter (pending uid (w_now w)) (reset_tokens (w_db w)) \<noteq> []"
      by auto
    from oldest_pending_in [OF this(2)] obtain o_t where "o_t \<in> set (reset_tokens (w_db w))"
      "pending uid (w_now w) o_t" "oldest_pending uid (w_now w) (w_db w) = Some (t_id o_t)" by blast
    then have "length (filter (pending uid (w_now w)) rest) <
        length (filter (pending uid (w_now w)) (reset_tokens (w_db w)))"
      unfolding r by (intro length_filter_strict [of o_t]) auto
    with le show ?thesis by simp
  qed blast
  then show ?thesis unfolding db by simp
qed

text \<open>A confirmation that succeeds used up a token that was valid and set the password of its owner.\<close>

lemma password_reset_confirm_Ok:
  assumes "argon2_correct E" and "password_reset_confirm E raw pw w = (Ok (), w')"
  shows "\<exists>bytes t h. hex_decode E raw = Some bytes \<and> 8 \<le> length pw \<and>
     valid_token (hex_encode E (sha256 E bytes)) (w_now w) (w_db w) = Some t \<and>
     argon2_verify E pw h = Some True \<and>
     w_db w' = consume_row (t_id t) (w_now w) (set_password_hash (t_user_id t) h (w_now w) (w_db w)) \<and>
     w_now w' = w_now w"
  using assms
  by (auto simp: password_reset_confirm_def find_valid_def hash_password_def update_password_hash_def
      consume_def argon2_correct_def action_ok_simps audit_eq_iff ok_or_def Let_def
      split: if_split_asm option.split_asm)

text \<open>The link of a request is good for its confirmation: request and confirm round-trip.\<close>

lemma reset_request_confirm:
  assumes "\<And>n. \<not> db_fault E n" and "argon2_correct E" and "\<And>n. argon2_hash E n pw \<noteq> None"
    and hex: "hex_roundtrip E"
    and "0 < ttl" and "8 \<le> length pw"
    and req: "password_reset_request E ttl email w = (Ok (Some raw), w1)"
  shows "\<exists>u w2. find (\<lambda>u. u_username u = email \<or> email_param_eq E (u_email u) email) (users (w_db w)) = Some u \<and>
     password_reset_confirm E raw pw w1 = (Ok (), w2) \<and>
     (\<forall>x \<in> set (users (w_db w2)). u_id x = u_id u \<longrightarrow> argon2_verify E pw (u_password_hash x) = Some True)"
proof -
  from req obtain u bytes n tok v v' where
    u: "find (\<lambda>u. u_username u = email \<or> email_param_eq E (u_email u) email) (users (w_db w)) = Some u"
    and raw: "raw = hex_encode E bytes" and bytes: "bytes = random_bytes E n 32"
    and ins: "tokens_insert E (u_id u) (hex_encode E (sha256 E bytes)) (w_now w + seconds ttl) v = (Ok tok, v')"
    and v: "w_now v = w_now w" "w_db v = w_db w" and w1: "w_db w1 = w_db v'" "w_now w1 = w_now v'"
    by (auto simp: password_reset_request_def find_by_username_or_email_def bindE_eq_Ok_iff query_Ok_iff
        draw_eq_iff utc_now_eq_iff audit_eq_iff Let_def split: option.split_asm)
  let ?th = "hex_encode E (sha256 E bytes)"
  from tokens_insert_Ok [OF ins] v w1 obtain rest where
    db: "w_db w1 = (w_db w)\<lparr>reset_tokens := rest @ [tok]\<rparr>" and now: "w_now w1 = w_now w"
    and tok: "t_token_hash tok = ?th" "t_user_id tok = u_id u" "t_expires_at tok = w_now w + seconds ttl"
      "t_used_at tok = None" "?th \<notin> t_token_hash ` set rest"
    by auto
  have "find (\<lambda>t. t_token_hash t = ?th \<and> t_used_at t = None \<and> w_now w < t_expires_at t) rest = None"
    using tok(5) by (auto simp: find_None_iff image_iff)
  then have valid: "valid_token ?th (w_now w1) (w_db w1) = Some tok"
    using tok assms(5) by (simp add: valid_token_def db now find_append)
  have dec: "hex_decode E raw = Some bytes" using hex by (simp add: hex_roundtrip_def raw bytes)
  obtain h where h: "argon2_hash E (w_draws w1) pw = Some h" using assms(3) by auto
  then have "argon2_verify E pw h = Some True" using assms(2) by (auto simp: argon2_correct_def)
  with u assms(1,6) dec valid h tok(2) show ?thesis
    by (auto simp: password_reset_confirm_def bindE_def map_err_def find_valid_def query_def stmt_def
        hash_password_def draw_def update_password_hash_def consume_def audit_eq Let_def
        set_password_hash_def consume_row_def)
qed

section \<open>API keys in the tables\<close>

lemma insert_api_key_Ok:
  "insert_api_key r d = Ok d' \<Longrightarrow>
   d' = d\<lparr>api_keys := api_keys d @ [r]\<rparr> \<and> kr_prefix r \<notin> kr_prefix ` set (api_keys d) \<and>
   kr_id r \<notin> kr_id ` set (api_keys d) \<and> kr_sa r \<in> sa_user_id ` set (service_accounts d)"
  by (auto simp: insert_api_key_def split: if_splits)

lemma find_sa_unique:
  assumes "wf_db E d" and "find_sa oid sa d = Some s"
  shows "find (\<lambda>s. sa_user_id s = sa) (service_accounts d) = Some s \<and> sa_organisation_id s = oid"
proof -
  have s: "s \<in> set (service_accounts d)" "sa_user_id s = sa" "sa_organisation_id s = oid"
    using assms(2) by (auto simp: find_sa_def dest!: find_Some_in)
  have "find (\<lambda>y. sa_user_id y = sa_user_id s) (service_accounts d) = Some s"
    using assms(1) s(1) by (intro find_distinct_key) (auto simp: wf_defs)
  with s show ?thesis by simp
qed

text \<open>A key that was just inserted verifies with its secret; a key that verifies is live.\<close>

lemma key_of_db_inserted:
  assumes "wf_db E d" and ins: "insert_api_key r d = Ok d'" and sa: "find_sa oid (kr_sa r) d = Some s"
    and "k_revoked_at (kr_key r) = None" and "argon2_verify E secret (kr_secret_hash r) = Some True"
  shows "key_of_db E d' (kr_prefix r) secret =
     Some \<lparr> vk_key_id = kr_id r, vk_sa_user_id = kr_sa r, vk_organisation_id = oid,
            vk_scopes = k_scopes (kr_key r) \<rparr>"
proof -
  note d' = insert_api_key_Ok [OF ins]
  have "find (\<lambda>k. kr_prefix k = kr_prefix r \<and> k_revoked_at (kr_key k) = None \<and>
      key_in sa_user_id (service_accounts d) (kr_sa k)) (api_keys d) = None"
    using d' by (auto simp: find_None_iff image_iff)
  then have "active_by_prefix (kr_prefix r) d' = Some (r, oid)"
    using d' assms(4) find_sa_unique [OF assms(1) sa]
    by (simp add: active_by_prefix_def find_append del: key_in_iff)
      (simp add: key_in_iff)
  with assms(5) show ?thesis by (simp add: key_of_db_def)
qed

lemma key_of_db_live:
  assumes "key_of_db E d prefix secret = Some v"
  shows "\<exists>k \<in> set (api_keys d). kr_id k = vk_key_id v \<and> kr_sa k = vk_sa_user_id v \<and>
     kr_prefix k = prefix \<and> k_revoked_at (kr_key k) = None \<and>
     argon2_verify E secret (kr_secret_hash k) = Some True \<and> vk_scopes v = k_scopes (kr_key k) \<and>
     (\<exists>s \<in> set (service_accounts d). sa_user_id s = vk_sa_user_id v \<and>
        sa_organisation_id s = vk_organisation_id v)"
  using assms
  by (auto simp: key_of_db_def active_by_prefix_def split: option.splits if_splits dest!: find_Some_in)
    blast

section \<open>Creating, revoking and rotating keys\<close>

lemma fresh_key_row_Ok:
  assumes "codecs_ok E" and "argon2_correct E" and "fresh_key_row E sa n sc cb w = (Ok (g, row), w')"
  shows "parse (g_plaintext g) = Some \<lparr> p_env = ''live'', p_prefix = nk_prefix row, p_secret = g_secret g \<rparr> \<and>
     argon2_verify E (g_secret g) (nk_secret_hash row) = Some True \<and> nk_sa row = sa \<and>
     nk_scopes row = sc \<and> nk_name row = n \<and> nk_created_by row = cb \<and>
     w_db w' = w_db w \<and> w_now w' = w_now w"
proof -
  from assms(3) obtain w1 where g: "generate E w = (Ok g, w1)"
    and row: "nk_prefix row = g_prefix g" "nk_sa row = sa" "nk_scopes row = sc" "nk_name row = n"
      "nk_created_by row = cb" "argon2_hash E (Suc (w_draws w1)) (g_secret g) = Some (nk_secret_hash row)"
    and w': "w_db w' = w_db w1" "w_now w' = w_now w1"
    by (auto simp: fresh_key_row_def hash_secret_def hash_password_def bindE_eq_Ok_iff draw_eq_iff ok_or_def
        split: option.split_asm)
  from generate_Ok [OF assms(1) g] row w' assms(2) show ?thesis
    by (auto simp: argon2_correct_def)
qed

lemma keys_create_cases:
  assumes "keys_create E row w = (r, w')"
  shows "w_now w' = w_now w \<and> (case r of
     Err _ \<Rightarrow> w_db w' = w_db w
   | Ok k \<Rightarrow> insert_api_key (key_row row (w_now w)) (w_db w) = Ok (w_db w') \<and>
       k = kr_key (key_row row (w_now w)))"
  using assms
  by (cases "insert_api_key (key_row row (w_now w)) (w_db w)")
    (auto simp: keys_create_def insert_key_def bindE_def map_err_def query_def stmt_def Let_def
      split: if_splits)

lemma create_key_attempts_Ok:
  assumes "codecs_ok E" and "argon2_correct E" and "create_key_attempts n E i w = (Ok m, w')"
  shows "\<exists>row secret. parse (am_plaintext m) =
       Some \<lparr> p_env = ''live'', p_prefix = nk_prefix row, p_secret = secret \<rparr> \<and>
     argon2_verify E secret (nk_secret_hash row) = Some True \<and>
     nk_sa row = ck_sa_user_id i \<and> nk_scopes row = ck_scopes i \<and>
     insert_api_key (key_row row (w_now w)) (w_db w) = Ok (w_db w') \<and>
     am_key m = kr_key (key_row row (w_now w)) \<and> w_now w' = w_now w"
  using assms(3)
proof (induction n arbitrary: w)
  case (Suc n)
  from Suc.prems obtain g row w1 r w2 where
    f: "fresh_key_row E (ck_sa_user_id i) (ck_name i) (ck_scopes i) (ck_actor_user_id i) w = (Ok (g, row), w1)"
    and k: "keys_create E row w1 = (r, w2)"
    and rest: "(case r of
       Ok key \<Rightarrow>
         bindE (audit E (\<lambda>eid now. api_key_created eid now (ck_actor_user_id i) (ck_actor_org_id i)
           (ck_sa_user_id i) (ck_organisation_id i) (k_id key) (k_prefix key))) (\<lambda>_.
         ret \<lparr> am_key = key, am_plaintext = g_plaintext g \<rparr>)
     | Err DuplicatePrefix \<Rightarrow> create_key_attempts n E i
     | Err (KeyOther e) \<Rightarrow> fail (CkOther e)) w2 = (Ok m, w')"
    by (auto simp: bindE_eq_Ok_iff matchE_eq_iff)
  note row = fresh_key_row_Ok [OF assms(1,2) f] and cases = keys_create_cases [OF k]
  show ?case
  proof (cases r)
    case (Inr key)
    with rest have "am_key m = key" "am_plaintext m = g_plaintext g" "w_db w' = w_db w2" "w_now w' = w_now w2"
      by (auto simp: bindE_eq_Ok_iff audit_eq_iff)
    with row cases Inr show ?thesis by (intro exI [of _ row] exI [of _ "g_secret g"]) simp
  next
    case (Inl e)
    with rest have "create_key_attempts n E i w2 = (Ok m, w')"
      by (cases e) (auto)
    from Suc.IH [OF this] row cases Inl show ?thesis by simp
  qed
qed simp

text \<open>
  The plaintext a creation returns authenticates as the service account, with the requested
  scopes, at once.
\<close>

lemma create_api_key_verifies:
  assumes "codecs_ok E" and "argon2_correct E" and "wf_db E (w_db w)"
    and "create_api_key E i w = (Ok m, w')"
  shows "\<exists>p. parse (am_plaintext m) = Some p \<and>
     key_of_db E (w_db w') (p_prefix p) (p_secret p) =
       Some \<lparr> vk_key_id = k_id (am_key m), vk_sa_user_id = ck_sa_user_id i,
              vk_organisation_id = ck_organisation_id i, vk_scopes = ck_scopes i \<rparr> \<and>
     w_now w' = w_now w"
proof -
  from assms(4) obtain s w1 where
    sa: "find_sa (ck_organisation_id i) (ck_sa_user_id i) (w_db w) = Some s"
    and eq: "w1 = w\<lparr>w_stmts := Suc (w_stmts w)\<rparr>" and run: "create_key_attempts 2 E i w1 = (Ok m, w')"
    by (auto simp: create_api_key_def sa_find_def bindE_eq_Ok_iff query_Ok_iff split: if_split_asm)
  have w1: "w_db w1 = w_db w" "w_now w1 = w_now w" by (simp_all add: eq)
  from create_key_attempts_Ok [OF assms(1,2) run] obtain row secret where
    p: "parse (am_plaintext m) = Some \<lparr> p_env = ''live'', p_prefix = nk_prefix row, p_secret = secret \<rparr>"
    and v: "argon2_verify E secret (nk_secret_hash row) = Some True"
    and row: "nk_sa row = ck_sa_user_id i" "nk_scopes row = ck_scopes i"
    and ins: "insert_api_key (key_row row (w_now w1)) (w_db w1) = Ok (w_db w')"
    and m: "am_key m = kr_key (key_row row (w_now w1))" and now: "w_now w' = w_now w1" by blast
  have "key_of_db E (w_db w') (kr_prefix (key_row row (w_now w1))) secret =
     Some \<lparr> vk_key_id = kr_id (key_row row (w_now w1)), vk_sa_user_id = kr_sa (key_row row (w_now w1)),
            vk_organisation_id = ck_organisation_id i,
            vk_scopes = k_scopes (kr_key (key_row row (w_now w1))) \<rparr>"
    using assms(3) sa v row(1) w1(1)
    by (intro key_of_db_inserted [OF _ ins, of _ _ s]) (simp_all add: key_row_def)
  with p m row now w1 show ?thesis by (simp add: key_row_def)
qed

lemma evaluate_succeeds:
  assumes "\<And>n. \<not> db_fault E n" and "coherent w" and "effective (w_db w) org slg = Some v"
  shows "\<exists>w'. evaluate E ttl org slg w = (Ok v, w') \<and> w_db w' = w_db w \<and> w_now w' = w_now w"
proof -
  obtain r w' where run: "evaluate E ttl org slg w = (r, w')" by (meson surj_pair)
  have "\<exists>x. r = Ok x"
    using run assms(1,3)
    by (auto simp: evaluate_def repo_value_def get_override_def get_definition_def effective_def
        bindE_def utc_now_def cache_get_def cache_insert_def map_err_def query_def stmt_def Let_def
        split: option.splits if_splits)
  then obtain x where x: "r = Ok x" by blast
  note ans = answersD [OF evaluate_answers assms(2) run]
  from ans(4) [OF x] assms(3) have "x = v" by simp
  with run x ans(2,3) show ?thesis by auto
qed

lemma handle_api_key_accepts:
  assumes "\<And>n. \<not> db_fault E n" and "coherent w" and key: "key_of_db E (w_db w) prefix secret = Some v"
    and flag: "effective (w_db w) (vk_organisation_id v) API_KEY_HEADERS = Some (JArray arr)"
      "JString (source_slug src) \<in> set arr"
  shows "\<exists>x' w'. handle_api_key (pg_strategies E ttl) issuer prefix secret src x w =
       (Ok (Forward x' (Some (vk_key_id v, vk_sa_user_id v))), w') \<and>
     ext_caller x' = Some (ApiKeyCaller (vk_key_id v) (vk_sa_user_id v) (vk_organisation_id v)) \<and>
     ext_perms x' = Some (set (granted_codes (w_db w) (vk_sa_user_id v) (vk_organisation_id v)) \<inter>
       (case vk_scopes v of None \<Rightarrow> UNIV | Some sc \<Rightarrow> set sc))"
proof -
  have "pg_verify E prefix secret w = (Ok (Some v), w\<lparr>w_stmts := Suc (w_stmts w)\<rparr>)"
    using assms(1) key
    by (auto simp: pg_verify_def find_active_by_prefix_def verify_secret_def verify_password_def
        key_of_db_def bindE_def map_err_def query_def stmt_def split: option.splits if_splits)
  moreover obtain w2 where "evaluate E ttl (vk_organisation_id v) API_KEY_HEADERS
      (w\<lparr>w_stmts := Suc (w_stmts w)\<rparr>) = (Ok (JArray arr), w2)" and w2: "w_db w2 = w_db w"
    using evaluate_succeeds [OF assms(1), of "w\<lparr>w_stmts := Suc (w_stmts w)\<rparr>" "vk_organisation_id v"
        API_KEY_HEADERS "JArray arr" ttl] assms(2) flag(1) by auto
  moreover have "source_slug src \<in> set (List.map_filter as_str arr)"
    using flag(2) by (force simp: map_filter_def as_str_def)
  ultimately show ?thesis
    using assms(1)
    by (auto simp: handle_api_key_def pg_strategies_def pg_load_def matchE_def bindE_def map_err_def
        query_def stmt_def utc_now_def as_array_def list_ex_iff effective_permissions_def from_codes_def
        intersect_eq Let_def split: option.splits)
qed

lemma revoke_rows_ids: "kr_id ` set (revoke_rows P now ks) = kr_id ` set ks"
proof -
  have "map kr_id (revoke_rows P now ks) = map kr_id ks" by (simp add: revoke_rows_def)
  then show ?thesis by (metis set_map)
qed

lemma live_after_revoke:
  assumes "k \<in> set (revoke_rows P now ks)" and "k_revoked_at (kr_key k) = None"
  shows "k \<in> set ks \<and> \<not> P k"
proof -
  from assms(1) obtain k1 where k1: "k1 \<in> set ks"
    and k: "k = (if P k1 \<and> k_revoked_at (kr_key k1) = None
        then k1\<lparr>kr_key := (kr_key k1)\<lparr>k_revoked_at := Some now\<rparr>\<rparr> else k1)"
    by (auto simp: revoke_rows_def)
  show ?thesis
  proof (cases "P k1 \<and> k_revoked_at (kr_key k1) = None")
    case True
    with k assms(2) show ?thesis by simp
  next
    case False
    with k k1 assms(2) show ?thesis by auto
  qed
qed

text \<open>After a revocation every row with that id is revoked.\<close>

lemma revoke_api_key_dead:
  assumes wf: "wf_db E (w_db w)" and run: "revoke_api_key E oid sa kid a ao w = (Ok (), w')"
    and k: "k \<in> set (api_keys (w_db w'))" "kr_id k = kid"
  shows "k_revoked_at (kr_key k) \<noteq> None"
proof
  assume live: "k_revoked_at (kr_key k) = None"
  let ?P = "\<lambda>k. kr_id k = kid \<and> kr_sa k = sa"
  from run obtain k0 where k0: "k0 \<in> set (api_keys (w_db w))" "?P k0"
    and db: "w_db w' = (w_db w)\<lparr>api_keys := revoke_rows ?P (w_now w) (api_keys (w_db w))\<rparr>"
    by (auto simp: revoke_api_key_def sa_find_def keys_revoke_def bindE_eq_Ok_iff query_Ok_iff stmt_Ok_iff
        audit_eq_iff list_ex_iff Let_def split: if_split_asm)
  from k(1) db have "k \<in> set (revoke_rows ?P (w_now w) (api_keys (w_db w)))" by simp
  from live_after_revoke [OF this live] have old: "k \<in> set (api_keys (w_db w))" "\<not> ?P k" by simp_all
  have "inj_on kr_id (set (api_keys (w_db w)))" using wf by (simp add: wf_defs distinct_map)
  with k0 k(2) old have "k = k0" by (auto dest: inj_onD)
  with k0 old show False by simp
qed

text \<open>Deleting a service account takes all its keys with it.\<close>

lemma delete_service_account_Ok:
  assumes "delete_service_account E oid sa a ao w = (Ok (), w')"
  shows "w_db w' = cascade_user sa (w_db w)"
  using assms
  by (auto simp: delete_service_account_def sa_delete_def delete_sa_user_def bindE_eq_Ok_iff query_Ok_iff
      stmt_Ok_iff audit_eq_iff Let_def split: if_split_asm)

section \<open>Rotation\<close>

abbreviation rotated_out :: "uuid \<Rightarrow> datetime \<Rightarrow> db \<Rightarrow> db" where
  "rotated_out old now d \<equiv> d\<lparr>api_keys := revoke_rows (\<lambda>k. kr_id k = old) now (api_keys d)\<rparr>"

lemma keys_rotate_cases:
  assumes "keys_rotate E old row w = (r, w')"
  shows "w_now w' = w_now w \<and> (case r of
     Err _ \<Rightarrow> w_db w' = w_db w
   | Ok k \<Rightarrow> insert_api_key (key_row row (w_now w)) (rotated_out old (w_now w) (w_db w)) = Ok (w_db w') \<and>
       k = kr_key (key_row row (w_now w)))"
  using assms
  by (cases "insert_api_key (key_row row (w_now w)) (rotated_out old (w_now w) (w_db w))")
    (auto simp: keys_rotate_def in_tx_def insert_key_def bindE_def map_err_def query_def stmt_def Let_def
      split: if_splits)

lemma rotate_key_attempts_Ok:
  assumes "codecs_ok E" and "argon2_correct E" and "rotate_key_attempts n E i nm sc w = (Ok m, w')"
  shows "\<exists>row secret. parse (am_plaintext m) =
       Some \<lparr> p_env = ''live'', p_prefix = nk_prefix row, p_secret = secret \<rparr> \<and>
     argon2_verify E secret (nk_secret_hash row) = Some True \<and>
     nk_sa row = rk_sa_user_id i \<and> nk_scopes row = sc \<and>
     insert_api_key (key_row row (w_now w)) (rotated_out (rk_old_key_id i) (w_now w) (w_db w)) = Ok (w_db w') \<and>
     am_key m = kr_key (key_row row (w_now w)) \<and> w_now w' = w_now w"
  using assms(3)
proof (induction n arbitrary: w)
  case (Suc n)
  from Suc.prems obtain g row w1 r w2 where
    f: "fresh_key_row E (rk_sa_user_id i) nm sc (rk_actor_user_id i) w = (Ok (g, row), w1)"
    and k: "keys_rotate E (rk_old_key_id i) row w1 = (r, w2)"
    and rest: "(case r of
       Ok key \<Rightarrow>
         bindE (audit E (\<lambda>eid now. api_key_rotated eid now (rk_actor_user_id i) (rk_actor_org_id i)
           (rk_sa_user_id i) (rk_organisation_id i) (rk_old_key_id i) (k_id key))) (\<lambda>_.
         ret \<lparr> am_key = key, am_plaintext = g_plaintext g \<rparr>)
     | Err DuplicatePrefix \<Rightarrow> rotate_key_attempts n E i nm sc
     | Err (KeyOther e) \<Rightarrow> fail (RkOther e)) w2 = (Ok m, w')"
    by (auto simp: bindE_eq_Ok_iff matchE_eq_iff)
  note row = fresh_key_row_Ok [OF assms(1,2) f] and cases = keys_rotate_cases [OF k]
  show ?case
  proof (cases r)
    case (Inr key)
    with rest have "am_key m = key" "am_plaintext m = g_plaintext g" "w_db w' = w_db w2" "w_now w' = w_now w2"
      by (auto simp: bindE_eq_Ok_iff audit_eq_iff)
    with row cases Inr show ?thesis by (intro exI [of _ row] exI [of _ "g_secret g"]) simp
  next
    case (Inl e)
    with rest have "rotate_key_attempts n E i nm sc w2 = (Ok m, w')"
      by (cases e) (auto)
    from Suc.IH [OF this] row cases Inl show ?thesis by simp
  qed
qed simp

text \<open>
  Rotation replaces: the new plaintext authenticates as the same service account, the old
  key never does again, and there is no moment in between.
\<close>

lemma rotate_api_key_Ok:
  assumes "codecs_ok E" and "argon2_correct E" and wf: "wf_db E (w_db w)"
    and "rotate_api_key E i w = (Ok m, w')"
  shows "(\<exists>p sc. parse (am_plaintext m) = Some p \<and>
       key_of_db E (w_db w') (p_prefix p) (p_secret p) =
         Some \<lparr> vk_key_id = k_id (am_key m), vk_sa_user_id = rk_sa_user_id i,
                vk_organisation_id = rk_organisation_id i, vk_scopes = sc \<rparr>) \<and>
     (\<forall>k \<in> set (api_keys (w_db w')). kr_id k = rk_old_key_id i \<longrightarrow> k_revoked_at (kr_key k) \<noteq> None)"
proof -
  from assms(4) obtain s k0 nm sc w1 where
    sa: "find_sa (rk_organisation_id i) (rk_sa_user_id i) (w_db w) = Some s"
    and k0: "k0 \<in> set (api_keys (w_db w))" "kr_id k0 = rk_old_key_id i"
    and eq: "w1 = w\<lparr>w_stmts := Suc (Suc (w_stmts w))\<rparr>"
    and run: "rotate_key_attempts 2 E i nm sc w1 = (Ok m, w')"
    by (auto simp: rotate_api_key_def sa_find_def keys_find_def bindE_eq_Ok_iff query_Ok_iff ok_or_def Let_def
        split: if_split_asm option.split_asm dest!: find_Some_in)
  let ?d = "rotated_out (rk_old_key_id i) (w_now w1) (w_db w1)"
  from rotate_key_attempts_Ok [OF assms(1,2) run] obtain row secret where
    p: "parse (am_plaintext m) = Some \<lparr> p_env = ''live'', p_prefix = nk_prefix row, p_secret = secret \<rparr>"
    and v: "argon2_verify E secret (nk_secret_hash row) = Some True"
    and row: "nk_sa row = rk_sa_user_id i" "nk_scopes row = sc"
    and ins: "insert_api_key (key_row row (w_now w1)) ?d = Ok (w_db w')"
    and m: "am_key m = kr_key (key_row row (w_now w1))" by blast
  have wfd: "wf_db E ?d" using wf eq by (simp add: wf_updates(3))
  have new: "key_of_db E (w_db w') (kr_prefix (key_row row (w_now w1))) secret =
     Some \<lparr> vk_key_id = kr_id (key_row row (w_now w1)), vk_sa_user_id = kr_sa (key_row row (w_now w1)),
            vk_organisation_id = rk_organisation_id i,
            vk_scopes = k_scopes (kr_key (key_row row (w_now w1))) \<rparr>"
    using sa v row(1) eq
    by (intro key_of_db_inserted [OF wfd ins, of _ s]) (simp_all add: key_row_def find_sa_def)
  have old: "k_revoked_at (kr_key k) \<noteq> None"
    if k: "k \<in> set (api_keys (w_db w'))" "kr_id k = rk_old_key_id i" for k
  proof (cases "k \<in> set (api_keys ?d)")
    case True
    then have "k \<in> set (revoke_rows (\<lambda>k. kr_id k = rk_old_key_id i) (w_now w1) (api_keys (w_db w1)))" by simp
    from live_after_revoke [OF this] k(2) show ?thesis by blast
  next
    case False
    with k(1) insert_api_key_Ok [OF ins] have "k = key_row row (w_now w1)" by auto
    moreover have "kr_id k0 \<in> kr_id ` set (api_keys ?d)"
      using k0(1) eq by (simp add: revoke_rows_ids)
    ultimately show ?thesis using insert_api_key_Ok [OF ins] k0(2) k(2) by metis
  qed
  from p m row new old show ?thesis by (auto simp: key_row_def)
qed

end
