(* ===== verification/TenantsFacts.thy ===== *)
theory TenantsFacts
  imports Integrity
begin

text \<open>
  What the tenant services do, operation by operation: the exact effect of a success on the
  tables and the audit queue, that a failure leaves the tables alone, that removing a member
  never takes an organisation's last owner away, and that a channel operation never touches
  the channels of another organisation.
\<close>

section \<open>Inserts, seen from a success\<close>

lemma insert_organisation_Ok:
  "insert_organisation r d = Ok d' \<Longrightarrow>
   d' = d\<lparr>organisations := organisations d @ [r]\<rparr> \<and> o_id r \<notin> o_id ` set (organisations d) \<and>
   o_name r \<notin> o_name ` set (organisations d)"
  by (auto simp: insert_organisation_def split: if_splits)

lemma insert_membership_Ok:
  "insert_membership r d = Ok d' \<Longrightarrow>
   d' = d\<lparr>memberships := memberships d @ [r]\<rparr> \<and>
   membership_key r \<notin> membership_key ` set (memberships d) \<and>
   m_user r \<in> u_id ` set (users d) \<and> m_org r \<in> o_id ` set (organisations d) \<and>
   m_role r \<in> r_id ` set (roles d)"
  by (auto simp: insert_membership_def split: if_splits)

lemma insert_membership_if_new_Ok:
  "insert_membership_if_new r d = Ok d' \<Longrightarrow>
   d' = d\<lparr>memberships := memberships d @
     (if membership_key r \<in> membership_key ` set (memberships d) then [] else [r])\<rparr>"
  by (auto simp: insert_membership_if_new_def split: if_splits dest: insert_membership_Ok)

lemma enqueued_frame [simp]:
  "enqueued (w\<lparr>w_stmts := n\<rparr>) e = enqueued w e" "enqueued (w\<lparr>w_db := d\<rparr>) e = enqueued w e"
  "enqueued (w\<lparr>w_draws := n\<rparr>) e = enqueued w e"
  by (simp_all add: enqueued_def)

section \<open>Creating an organisation\<close>

lemma org_create_Ok:
  assumes "org_create E name business w = (Ok org, w')"
  shows "org = new_org (uuid_v7 E (w_draws w)) name business (w_now w) \<and>
     name \<notin> o_name ` set (organisations (w_db w)) \<and> o_id org \<notin> o_id ` set (organisations (w_db w)) \<and>
     w_db w' = (w_db w)\<lparr>organisations := organisations (w_db w) @ [org]\<rparr> \<and>
     w_now w' = w_now w \<and> w_audit w' = w_audit w \<and> w_audit_open w' = w_audit_open w \<and>
     w_audit_capacity w' = w_audit_capacity w"
  using assms
  by (auto simp: org_create_def insert_org_stmt_def action_ok_simps Let_def new_org_def
      dest!: insert_organisation_Ok)

lemma create_with_initial_owner_Ok:
  assumes "create_with_initial_owner E name business uid code w = (Ok org, w')"
  shows "\<exists>rid. org = new_org (uuid_v7 E (w_draws w)) name business (w_now w) \<and>
     name \<notin> o_name ` set (organisations (w_db w)) \<and> o_id org \<notin> o_id ` set (organisations (w_db w)) \<and>
     role_id_by_code code (w_db w) = Some rid \<and> uid \<in> u_id ` set (users (w_db w)) \<and>
     w_db w' = (w_db w)\<lparr>organisations := organisations (w_db w) @ [org],
       memberships := memberships (w_db w) @
         [\<lparr> m_user = uid, m_org = o_id org, m_role = rid, m_created_at = w_now w \<rparr>]\<rparr> \<and>
     w_now w' = w_now w \<and> w_audit w' = w_audit w \<and> w_audit_open w' = w_audit_open w \<and>
     w_audit_capacity w' = w_audit_capacity w"
  using assms
  by (auto simp: create_with_initial_owner_def insert_org_stmt_def action_ok_simps Let_def new_org_def
      role_id_by_code_def ok_or_def split: option.splits
      dest!: insert_organisation_Ok insert_membership_Ok)

lemma create_organisation_Ok:
  assumes "create_organisation E uid aorg i w = (Ok out, w')"
  shows "\<exists>org. org = new_org (coo_id out) (trim (co_name i)) (trim (co_business i)) (w_now w) \<and>
     coo_name out = o_name org \<and> coo_business out = o_business org \<and>
     coo_role_codes out = (if co_seed_creator_as_owner i then [''org_owner''] else []) \<and>
     1 \<le> length (o_name org) \<and> chars_count (o_name org) \<le> 120 \<and>
     1 \<le> length (o_business org) \<and> chars_count (o_business org) \<le> 120 \<and>
     o_name org \<notin> o_name ` set (organisations (w_db w)) \<and>
     o_id org \<notin> o_id ` set (organisations (w_db w)) \<and>
     (if co_seed_creator_as_owner i
      then \<exists>rid. role_id_by_code ''org_owner'' (w_db w) = Some rid \<and>
        w_db w' = (w_db w)\<lparr>organisations := organisations (w_db w) @ [org],
          memberships := memberships (w_db w) @
            [\<lparr> m_user = uid, m_org = o_id org, m_role = rid, m_created_at = w_now w \<rparr>]\<rparr>
      else w_db w' = (w_db w)\<lparr>organisations := organisations (w_db w) @ [org]\<rparr>) \<and>
     (\<exists>eid. w_audit w' =
        enqueued w (organisation_created eid (w_now w) uid aorg (o_id org) (o_name org)))"
proof -
  let ?name = "trim (co_name i)" and ?business = "trim (co_business i)"
  from assms obtain org v where
    valid: "?name \<noteq> []" "chars_count ?name \<le> 120" "?business \<noteq> []" "chars_count ?business \<le> 120"
    and run: "(if co_seed_creator_as_owner i
       then create_with_initial_owner E ?name ?business uid ''org_owner''
       else org_create E ?name ?business) w = (Ok org, v)"
    and w': "w_db w' = w_db v" "w_audit w' = enqueued v (organisation_created (uuid_v7 E (w_draws v))
      (w_now v) uid aorg (o_id org) ?name)"
    and out: "out = \<lparr> coo_id = o_id org, coo_name = o_name org, coo_business = o_business org,
        coo_role_codes = (if co_seed_creator_as_owner i then [''org_owner''] else []) \<rparr>"
    by (auto simp: create_organisation_def Let_def bindE_eq_Ok_iff audit_eq_iff split: if_splits)
  note facts = valid out w'
  show ?thesis
  proof (cases "co_seed_creator_as_owner i")
    case True
    with run have "create_with_initial_owner E ?name ?business uid ''org_owner'' w = (Ok org, v)" by simp
    from create_with_initial_owner_Ok [OF this] facts True show ?thesis
      by (intro exI [of _ org]) (auto simp: new_org_def enqueued_def Suc_le_eq)
  next
    case False
    with run have "org_create E ?name ?business w = (Ok org, v)" by simp
    from org_create_Ok [OF this] facts False show ?thesis
      by (intro exI [of _ org]) (auto simp: new_org_def enqueued_def Suc_le_eq)
  qed
qed

text \<open>An error anywhere leaves no organisation without its owner behind, nor anything else.\<close>

lemma safe_err_create_organisation: "safe_err w_db (create_organisation E uid aorg i)"
proof -
  have total: "bindE (audit E mk) (\<lambda>_. ret x) w \<noteq> (Err e, w')" for mk and x :: 'a and w e w'
    by (simp add: bindE_def audit_eq)
  have "safe_err w_db (org_create E name business)" for name business
    unfolding org_create_def insert_org_stmt_def
    by (intro safe_err_bindE_reads reads_db_intros safe_err_map_err safe_err_stmt)
  moreover have "safe_err w_db (create_with_initial_owner E name business u code)" for name business u code
    unfolding create_with_initial_owner_def by (rule safe_err_in_tx)
  ultimately show ?thesis
    unfolding create_organisation_def Let_def
    by (auto intro!: safe_err_fail safe_err_bindE_total safe_err_map_err simp: total)
qed

section \<open>Removing a member\<close>

definition has_owner :: "db \<Rightarrow> uuid \<Rightarrow> bool" where
  "has_owner d oid \<longleftrightarrow> (\<exists>m \<in> set (memberships d). owner_row d oid m)"

lemma remove_member_checked_Ok:
  assumes "remove_member_checked E uid oid w = (Ok (), w')"
  shows "member uid oid (w_db w) \<and>
     (list_ex (\<lambda>m. m_user m = uid \<and> owner_row (w_db w) oid m) (memberships (w_db w)) \<longrightarrow>
        other_owners uid oid (w_db w) \<noteq> 0) \<and>
     w_db w' = (w_db w)\<lparr>memberships :=
       filter (\<lambda>m. \<not> (m_user m = uid \<and> m_org m = oid)) (memberships (w_db w))\<rparr> \<and>
     w_audit w' = w_audit w \<and> w_now w' = w_now w \<and> w_audit_open w' = w_audit_open w \<and>
     w_audit_capacity w' = w_audit_capacity w"
  using assms
  by (auto simp: remove_member_checked_def action_ok_simps split: if_splits)

lemma remove_user_Ok:
  assumes "remove_user_from_organisation E a ao uid oid w = (Ok (), w')"
  shows "member uid oid (w_db w) \<and> \<not> member uid oid (w_db w') \<and>
     w_db w' = (w_db w)\<lparr>memberships :=
       filter (\<lambda>m. \<not> (m_user m = uid \<and> m_org m = oid)) (memberships (w_db w))\<rparr> \<and>
     (\<exists>eid. w_audit w' = enqueued w (organisation_member_removed eid (w_now w) a ao oid uid))"
proof -
  from assms obtain v where v: "remove_member_checked E uid oid w = (Ok (), v)"
    and w': "w_db w' = w_db v" "w_audit w' = enqueued v (organisation_member_removed
      (uuid_v7 E (w_draws v)) (w_now v) a ao oid uid)"
    by (auto simp: remove_user_from_organisation_def bindE_eq_Ok_iff audit_eq_iff)
  from remove_member_checked_Ok [OF v] w' show ?thesis
    by (auto simp: enqueued_def member_def list_ex_iff)
qed

lemma other_owners_pos:
  "other_owners uid oid d \<noteq> 0 \<longleftrightarrow>
     (\<exists>m \<in> set (memberships d). owner_row d oid m \<and> m_user m \<noteq> uid)"
  by (auto simp: other_owners_def filter_empty_conv)

lemma owner_row_memberships [simp]: "owner_row (d\<lparr>memberships := ms\<rparr>) oid m = owner_row d oid m"
  by (simp add: owner_row_def)

section \<open>Assigning a role\<close>

lemma stmts_same [simp]: "\<exists>n. w = w\<lparr>w_stmts := n\<rparr>" "\<exists>n. w\<lparr>w_stmts := m\<rparr> = w\<lparr>w_stmts := n\<rparr>"
  by (rule exI [of _ "w_stmts w"], simp) (rule exI [of _ m], simp)

lemma assign_role_guard:
  "(if \<not> op then bindE (map_err ArRepo (is_member E act oid)) (\<lambda>mem.
       if \<not> mem then fail ArNotFound else ret ()) else ret ()) w = (Ok x, w') \<Longrightarrow>
   (op \<or> member act oid (w_db w)) \<and> (\<exists>n. w' = w\<lparr>w_stmts := n\<rparr>)"
  by (cases op) (auto simp: is_member_def action_ok_simps split: if_splits)

lemma assign_role_sa_guard:
  "(case u of
      Some u \<Rightarrow> if u_kind u = ServiceAccountKind
        then bindE (map_err ArInternal (sa_find E oid target)) (\<lambda>sa.
             if sa = None then fail ArServiceAccountCrossOrgForbidden else ret ())
        else ret ()
    | None \<Rightarrow> ret ()) w = (Ok y, w') \<Longrightarrow>
   (\<forall>x. u = Some x \<longrightarrow> u_kind x = ServiceAccountKind \<longrightarrow> find_sa oid target (w_db w) \<noteq> None) \<and>
   (\<exists>n. w' = w\<lparr>w_stmts := n\<rparr>)"
  by (cases u) (auto simp: sa_find_def action_ok_simps split: if_splits)

lemma assign_role_Ok:
  assumes "assign_role E act ao op oid target code w = (Ok was_new, w')"
  shows "\<exists>role. find (\<lambda>r. r_code r = code) (roles (w_db w)) = Some role \<and>
     (op \<or> member act oid (w_db w)) \<and> member target oid (w_db w) \<and>
     (\<forall>u. find (\<lambda>u. u_id u = target) (users (w_db w)) = Some u \<longrightarrow> u_kind u = ServiceAccountKind \<longrightarrow>
        find_sa oid target (w_db w) \<noteq> None) \<and>
     was_new = (\<not> holds_role target oid (r_id role) (w_db w)) \<and>
     w_db w' = (if was_new then (w_db w)\<lparr>memberships := memberships (w_db w) @
         [\<lparr> m_user = target, m_org = oid, m_role = r_id role, m_created_at = w_now w \<rparr>]\<rparr>
       else w_db w) \<and>
     w_audit w' = (if was_new then enqueued w (organisation_role_assigned (uuid_v7 E (w_draws w))
         (w_now w) act ao oid target code) else w_audit w)"
proof -
  from assms obtain x1 u x2 w1 w2 w3 where
    g: "(if \<not> op then bindE (map_err ArRepo (is_member E act oid)) (\<lambda>mem.
       if \<not> mem then fail ArNotFound else ret ()) else ret ()) w = (Ok x1, w1)"
    and u: "map_err (\<lambda>_. ArInternal opaque) (find_by_id E target) w1 = (Ok u, w2)"
    and sa: "(case u of
      Some u \<Rightarrow> if u_kind u = ServiceAccountKind
        then bindE (map_err ArInternal (sa_find E oid target)) (\<lambda>sa.
             if sa = None then fail ArServiceAccountCrossOrgForbidden else ret ())
        else ret ()
    | None \<Rightarrow> ret ()) w2 = (Ok x2, w3)"
    and rest: "bindE (map_err ArRepo (find_by_code E code)) (\<lambda>found.
     bindE (lift (ok_or ArUnknownRoleCode found)) (\<lambda>role.
     bindE (map_err ArRepo (is_member E target oid)) (\<lambda>target_is_member.
     if \<not> target_is_member then fail ArUnknownUser
     else
       bindE (map_err ArRepo (has_role E target oid (r_id role))) (\<lambda>already.
       bindE (map_err ArRepo (assign E target oid (r_id role))) (\<lambda>_.
       bindE (if \<not> already
              then audit E (\<lambda>eid now. organisation_role_assigned eid now act ao oid target code)
              else ret ()) (\<lambda>_.
       ret (\<not> already))))))) w3 = (Ok was_new, w')"
    unfolding assign_role_def Let_def by - (erule bindE_OkE, erule bindE_OkE, erule bindE_OkE, rule that)
  from assign_role_guard [OF g] assign_role_sa_guard [OF sa] u obtain n where
    w3: "w3 = w\<lparr>w_stmts := n\<rparr>" and op: "op \<or> member act oid (w_db w)"
    and u': "u = find (\<lambda>u. u_id u = target) (users (w_db w))"
    and sa': "\<forall>x. u = Some x \<longrightarrow> u_kind x = ServiceAccountKind \<longrightarrow> find_sa oid target (w_db w) \<noteq> None"
    by (auto simp: find_by_id_def action_ok_simps)
  have key: "membership_key \<lparr> m_user = target, m_org = oid, m_role = rid, m_created_at = t \<rparr> \<in>
      membership_key ` set (memberships d) \<longleftrightarrow> holds_role target oid rid d" for rid t d
    by (auto simp: membership_key_def holds_role_def list_ex_iff image_iff)
  from rest w3 obtain role where
    "find (\<lambda>r. r_code r = code) (roles (w_db w)) = Some role" "member target oid (w_db w)"
    "was_new = (\<not> holds_role target oid (r_id role) (w_db w))"
    "w_db w' = (if was_new then (w_db w)\<lparr>memberships := memberships (w_db w) @
         [\<lparr> m_user = target, m_org = oid, m_role = r_id role, m_created_at = w_now w \<rparr>]\<rparr>
       else w_db w)"
    "w_audit w' = (if was_new then enqueued w (organisation_role_assigned (uuid_v7 E (w_draws w))
         (w_now w) act ao oid target code) else w_audit w)"
    by (auto simp: find_by_code_def is_member_def has_role_def assign_def action_ok_simps audit_eq_iff
        key ok_or_def split: option.splits if_splits dest!: insert_membership_if_new_Ok)
  with op sa' u' show ?thesis by blast
qed

section \<open>Channels stay in their organisation\<close>

definition foreign_channels :: "uuid \<Rightarrow> db \<Rightarrow> inbound_channel list" where
  "foreign_channels oid d = filter (\<lambda>c. c_organisation_id c \<noteq> oid) (channels d)"

lemma filter_map_other:
  "(\<And>x. x \<in> set xs \<Longrightarrow> P (f x) = P x) \<Longrightarrow> (\<And>x. x \<in> set xs \<Longrightarrow> P x \<Longrightarrow> f x = x) \<Longrightarrow>
   filter P (map f xs) = filter P xs"
  by (induction xs) auto

lemma foreign_update_channel_row:
  assumes "wf_db E d" and "update_channel_row oid cid f d = Ok (x, d')"
    and "\<And>c. c_organisation_id (f c) = c_organisation_id c"
  shows "foreign_channels oid d' = foreign_channels oid d"
proof (cases "find_channel oid cid d")
  case None
  with assms(2) show ?thesis by (simp add: update_channel_row_def)
next
  case (Some c)
  have c: "c \<in> set (channels d)" "c_id c = cid" "c_organisation_id c = oid"
    using Some by (auto simp: find_channel_def dest!: find_Some_in)
  have only: "y = c" if "y \<in> set (channels d)" "c_id y = cid" for y
    using assms(1) c that by (auto simp: wf_defs distinct_map inj_on_def)
  let ?g = "\<lambda>x. if c_id x = cid then f x else x"
  have "d' = d\<lparr>channels := map ?g (channels d)\<rparr>"
    using assms(2) Some by (auto simp: update_channel_row_def split: if_splits)
  moreover have "filter (\<lambda>c. c_organisation_id c \<noteq> oid) (map ?g (channels d)) =
      filter (\<lambda>c. c_organisation_id c \<noteq> oid) (channels d)"
  proof (rule filter_map_other)
    show "(c_organisation_id (?g x) \<noteq> oid) = (c_organisation_id x \<noteq> oid)" for x
      using assms(3) by simp
    show "?g x = x" if "x \<in> set (channels d)" "c_organisation_id x \<noteq> oid" for x
      using only [OF that(1)] that(2) c(3) by auto
  qed
  ultimately show ?thesis by (simp add: foreign_channels_def)
qed

text \<open>
  The three writing operations leave every channel of every other organisation as it is,
  whatever they return.
\<close>

lemma keeps_foreign:
  assumes "\<And>now d a d'. wf_db E d \<Longrightarrow> f now d = Ok (a, d') \<Longrightarrow>
     foreign_channels oid d' = foreign_channels oid d"
    and "stmt E f w = (r, w')" and "wf_db E (w_db w)"
  shows "foreign_channels oid (w_db w') = foreign_channels oid (w_db w)"
  using assms(2,3) assms(1) [of "w_db w"]
  by (auto simp: stmt_def Let_def split: if_splits sum.splits prod.splits)

lemma foreign_create:
  assumes "create_inbound_channel E a ao oid i w = (r, w')"
  shows "foreign_channels oid (w_db w') = foreign_channels oid (w_db w)"
  using assms
  by (auto simp: create_inbound_channel_def channel_create_def generate_api_key_def Let_def
      bindE_def map_err_def draw_def stmt_def audit_eq insert_channel_def foreign_channels_def map_sum_def
      split: if_splits sum.splits prod.splits option.splits)

lemma foreign_delete:
  assumes "delete_inbound_channel E a ao oid cid w = (r, w')"
  shows "foreign_channels oid (w_db w') = foreign_channels oid (w_db w)"
proof -
  have "filter (\<lambda>c. c_organisation_id c \<noteq> oid) (filter (\<lambda>c. \<not> (c_id c = cid \<and> c_organisation_id c = oid)) cs)
      = filter (\<lambda>c. c_organisation_id c \<noteq> oid) cs" for cs
    by (induction cs) auto
  with assms show ?thesis
    by (auto simp: delete_inbound_channel_def channel_delete_def Let_def
      bindE_def map_err_def stmt_def audit_eq foreign_channels_def
      split: if_splits sum.splits prod.splits)
qed

lemma foreign_update:
  assumes "wf_db E (w_db w)" and "update_inbound_channel E a ao oid cid i w = (r, w')"
  shows "foreign_channels oid (w_db w') = foreign_channels oid (w_db w)"
proof -
  let ?upd = "\<lambda>name now c. c\<lparr>c_name := name, c_description := ci_description i,
     c_channel_type := ci_channel_type i, c_is_active := ci_is_active i, c_updated_at := now\<rparr>"
  have "foreign_channels oid (w_db v) = foreign_channels oid (w_db w)"
    if "channel_update E oid cid name (ci_description i) (ci_channel_type i) (ci_is_active i) w = (x, v)"
    for name x v
  proof -
    from that obtain y where "stmt E (\<lambda>now. update_channel_row oid cid (?upd name now)) w = (y, v)"
      by (auto simp: channel_update_def bindE_def map_err_def split: prod.splits sum.splits)
    then show ?thesis
      using assms(1) by (rule keeps_foreign [rotated]) (erule (1) foreign_update_channel_row, simp)
  qed
  moreover have "w_db w' = w_db w \<or> (\<exists>name x v. channel_update E oid cid name (ci_description i)
      (ci_channel_type i) (ci_is_active i) w = (x, v) \<and> w_db w' = w_db v)"
    using assms(2)
    by (fastforce simp: update_inbound_channel_def Let_def bindE_def map_err_def audit_eq
        split: if_splits sum.splits prod.splits option.splits)
  ultimately show ?thesis by metis
qed

text \<open>An id that is not a channel of the organisation named in the request is not found.\<close>

lemma channel_not_found:
  assumes "\<not> db_fault E (w_stmts w)" and "find_channel oid cid (w_db w) = None"
  shows "\<exists>w'. get_inbound_channel E oid cid w = (Err GcNotFound, w') \<and> w_db w' = w_db w"
    and "\<exists>w'. delete_inbound_channel E a ao oid cid w = (Err DcNotFound, w') \<and> w_db w' = w_db w"
proof -
  show "\<exists>w'. get_inbound_channel E oid cid w = (Err GcNotFound, w') \<and> w_db w' = w_db w"
    using assms by (simp add: get_inbound_channel_def channel_get_def map_err_def bindE_def query_def
        stmt_def get_channel_repo_error_def)
  have "\<forall>c \<in> set (channels (w_db w)). \<not> (c_id c = cid \<and> c_organisation_id c = oid)"
    using assms(2) by (auto simp: find_channel_def find_None_iff)
  then have "filter (\<lambda>c. c_id c = cid \<and> c_organisation_id c = oid) (channels (w_db w)) = []"
    "filter (\<lambda>c. \<not> (c_id c = cid \<and> c_organisation_id c = oid)) (channels (w_db w)) = channels (w_db w)"
    by (auto simp: filter_empty_conv filter_id_conv)
  with assms show "\<exists>w'. delete_inbound_channel E a ao oid cid w = (Err DcNotFound, w') \<and> w_db w' = w_db w"
    by (simp add: delete_inbound_channel_def channel_delete_def map_err_def bindE_def
        stmt_def delete_channel_repo_error_def Let_def)
qed

end
