(* ===== verification/Permanence.thy ===== *)
theory Permanence
  imports System SecurityFacts TenantsFacts
begin

text \<open>
  What a reachable world can never undo. A fact about the core tables (organisations, roles,
  memberships, users, service accounts, keys, revoked tokens) that every SQL statement of the
  program keeps, given that ids drawn from now on are new, holds in every world reachable from
  one in which it holds. The locale \<open>lasting\<close> states the statements' side for all of them but
  the deletion of a service account, \<open>permanent\<close> adds that one; their lemmas lift the fact
  through the repositories and services to \<open>sys_step\<close> and \<open>reachable\<close>. Here \<open>permanent\<close> is
  interpreted three times:

  \<^item> \<open>dead_key\<close>: a revoked (or rotated) key stays revoked;
  \<^item> \<open>gone\<close>: a deleted service account does not come back, and no key of it either;
  \<^item> \<open>token_revoked\<close>: the revocation of a human user's token is not forgotten.

  The theory \<open>Rbac\<close> interprets it for the abstract role model and \<open>lasting\<close> for ownership.
\<close>

section \<open>Facts about the tables and the id generator\<close>

definition later :: "nat \<Rightarrow> (db \<Rightarrow> bool) \<Rightarrow> world \<Rightarrow> bool" where
  "later N Q w \<longleftrightarrow> N \<le> w_draws w \<and> Q (w_db w)"

abbreviation steady :: "nat \<Rightarrow> (db \<Rightarrow> bool) \<Rightarrow> ('e, 'a) action \<Rightarrow> bool" where
  "steady N Q \<equiv> keeps (later N Q)"

text \<open>Drawing an id and going on with it, as one construct: what follows may use that it is new.\<close>

definition drawing :: "(nat \<Rightarrow> 'a) \<Rightarrow> ('a \<Rightarrow> ('e, 'b) action) \<Rightarrow> ('e, 'b) action" where
  "drawing g f = bindE (draw g) f"

named_theorems steady_intros \<open>closure rules for steady\<close>

lemma steadyI: "(\<And>w r w'. later N Q w \<Longrightarrow> m w = (r, w') \<Longrightarrow> later N Q w') \<Longrightarrow> steady N Q m"
  by (rule keepsI)

lemma steadyD: "steady N Q m \<Longrightarrow> later N Q w \<Longrightarrow> m w = (r, w') \<Longrightarrow> later N Q w'"
  by (rule keepsD)

lemma steady_drawing [steady_intros]:
  "(\<And>n. N \<le> n \<Longrightarrow> steady N Q (f (g n))) \<Longrightarrow> steady N Q (drawing g f)"
  by (auto simp: keeps_def drawing_def bindE_def draw_def later_def)

lemma steady_leaf [steady_intros]:
  "steady N Q (draw g)" "steady N Q utc_now" "steady N Q stmt_no" "steady N Q (query E f)"
  "steady N Q (audit E mk)"
  by (simp_all add: keeps_def later_def draw_def utc_now_def stmt_no_def query_def stmt_def Let_def
      audit_eq)

lemma steady_stmt [steady_intros]:
  assumes "\<And>now d a d'. Q d \<Longrightarrow> f now d = Ok (a, d') \<Longrightarrow> Q d'"
  shows "steady N Q (stmt E f)"
  by (rule steadyI) (auto simp: later_def stmt_def Let_def split: if_splits sum.splits prod.splits
      dest: assms)

lemma steady_control: "later N Q w \<Longrightarrow> control E w = (r, w') \<Longrightarrow> later N Q w'"
  by (rule steadyD [OF steady_leaf(4)])

lemma later_elsewhere [simp]:
  "later N Q (w\<lparr>w_now := t\<rparr>) = later N Q w" "later N Q (w\<lparr>w_audit := es\<rparr>) = later N Q w"
  by (simp_all add: later_def)

lemma later_rollback: "later N Q v \<Longrightarrow> later N Q w \<Longrightarrow> later N Q (v\<lparr>w_db := w_db w\<rparr>)"
  by (simp add: later_def)

lemma steady_in_tx [steady_intros]: "steady N Q body \<Longrightarrow> steady N Q (in_tx E conv body)"
  by (rule steadyI)
    (auto simp: in_tx_def split: prod.splits sum.splits intro: later_rollback
      dest: steady_control steadyD)

lemma steady_snd_control: "later N Q w \<Longrightarrow> later N Q (snd (control E w))"
  by (metis steady_control prod.collapse)

lemma steady_in_tx_if [steady_intros]: "steady N Q body \<Longrightarrow> steady N Q (in_tx_if E conv body)"
  by (rule steadyI)
    (auto simp: in_tx_if_def split: prod.splits sum.splits bool.splits
      intro: later_rollback steady_snd_control dest: steady_control steadyD)

lemma steady_case_list [steady_intros]:
  "(x = [] \<Longrightarrow> steady N Q m) \<Longrightarrow> (\<And>a xs. x = a # xs \<Longrightarrow> steady N Q (f a xs)) \<Longrightarrow>
   steady N Q (case x of [] \<Rightarrow> m | a # xs \<Rightarrow> f a xs)"
  by (cases x) auto

lemma steady_case_key_error [steady_intros]:
  "steady N Q m \<Longrightarrow> (\<And>e. steady N Q (f e)) \<Longrightarrow>
   steady N Q (case x of DuplicatePrefix \<Rightarrow> m | KeyOther e \<Rightarrow> f e)"
  by (cases x) auto

lemma steady_cache [steady_intros]:
  "steady N Q (cache_get org slg)" "steady N Q (cache_insert org slg v t)"
  "steady N Q (invalidate org slg)" "steady N Q invalidate_all"
  by (simp_all add: keeps_def later_def cache_get_def cache_insert_def invalidate_def invalidate_all_def)

lemma steady_snd: "steady N Q m \<Longrightarrow> later N Q w \<Longrightarrow> later N Q (snd (m w))"
  by (simp add: keeps_def)

section \<open>The statements that leave the core tables alone\<close>

abbreviation same_core :: "db \<Rightarrow> db \<Rightarrow> bool" where
  "same_core d d' \<equiv>
     users d' = users d \<and> service_accounts d' = service_accounts d \<and> api_keys d' = api_keys d \<and>
     revoked_tokens d' = revoked_tokens d \<and> organisations d' = organisations d \<and>
     roles d' = roles d \<and> memberships d' = memberships d"

lemma core_frames:
  "insert_channel c d = Ok d' \<Longrightarrow> same_core d d'"
  "insert_reset_token t d = Ok d' \<Longrightarrow> same_core d d'"
  "upsert_override_row v d = Ok d' \<Longrightarrow> same_core d d'"
  "insert_job j d = Ok d' \<Longrightarrow> same_core d d'"
  "insert_outbox ob d = Ok d' \<Longrightarrow> same_core d d'"
  "insert_audit ar d = Ok d' \<Longrightarrow> same_core d d'"
  "update_channel_row oid cid f d = Ok (ch, d') \<Longrightarrow> same_core d d'"
  by (auto simp: insert_channel_def insert_reset_token_def upsert_override_row_def insert_job_def
      insert_outbox_def insert_audit_def update_channel_row_def split: if_splits option.splits)

section \<open>Lasting facts\<close>

locale lasting =
  fixes E :: env and N :: nat and Q :: "db \<Rightarrow> bool"
  assumes elsewhere: "\<And>d d'. Q d \<Longrightarrow> same_core d d' \<Longrightarrow> Q d'"
    and organisation_inserted: "\<And>d d' r. Q d \<Longrightarrow> insert_organisation r d = Ok d' \<Longrightarrow> Q d'"
    and membership_inserted: "\<And>d d' m. Q d \<Longrightarrow> insert_membership m d = Ok d' \<Longrightarrow> Q d'"
    and member_removed: "\<And>d uid oid. Q d \<Longrightarrow> member uid oid d \<Longrightarrow>
      (\<exists>m \<in> set (memberships d). m_user m = uid \<and> owner_row d oid m) \<longrightarrow>
        (\<exists>m \<in> set (memberships d). m_user m \<noteq> uid \<and> owner_row d oid m) \<Longrightarrow>
      Q (d\<lparr>memberships := filter (\<lambda>m. \<not> (m_user m = uid \<and> m_org m = oid)) (memberships d)\<rparr>)"
    and user_inserted: "\<And>d d' u n. Q d \<Longrightarrow> insert_user E u d = Ok d' \<Longrightarrow> N \<le> n \<Longrightarrow>
      u_id u = uuid_v7 E n \<Longrightarrow> Q d'"
    and password_set: "\<And>d uid h now. Q d \<Longrightarrow> Q (set_password_hash uid h now d)"
    and account_inserted: "\<And>d d' s. Q d \<Longrightarrow> insert_service_account s d = Ok d' \<Longrightarrow> Q d'"
    and accounts_updated: "\<And>d f. Q d \<Longrightarrow> (\<And>s. sa_user_id (f s) = sa_user_id s) \<Longrightarrow>
      Q (d\<lparr>service_accounts := map f (service_accounts d)\<rparr>)"
    and key_inserted: "\<And>d d' k n. Q d \<Longrightarrow> insert_api_key k d = Ok d' \<Longrightarrow> N \<le> n \<Longrightarrow>
      kr_id k = uuid_v7 E n \<Longrightarrow> Q d'"
    and keys_updated: "\<And>d f. Q d \<Longrightarrow>
      (\<And>k. kr_id (f k) = kr_id k \<and> kr_sa (f k) = kr_sa k \<and>
         (k_revoked_at (kr_key k) \<noteq> None \<longrightarrow> k_revoked_at (kr_key (f k)) \<noteq> None)) \<Longrightarrow>
      Q (d\<lparr>api_keys := map f (api_keys d)\<rparr>)"
    and revocation_inserted: "\<And>d d' t. Q d \<Longrightarrow> insert_revoked_if_new t d = Ok d' \<Longrightarrow> Q d'"
begin

lemma membership_if_new_steady: "Q d \<Longrightarrow> insert_membership_if_new m d = Ok d' \<Longrightarrow> Q d'"
  by (auto simp: insert_membership_if_new_def split: if_splits intro: membership_inserted)

lemma revoke_rows_steady: "Q d \<Longrightarrow> Q (d\<lparr>api_keys := revoke_rows P now (api_keys d)\<rparr>)"
  unfolding revoke_rows_def by (rule keys_updated) auto

lemma consume_row_steady: "Q d \<Longrightarrow> Q (consume_row tid now d)"
  by (rule elsewhere) (auto simp: consume_row_def)

lemma steady_lookups [steady_intros]:
  "steady N Q (find_by_username_or_email E s)" "steady N Q (find_by_id E uid)"
  "steady N Q (list_memberships E uid)" "steady N Q (count_pending_for_user E uid)"
  "steady N Q (find_valid E th)" "steady N Q (sa_find E oid sa)" "steady N Q (keys_find E sa kid)"
  "steady N Q (is_member E uid oid)" "steady N Q (find_by_code E code)"
  "steady N Q (has_role E uid oid rid)" "steady N Q (get_definition E slg)"
  "steady N Q (get_override E oid slg)"
  "steady N Q (hash_password E p)" "steady N Q (verify_password E p h)" "steady N Q (generate E)"
  "steady N Q (encode_access_token E sec iss uid oid secs)" "steady N Q (generate_api_key E)"
  unfolding find_by_username_or_email_def find_by_id_def list_memberships_def
    count_pending_for_user_def find_valid_def sa_find_def keys_find_def is_member_def
    find_by_code_def has_role_def get_definition_def get_override_def hash_password_def
    verify_password_def generate_def encode_access_token_def generate_api_key_def
  by (intro steady_intros keeps_intros)+

lemma steady_remove_member [steady_intros]: "steady N Q (remove_member_checked E uid oid)"
proof (rule steadyI)
  fix w r w'
  assume w: "later N Q w" and run: "remove_member_checked E uid oid w = (r, w')"
  have draws: "reads w_draws (remove_member_checked E uid oid)"
    by (auto simp: reads_def remove_member_checked_def in_tx_def bindE_def map_err_def query_def
        stmt_def Let_def split: prod.splits sum.splits)
  show "later N Q w'"
  proof (cases r)
    case (Inl e)
    with run have "w_db w' = w_db w" unfolding remove_member_checked_def by (auto dest: in_tx_Err_db)
    with w readsD [OF draws run] show ?thesis by (simp add: later_def)
  next
    case (Inr u)
    with run have "remove_member_checked E uid oid w = (Ok (), w')" by simp
    from remove_member_checked_Ok [OF this] w readsD [OF draws run] show ?thesis
      using member_removed [of "w_db w" uid oid] other_owners_pos [of uid oid "w_db w"]
      by (auto simp: later_def list_ex_iff)
  qed
qed

lemma steady_channels [steady_intros]:
  "steady N Q (create_inbound_channel E u oid oid' ci)"
  "steady N Q (update_inbound_channel E u oid oid' cid ci)"
  "steady N Q (delete_inbound_channel E u oid oid' cid)"
  unfolding create_inbound_channel_def update_inbound_channel_def delete_inbound_channel_def
    channel_create_def channel_update_def channel_delete_def Let_def
  by (intro steady_intros keeps_intros; erule elsewhere; auto dest: core_frames)+

lemma steady_tenants [steady_intros]:
  "steady N Q (create_organisation E u oid i)"
  "steady N Q (add_user_to_organisation E u oid u' oid' rc)"
  "steady N Q (remove_user_from_organisation E u oid u' oid')"
  "steady N Q (assign_role E u oid op oid' t rc)"
  unfolding create_organisation_def add_user_to_organisation_def remove_user_from_organisation_def
    assign_role_def create_with_initial_owner_def org_create_def insert_org_stmt_def add_member_def
    assign_def Let_def
  by (intro steady_intros keeps_intros;
      auto intro: organisation_inserted membership_inserted membership_if_new_steady)+

lemma steady_rehash [steady_intros]: "steady N Q (rehash E usr p)"
  unfolding rehash_def update_password_hash_def
  by (intro steady_intros keeps_intros) (auto intro: password_set)

lemma steady_tokens [steady_intros]:
  "steady N Q (update_password_hash E uid h)"
  "steady N Q (tokens_insert E uid th t)"
  "steady N Q (consume E tid)"
  "steady N Q (tokens_revoke E jti uid t)"
  unfolding update_password_hash_def tokens_insert_def consume_def tokens_revoke_def Let_def
  by (intro steady_intros keeps_intros;
      auto intro: password_set consume_row_steady revocation_inserted elsewhere dest: core_frames)+

lemma steady_security [steady_intros]:
  "steady N Q (register_user E u oid ri)"
  "steady N Q (login E jc un pw)"
  "steady N Q (logout E u oid jti t)"
  "steady N Q (change_password E u p q)"
  "steady N Q (switch_org E jc u oid oid')"
  "steady N Q (password_reset_request E secs em)"
  "steady N Q (password_reset_confirm E tok p)"
  unfolding register_user_def login_def logout_def change_password_def switch_org_def
    password_reset_request_def password_reset_confirm_def create_and_add_to_org_def Let_def
    drawing_def [symmetric]
  by (intro steady_intros keeps_intros;
      auto intro: user_inserted membership_inserted simp: new_user_def)+

lemma steady_accounts [steady_intros]:
  "steady N Q (create_service_account E oid n ds u oid')"
  "steady N Q (revoke_api_key E oid sa kid u oid')"
  unfolding create_service_account_def revoke_api_key_def
    sa_create_def keys_revoke_def Let_def drawing_def [symmetric]
  by (intro steady_intros keeps_intros;
      auto intro: user_inserted account_inserted revoke_rows_steady simp: new_user_def)+

lemma steady_touch [steady_intros]: "steady N Q (pg_touch_last_used E kid sa)"
  unfolding pg_touch_last_used_def keys_touch_last_used_def sa_touch_last_used_def
  by (intro steady_intros keeps_intros) (auto intro!: keys_updated accounts_updated)

lemma steady_seed [steady_intros]: "steady N Q (bootstrap_seed_admin E si)"
  unfolding bootstrap_seed_admin_def audit_insert_def drawing_def [symmetric]
  by (intro steady_intros keeps_intros)
    (auto intro: user_inserted membership_if_new_steady elsewhere simp: new_user_def
      dest: core_frames)

text \<open>A key is written under an id drawn just before.\<close>

lemma steady_fresh_key_row [steady_intros]:
  assumes "\<And>g row n. N \<le> n \<Longrightarrow> nk_id row = uuid_v7 E n \<Longrightarrow> steady N Q (f g row)"
  shows "steady N Q (bindE (map_err c (fresh_key_row E sa nm sc cb)) (\<lambda>(g, row). f g row))"
proof (rule steadyI)
  fix w r w'
  assume w: "later N Q w"
    and run: "bindE (map_err c (fresh_key_row E sa nm sc cb)) (\<lambda>(g, row). f g row) w = (r, w')"
  have fresh: "steady N Q (fresh_key_row E sa nm sc cb)"
    unfolding fresh_key_row_def hash_secret_def by (intro steady_intros keeps_intros)
  obtain x v where x: "fresh_key_row E sa nm sc cb w = (x, v)" by (meson surj_pair)
  have v: "later N Q v" by (rule steadyD [OF fresh w x])
  show "later N Q w'"
  proof (cases x)
    case (Inl e)
    with x run v show ?thesis by (auto simp: bindE_def map_err_def)
  next
    case (Inr p)
    then obtain g row where "x = Ok (g, row)" by (cases p) auto
    moreover from this x have "nk_id row = uuid_v7 E (Suc (Suc (w_draws w)))"
      by (auto simp: fresh_key_row_def generate_def hash_secret_def action_ok_simps Let_def
          hash_password_def)
    moreover from w have "N \<le> Suc (Suc (w_draws w))" by (simp add: later_def)
    ultimately show ?thesis
      using x run v assms by (auto simp: bindE_def map_err_def dest: steadyD)
  qed
qed

lemma steady_key_writes:
  "N \<le> n \<Longrightarrow> nk_id row = uuid_v7 E n \<Longrightarrow> steady N Q (keys_create E row)"
  "N \<le> n \<Longrightarrow> nk_id row = uuid_v7 E n \<Longrightarrow> steady N Q (keys_rotate E old row)"
  unfolding keys_create_def keys_rotate_def insert_key_def
  by (intro steady_intros keeps_intros; auto intro: key_inserted revoke_rows_steady simp: key_row_def)+

lemma steady_key_attempts [steady_intros]:
  "steady N Q (create_key_attempts k E ki)" "steady N Q (rotate_key_attempts k E rki nm sc)"
proof (induction k)
  case 0
  show "steady N Q (create_key_attempts 0 E ki)" "steady N Q (rotate_key_attempts 0 E rki nm sc)"
    by (simp_all add: keeps_intros)
next
  case (Suc k)
  show "steady N Q (create_key_attempts (Suc k) E ki)"
    "steady N Q (rotate_key_attempts (Suc k) E rki nm sc)"
    unfolding create_key_attempts.simps rotate_key_attempts.simps
    by (rule steady_fresh_key_row; intro steady_key_writes steady_intros keeps_intros Suc; assumption)+
qed

lemma steady_keys [steady_intros]:
  "steady N Q (create_api_key E ki)" "steady N Q (rotate_api_key E rki)"
  unfolding create_api_key_def rotate_api_key_def Let_def
  by (intro steady_intros keeps_intros)+

lemma steady_flags [steady_intros]:
  "steady N Q (set_org_feature E fi)" "steady N Q (clear_org_feature E fc)"
  "steady N Q (evaluate E ttl org slg)"
  unfolding set_org_feature_def clear_org_feature_def evaluate_def repo_value_def upsert_override_def
    delete_override_def Let_def
  by (intro steady_intros keeps_intros; auto intro: elsewhere dest: core_frames)+

lemma steady_workers [steady_intros]:
  "steady N Q (append_standalone E areq)"
  "steady N Q (tick E cfg)"
  "steady N Q (enqueue E req)"
  "steady N Q (claim_due E wid kinds vis lim)"
  "steady N Q (audit_insert E e)"
  unfolding append_standalone_def append_in_tx_def tick_def claim_unrelayed_in_tx_def
    enqueue_event_def enqueue_def enqueue_in_tx_def mark_relayed_in_tx_def claim_due_def
    claim_rows_def audit_insert_def Let_def
  by (intro steady_intros keeps_intros; auto intro: elsewhere dest: core_frames)+

lemma steady_settle [steady_intros]: "steady N Q (settle E cfg j outcome)"
  unfolding settle_def ignore_def mark_done_def mark_dead_def mark_failed_retry_def update_job_def
  by (cases outcome; rename_tac x; case_tac x)
    (auto simp: Let_def intro!: steady_intros keeps_intros elim!: elsewhere)

text \<open>Only the deletion of a service account can end it.\<close>

lemma sys_step_lasting:
  assumes "sys_step E w w'" and "later N Q w"
  shows "later N Q w' \<or> (\<exists>oid sa u oid'. w' = snd (delete_service_account E oid sa u oid' w))"
  using assms
proof (induction rule: sys_step.induct)
  case (audited k w w')
  have "later N Q w'"
    by (rule worker_run_keeps [OF audited(1), where I = "later N Q", OF audited(2)])
      (auto simp: sleep_ms_def dest: steadyD [OF steady_workers(5)])
  then show ?case ..
next
  case (sa_deleted w oid sa u oid')
  show ?case by blast
qed (auto intro!: disjI1 steady_snd steady_intros)

end

section \<open>Permanent facts\<close>

locale permanent = lasting +
  assumes account_deleted: "\<And>d d' uid n. Q d \<Longrightarrow> delete_sa_user uid d = Ok (n, d') \<Longrightarrow> Q d'"
begin

lemma steady_delete_account: "steady N Q (delete_service_account E oid sa u oid')"
  unfolding delete_service_account_def sa_delete_def
  by (intro steady_intros keeps_intros) (auto intro: account_deleted)

lemma sys_step_later: "sys_step E w w' \<Longrightarrow> later N Q w \<Longrightarrow> later N Q w'"
  using sys_step_lasting steady_snd [OF steady_delete_account] by blast

lemma reachable_later: "reachable E w w' \<Longrightarrow> later N Q w \<Longrightarrow> later N Q w'"
  by (induction rule: rtranclp_induct) (auto intro: sys_step_later)

lemma reachable_fact: "reachable E w v \<Longrightarrow> N \<le> w_draws w \<Longrightarrow> Q (w_db w) \<Longrightarrow> Q (w_db v)"
  using reachable_later by (auto simp: later_def)

end

section \<open>Dead keys, deleted accounts, revoked tokens\<close>

text \<open>No id drawn from now on is \<open>kid\<close>, and a key with that id is revoked.\<close>

definition new_ids :: "env \<Rightarrow> nat \<Rightarrow> uuid \<Rightarrow> bool" where
  "new_ids E N x \<longleftrightarrow> (\<forall>n \<ge> N. uuid_v7 E n \<noteq> x)"

definition dead_key :: "env \<Rightarrow> nat \<Rightarrow> uuid \<Rightarrow> db \<Rightarrow> bool" where
  "dead_key E N kid d \<longleftrightarrow> new_ids E N kid \<and>
     (\<forall>k \<in> set (api_keys d). kr_id k = kid \<longrightarrow> k_revoked_at (kr_key k) \<noteq> None)"

definition gone :: "env \<Rightarrow> nat \<Rightarrow> uuid \<Rightarrow> db \<Rightarrow> bool" where
  "gone E N uid d \<longleftrightarrow> new_ids E N uid \<and> uid \<notin> u_id ` set (users d) \<and>
     uid \<notin> sa_user_id ` set (service_accounts d) \<and> uid \<notin> kr_sa ` set (api_keys d)"

definition token_revoked :: "uuid \<Rightarrow> uuid \<Rightarrow> datetime \<Rightarrow> db \<Rightarrow> bool" where
  "token_revoked uid jti t d \<longleftrightarrow> uid \<in> u_id ` set (users d) \<and>
     (\<forall>u \<in> set (users d). u_id u = uid \<longrightarrow> u_kind u = Human) \<and>
     (\<exists>r \<in> set (revoked_tokens d). rv_jti r = jti \<and> rv_user_id r = uid \<and> rv_expires_at r = t)"

lemma new_ids_drawn [simp]: "N \<le> n \<Longrightarrow> \<not> new_ids E N (uuid_v7 E n)"
  by (auto simp: new_ids_def)

lemma set_password_hash_tables [simp]:
  "service_accounts (set_password_hash uid h now d) = service_accounts d"
  "api_keys (set_password_hash uid h now d) = api_keys d"
  by (simp_all add: set_password_hash_def)

lemma set_password_hash_users:
  "u \<in> set (users (set_password_hash uid h now d)) \<Longrightarrow>
     \<exists>v \<in> set (users d). u_id v = u_id u \<and> u_kind v = u_kind u"
  by (auto simp: set_password_hash_def split: if_splits)

lemma set_password_hash_ids [simp]:
  "u_id ` set (users (set_password_hash uid h now d)) = u_id ` set (users d)"
proof -
  have "map u_id (users (set_password_hash uid h now d)) = map u_id (users d)"
    by (simp add: set_password_hash_def)
  then show ?thesis by (metis image_set)
qed

lemma cascade_user_users:
  "u \<in> set (users (cascade_user uid d)) \<longleftrightarrow> u \<in> set (users d) \<and> u_id u \<noteq> uid"
  by (auto simp: cascade_user_def)

lemma delete_sa_userE:
  assumes "delete_sa_user uid d = Ok (n, d')"
  obtains "d' = d"
  | "d' = cascade_user uid d" "\<exists>u \<in> set (users d). u_id u = uid \<and> u_kind u = ServiceAccountKind"
  using assms by (auto simp: delete_sa_user_def Let_def list_ex_iff split: if_splits)

lemma insert_credentials:
  "insert_organisation r d = Ok d' \<Longrightarrow> d' = d\<lparr>organisations := organisations d @ [r]\<rparr>"
  "insert_membership m d = Ok d' \<Longrightarrow> d' = d\<lparr>memberships := memberships d @ [m]\<rparr>"
  "insert_user E u d = Ok d' \<Longrightarrow> u_id u \<notin> u_id ` set (users d) \<and> d' = d\<lparr>users := users d @ [u]\<rparr>"
  "insert_service_account s d = Ok d' \<Longrightarrow> sa_user_id s \<in> u_id ` set (users d) \<and>
     d' = d\<lparr>service_accounts := service_accounts d @ [s]\<rparr>"
  "insert_api_key k d = Ok d' \<Longrightarrow> kr_sa k \<in> sa_user_id ` set (service_accounts d) \<and>
     d' = d\<lparr>api_keys := api_keys d @ [k]\<rparr>"
  "insert_revoked_if_new t d = Ok d' \<Longrightarrow> set (revoked_tokens d) \<subseteq> set (revoked_tokens d') \<and>
     users d' = users d \<and> service_accounts d' = service_accounts d \<and> api_keys d' = api_keys d"
  by (auto simp: insert_organisation_def insert_membership_def insert_user_def
      insert_service_account_def insert_api_key_def
      insert_revoked_if_new_def split: if_splits)

interpretation dead: permanent E N "dead_key E N kid" for E N kid
  by unfold_locales
    (auto simp: dead_key_def elim!: delete_sa_userE dest!: insert_credentials)

lemma gone_users: "gone E N uid d \<Longrightarrow> x \<in> u_id ` set (users d) \<Longrightarrow> x \<noteq> uid"
  by (auto simp: gone_def)

interpretation gone: permanent E N "gone E N uid" for E N uid
proof
  fix d d' u n
  assume "gone E N uid d" "insert_user E u d = Ok d'" "N \<le> n" "u_id u = uuid_v7 E n"
  then show "gone E N uid d'" by (auto simp: gone_def dest!: insert_credentials)
next
  fix d d' s
  assume g: "gone E N uid d" and ins: "insert_service_account s d = Ok d'"
  with gone_users [OF g] insert_credentials(4) [OF ins] show "gone E N uid d'"
    by (auto simp: gone_def)
next
  fix d d' k n
  assume "gone E N uid d" "insert_api_key k d = Ok d'"
  then show "gone E N uid d'" by (auto simp: gone_def dest!: insert_credentials)
next
  fix d d' sa n
  assume g: "gone E N uid d" and del: "delete_sa_user sa d = Ok (n, d')"
  then show "gone E N uid d'"
    by (auto simp: gone_def cascade_user_users elim!: delete_sa_userE)
qed (auto simp: gone_def image_image dest!: insert_credentials)

lemma token_revoked_cascade:
  assumes "token_revoked uid jti t d" and "u \<in> set (users d)" "u_id u = sa" "u_kind u = ServiceAccountKind"
  shows "token_revoked uid jti t (cascade_user sa d)"
proof -
  have "sa \<noteq> uid" using assms by (auto simp: token_revoked_def)
  with assms(1) show ?thesis by (auto simp: token_revoked_def cascade_user_users)
qed

interpretation rvk: permanent E N "token_revoked uid jti t" for E N uid jti t
proof
  fix d x h now
  assume "token_revoked uid jti t d"
  then show "token_revoked uid jti t (set_password_hash x h now d)"
    by (auto simp: token_revoked_def dest!: set_password_hash_users)
next
  fix d d' sa n
  assume g: "token_revoked uid jti t d" and del: "delete_sa_user sa d = Ok (n, d')"
  from del show "token_revoked uid jti t d'"
    by (cases rule: delete_sa_userE) (use g token_revoked_cascade in blast)+
qed (auto simp: token_revoked_def dest!: insert_credentials)

section \<open>What the layer makes of them\<close>

lemma dead_key_rejected:
  "dead_key E N kid d \<Longrightarrow> map_option vk_key_id (key_of_db E d prefix secret) \<noteq> Some kid"
  by (auto simp: dead_key_def dest!: key_of_db_live)

lemma gone_rejected:
  "gone E N sa d \<Longrightarrow> map_option vk_sa_user_id (key_of_db E d prefix secret) \<noteq> Some sa"
  by (auto simp: gone_def image_iff dest!: key_of_db_live)

lemma revoked_stays_dead:
  assumes "wf_db E (w_db w)" and "revoke_api_key E oid sa kid a ao w = (Ok (), w')"
    and "reachable E w' v" and "new_ids E (w_draws w') kid"
  shows "map_option vk_key_id (key_of_db E (w_db v) prefix secret) \<noteq> Some kid"
proof (rule dead_key_rejected)
  from assms(4) revoke_api_key_dead [OF assms(1,2)] have "dead_key E (w_draws w') kid (w_db w')"
    by (auto simp: dead_key_def)
  with assms(3) show "dead_key E (w_draws w') kid (w_db v)" using dead.reachable_fact by blast
qed

lemma rotated_stays_dead:
  assumes "codecs_ok E" and "argon2_correct E" and "wf_db E (w_db w)"
    and "rotate_api_key E i w = (Ok m, w')"
    and "reachable E w' v" and "new_ids E (w_draws w') (rk_old_key_id i)"
  shows "map_option vk_key_id (key_of_db E (w_db v) prefix secret) \<noteq> Some (rk_old_key_id i)"
proof (rule dead_key_rejected)
  from assms(6) rotate_api_key_Ok [OF assms(1-4)]
  have "dead_key E (w_draws w') (rk_old_key_id i) (w_db w')"
    by (auto simp: dead_key_def)
  with assms(5) show "dead_key E (w_draws w') (rk_old_key_id i) (w_db v)"
    using dead.reachable_fact by blast
qed

lemma deleted_stays_dead:
  assumes "delete_service_account E oid sa a ao w = (Ok (), w')"
    and "reachable E w' v" and "new_ids E (w_draws w') sa"
  shows "map_option vk_sa_user_id (key_of_db E (w_db v) prefix secret) \<noteq> Some sa"
proof (rule gone_rejected)
  from assms(3) delete_service_account_Ok [OF assms(1)] have "gone E (w_draws w') sa (w_db w')"
    by (auto simp: gone_def cascade_user_users)
  with assms(2) show "gone E (w_draws w') sa (w_db v)" using gone.reachable_fact by blast
qed

text \<open>
  After a logout the layer refuses the token for as long as its expiry has not come,
  whatever the system does in the meantime.
\<close>

lemma logout_token_revoked:
  assumes "wf_db E (w_db w)" and "u \<in> set (users (w_db w))" "u_id u = uid" "u_kind u = Human"
    and "logout E uid oid jti t w = (Ok (), w')" and "jti \<notin> rv_jti ` set (revoked_tokens (w_db w))"
  shows "token_revoked uid jti t (w_db w')"
proof -
  have "inj_on u_id (set (users (w_db w)))" using assms(1) by (simp add: wf_defs distinct_map)
  with assms(2-4) have "\<forall>x \<in> set (users (w_db w)). u_id x = uid \<longrightarrow> u_kind x = Human"
    by (metis inj_onD)
  with assms logout_Ok [OF assms(5)] show ?thesis by (auto simp: token_revoked_def)
qed

lemma logout_rejects:
  assumes "\<And>n. \<not> db_fault E n" and "token_revoked uid (cl_jti c) (seconds (cl_exp c)) (w_db w)"
    and "reachable E w v" and "w_now v < seconds (cl_exp c)"
    and dec: "decode_access_token E secret issuer (timestamp (w_now v)) token = Ok c"
  shows "fst (handle_jwt E (pg_strategies E ttl) secret issuer token x v) =
     Ok (Rejected (Unauthenticated ''token_revoked''))"
proof (rule handle_jwt_revoked [OF assms(1) dec])
  from assms(3) have "token_revoked uid (cl_jti c) (seconds (cl_exp c)) (w_db v)"
    by (rule rvk.reachable_fact [where N = 0]) (simp_all add: assms(2))
  with assms(4) show "revoked (cl_jti c) (w_now v) (w_db v)"
    by (auto simp: revoked_def token_revoked_def list_ex_iff)
qed

end
