(* ===== verification/Rbac.thy ===== *)
theory Rbac
  imports Permanence
begin

text \<open>
  Who holds which role where, as a specification of its own: the state \<open>rbac\<close> knows users
  with their kind, organisations, roles and grants; \<open>rbac_step\<close> lists the moves the program
  promises to make on it, each with its guard. Every step of the system, whatever fails on the
  way, is a sequence of such moves on \<open>rbac_of\<close> of its tables (\<open>sys_step_rbac\<close>), so what the
  specification guarantees holds of the program: users of kind human and organisations never
  disappear, roles never change, and an organisation loses its last owner only when that owner
  is a service account that is deleted.
\<close>

section \<open>The specification\<close>

record rbac =
  rb_users :: "(uuid \<times> user_kind) set"
  rb_orgs :: "uuid set"
  rb_roles :: "(uuid \<times> string) set"
  rb_grants :: "(uuid \<times> uuid \<times> uuid) set"

definition rb_owner :: "rbac \<Rightarrow> uuid \<Rightarrow> uuid \<Rightarrow> bool" where
  "rb_owner s org u \<longleftrightarrow> (\<exists>r. (u, org, r) \<in> rb_grants s \<and> (r, ''org_owner'') \<in> rb_roles s)"

inductive rbac_step :: "rbac \<Rightarrow> rbac \<Rightarrow> bool" where
  found: "org \<notin> rb_orgs s \<Longrightarrow> rbac_step s (s\<lparr>rb_orgs := insert org (rb_orgs s)\<rparr>)"
| enter: "u \<notin> fst ` rb_users s \<Longrightarrow> rbac_step s (s\<lparr>rb_users := insert (u, kind) (rb_users s)\<rparr>)"
| grant: "u \<in> fst ` rb_users s \<Longrightarrow> org \<in> rb_orgs s \<Longrightarrow> r \<in> fst ` rb_roles s \<Longrightarrow>
    rbac_step s (s\<lparr>rb_grants := insert (u, org, r) (rb_grants s)\<rparr>)"
| leave: "\<exists>r. (u, org, r) \<in> rb_grants s \<Longrightarrow>
    rb_owner s org u \<longrightarrow> (\<exists>v. v \<noteq> u \<and> rb_owner s org v) \<Longrightarrow>
    rbac_step s (s\<lparr>rb_grants := rb_grants s - {u} \<times> {org} \<times> UNIV\<rparr>)"
| close: "(u, ServiceAccountKind) \<in> rb_users s \<Longrightarrow>
    rbac_step s (s\<lparr>rb_users := rb_users s - {u} \<times> UNIV, rb_grants := rb_grants s - {u} \<times> UNIV\<rparr>)"

inductive_cases rbac_stepE: "rbac_step s s'"

text \<open>Consequences of the specification alone.\<close>

definition one_kind :: "rbac \<Rightarrow> bool" where
  "one_kind s \<longleftrightarrow> (\<forall>u k k'. (u, k) \<in> rb_users s \<longrightarrow> (u, k') \<in> rb_users s \<longrightarrow> k = k')"

definition grants_valid :: "rbac \<Rightarrow> bool" where
  "grants_valid s \<longleftrightarrow>
     rb_grants s \<subseteq> (fst ` rb_users s) \<times> rb_orgs s \<times> (fst ` rb_roles s)"

lemma fst_without: "fst ` (A - {u} \<times> UNIV) = fst ` A - {u}"
  by force

lemma rbac_step_keeps:
  assumes "rbac_step s s'" and "one_kind s" and "grants_valid s"
  shows "one_kind s' \<and> grants_valid s' \<and> rb_roles s' = rb_roles s \<and> rb_orgs s \<subseteq> rb_orgs s' \<and>
     {u. (u, Human) \<in> rb_users s} \<subseteq> {u. (u, Human) \<in> rb_users s'}"
  using assms
proof (cases rule: rbac_step.cases)
  case (enter u kind)
  then show ?thesis
    using assms(2,3) by (auto simp: one_kind_def grants_valid_def image_iff)
next
  case (close u)
  have "(u, Human) \<notin> rb_users s" using close assms(2) by (auto simp: one_kind_def)
  with close assms(2,3) show ?thesis
    by (auto simp: one_kind_def grants_valid_def fst_without)
qed (auto simp: one_kind_def grants_valid_def)

lemma rbac_steps_keep:
  assumes "rbac_step\<^sup>*\<^sup>* s s'" and "one_kind s" and "grants_valid s"
  shows "one_kind s' \<and> grants_valid s' \<and> rb_roles s' = rb_roles s \<and> rb_orgs s \<subseteq> rb_orgs s' \<and>
     {u. (u, Human) \<in> rb_users s} \<subseteq> {u. (u, Human) \<in> rb_users s'}"
  using assms
proof (induction rule: rtranclp_induct)
  case (step s1 s2)
  with rbac_step_keeps [OF step(2)] show ?case by auto
qed simp

section \<open>The tables as a state of the specification\<close>

definition rbac_of :: "db \<Rightarrow> rbac" where
  "rbac_of d =
     \<lparr> rb_users = (\<lambda>u. (u_id u, u_kind u)) ` set (users d),
       rb_orgs = o_id ` set (organisations d),
       rb_roles = (\<lambda>r. (r_id r, r_code r)) ` set (roles d),
       rb_grants = membership_key ` set (memberships d) \<rparr>"

lemma rbac_users: "fst ` rb_users (rbac_of d) = u_id ` set (users d)"
  and rbac_role_ids: "fst ` rb_roles (rbac_of d) = r_id ` set (roles d)"
  and rbac_orgs: "rb_orgs (rbac_of d) = o_id ` set (organisations d)"
  by (simp_all add: rbac_of_def image_image)

lemma rbac_grants: "(u, org, r) \<in> rb_grants (rbac_of d) \<longleftrightarrow>
    (\<exists>m \<in> set (memberships d). m_user m = u \<and> m_org m = org \<and> m_role m = r)"
  by (auto simp: rbac_of_def membership_key_def)

lemma rbac_roles: "(r, c) \<in> rb_roles (rbac_of d) \<longleftrightarrow> list_ex (\<lambda>x. r_id x = r \<and> r_code x = c) (roles d)"
  by (auto simp: rbac_of_def list_ex_iff)

lemma rb_owner_iff:
  "rb_owner (rbac_of d) org u \<longleftrightarrow> (\<exists>m \<in> set (memberships d). m_user m = u \<and> owner_row d org m)"
  unfolding rb_owner_def rbac_grants rbac_roles owner_row_def by auto

lemma rbac_of_wf: "wf_db E d \<Longrightarrow> one_kind (rbac_of d) \<and> grants_valid (rbac_of d)"
proof
  assume wf: "wf_db E d"
  then have "inj_on u_id (set (users d))" by (simp add: wf_defs distinct_map)
  then show "one_kind (rbac_of d)" by (auto simp: one_kind_def rbac_of_def dest: inj_onD)
  from wf show "grants_valid (rbac_of d)"
    unfolding grants_valid_def rbac_users rbac_role_ids rbac_orgs
    by (auto simp: rbac_grants wf_defs)
qed

section \<open>Every statement is a move\<close>

lemma rbac_found:
  "insert_organisation r d = Ok d' \<Longrightarrow> rbac_step (rbac_of d) (rbac_of d')"
  using rbac_step.found [of "o_id r" "rbac_of d"]
  by (auto simp: insert_organisation_def rbac_of_def split: if_splits)

lemma rbac_enter: "insert_user E u d = Ok d' \<Longrightarrow> rbac_step (rbac_of d) (rbac_of d')"
  using rbac_step.enter [of "u_id u" "rbac_of d" "u_kind u"]
  by (auto simp: insert_user_def rbac_of_def image_image split: if_splits)

lemma rbac_grant: "insert_membership m d = Ok d' \<Longrightarrow> rbac_step (rbac_of d) (rbac_of d')"
  using rbac_step.grant [of "m_user m" "rbac_of d" "m_org m" "m_role m"]
  by (auto simp: insert_membership_def rbac_of_def image_image membership_key_def split: if_splits)

lemma rbac_leave:
  assumes "member uid oid d"
    and "(\<exists>m \<in> set (memberships d). m_user m = uid \<and> owner_row d oid m) \<longrightarrow>
      (\<exists>m \<in> set (memberships d). m_user m \<noteq> uid \<and> owner_row d oid m)"
  shows "rbac_step (rbac_of d)
    (rbac_of (d\<lparr>memberships := filter (\<lambda>m. \<not> (m_user m = uid \<and> m_org m = oid)) (memberships d)\<rparr>))"
proof -
  have "\<exists>r. (uid, oid, r) \<in> rb_grants (rbac_of d)"
    using assms(1) by (auto simp: rbac_grants member_def list_ex_iff)
  moreover have "rb_owner (rbac_of d) oid uid \<longrightarrow> (\<exists>v. v \<noteq> uid \<and> rb_owner (rbac_of d) oid v)"
    using assms(2) by (auto simp: rb_owner_iff)
  moreover have "membership_key ` set (filter (\<lambda>m. \<not> (m_user m = uid \<and> m_org m = oid)) (memberships d)) =
      membership_key ` set (memberships d) - {uid} \<times> {oid} \<times> UNIV"
    by (auto simp: membership_key_def)
  ultimately show ?thesis
    using rbac_step.leave [of uid oid "rbac_of d"] by (simp add: rbac_of_def)
qed

lemma rbac_close:
  assumes "\<exists>u \<in> set (users d). u_id u = uid \<and> u_kind u = ServiceAccountKind"
  shows "rbac_step (rbac_of d) (rbac_of (cascade_user uid d))"
proof -
  have "(uid, ServiceAccountKind) \<in> rb_users (rbac_of d)"
    using assms by (auto simp: rbac_of_def)
  moreover have "(\<lambda>u. (u_id u, u_kind u)) ` set (users (cascade_user uid d)) =
      (\<lambda>u. (u_id u, u_kind u)) ` set (users d) - {uid} \<times> UNIV"
    "membership_key ` set (memberships (cascade_user uid d)) =
      membership_key ` set (memberships d) - {uid} \<times> UNIV"
    by (auto simp: cascade_user_def membership_key_def)
  ultimately show ?thesis
    using rbac_step.close [of uid "rbac_of d"] by (simp add: rbac_of_def)
qed

lemma rbac_password: "rbac_of (set_password_hash uid h now d) = rbac_of d"
proof -
  have "map (\<lambda>u. (u_id u, u_kind u)) (users (set_password_hash uid h now d)) =
      map (\<lambda>u. (u_id u, u_kind u)) (users d)"
    by (simp add: set_password_hash_def)
  from arg_cong [OF this, of set] show ?thesis by (simp add: rbac_of_def)
qed

lemma rbac_frames:
  "same_core d d' \<Longrightarrow> rbac_of d' = rbac_of d"
  "rbac_of (d\<lparr>service_accounts := ss\<rparr>) = rbac_of d"
  "rbac_of (d\<lparr>api_keys := ks\<rparr>) = rbac_of d"
  "insert_service_account sa d = Ok d' \<Longrightarrow> rbac_of d' = rbac_of d"
  "insert_api_key k d = Ok d' \<Longrightarrow> rbac_of d' = rbac_of d"
  "insert_revoked_if_new t d = Ok d' \<Longrightarrow> rbac_of d' = rbac_of d"
  by (auto simp: rbac_of_def insert_service_account_def insert_api_key_def insert_revoked_if_new_def
      split: if_splits)

lemmas rbac_extend = rtranclp.rtrancl_into_rtrancl [where r = rbac_step]

interpretation rbac: permanent E N "\<lambda>d. rbac_step\<^sup>*\<^sup>* s (rbac_of d)" for E N s
proof
  fix d d' uid n
  assume s: "rbac_step\<^sup>*\<^sup>* s (rbac_of d)" and del: "delete_sa_user uid d = Ok (n, d')"
  show "rbac_step\<^sup>*\<^sup>* s (rbac_of d')"
    by (cases rule: delete_sa_userE [OF del]) (use s in \<open>auto intro: rbac_extend rbac_close\<close>)
next
  fix d d'
  assume s: "rbac_step\<^sup>*\<^sup>* s (rbac_of d)" and "same_core d d'"
  from rbac_frames(1) [OF this(2)] s show "rbac_step\<^sup>*\<^sup>* s (rbac_of d')" by simp
next
  fix d uid oid
  assume "rbac_step\<^sup>*\<^sup>* s (rbac_of d)" "member uid oid d"
    "(\<exists>m \<in> set (memberships d). m_user m = uid \<and> owner_row d oid m) \<longrightarrow>
      (\<exists>m \<in> set (memberships d). m_user m \<noteq> uid \<and> owner_row d oid m)"
  then show "rbac_step\<^sup>*\<^sup>* s (rbac_of
      (d\<lparr>memberships := filter (\<lambda>m. \<not> (m_user m = uid \<and> m_org m = oid)) (memberships d)\<rparr>))"
    by (blast intro: rbac_extend rbac_leave)
qed (auto simp: rbac_password rbac_frames(2-) intro: rbac_extend rbac_found rbac_enter rbac_grant)

lemma reachable_rbac: "reachable E w v \<Longrightarrow> rbac_step\<^sup>*\<^sup>* (rbac_of (w_db w)) (rbac_of (w_db v))"
  by (erule rbac.reachable_fact [where N = 0]) auto

section \<open>Ownership\<close>

interpretation owned: lasting E N "\<lambda>d. has_owner d org" for E N org
proof
  fix d uid oid
  let ?keep = "\<lambda>m. \<not> (m_user m = uid \<and> m_org m = oid)"
  assume "has_owner d org"
    and other: "(\<exists>m \<in> set (memberships d). m_user m = uid \<and> owner_row d oid m) \<longrightarrow>
      (\<exists>m \<in> set (memberships d). m_user m \<noteq> uid \<and> owner_row d oid m)"
  then obtain m where m: "m \<in> set (memberships d)" "owner_row d org m" by (auto simp: has_owner_def)
  show "has_owner (d\<lparr>memberships := filter ?keep (memberships d)\<rparr>) org"
  proof (cases "?keep m")
    case True
    with m show ?thesis by (auto simp: has_owner_def)
  next
    case False
    then have "org = oid" using m(2) by (simp add: owner_row_def)
    with other m False show ?thesis by (auto simp: has_owner_def)
  qed
qed (auto simp: has_owner_def owner_row_def set_password_hash_def insert_organisation_def
    insert_membership_def insert_user_def insert_service_account_def insert_api_key_def
    insert_revoked_if_new_def split: if_splits)

definition is_account :: "db \<Rightarrow> uuid \<Rightarrow> bool" where
  "is_account d u \<longleftrightarrow> list_ex (\<lambda>x. u_id x = u \<and> u_kind x = ServiceAccountKind) (users d)"

definition sole_owner :: "db \<Rightarrow> uuid \<Rightarrow> uuid \<Rightarrow> bool" where
  "sole_owner d org u \<longleftrightarrow> (\<forall>m \<in> set (memberships d). owner_row d org m \<longrightarrow> m_user m = u)"

lemma delete_service_account_db:
  assumes "delete_service_account E oid sa a ao w = (r, w')"
  shows "w_db w' = w_db w \<or> w_db w' = cascade_user sa (w_db w) \<and>
     (\<exists>u \<in> set (users (w_db w)). u_id u = sa \<and> u_kind u = ServiceAccountKind)"
proof -
  let ?Q = "\<lambda>d. d = w_db w \<or> d = cascade_user sa (w_db w) \<and>
     (\<exists>u \<in> set (users (w_db w)). u_id u = sa \<and> u_kind u = ServiceAccountKind)"
  have "keeps_db ?Q (delete_service_account E oid sa a ao)"
    unfolding delete_service_account_def sa_delete_def
    by (intro keeps_db_intros) (auto elim!: delete_sa_userE simp: cascade_user_users)
  from keeps_dbD [OF this _ assms] show ?thesis by simp
qed

text \<open>The one step that can leave an organisation without an owner.\<close>

lemma sys_step_owner:
  assumes "sys_step E w w'" and own: "has_owner (w_db w) org"
  shows "has_owner (w_db w') org \<or>
     (\<exists>sa. is_account (w_db w) sa \<and> sole_owner (w_db w) org sa \<and>
        w_db w' = cascade_user sa (w_db w))"
proof -
  have "later 0 (\<lambda>d. has_owner d org) w" using own by (simp add: later_def)
  from owned.sys_step_lasting [OF assms(1) this] show ?thesis
  proof
    assume "\<exists>oid sa u oid'. w' = snd (delete_service_account E oid sa u oid' w)"
    then obtain oid sa u oid' r where "delete_service_account E oid sa u oid' w = (r, w')"
      by (metis prod.collapse)
    from delete_service_account_db [OF this] show ?thesis
    proof
      assume del: "w_db w' = cascade_user sa (w_db w) \<and>
        (\<exists>u \<in> set (users (w_db w)). u_id u = sa \<and> u_kind u = ServiceAccountKind)"
      show ?thesis
      proof (cases "sole_owner (w_db w) org sa")
        case False
        with del show ?thesis by (auto simp: sole_owner_def has_owner_def owner_row_def)
      qed (use del in \<open>auto simp: is_account_def list_ex_iff\<close>)
    qed (use own in simp)
  qed (simp add: later_def)
qed

lemma reachable_owner:
  assumes "reachable E w v" and "has_owner (w_db w) org"
  shows "has_owner (w_db v) org \<or>
     (\<exists>w1 w2 sa. reachable E w w1 \<and> sys_step E w1 w2 \<and> reachable E w2 v \<and>
        is_account (w_db w1) sa \<and> sole_owner (w_db w1) org sa \<and>
        w_db w2 = cascade_user sa (w_db w1))"
  using assms
proof (induction rule: rtranclp_induct)
  case (step v1 v2)
  from step.IH [OF step.prems] show ?case
  proof
    assume "has_owner (w_db v1) org"
    from sys_step_owner [OF step(2) this] step(1,2) show ?case by blast
  next
    assume "\<exists>w1 w2 sa. reachable E w w1 \<and> sys_step E w1 w2 \<and> reachable E w2 v1 \<and>
        is_account (w_db w1) sa \<and> sole_owner (w_db w1) org sa \<and>
        w_db w2 = cascade_user sa (w_db w1)"
    with step(2) show ?case by (meson rtranclp.rtrancl_into_rtrancl)
  qed
qed simp

end
