(* ===== verification/Interleaving.thy ===== *)
theory Interleaving
  imports System
begin

text \<open>
  Overlapping evaluations of feature flags. \<open>evaluate\<close> holds no lock between its look at the
  cache, its two queries and its write to the cache, so other requests run in between. Here
  \<open>evaluate\<close> on a cache miss is cut into its steps (\<open>reader_step\<close>, with the lemma that the steps
  in a row are \<open>evaluate\<close>), and any number of such calls interleave with anything else the
  process does (\<open>quiet\<close>: whole services, single statements of a writer, the passing of time).

  The sequential invariant \<open>coherent\<close> does not survive this; what does is bounded staleness: a
  value served from the cache was the value in the tables at some moment less than the
  cache's TTL ago. It holds because \<open>expires_at\<close> counts from the instant before the queries.
\<close>

section \<open>The steps of evaluate on a miss\<close>

datatype reader =
    Missed uuid string datetime
  | NoOverride uuid string datetime
  | Loaded uuid string datetime json

fun reader_step :: "env \<Rightarrow> datetime \<Rightarrow> reader \<Rightarrow> world \<Rightarrow> reader option \<times> world" where
  "reader_step E ttl (Missed org slg now) w =
     (case get_override E org slg w of
        (Err e, w') \<Rightarrow> (None, w')
      | (Ok None, w') \<Rightarrow> (Some (NoOverride org slg now), w')
      | (Ok (Some v), w') \<Rightarrow> (Some (Loaded org slg now (fo_value v)), w'))"
| "reader_step E ttl (NoOverride org slg now) w =
     (case get_definition E slg w of
        (Err e, w') \<Rightarrow> (None, w')
      | (Ok None, w') \<Rightarrow> (None, w')
      | (Ok (Some f), w') \<Rightarrow> (Some (Loaded org slg now (fd_default_value f)), w'))"
| "reader_step E ttl (Loaded org slg now v) w =
     (None, w\<lparr>w_cache := (w_cache w)((org, slg) \<mapsto> (v, now + ttl))\<rparr>)"

text \<open>Alone, a call takes at most three steps and does to the world what \<open>evaluate\<close> does.\<close>

fun run_reader :: "nat \<Rightarrow> env \<Rightarrow> datetime \<Rightarrow> reader \<Rightarrow> world \<Rightarrow> world option" where
  "run_reader 0 E ttl rd w = None"
| "run_reader (Suc k) E ttl rd w =
     (case reader_step E ttl rd w of
        (None, w') \<Rightarrow> Some w'
      | (Some rd', w') \<Rightarrow> run_reader k E ttl rd' w')"

definition hit :: "world \<Rightarrow> uuid \<Rightarrow> string \<Rightarrow> json option" where
  "hit w org slg =
     (case w_cache w (org, slg) of
        None \<Rightarrow> None
      | Some (v, expires_at) \<Rightarrow> if expires_at > w_now w then Some v else None)"

lemma evaluate_hit: "hit w org slg = Some v \<Longrightarrow> evaluate E ttl org slg w = (Ok v, w)"
  by (auto simp: hit_def evaluate_def bindE_def utc_now_def cache_get_def ret_def Let_def
      split: option.splits if_splits)

lemma evaluate_miss:
  "hit w org slg = None \<Longrightarrow>
   evaluate E ttl org slg w =
     (bindE (repo_value E org slg) (\<lambda>v.
      bindE (cache_insert org slg v (w_now w + ttl)) (\<lambda>_. ret v))) w"
  by (auto simp: hit_def evaluate_def bindE_def [of utc_now] bindE_def [of "cache_get _ _"] utc_now_def
      cache_get_def Let_def split: option.splits if_splits)

lemma run_reader_evaluate:
  assumes "hit w org slg = None"
  shows "run_reader 3 E ttl (Missed org slg (w_now w)) w = Some (snd (evaluate E ttl org slg w))"
  unfolding evaluate_miss [OF assms] repo_value_def
  by (auto simp: numeral_3_eq_3 bindE_def map_err_def cache_insert_def ret_def fail_def
      split: prod.splits sum.splits option.splits)

section \<open>Interleaving\<close>

text \<open>
  What everything else may do to the flags and the cache: anything to the overrides, nothing
  to the definitions, and of the cache only remove entries; the clock does not go back.
\<close>

definition quiet :: "world \<Rightarrow> world \<Rightarrow> bool" where
  "quiet w w' \<longleftrightarrow> w_now w \<le> w_now w' \<and>
     feature_definitions (w_db w') = feature_definitions (w_db w) \<and> w_cache w' \<subseteq>\<^sub>m w_cache w"

lemma quiet_cache: "quiet w w' \<Longrightarrow> w_cache w' k = Some x \<Longrightarrow> w_cache w k = Some x"
  unfolding quiet_def map_le_def by (metis domI)

text \<open>
  The calls in flight, and every state of the tables so far with the time at which it was seen.
\<close>

record interleaved =
  il_world :: world
  il_readers :: "reader list"
  il_seen :: "(datetime \<times> db) set"

definition seeing :: "interleaved \<Rightarrow> interleaved" where
  "seeing c = c\<lparr>il_seen := insert (w_now (il_world c), w_db (il_world c)) (il_seen c)\<rparr>"

definition put_reader :: "nat \<Rightarrow> reader option \<Rightarrow> reader list \<Rightarrow> reader list" where
  "put_reader i r rs = (case r of None \<Rightarrow> take i rs @ drop (Suc i) rs | Some x \<Rightarrow> rs[i := x])"

inductive il_step :: "env \<Rightarrow> datetime \<Rightarrow> interleaved \<Rightarrow> interleaved \<Rightarrow> bool" for E ttl where
  call: "hit (il_world c) org slg = None \<Longrightarrow>
    il_step E ttl c (c\<lparr>il_readers := il_readers c @ [Missed org slg (w_now (il_world c))]\<rparr>)"
| move: "i < length (il_readers c) \<Longrightarrow> reader_step E ttl (il_readers c ! i) (il_world c) = (r, w') \<Longrightarrow>
    il_step E ttl c (seeing (c\<lparr>il_world := w', il_readers := put_reader i r (il_readers c)\<rparr>))"
| other: "quiet (il_world c) w' \<Longrightarrow> il_step E ttl c (seeing (c\<lparr>il_world := w'\<rparr>))"

abbreviation il_reachable :: "env \<Rightarrow> datetime \<Rightarrow> interleaved \<Rightarrow> interleaved \<Rightarrow> bool" where
  "il_reachable E ttl \<equiv> (il_step E ttl)\<^sup>*\<^sup>*"

text \<open>The process starts with an empty cache and no call in flight.\<close>

definition il_start :: "world \<Rightarrow> interleaved" where
  "il_start w = \<lparr> il_world = w\<lparr>w_cache := Map.empty\<rparr>, il_readers = [], il_seen = {(w_now w, w_db w)} \<rparr>"

section \<open>Bounded staleness\<close>

text \<open>The tables gave \<open>v\<close> at some time seen between \<open>t0\<close> and now.\<close>

definition was :: "interleaved \<Rightarrow> datetime \<Rightarrow> uuid \<Rightarrow> string \<Rightarrow> json \<Rightarrow> bool" where
  "was c t0 org slg v \<longleftrightarrow> (\<exists>(t, d) \<in> il_seen c. t0 \<le> t \<and> t \<le> w_now (il_world c) \<and>
     effective d org slg = Some v)"

fun reader_ok :: "interleaved \<Rightarrow> reader \<Rightarrow> bool" where
  "reader_ok c (Missed org slg t0) \<longleftrightarrow> t0 \<le> w_now (il_world c)"
| "reader_ok c (NoOverride org slg t0) \<longleftrightarrow> (\<exists>(t, d) \<in> il_seen c. t0 \<le> t \<and>
     t \<le> w_now (il_world c) \<and> find_override org slg d = None \<and>
     feature_definitions d = feature_definitions (w_db (il_world c)))"
| "reader_ok c (Loaded org slg t0 v) \<longleftrightarrow> was c t0 org slg v"

definition il_ok :: "datetime \<Rightarrow> interleaved \<Rightarrow> bool" where
  "il_ok ttl c \<longleftrightarrow> (\<forall>rd \<in> set (il_readers c). reader_ok c rd) \<and>
     (\<forall>org slg v e. w_cache (il_world c) (org, slg) = Some (v, e) \<longrightarrow> was c (e - ttl) org slg v)"

text \<open>A later configuration, as far as readers and entries are concerned.\<close>

definition il_later :: "interleaved \<Rightarrow> interleaved \<Rightarrow> bool" where
  "il_later c c' \<longleftrightarrow> w_now (il_world c) \<le> w_now (il_world c') \<and> il_seen c \<subseteq> il_seen c' \<and>
     feature_definitions (w_db (il_world c')) = feature_definitions (w_db (il_world c))"

lemma was_later: "was c t0 org slg v \<Longrightarrow> il_later c c' \<Longrightarrow> was c' t0 org slg v"
  unfolding was_def il_later_def by fastforce

lemma reader_ok_later: "reader_ok c rd \<Longrightarrow> il_later c c' \<Longrightarrow> reader_ok c' rd"
proof (cases rd)
  case (Loaded org slg t0 v)
  assume "reader_ok c rd" "il_later c c'"
  with Loaded was_later show ?thesis by simp
qed (auto simp: il_later_def; fastforce)+

lemma set_put_reader:
  "set (put_reader i r rs) \<subseteq> set rs \<union> set_option r"
  by (cases r) (auto simp: put_reader_def dest: in_set_takeD in_set_dropD
      set_update_subset_insert [THEN subsetD])

lemma il_ok_step:
  assumes ok: "il_ok ttl c" and later: "il_later c c'"
    and rds: "\<And>rd. rd \<in> set (il_readers c') \<Longrightarrow> rd \<in> set (il_readers c) \<or> reader_ok c' rd"
    and cache: "\<And>org slg v e. w_cache (il_world c') (org, slg) = Some (v, e) \<Longrightarrow>
      w_cache (il_world c) (org, slg) = Some (v, e) \<or> was c' (e - ttl) org slg v"
  shows "il_ok ttl c'"
  using assms unfolding il_ok_def by (meson reader_ok_later was_later)

lemma repo_frames:
  "get_override E org slg w = (r, w') \<Longrightarrow> w_db w' = w_db w \<and> w_now w' = w_now w \<and> w_cache w' = w_cache w"
  "get_definition E slg w = (s, w') \<Longrightarrow> w_db w' = w_db w \<and> w_now w' = w_now w \<and> w_cache w' = w_cache w"
  by (auto simp: get_override_def get_definition_def map_err_def query_def stmt_def Let_def
      split: if_splits)

lemma repo_values:
  "get_override E org slg w = (Ok ov, w') \<Longrightarrow> ov = find_override org slg (w_db w)"
  "get_definition E slg w = (Ok df, w') \<Longrightarrow> df = find_definition slg (w_db w)"
  by (auto simp: get_override_def get_definition_def map_err_eq_Ok_iff query_Ok_iff)

text \<open>What one step of a call leaves behind.\<close>

lemma reader_step_frame:
  "reader_step E ttl rd w = (r, w') \<Longrightarrow> w_db w' = w_db w \<and> w_now w' = w_now w"
  by (cases rd) (auto split: prod.splits sum.splits option.splits dest!: repo_frames)

lemma reader_step_cache:
  assumes "reader_step E ttl rd w = (r, w')" and "w_cache w' (org, slg) = Some (v, e)"
  shows "w_cache w (org, slg) = Some (v, e) \<or> (\<exists>t0. rd = Loaded org slg t0 v \<and> e = t0 + ttl)"
  using assms
  by (cases rd) (auto split: prod.splits sum.splits option.splits if_splits dest!: repo_frames)

lemma reader_step_ok:
  assumes run: "reader_step E ttl rd (il_world c) = (Some rd', w')" and ok: "reader_ok c rd"
    and c': "c' = seeing (c\<lparr>il_world := w', il_readers := rs\<rparr>)"
  shows "reader_ok c' rd'"
proof -
  let ?now = "w_now (il_world c)" and ?d = "w_db (il_world c)"
  from reader_step_frame [OF run] have w': "w_db w' = ?d" "w_now w' = ?now" by simp_all
  then have seen: "(?now, ?d) \<in> il_seen c'" "il_seen c \<subseteq> il_seen c'" "w_now (il_world c') = ?now"
    "w_db (il_world c') = ?d"
    by (auto simp: c' seeing_def)
  show ?thesis
  proof (cases rd)
    case (Missed org slg t0)
    with run obtain ov where ov: "get_override E org slg (il_world c) = (Ok ov, w')"
      and rd': "rd' = (case ov of None \<Rightarrow> NoOverride org slg t0 | Some v \<Rightarrow> Loaded org slg t0 (fo_value v))"
      by (auto split: prod.splits sum.splits option.splits)
    have t0: "t0 \<le> ?now" using ok Missed by simp
    have fo: "find_override org slg ?d = ov" using repo_values(1) [OF ov] by simp
    show ?thesis
    proof (cases ov)
      case None
      with t0 fo seen rd' show ?thesis by (auto intro!: bexI [of _ "(?now, ?d)"])
    next
      case (Some v)
      with t0 fo seen rd' show ?thesis
        by (auto simp: was_def effective_def intro!: bexI [of _ "(?now, ?d)"])
    qed
  next
    case (NoOverride org slg t0)
    with run obtain f where f: "get_definition E slg (il_world c) = (Ok (Some f), w')"
      and rd': "rd' = Loaded org slg t0 (fd_default_value f)"
      by (auto split: prod.splits sum.splits option.splits)
    from ok NoOverride obtain t d where td: "(t, d) \<in> il_seen c" "t0 \<le> t" "t \<le> ?now"
      "find_override org slg d = None" "feature_definitions d = feature_definitions ?d"
      by auto
    then have "effective d org slg = Some (fd_default_value f)"
      using repo_values(2) [OF f, symmetric] by (simp add: effective_def find_definition_def)
    with td seen rd' show ?thesis by (auto simp: was_def)
  qed (use run in simp)
qed

lemma il_step_ok: "il_step E ttl c c' \<Longrightarrow> il_ok ttl c \<Longrightarrow> il_ok ttl c'"
proof (induction rule: il_step.induct)
  case (call c org slg)
  show ?case by (rule il_ok_step [OF call.prems]) (auto simp: il_later_def)
next
  case (move i c r w')
  let ?rd = "il_readers c ! i"
  define c' where "c' = seeing (c\<lparr>il_world := w', il_readers := put_reader i r (il_readers c)\<rparr>)"
  have rd: "reader_ok c ?rd" using move by (simp add: il_ok_def)
  have later: "il_later c c'"
    using reader_step_frame [OF move(2)] by (auto simp: il_later_def c'_def seeing_def)
  have "il_ok ttl c'"
  proof (rule il_ok_step [OF move.prems later])
    fix x
    assume "x \<in> set (il_readers c')"
    with set_put_reader [of i r "il_readers c"] have "x \<in> set (il_readers c) \<or> r = Some x"
      by (auto simp: c'_def seeing_def)
    with reader_step_ok [OF _ rd] move(2) c'_def show "x \<in> set (il_readers c) \<or> reader_ok c' x" by blast
  next
    fix org slg v e
    assume "w_cache (il_world c') (org, slg) = Some (v, e)"
    then have "w_cache w' (org, slg) = Some (v, e)" by (simp add: c'_def seeing_def)
    from reader_step_cache [OF move(2) this]
    show "w_cache (il_world c) (org, slg) = Some (v, e) \<or> was c' (e - ttl) org slg v"
    proof
      assume "\<exists>t0. ?rd = Loaded org slg t0 v \<and> e = t0 + ttl"
      with rd was_later [OF _ later] show ?thesis by auto
    qed simp
  qed
  then show ?case by (simp add: c'_def)
next
  case (other c w')
  show ?case
    by (rule il_ok_step [OF other.prems])
      (use other(1) quiet_cache [OF other(1)] in \<open>auto simp: il_later_def seeing_def quiet_def\<close>)
qed

lemma il_reachable_ok: "il_reachable E ttl (il_start w) c \<Longrightarrow> il_ok ttl c"
proof (induction rule: rtranclp_induct)
  case base
  show ?case by (simp add: il_ok_def il_start_def)
qed (rule il_step_ok)

text \<open>What a hit returns was in the tables less than the TTL ago.\<close>

lemma hit_bounded:
  assumes "il_ok ttl c" and "hit (il_world c) org slg = Some v"
  shows "\<exists>(t, d) \<in> il_seen c. w_now (il_world c) - ttl < t \<and> t \<le> w_now (il_world c) \<and>
     effective d org slg = Some v"
proof -
  from assms(2) obtain e where "w_cache (il_world c) (org, slg) = Some (v, e)" "w_now (il_world c) < e"
    by (auto simp: hit_def split: option.splits if_splits)
  with assms(1) have "was c (e - ttl) org slg v" "w_now (il_world c) - ttl < e - ttl"
    by (auto simp: il_ok_def)
  then obtain t d where "(t, d) \<in> il_seen c" "e - ttl \<le> t" "t \<le> w_now (il_world c)"
    "effective d org slg = Some v" "w_now (il_world c) - ttl < e - ttl"
    by (auto simp: was_def)
  then show ?thesis by (intro bexI [of _ "(t, d)"]) auto
qed

section \<open>The rest of the system is quiet\<close>

lemma quiet_frame: "feature_frame w' = feature_frame w \<Longrightarrow> quiet w w'"
  by (simp add: quiet_def feature_frame_def)

lemma quiet_snd: "reads feature_frame m \<Longrightarrow> quiet w (snd (m w))"
  by (rule quiet_frame) (simp add: reads_def)

lemma quiet_run: "keeps (quiet w) m \<Longrightarrow> quiet w (snd (m w))"
  by (simp add: keeps_def quiet_def)

lemma quiet_trans: "quiet u v \<Longrightarrow> quiet v w \<Longrightarrow> quiet u w"
  unfolding quiet_def by (auto intro: map_le_trans)

lemma quiet_keeps:
  assumes "\<And>w r w'. m w = (r, w') \<Longrightarrow> quiet w w'"
  shows "keeps (quiet u) m"
  by (rule keepsI) (rule quiet_trans [OF _ assms])

text \<open>The single statements of a writer are quiet too.\<close>

lemma quiet_upsert: "upsert_override E org slg v uid w = (r, w') \<Longrightarrow> quiet w w'"
  by (auto simp: upsert_override_def map_err_def stmt_def upsert_override_row_def quiet_def Let_def
      split: if_splits sum.splits prod.splits)

lemma quiet_delete: "delete_override E org slg w = (r, w') \<Longrightarrow> quiet w w'"
  by (auto simp: delete_override_def map_err_def stmt_def quiet_def Let_def split: if_splits)

lemma quiet_invalidate: "invalidate org slg w = (r, w') \<Longrightarrow> quiet w w'"
  by (auto simp: invalidate_def quiet_def map_le_def split: if_splits)

lemma quiet_parts:
  "keeps (quiet u) (upsert_override E org slg v uid)" "keeps (quiet u) (delete_override E org slg)"
  "keeps (quiet u) (invalidate org slg)"
  by (rule quiet_keeps, erule quiet_upsert quiet_delete quiet_invalidate)+

lemma quiet_reads: "reads feature_frame m \<Longrightarrow> keeps (quiet u) m"
  by (rule quiet_keeps) (auto dest: readsD intro: quiet_frame)

lemmas quiet_leaf = reads_frame_leaf [THEN quiet_reads]

lemma quiet_flags:
  "keeps (quiet u) (set_org_feature E fi)" "keeps (quiet u) (clear_org_feature E fc)"
  unfolding set_org_feature_def clear_org_feature_def get_definition_def
  by (intro keeps_intros quiet_parts quiet_leaf)+

lemma sys_step_quiet:
  "sys_step E w w' \<Longrightarrow> quiet w w' \<or> (\<exists>t org slg. w' = snd (evaluate E t org slg w))"
proof (induction rule: sys_step.induct)
  case (audited k w w')
  have "quiet w w'"
  proof (rule worker_run_keeps [OF audited, where I = "quiet w"])
    show "quiet w (sleep_ms ms v)" if "quiet w v" for v ms
      using that uint_ge_0 [of ms] unfolding quiet_def sleep_ms_def by (auto intro: order_trans)
  qed (auto simp: quiet_def feature_frame_def dest!: readsD [OF frame_workers(5)])
  then show ?case ..
next
  case (flag_set w fi)
  show ?case by (rule disjI1 [OF quiet_run [OF quiet_flags(1)]])
next
  case (flag_cleared w fc)
  show ?case by (rule disjI1 [OF quiet_run [OF quiet_flags(2)]])
next
  case (flag_read w t org slg)
  show ?case by blast
next
  case (time w now)
  then show ?case by (simp add: quiet_def)
qed (intro disjI1 quiet_snd; rule frame_tenants frame_security frame_service_accounts
    frame_workers frame_settle reads_frame_leaf)+

end
