(* ===== verification/Demo.thy ===== *)
theory Demo
  imports Middleware
begin

text \<open>
  A concrete environment, \<open>demo_env\<close>, in which every law the development assumes of code
  outside the repository holds, and a small seeded database \<open>demo_db\<close>. They show that the
  hypotheses of the properties can be met; no property is about them.

  The codecs write numbers in unary, so that encoding and decoding evaluate by rewriting on
  the small numbers of the examples.
\<close>

section \<open>A self-delimiting codec\<close>

definition enc_nat :: "nat \<Rightarrow> string" where
  "enc_nat n = replicate n CHR ''1'' @ ''0''"

fun dec_nat :: "string \<Rightarrow> (nat \<times> string) option" where
  "dec_nat [] = None"
| "dec_nat (c # cs) =
     (if c = CHR ''0'' then Some (0, cs)
      else if c = CHR ''1'' then map_option (\<lambda>(n, r). (Suc n, r)) (dec_nat cs)
      else None)"

definition enc_int :: "int \<Rightarrow> string" where
  "enc_int i = (if i < 0 then CHR ''-'' else CHR ''+'') # enc_nat (nat \<bar>i\<bar>)"

definition dec_int :: "string \<Rightarrow> (int \<times> string) option" where
  "dec_int s = (case s of
      [] \<Rightarrow> None
    | c # cs \<Rightarrow> map_option (\<lambda>(n, r). (if c = CHR ''-'' then - int n else int n, r)) (dec_nat cs))"

definition enc_str :: "string \<Rightarrow> string" where
  "enc_str s = enc_nat (length s) @ s"

definition dec_str :: "string \<Rightarrow> (string \<times> string) option" where
  "dec_str s = map_option (\<lambda>(n, r). (take n r, drop n r)) (dec_nat s)"

lemma dec_enc_nat [simp]: "dec_nat (enc_nat n @ r) = Some (n, r)"
  by (induction n) (simp_all add: enc_nat_def)

lemma dec_enc_int [simp]: "dec_int (enc_int i @ r) = Some (i, r)"
  by (simp add: dec_int_def enc_int_def)

lemma dec_enc_str [simp]: "dec_str (enc_str s @ r) = Some (s, r)"
  by (simp add: dec_str_def enc_str_def)

definition enc_uuid :: "uuid \<Rightarrow> string" where
  "enc_uuid u = enc_nat (unat u)"

definition dec_uuid :: "string \<Rightarrow> (uuid \<times> string) option" where
  "dec_uuid s = map_option (\<lambda>(n, r). (of_nat n, r)) (dec_nat s)"

lemma dec_enc_uuid [simp]: "dec_uuid (enc_uuid u @ r) = Some (u, r)"
  by (simp add: dec_uuid_def enc_uuid_def)

section \<open>Tokens and cursors\<close>

definition demo_encode_claims :: "string \<Rightarrow> claims \<Rightarrow> string" where
  "demo_encode_claims secret c =
     enc_str secret @ enc_uuid (cl_sub c) @ enc_uuid (cl_org c) @ enc_int (cl_iat c) @
     enc_int (cl_exp c) @ enc_uuid (cl_jti c) @ enc_str (cl_iss c) @ enc_str (cl_typ c)"

definition demo_decode_claims :: "string \<Rightarrow> (string \<times> claims) option" where
  "demo_decode_claims s =
     Option.bind (dec_str s) (\<lambda>(secret, s).
     Option.bind (dec_uuid s) (\<lambda>(sub, s).
     Option.bind (dec_uuid s) (\<lambda>(org, s).
     Option.bind (dec_int s) (\<lambda>(iat, s).
     Option.bind (dec_int s) (\<lambda>(ex, s).
     Option.bind (dec_uuid s) (\<lambda>(jti, s).
     Option.bind (dec_str s) (\<lambda>(iss, s).
     Option.bind (dec_str s) (\<lambda>(typ, s).
     Some (secret, \<lparr> cl_sub = sub, cl_org = org, cl_iat = iat, cl_exp = ex, cl_jti = jti,
                     cl_iss = iss, cl_typ = typ \<rparr>)))))))))"

lemma demo_claims_roundtrip: "demo_decode_claims (demo_encode_claims secret c) = Some (secret, c)"
proof -
  have last: "dec_str (enc_str s) = Some (s, [])" for s using dec_enc_str [of s "[]"] by simp
  show ?thesis by (simp add: demo_decode_claims_def demo_encode_claims_def last)
qed

definition demo_jwt_decode :: "string \<Rightarrow> string \<Rightarrow> int \<Rightarrow> string \<Rightarrow> claims option" where
  "demo_jwt_decode secret iss now tok =
     (case demo_decode_claims tok of
        None \<Rightarrow> None
      | Some (s, c) \<Rightarrow> if s = secret \<and> cl_iss c = iss \<and> now \<le> cl_exp c then Some c else None)"

fun kind_no :: "cursor_kind \<Rightarrow> nat" where
  "kind_no UserCursor = 0" | "kind_no OrganisationCursor = 1" | "kind_no MembershipCursor = 2"
| "kind_no ChannelCursor = 3" | "kind_no AuditCursor = 4"

definition demo_cursor_encode :: "cursor_kind \<Rightarrow> cursor \<Rightarrow> string" where
  "demo_cursor_encode k c = enc_nat (kind_no k) @ enc_int (fst c) @ enc_uuid (snd c)"

definition demo_cursor_decode :: "cursor_kind \<Rightarrow> string \<Rightarrow> cursor option" where
  "demo_cursor_decode k s =
     Option.bind (dec_nat s) (\<lambda>(n, s).
     if n \<noteq> kind_no k then None
     else Option.bind (dec_int s) (\<lambda>(t, s). map_option (\<lambda>(u, _). (t, u)) (dec_uuid s)))"

lemma demo_cursor_roundtrip: "demo_cursor_decode k (demo_cursor_encode k c) = Some c"
proof -
  have last: "dec_uuid (enc_uuid u) = Some (u, [])" for u using dec_enc_uuid [of u "[]"] by simp
  show ?thesis by (simp add: demo_cursor_decode_def demo_cursor_encode_def last)
qed

section \<open>The environment\<close>

definition hex_digit :: "nat \<Rightarrow> char" where
  "hex_digit n = (if n < 10 then char_of (48 + n) else char_of (87 + n))"

definition demo_hex :: "nat list \<Rightarrow> string" where
  "demo_hex bs = concat (map (\<lambda>b. [hex_digit (b div 16 mod 16), hex_digit (b mod 16)]) bs)"

definition hex_val :: "char \<Rightarrow> nat option" where
  "hex_val c = (let b = byte c in
     if 48 \<le> b \<and> b \<le> 57 then Some (b - 48) else if 97 \<le> b \<and> b \<le> 102 then Some (b - 87) else None)"

fun demo_unhex :: "string \<Rightarrow> nat list option" where
  "demo_unhex [] = Some []"
| "demo_unhex [c] = None"
| "demo_unhex (c # d # cs) =
     (case (hex_val c, hex_val d, demo_unhex cs) of
        (Some h, Some l, Some bs) \<Rightarrow> Some ((16 * h + l) # bs)
      | _ \<Rightarrow> None)"

lemma hex_val_digit: "n < 16 \<Longrightarrow> hex_val (hex_digit n) = Some n"
proof -
  assume n: "n < 16"
  show ?thesis
  proof (cases "n < 10")
    case True
    then show ?thesis by (simp add: hex_val_def hex_digit_def byte_def take_bit_eq_mod Let_def)
  next
    case False
    with n show ?thesis by (simp add: hex_val_def hex_digit_def byte_def take_bit_eq_mod Let_def)
  qed
qed

lemma demo_unhex_hex: "list_all (\<lambda>b. b < 256) bs \<Longrightarrow> demo_unhex (demo_hex bs) = Some bs"
proof (induction bs)
  case (Cons b bs)
  then have "b div 16 < 16" by (intro less_mult_imp_div_less) simp
  then have "b div 16 mod 16 = b div 16" by (rule mod_less)
  with Cons show ?case by (simp add: demo_hex_def hex_val_digit)
qed (simp add: demo_hex_def)

definition demo_env :: env where
  "demo_env =
     \<lparr> uuid_v7 = (\<lambda>n. of_nat (n mod 64) + 100),
       random_bytes = (\<lambda>n k. replicate k (n mod 256)),
       db_fault = (\<lambda>_. False),
       argon2_hash = (\<lambda>_ p. Some (''$argon2id$m=19456,t=2,p=1$'' @ p)),
       argon2_verify = (\<lambda>p h. map_option (\<lambda>q. q = p) (strip_prefix ''$argon2id$m=19456,t=2,p=1$'' h)),
       sha256 = (\<lambda>bs. bs),
       hex_encode = demo_hex,
       hex_decode = demo_unhex,
       b64url_encode = (\<lambda>bs. ''s_'' @ demo_hex bs),
       uuid_fmt = enc_uuid,
       to_lowercase = (\<lambda>s. s),
       ilike = (\<lambda>s pat. True),
       citext_eq = (=),
       email_param_eq = (=),
       jwt_encode = (\<lambda>secret c. Some (demo_encode_claims secret c)),
       jwt_decode = demo_jwt_decode,
       b64url_decode = (\<lambda>s. Option.bind (strip_prefix ''s_'' s) demo_unhex),
       json_to_vec = (\<lambda>k c. map byte (demo_cursor_encode k c)),
       json_from_slice = (\<lambda>k bs. demo_cursor_decode k (map char_of bs)),
       to_rfc3339 = enc_int,
       parse_from_rfc3339 = (\<lambda>s. map_option fst (dec_int s)),
       uuid_parse = (\<lambda>s. map_option fst (dec_uuid s)),
       parse_ip = (\<lambda>s. Some s),
       collate = (\<lambda>s. s),
       length_ok = (\<lambda>lo hi s. lo \<le> length s \<and> length s \<le> hi),
       row_locked = (\<lambda>_ _. False) \<rparr>"

lemma demo_hex_shape: "length (demo_hex bs) = 2 * length bs \<and> list_all is_ascii_hexdigit (demo_hex bs)"
proof -
  have digit: "is_ascii_hexdigit (hex_digit (n mod 16))" for n
  proof -
    have "n mod 16 < 16" by simp
    then consider "n mod 16 < 10" | "10 \<le> n mod 16" "n mod 16 < 16" by linarith
    then show ?thesis
      by cases (auto simp: hex_digit_def is_ascii_hexdigit_def byte_def of_char_of take_bit_eq_mod Let_def)
  qed
  show ?thesis by (induction bs) (simp_all add: demo_hex_def digit)
qed

lemma demo_codecs_ok: "codecs_ok demo_env"
  using demo_hex_shape by (simp add: codecs_ok_def demo_env_def)

lemma demo_hex_roundtrip: "hex_roundtrip demo_env"
  by (simp add: hex_roundtrip_def demo_env_def demo_unhex_hex list_all_length)

lemma enc_nat_ascii: "list_all (\<lambda>c. byte c < 128) (enc_nat n) \<and> CHR ''|'' \<notin> set (enc_nat n)"
  by (induction n) (simp_all add: enc_nat_def byte_def)

lemma demo_cursor_codecs: "cursor_codecs demo_env"
proof -
  have int: "dec_int (enc_int t) = Some (t, [])" for t using dec_enc_int [of t "[]"] by simp
  have int_ascii: "list_all (\<lambda>c. byte c < 128) (enc_int t) \<and> CHR ''|'' \<notin> set (enc_int t)" for t
    using enc_nat_ascii by (simp add: enc_int_def byte_def)
  have uuid: "dec_uuid (enc_uuid u) = Some (u, [])" for u using dec_enc_uuid [of u "[]"] by simp
  have uuid_ascii: "list_all (\<lambda>c. byte c < 128) (enc_uuid u)" for u
    using enc_nat_ascii by (simp add: enc_uuid_def)
  have bytes: "list_all (\<lambda>b. b < 256) (map byte s)" for s by (simp add: list_all_iff byte_less)
  show ?thesis
    unfolding cursor_codecs_def using demo_unhex_hex bytes int_ascii uuid_ascii
    by (simp add: demo_env_def demo_cursor_roundtrip int uuid del: map_map)
qed

lemma demo_argon2_correct: "argon2_correct demo_env"
  by (simp add: argon2_correct_def demo_env_def)

lemma demo_jwt_roundtrip: "jwt_roundtrip demo_env"
  by (auto simp: jwt_roundtrip_def demo_env_def demo_jwt_decode_def demo_claims_roundtrip)

lemma demo_jwt_sound: "jwt_sound demo_env"
  by (auto simp: jwt_sound_def demo_env_def demo_jwt_decode_def split: option.splits if_splits)

lemma demo_no_fault [simp]: "\<not> db_fault demo_env n"
  by (simp add: demo_env_def)

section \<open>A seeded database\<close>

text \<open>
  Organisation 1 is the operator, 2 a tenant. User 11 owns the tenant, user 12 is a plain
  member, user 13 a service account of the tenant with the API key 21.
\<close>

definition demo_hash :: string where
  "demo_hash = ''$argon2id$m=19456,t=2,p=1$password''"

definition demo_user :: "uuid \<Rightarrow> string \<Rightarrow> user_kind \<Rightarrow> string \<Rightarrow> user" where
  "demo_user i name kind h =
     \<lparr> u_id = i, u_username = name, u_email = name @ ''@x.io'', u_password_hash = h,
       u_kind = kind, u_created_at = 0, u_updated_at = 0 \<rparr>"

definition demo_key :: api_key_row where
  "demo_key =
     \<lparr> kr_key = \<lparr> k_id = 21, k_sa = 13, k_prefix = ''deadbeef'', k_name = ''ci'',
         k_scopes = Some [''channels.manage''], k_created_at = 0, k_created_by = 11,
         k_last_used_at = None, k_revoked_at = None \<rparr>,
       kr_secret_hash = ''$argon2id$m=19456,t=2,p=1$secret'' \<rparr>"

definition demo_db :: db where
  "demo_db =
     \<lparr> organisations =
         [\<lparr> o_id = 1, o_name = ''operator'', o_business = ''platform'', o_is_operator = True,
            o_created_at = 0, o_updated_at = 0 \<rparr>,
          \<lparr> o_id = 2, o_name = ''acme'', o_business = ''retail'', o_is_operator = False,
            o_created_at = 0, o_updated_at = 0 \<rparr>],
       users = [demo_user 10 ''root'' Human demo_hash, demo_user 11 ''ann'' Human demo_hash,
                demo_user 12 ''bob'' Human demo_hash, demo_user 13 ''sa'' ServiceAccountKind ''!''],
       roles = [\<lparr> r_id = 1, r_code = ''operator_admin'' \<rparr>, \<lparr> r_id = 2, r_code = ''org_owner'' \<rparr>,
                \<lparr> r_id = 3, r_code = ''org_member'' \<rparr>],
       permissions = [(1, ''tenants.manage_all''), (2, ''channels.manage''), (3, ''features.read'')],
       role_permissions = [(1, 1), (2, 2), (2, 3)],
       memberships =
         [\<lparr> m_user = 10, m_org = 1, m_role = 1, m_created_at = 0 \<rparr>,
          \<lparr> m_user = 11, m_org = 2, m_role = 2, m_created_at = 0 \<rparr>,
          \<lparr> m_user = 12, m_org = 2, m_role = 3, m_created_at = 1 \<rparr>,
          \<lparr> m_user = 13, m_org = 2, m_role = 2, m_created_at = 2 \<rparr>],
       reset_tokens = [], revoked_tokens = [], channels = [],
       service_accounts =
         [\<lparr> sa_user_id = 13, sa_organisation_id = 2, sa_name = ''ci'', sa_description = None,
            sa_created_at = 0, sa_created_by = 11, sa_last_used_at = None \<rparr>],
       api_keys = [demo_key],
       feature_definitions =
         [\<lparr> fd_slug = ''auth.api_key_headers'', fd_value_type = FEnumSet,
            fd_default_value = JArray [JString ''x-api-key'', JString ''authorization-bearer''],
            fd_description = ''headers'', fd_self_service = False \<rparr>,
          \<lparr> fd_slug = ''beta'', fd_value_type = FBool, fd_default_value = JBool False,
            fd_description = ''beta'', fd_self_service = True \<rparr>],
       feature_overrides = [], jobs = [], outbox = [], audit_events = [] \<rparr>"

definition demo_world :: world where
  "demo_world =
     \<lparr> w_db = demo_db, w_now = 0, w_draws = 0, w_stmts = 0, w_audit = [], w_audit_capacity = 4,
       w_audit_open = True, w_cache = (\<lambda>_. None) \<rparr>"

lemma demo_coherent: "coherent demo_world"
  by (simp add: coherent_def demo_world_def)

lemma demo_wf: "wf_db demo_env demo_db"
  by (simp add: wf_defs demo_db_def demo_env_def demo_user_def demo_key_def unique_emails_def
      membership_key_def channel_key_def sa_key_def override_key_def)

end
