(* ===== verification/DemoRuns.thy ===== *)
theory DemoRuns
  imports Listings Rbac Interleaving Demo
begin

text \<open>
  Runs of the model in the concrete world of \<^verbatim>\<open>Demo\<close>, evaluated by the simplifier: each says
  that an operation succeeds there. The witnesses of the properties apply the properties to
  these runs.
\<close>

lemma run_Ok: "\<not> isl (fst r) \<Longrightarrow> r = (Ok (projr (fst r)), snd r)"
  by (metis prod.collapse sum.collapse(2))

lemma run_Ok_unit: "\<not> isl (fst r) \<Longrightarrow> r = (Ok (), snd r)"
  by (metis run_Ok old.unit.exhaust)

lemma demo_world_db [simp]: "w_db demo_world = demo_db"
  by (simp add: demo_world_def)

lemma demo_world_wf: "wf_db demo_env (w_db demo_world)"
  by (simp add: demo_wf)

lemma demo_flags_ok: "flags_ok demo_world"
  using demo_coherent by (simp add: flags_ok_def overrides_typed_def demo_db_def)

lemma demo_no_revocations: "revoked_tokens demo_db = []"
  by (simp add: demo_db_def)

lemma two_steps: "sys_step E u v \<Longrightarrow> sys_step E v w \<Longrightarrow> reachable E u w"
  by (blast intro: rtranclp.rtrancl_into_rtrancl)

lemma demo_new_ids: "x < 100 \<Longrightarrow> new_ids demo_env N x"
proof -
  assume x: "x < 100"
  have "unat (of_nat (n mod 64) + 100 :: uuid) = n mod 64 + 100" for n
    using mod_less_divisor [of 64 n] by (simp add: unat_word_ariths unat_of_nat)
  then have "of_nat (n mod 64) + 100 \<noteq> x" for n
    using x unat_mono [of x 100] by fastforce
  then show ?thesis by (simp add: new_ids_def demo_env_def)
qed

section \<open>Requests\<close>

definition demo_jwt :: jwt_config where
  "demo_jwt = \<lparr> jc_secret = ''s'', jc_issuer = ''i'', jc_ttl_secs = 5 \<rparr>"

definition demo_claims :: claims where
  "demo_claims = \<lparr> cl_sub = 11, cl_org = 2, cl_iat = 0, cl_exp = 5, cl_jti = 7, cl_iss = ''i'',
     cl_typ = ''access'' \<rparr>"

definition demo_token :: string where
  "demo_token = demo_encode_claims ''s'' demo_claims"

definition demo_request :: request where
  "demo_request = \<lparr> rq_headers = [(''x-api-key'', ''egras_live_deadbeef_secret'')],
     rq_extensions = no_extensions \<rparr>"

lemma demo_decode: "decode_access_token demo_env ''s'' ''i'' 0 demo_token = Ok demo_claims"
  by (simp add: decode_access_token_def demo_env_def demo_jwt_decode_def demo_token_def
      demo_claims_roundtrip) (simp add: demo_claims_def)

definition forwards :: "unit + auth_outcome \<Rightarrow> bool" where
  "forwards r = (case r of Ok (Forward x t) \<Rightarrow> True | _ \<Rightarrow> False)"

lemma forwardsE: "forwards (fst r) \<Longrightarrow> \<exists>x t w'. r = (Ok (Forward x t), w')"
  by (cases r) (auto simp: forwards_def split: sum.splits auth_outcome.splits)

lemma demo_auth: "forwards (fst (auth_call demo_env (pg_strategies demo_env 60) ''s'' ''i'' demo_request demo_world))"
  by code_simp

lemma demo_api_key:
  "forwards (fst (handle_api_key (pg_strategies demo_env 60) ''i'' ''deadbeef'' ''secret'' XApiKey
     no_extensions demo_world))"
  by code_simp

lemma demo_jwt_call:
  "forwards (fst (handle_jwt demo_env (pg_strategies demo_env 60) ''s'' ''i'' demo_token no_extensions demo_world))"
  by code_simp

section \<open>Services\<close>

lemma demo_login: "\<not> isl (fst (login demo_env demo_jwt ''ann'' ''password'' demo_world))"
  by code_simp

lemma demo_logout: "\<not> isl (fst (logout demo_env 11 2 7 5000000 demo_world))"
  by code_simp

lemma demo_switch: "\<not> isl (fst (switch_org demo_env demo_jwt 11 2 2 demo_world))"
  by code_simp

lemma demo_change: "\<not> isl (fst (change_password demo_env 11 ''password'' ''passw0rd'' demo_world))"
  by code_simp

definition demo_org :: create_organisation_input where
  "demo_org = \<lparr> co_name = '' new '', co_business = ''retail'', co_seed_creator_as_owner = True \<rparr>"

lemma demo_create_org: "\<not> isl (fst (create_organisation demo_env 11 2 demo_org demo_world))"
  by code_simp

lemma demo_assign: "\<not> isl (fst (assign_role demo_env 11 2 False 2 12 ''org_owner'' demo_world))"
  by code_simp

lemma demo_owner: "has_owner demo_db 2"
  by (simp add: has_owner_def demo_db_def owner_row_def)

definition demo_key_input :: create_api_key_input where
  "demo_key_input = \<lparr> ck_organisation_id = 2, ck_sa_user_id = 13, ck_name = ''k'',
     ck_scopes = Some [''features.read''], ck_actor_user_id = 11, ck_actor_org_id = 2 \<rparr>"

lemma demo_fields:
  "random_bytes demo_env n k = replicate k (n mod 256)" "hex_encode demo_env = demo_hex"
  "argon2_hash demo_env n p = Some (''$argon2id$m=19456,t=2,p=1$'' @ p)"
  "uuid_v7 demo_env n = of_nat (n mod 64) + 100" "email_param_eq demo_env = (=)" "\<not> row_locked demo_env n x"
  by (simp_all add: demo_env_def)

lemma demo_hex_zero: "demo_hex (replicate 4 0) = ''00000000''"
  by code_simp

lemmas demo_eval = demo_fields demo_db_def demo_user_def demo_key_def demo_world_def bindE_def
  map_err_def matchE_def query_def stmt_def draw_def utc_now_def stmt_no_def audit_eq Let_def

lemma demo_fresh_row:
  assumes "w_draws w = 0"
  obtains g row where "fresh_key_row demo_env 13 nm sc 11 w = (Ok (g, row), w\<lparr>w_draws := 4\<rparr>)"
    "nk_id row = 102" "nk_sa row = 13" "nk_prefix row = ''00000000''" "nk_created_by row = 11"
    "nk_scopes row = sc"
proof -
  have "\<exists>g row. fresh_key_row demo_env 13 nm sc 11 w = (Ok (g, row), w\<lparr>w_draws := 4\<rparr>) \<and>
      nk_id row = 102 \<and> nk_sa row = 13 \<and> nk_prefix row = ''00000000'' \<and> nk_created_by row = 11 \<and>
      nk_scopes row = sc"
    using assms by (simp add: fresh_key_row_def generate_def hash_secret_def hash_password_def
        bindE_def map_err_def draw_def Let_def demo_fields demo_hex_zero ok_or_def)
  with that show thesis by blast
qed

lemma demo_insert_key:
  assumes "nk_id row = 102" "nk_sa row = 13" "nk_prefix row = ''00000000''" "nk_created_by row = 11"
    "nk_scopes row = Some [s]" "api_keys (w_db w) = [k]" "kr_id k = 21" "kr_prefix k = ''deadbeef''"
    "service_accounts (w_db w) = service_accounts demo_db" "users (w_db w) = users demo_db"
  shows "\<exists>key w'. insert_key demo_env row w = (Ok key, w')"
  using assms by (simp add: insert_key_def map_err_def stmt_def insert_api_key_def key_row_def)
    (simp add: demo_db_def demo_user_def)

lemma demo_sa_find: "sa_find demo_env 2 13 demo_world = (Ok (find_sa 2 13 demo_db), demo_world\<lparr>w_stmts := 1\<rparr>)"
  "find_sa 2 13 demo_db \<noteq> None"
  by (simp_all add: sa_find_def find_sa_def map_err_def query_def demo_eval)

lemma demo_keys: "api_keys demo_db = [demo_key]"
  by (simp add: demo_db_def)

lemma demo_keys_create:
  assumes "nk_id row = 102" "nk_sa row = 13" "nk_prefix row = ''00000000''" "nk_created_by row = 11"
    "nk_scopes row = Some [s]" "w_db w = demo_db"
  shows "\<exists>key w'. keys_create demo_env row w = (Ok key, w')"
proof -
  let ?v = "w\<lparr>w_stmts := Suc (w_stmts w), w_db := demo_db\<rparr>"
  obtain key w' where "insert_key demo_env row ?v = (Ok key, w')"
    using demo_insert_key [OF assms(1-5), of ?v demo_key] by (auto simp: demo_keys demo_key_def)
  with assms(6) show ?thesis by (simp add: keys_create_def bindE_def map_err_def query_def stmt_def)
qed

lemma demo_create_key: "\<not> isl (fst (create_api_key demo_env demo_key_input demo_world))"
proof -
  let ?w = "demo_world\<lparr>w_stmts := 1\<rparr>"
  obtain g row where f: "fresh_key_row demo_env 13 ''k'' (Some [''features.read'']) 11 ?w =
      (Ok (g, row), ?w\<lparr>w_draws := 4\<rparr>)"
    and row: "nk_id row = 102" "nk_sa row = 13" "nk_prefix row = ''00000000''" "nk_created_by row = 11"
    "nk_scopes row = Some [''features.read'']"
    by (rule demo_fresh_row [of ?w]) (simp add: demo_world_def)
  obtain key w' where "keys_create demo_env row (?w\<lparr>w_draws := 4\<rparr>) = (Ok key, w')"
    using demo_keys_create [OF row, of "?w\<lparr>w_draws := 4\<rparr>"] by auto
  with f show ?thesis
    by (simp add: create_api_key_def demo_key_input_def demo_sa_find bindE_def map_err_def matchE_def
        audit_eq numeral_2_eq_2)
qed

lemma demo_revoke_key: "\<not> isl (fst (revoke_api_key demo_env 2 13 21 11 2 demo_world))"
  by code_simp

definition demo_rotate_input :: rotate_api_key_input where
  "demo_rotate_input = \<lparr> rk_organisation_id = 2, rk_sa_user_id = 13, rk_old_key_id = 21,
     rk_name = None, rk_scopes = None, rk_actor_user_id = 11, rk_actor_org_id = 2 \<rparr>"

lemma demo_keys_rotate:
  assumes "nk_id row = 102" "nk_sa row = 13" "nk_prefix row = ''00000000''" "nk_created_by row = 11"
    "nk_scopes row = Some [s]" "w_db w = demo_db"
  shows "\<exists>key w'. keys_rotate demo_env 21 row w = (Ok key, w')"
proof -
  let ?k = "demo_key\<lparr>kr_key := (kr_key demo_key)\<lparr>k_revoked_at := Some (w_now w)\<rparr>\<rparr>"
  let ?v = "w\<lparr>w_stmts := Suc (Suc (w_stmts w)), w_db := demo_db\<lparr>api_keys := [?k]\<rparr>\<rparr>"
  obtain key w' where "insert_key demo_env row ?v = (Ok key, w')"
    using demo_insert_key [OF assms(1-5), of ?v ?k] by (auto simp: demo_key_def)
  with assms(6) show ?thesis
    by (simp add: keys_rotate_def in_tx_def in_tx_if_def bindE_def map_err_def query_def stmt_def
        revoke_rows_def demo_keys)
      (simp add: demo_key_def)
qed

lemma demo_keys_find:
  "w_db w = demo_db \<Longrightarrow>
   keys_find demo_env 13 21 w = (Ok (Some (kr_key demo_key)), w\<lparr>w_stmts := Suc (w_stmts w)\<rparr>)"
  by (simp add: keys_find_def map_err_def query_def stmt_def demo_keys) (simp add: demo_key_def)

lemma demo_rotate_key: "\<not> isl (fst (rotate_api_key demo_env demo_rotate_input demo_world))"
proof -
  let ?w = "demo_world\<lparr>w_stmts := Suc 1\<rparr>"
  obtain g row where f: "fresh_key_row demo_env 13 ''ci'' (Some [''channels.manage'']) 11 ?w =
      (Ok (g, row), ?w\<lparr>w_draws := 4\<rparr>)"
    and row: "nk_id row = 102" "nk_sa row = 13" "nk_prefix row = ''00000000''" "nk_created_by row = 11"
    "nk_scopes row = Some [''channels.manage'']"
    by (rule demo_fresh_row [of ?w]) (simp add: demo_world_def)
  obtain key w' where "keys_rotate demo_env 21 row (?w\<lparr>w_draws := 4\<rparr>) = (Ok key, w')"
    using demo_keys_rotate [OF row, of "?w\<lparr>w_draws := 4\<rparr>"] by auto
  with f show ?thesis
    by (simp add: rotate_api_key_def demo_rotate_input_def demo_sa_find demo_keys_find bindE_def map_err_def
        matchE_def audit_eq numeral_2_eq_2 ok_or_def)
      (simp add: demo_key_def bindE_def map_err_def matchE_def audit_eq Let_def)
qed

lemma demo_delete_sa: "\<not> isl (fst (delete_service_account demo_env 2 13 11 2 demo_world))"
  by code_simp

text \<open>The tenant's human owner leaves, then its other owner, the service account, is deleted.\<close>

definition demo_left :: world where
  "demo_left = snd (remove_user_from_organisation demo_env 11 2 11 2 demo_world)"

definition demo_ownerless :: world where
  "demo_ownerless = snd (delete_service_account demo_env 2 13 11 2 demo_left)"

lemma demo_ownerless_reachable: "reachable demo_env demo_world demo_ownerless"
  unfolding demo_ownerless_def demo_left_def
  by (rule two_steps [OF sys_step.remove_user sys_step.sa_deleted])

lemma demo_no_owner_left: "\<not> has_owner (w_db demo_ownerless) 2"
  by code_simp

definition demo_flag :: set_org_feature_input where
  "demo_flag = \<lparr> sf_organisation_id = 2, sf_slug = ''beta'', sf_value = JBool True,
     sf_actor_user_id = 11, sf_actor_org_id = 2, sf_actor_is_operator = False \<rparr>"

lemma demo_set_flag: "\<not> isl (fst (set_org_feature demo_env demo_flag demo_world))"
  by code_simp

lemma demo_evaluate: "\<not> isl (fst (evaluate demo_env 60 2 ''beta'' demo_world))"
  by code_simp

lemma effective_frame: "feature_frame w' = feature_frame w \<Longrightarrow> effective (w_db w') = effective (w_db w)"
  by (intro ext effective_same_flags) (simp add: feature_frame_def)

lemma demo_headers_flag:
  "effective demo_db 2 API_KEY_HEADERS = Some (JArray [JString ''x-api-key'', JString ''authorization-bearer''])"
  by code_simp

lemma demo_key_live: "map_option vk_key_id (key_of_db demo_env demo_db ''deadbeef'' ''secret'') = Some 21"
  by code_simp

section \<open>Password resets\<close>

definition demo_reset :: "(password_reset_request_error + string option) \<times> world" where
  "demo_reset = password_reset_request demo_env 60 ''ann@x.io'' demo_world"

lemma demo_reset_ok: "\<not> isl (fst demo_reset) \<and> projr (fst demo_reset) \<noteq> None"
  by (simp add: demo_reset_def password_reset_request_def find_by_username_or_email_def tokens_insert_def
      count_pending_for_user_def insert_reset_token_def MAX_PENDING_TOKENS_PER_USER_def demo_eval)

lemma demo_reset_eq:
  "password_reset_request demo_env 60 ''ann@x.io'' demo_world =
     (Ok (Some (the (projr (fst demo_reset)))), snd demo_reset)"
  using demo_reset_ok unfolding demo_reset_def by (metis option.collapse run_Ok)

lemma demo_hash_total: "argon2_hash demo_env n p \<noteq> None"
  by (simp add: demo_env_def)

lemma demo_token_insert: "\<not> isl (fst (tokens_insert demo_env 11 ''h'' 9 demo_world))"
  by code_simp

section \<open>Listings\<close>

definition demo_users_query :: list_users_input where
  "demo_users_query = \<lparr> lu_org_id = None, lu_q = None, lu_after = None, lu_limit = 2 \<rparr>"

definition demo_audit_query :: list_audit_events_request where
  "demo_audit_query = \<lparr> la_organisation_id = None, la_actor_user_id = None, la_event_type = None,
     la_category = None, la_outcome = None, la_from = None, la_to = None, la_cursor = None,
     la_limit = None \<rparr>"

text \<open>A second service account, so that a listing with pages of one has a second page.\<close>

definition demo_second_account :: service_account where
  "demo_second_account = \<lparr> sa_user_id = 14, sa_organisation_id = 2, sa_name = ''cd'', sa_description = None,
     sa_created_at = 1, sa_created_by = 11, sa_last_used_at = None \<rparr>"

definition demo_two_world :: world where
  "demo_two_world = demo_world\<lparr>w_db := demo_db\<lparr>
     users := users demo_db @ [demo_user 14 ''sb'' ServiceAccountKind ''!''],
     service_accounts := service_accounts demo_db @ [demo_second_account]\<rparr>\<rparr>"

lemma demo_two_wf: "wf_db demo_env (w_db demo_two_world)"
  by (simp add: wf_defs demo_two_world_def demo_second_account_def demo_db_def demo_env_def demo_user_def
      demo_key_def unique_emails_def membership_key_def channel_key_def sa_key_def override_key_def)

lemmas demo_sa_eval = list_service_accounts_def sa_list_def keyset_asc_eq sa_cursor_key_def clamp_def
  demo_two_world_def demo_second_account_def less_prod_def

lemma demo_sa_page1:
  "\<exists>items w1. list_service_accounts demo_env 2 1 None demo_two_world = (Ok (items, Some (1, 14)), w1) \<and>
     w_db w1 = w_db demo_two_world"
  by (simp add: demo_sa_eval demo_eval)

lemma demo_sa_page2:
  "w_db w1 = w_db demo_two_world \<Longrightarrow>
   \<exists>items nxt w2. list_service_accounts demo_env 2 1 (Some (1, 14)) w1 = (Ok (items, nxt), w2)"
  by (simp add: demo_sa_eval demo_eval split: if_splits)

definition demo_event :: audit_event where
  "demo_event = organisation_created 1 0 11 2 2 ''acme''"

definition demo_audit_world :: world where
  "demo_audit_world = demo_world\<lparr>w_db := demo_db\<lparr>audit_events := [audit_row_of demo_env demo_event]\<rparr>\<rparr>"

lemma demo_audit_list:
  "\<exists>nxt w'. list_audit_events demo_env demo_audit_query 2 {''audit.read_own_org''} demo_audit_world =
     (Ok ([demo_event], nxt), w')"
proof -
  have row: "event_of_row (audit_row_of demo_env demo_event) = Ok demo_event"
    by (rule event_of_row_of_event) (simp add: demo_event_def organisation_created_def base_def)
  have "ar_target_organisation_id (audit_row_of demo_env demo_event) = Some 2"
    by (simp add: audit_row_of_def demo_event_def organisation_created_def base_def)
  with row show ?thesis
    by (simp add: list_audit_events_def list_events_def effective_org_filter_def demo_audit_query_def
        demo_audit_world_def audit_filter_def audit_rows_def audit_matches_def opt_all_def keyset_desc_eq
        is_audit_read_all_def has_def clamp_def bindE_def map_err_def query_def stmt_def lift_def Let_def)
qed

section \<open>Background work\<close>

definition demo_job_db :: db where
  "demo_job_db = demo_db\<lparr>jobs := [new_job 1 (enqueue_request_now 0 ''k'' JNull) 0]\<rparr>"

lemma demo_jobs_ok: "jobs_ok demo_job_db"
  by (simp add: jobs_ok_def demo_job_db_def job_ok_intros)

lemma demo_claim: "fst (claim_rows ''w'' [''k''] (from_secs 60) 16 (\<lambda>_. False) 0 demo_job_db) \<noteq> []"
  by (simp add: claim_rows_def due_ids_def due_def demo_job_db_def new_job_def
      enqueue_request_now_def Let_def)

definition demo_appended :: world where
  "demo_appended = snd (append_standalone demo_env (append_request_new ''k'' JNull) demo_world)"

lemma demo_tick: "\<not> isl (fst (tick demo_env outbox_relayer_config_default demo_appended))"
  by (simp add: demo_appended_def append_standalone_def append_in_tx_def tick_def in_tx_def in_tx_if_def
      claim_unrelayed_in_tx_def mark_relayed_in_tx_def enqueue_event_def enqueue_in_tx_def unrelayed_def
      append_request_new_def new_event_def insert_outbox_def insert_job_def mark_rows_def
      outbox_relayer_config_default_def demo_eval)

section \<open>A stale read\<close>

text \<open>
  One evaluation has found no override and is about to read the default; a writer sets the
  flag and invalidates the cache; the evaluation goes on and stores the default.
\<close>

definition il_moved :: "nat \<Rightarrow> interleaved \<Rightarrow> interleaved" where
  "il_moved i c =
     (let (r, w') = reader_step demo_env 60 (il_readers c ! i) (il_world c) in
      seeing (c\<lparr>il_world := w', il_readers := put_reader i r (il_readers c)\<rparr>))"

definition demo_called :: interleaved where
  "demo_called = (il_start demo_world)\<lparr>il_readers := [Missed 2 ''beta'' 0]\<rparr>"

definition demo_set :: "interleaved \<Rightarrow> interleaved" where
  "demo_set c = seeing (c\<lparr>il_world := snd (set_org_feature demo_env demo_flag (il_world c))\<rparr>)"

definition demo_stale :: interleaved where
  "demo_stale = il_moved 0 (il_moved 0 (demo_set (il_moved 0 demo_called)))"

lemma il_moved_step: "i < length (il_readers c) \<Longrightarrow> il_step demo_env 60 c (il_moved i c)"
  unfolding il_moved_def by (auto simp: Let_def split: prod.splits intro: il_step.move)

lemma demo_set_step: "il_step demo_env 60 c (demo_set c)"
  unfolding demo_set_def by (rule il_step.other [OF quiet_run [OF quiet_flags(1)]])

lemma demo_called_step: "il_step demo_env 60 (il_start demo_world) demo_called"
  using il_step.call [of "il_start demo_world" 2 "''beta''" demo_env 60]
  by (simp add: demo_called_def il_start_def hit_def demo_world_def)

lemma demo_stale_readers:
  "length (il_readers demo_called) = 1" "length (il_readers (demo_set (il_moved 0 demo_called))) = 1"
  "length (il_readers (il_moved 0 (demo_set (il_moved 0 demo_called)))) = 1"
  by code_simp+

lemma demo_stale_reachable: "il_reachable demo_env 60 (il_start demo_world) demo_stale"
proof -
  let ?c1 = "il_moved 0 demo_called"
  let ?c2 = "demo_set ?c1"
  let ?c3 = "il_moved 0 ?c2"
  note more = rtranclp.rtrancl_into_rtrancl [where r = "il_step demo_env 60"]
  have "il_reachable demo_env 60 (il_start demo_world) ?c1"
    by (rule more [OF rtranclp.rtrancl_refl [THEN more, OF demo_called_step] il_moved_step]) (simp add: demo_stale_readers)
  note more [OF this demo_set_step]
  from more [OF this il_moved_step] have "il_reachable demo_env 60 (il_start demo_world) ?c3"
    by (simp add: demo_stale_readers)
  from more [OF this il_moved_step] show ?thesis
    unfolding demo_stale_def by (simp add: demo_stale_readers)
qed

lemma demo_stale_values:
  "hit (il_world demo_stale) 2 ''beta'' = Some (JBool False)"
  "effective (w_db (il_world demo_stale)) 2 ''beta'' = Some (JBool True)"
  by code_simp+

end
