(* ===== verification/Findings.thy ===== *)
theory Findings
  imports DemoRuns Access
begin

text \<open>
  Behaviours of the code that its authors will not have meant, each as a run of the model in
  the world of \<^verbatim>\<open>Demo\<close> (or, for the job queue, in any world).
\<close>

definition demo_caller :: "uuid \<Rightarrow> uuid \<Rightarrow> string \<Rightarrow> extensions" where
  "demo_caller uid oid code =
     \<lparr> ext_claims = Some (demo_claims\<lparr>cl_sub := uid, cl_org := oid\<rparr>), ext_perms = Some {code},
       ext_caller = Some (UserCaller uid oid 7) \<rparr>"

text \<open>
  \<open>post_add_user_to_organisation\<close> checks the permission, not the organisation: a caller of
  organisation 1 makes itself an owner of organisation 2.
\<close>

theorem cross_tenant_owner:
  "\<not> member 10 2 demo_db \<and>
   fst (post_add_user_to_organisation demo_env (demo_caller 10 1 ''tenants.members.add'') 10 2
     ''org_owner'' demo_world) = Ok 204 \<and>
   holds_role 10 2 2 (w_db (snd (post_add_user_to_organisation demo_env
     (demo_caller 10 1 ''tenants.members.add'') 10 2 ''org_owner'' demo_world)))"
  by (intro conjI) code_simp+

text \<open>
  \<open>post_assign_role\<close> grants any role code: the owner of an organisation becomes an operator of
  the platform.
\<close>

theorem owner_becomes_operator:
  "''tenants.manage_all'' \<notin> set (granted_codes demo_db 11 2) \<and>
   fst (post_assign_role demo_env (demo_caller 11 2 ''tenants.roles.assign'') 2 11
     ''operator_admin'' demo_world) = Ok True \<and>
   ''tenants.manage_all'' \<in> set (granted_codes (w_db (snd (post_assign_role demo_env
     (demo_caller 11 2 ''tenants.roles.assign'') 2 11 ''operator_admin'' demo_world))) 11 2)"
  by (intro conjI) code_simp+

text \<open>
  The outcome of a job is written by id only: a worker that outlived its lock puts a job back
  into the queue that another one has finished in the meantime.
\<close>

theorem finished_job_revived:
  assumes "j \<in> set (jobs (w_db w))" and "mark_failed_retry E (j_id j) err t w = (Ok (), w')"
  shows "\<exists>j' \<in> set (jobs (w_db w')). j_id j' = j_id j \<and> j_state j' = Pending"
proof
  show "retry_job err t (w_now w) j \<in> set (jobs (w_db w'))"
    using assms by (auto simp: mark_failed_retry_def map_err_eq_Ok_iff stmt_Ok_iff update_job_def)
qed (simp add: retry_job_def)

text \<open>
  A service account that has set a flag cannot be deleted any more: the reference
  \<^verbatim>\<open>updated_by\<close> has no \<^verbatim>\<open>ON DELETE\<close> action.
\<close>

theorem flag_setting_account_undeletable:
  "isl (fst (delete_service_account demo_env 2 13 11 2
     (snd (set_org_feature demo_env (demo_flag\<lparr>sf_actor_user_id := 13\<rparr>) demo_world))))"
  by code_simp

text \<open>
  In the second in which it expires a token still decodes, but its revocation no longer
  counts: a token that was logged out is forwarded again.
\<close>

theorem logged_out_token_returns:
  "forwards (fst (handle_jwt demo_env (pg_strategies demo_env 60) ''s'' ''i'' demo_token no_extensions
     ((snd (logout demo_env 11 2 7 5000000 demo_world))\<lparr>w_now := 5000000\<rparr>)))"
  by code_simp

end
