(* ===== verification/Gaps.thy ===== *)
theory Gaps
  imports Contract Findings
begin

text \<open>
  Every status in \<open>undocumented\<close> is really answered: one run of a handler for each, in the
  world of \<^verbatim>\<open>Demo\<close>.
\<close>

definition demo_key_caller :: extensions where
  "demo_key_caller =
     \<lparr> ext_claims = Some demo_claims, ext_perms = Some {}, ext_caller = Some (ApiKeyCaller 21 13 2) \<rparr>"

definition demo_state :: app_state where
  "demo_state =
     \<lparr> as_jwt_config = \<lparr> jc_secret = ''s'', jc_issuer = ''i'', jc_ttl_secs = 60 \<rparr>,
       as_password_reset_ttl_secs = 60 \<rparr>"

definition lonely_world :: world where
  "lonely_world = demo_world\<lparr>w_db := demo_db\<lparr>memberships := []\<rparr>\<rparr>"

definition gap_runs :: "(world \<times> extensions \<times> call \<times> nat) list" where
  "gap_runs =
     [(demo_world, demo_caller 10 1 ''tenants.members.add'',
       CAddUserToOrganisation \<lparr> aur_user_id = 10, aur_org_id = 2, aur_role_code = ''x'' \<rparr>, 400),
      (demo_world, demo_caller 11 2 ''channels.manage'',
       CListChannels 2 \<lparr> lsq_after = Some ''x'', lsq_limit = None \<rparr>, 400),
      (demo_world, demo_caller 11 2 ''tenants.members.add'',
       CRegister \<lparr> rgr_username = ''newuser'', rgr_email = ''n@e.x'', rgr_password = ''0123456789ab'',
         rgr_org_id = 99, rgr_role_code = ''org_owner'' \<rparr>, 404),
      (lonely_world, no_extensions,
       CLogin \<lparr> lgr_username_or_email = ''bob'', lgr_password = ''password'' \<rparr>, 403),
      (demo_world, demo_key_caller, CLogout, 403),
      (demo_world, demo_key_caller,
       CChangePassword \<lparr> cpr_current_password = [], cpr_new_password = [] \<rparr>, 403),
      (demo_world, demo_caller 99 2 [],
       CChangePassword \<lparr> cpr_current_password = [], cpr_new_password = ''0123456789ab'' \<rparr>, 404),
      (demo_world, no_extensions,
       CPasswordResetConfirm \<lparr> pcb_token = ''00'', pcb_new_password = ''0123456789ab'' \<rparr>, 401),
      (demo_world, demo_caller 11 2 ''service_accounts.manage'',
       CCreateServiceAccount \<lparr> csr_organisation_id = 1, csr_name = ''n'', csr_description = None \<rparr>, 404),
      (demo_world, demo_caller 11 2 ''service_accounts.read'',
       CListServiceAccounts \<lparr> lsa_organisation_id = 2, lsa_limit = None, lsa_after = Some ''x'' \<rparr>, 400),
      (demo_world, demo_caller 11 2 ''service_accounts.read'',
       CListServiceAccounts \<lparr> lsa_organisation_id = 1, lsa_limit = None, lsa_after = None \<rparr>, 404)]"

definition answered :: "world \<Rightarrow> extensions \<Rightarrow> call \<Rightarrow> nat option" where
  "answered w x c =
     (case fst (run_handler demo_env demo_state x c w) of Err _ \<Rightarrow> None | Ok rs \<Rightarrow> Some (rs_status rs))"

lemma gap_answers: "list_all (\<lambda>(w, x, c, s). answered w x c = Some s) gap_runs"
  unfolding gap_runs_def list.pred_inject prod.case
  by (intro conjI TrueI) code_simp+

lemma gap_endpoints:
  "map (\<lambda>(w, x, c, s). (endpoint_of c, s)) gap_runs =
     [(PostAddUserToOrganisation, 400), (GetListChannels, 400), (PostRegister, 404),
      (PostLogin, 403), (PostLogout, 403), (PostChangePassword, 403), (PostChangePassword, 404),
      (PostPasswordResetConfirm, 401), (PostCreateServiceAccount, 404),
      (GetListServiceAccounts, 400), (GetListServiceAccounts, 404)]"
  by (simp add: gap_runs_def)

lemma gap_runs_cover:
  assumes "s \<in> set (undocumented e)"
  shows "\<exists>w x c. (w, x, c, s) \<in> set gap_runs \<and> endpoint_of c = e"
proof -
  have "(e, s) \<in> set (map (\<lambda>(w, x, c, s). (endpoint_of c, s)) gap_runs)"
    unfolding gap_endpoints using assms by (cases e) auto
  then show ?thesis by auto
qed

theorem undocumented_answered:
  assumes "s \<in> set (undocumented e)"
  shows "\<exists>x c w rs w'. endpoint_of c = e \<and> run_handler demo_env demo_state x c w = (Ok rs, w') \<and>
    rs_status rs = s"
proof -
  from gap_runs_cover [OF assms] gap_answers obtain w x c where
    c: "endpoint_of c = e" "answered w x c = Some s" by (auto simp: list_all_iff)
  then obtain rs w' where "run_handler demo_env demo_state x c w = (Ok rs, w')" "rs_status rs = s"
    unfolding answered_def
    by (cases "run_handler demo_env demo_state x c w") (auto split: sum.splits)
  with c(1) show ?thesis by blast
qed

end
