(* ===== verification/DemoServe.thy ===== *)
theory DemoServe
  imports Relay Gaps
begin

text \<open>
  The application of \<^verbatim>\<open>App\<close> and the process of \<^verbatim>\<open>Process\<close> on the environment and the world of
  \<^verbatim>\<open>Demo\<close>: that the hypotheses of the properties about requests, the relayer and the shutdown
  can be met.
\<close>

definition demo_cfg :: app_config where
  "demo_cfg = (config_defaults [] ''s'')\<lparr>ac_jwt_issuer := ''i'', ac_cors_allowed_origins := ''*''\<rparr>"

definition demo_list_channels :: call where
  "demo_list_channels = CListChannels 2 \<lparr> lsq_after = None, lsq_limit = None \<rparr>"

lemma demo_list_channels_protected: "is_protected (endpoint_of demo_list_channels)"
  by (simp add: demo_list_channels_def protected_iff)

lemma demo_served:
  "(case fst (serve_request demo_env demo_cfg demo_request demo_list_channels demo_world) of
      Err _ \<Rightarrow> False | Ok (rs, _) \<Rightarrow> rs_status rs = 200)"
  by code_simp

section \<open>Relayer and shutdown\<close>

definition demo_outbox_world :: world where
  "demo_outbox_world =
     demo_world\<lparr>w_db := demo_db\<lparr>outbox :=
       [\<lparr> ob_id = 50, ob_aggregate_type = None, ob_aggregate_id = None, ob_event_type = ''e'',
          ob_payload = JNull, ob_created_at = 0, ob_relayed_at = None, ob_relay_attempts = 0,
          ob_last_error = None \<rparr>]\<rparr>\<rparr>"

definition demo_watch :: watch where
  "demo_watch = \<lparr> wt_shutdown = (\<lambda>n. 1 \<le> n), wt_waited = (\<lambda>_. 0) \<rparr>"

lemma demo_calm: "calm demo_env"
  by (simp add: calm_def demo_env_def)

lemma demo_pending: "length (pending_events (w_db demo_outbox_world)) = 1"
  by (simp add: demo_outbox_world_def pending_events_def)

lemma demo_outbox_fresh: "fresh_job_ids demo_env 1 demo_outbox_world"
  by (simp add: fresh_job_ids_def demo_outbox_world_def demo_world_def demo_db_def)

definition demo_host :: host where
  "demo_host =
     \<lparr> ho_connect = (\<lambda>_. True), ho_migrate = Ok, ho_bind = (\<lambda>_. True),
       ho_traffic = (\<lambda>w. snd (login demo_env \<lparr> jc_secret = ''s'', jc_issuer = ''i'', jc_ttl_secs = 60 \<rparr> ''bob'' ''x'' w)),
       ho_served = True, ho_hostname = None, ho_simple_uuid = ''0'',
       ho_relayer = demo_watch, ho_runner = demo_watch \<rparr>"

lemma demo_open: "open_database demo_host cfg w = Ok w"
  by (simp add: open_database_def demo_host_def)

lemma demo_cors: "build_cors demo_cfg = Ok AnyOrigin"
  by code_simp

section \<open>The command line\<close>

text \<open>
  \<^verbatim>\<open>seed-admin\<close> is not one transaction: with a role that does not exist it fails after the user
  was inserted, and the corrected second attempt fails too, since the address is taken.
\<close>

definition demo_seed :: "string \<Rightarrow> world \<Rightarrow> ending \<times> world" where
  "demo_seed role_code = run_seed_admin demo_env demo_host demo_cfg ''a@x.io'' ''admin'' ''pw'' role_code"

theorem seed_admin_half_done:
  "en_status (fst (demo_seed ''typo'' demo_world)) = 1 \<and>
   list_ex (\<lambda>u. u_email u = ''a@x.io'') (users (w_db (snd (demo_seed ''typo'' demo_world)))) \<and>
   en_status (fst (demo_seed ''operator_admin'' (snd (demo_seed ''typo'' demo_world)))) = 1 \<and>
   en_status (fst (demo_seed ''operator_admin'' demo_world)) = 0"
  by (intro conjI) code_simp+

end
