(* ===== verification/Threads.thy ===== *)
theory Threads
  imports Rbac
begin

text \<open>
  Overlapping requests. Tokio runs the handlers concurrently, and PostgreSQL sees their
  statements interleaved: between two awaits of one call anything else may happen. Here an
  action is cut into a \<open>thread\<close>, a resumption whose atoms are single round trips (one
  statement, or one transaction) and steps in memory, and threads run interleaved in a pool.

  \<^item> \<open>db_step\<close> lists the SQL statements of the program by what they do to the tables, whatever
    their arguments, with ids drawn no earlier than \<open>N\<close>.
  \<^item> \<open>cut E N D m t\<close>: the thread \<open>t\<close>, run alone, is the action \<open>m\<close>; each of its atoms is one round
    trip, and moves the tables by \<open>db_step\<close>. The calculus of \<open>woven\<close> shows that every operation
    of \<open>sys_step\<close> can be cut (\<open>programs_cut\<close>).
  \<^item> A pool of such threads moves the tables by \<open>db_step\<close> only, so what every statement keeps
    holds at every moment of every interleaving: integrity and all facts of the locale
    \<open>permanent\<close>.
\<close>

section \<open>Statements\<close>

inductive db_step :: "env \<Rightarrow> nat \<Rightarrow> db \<Rightarrow> db \<Rightarrow> bool" for E N where
  organisation: "insert_organisation r d = Ok d' \<Longrightarrow> db_step E N d d'"
| user: "insert_user E u d = Ok d' \<Longrightarrow> N \<le> n \<Longrightarrow> u_id u = uuid_v7 E n \<Longrightarrow> db_step E N d d'"
| password: "db_step E N d (set_password_hash uid h now d)"
| membership: "insert_membership m d = Ok d' \<Longrightarrow> db_step E N d d'"
| left: "member uid oid d \<Longrightarrow>
    (\<exists>m \<in> set (memberships d). m_user m = uid \<and> owner_row d oid m) \<longrightarrow>
      (\<exists>m \<in> set (memberships d). m_user m \<noteq> uid \<and> owner_row d oid m) \<Longrightarrow>
    db_step E N d (d\<lparr>memberships := filter (\<lambda>m. \<not> (m_user m = uid \<and> m_org m = oid)) (memberships d)\<rparr>)"
| account: "insert_service_account s d = Ok d' \<Longrightarrow> db_step E N d d'"
| account_used: "db_step E N d (d\<lparr>service_accounts :=
    map (\<lambda>s. if P s then s\<lparr>sa_last_used_at := t\<rparr> else s) (service_accounts d)\<rparr>)"
| account_deleted: "delete_sa_user uid d = Ok (k, d') \<Longrightarrow> db_step E N d d'"
| key: "insert_api_key k d = Ok d' \<Longrightarrow> N \<le> n \<Longrightarrow> kr_id k = uuid_v7 E n \<Longrightarrow> db_step E N d d'"
| keys_revoked: "db_step E N d (d\<lparr>api_keys := revoke_rows P now (api_keys d)\<rparr>)"
| key_used: "db_step E N d (d\<lparr>api_keys :=
    map (\<lambda>k. if P k then k\<lparr>kr_key := (kr_key k)\<lparr>k_last_used_at := t\<rparr>\<rparr> else k) (api_keys d)\<rparr>)"
| reset_token: "insert_reset_token t d = Ok d' \<Longrightarrow> db_step E N d d'"
| reset_consumed: "db_step E N d (consume_row tid now d)"
| reset_dropped: "(wf_db E d \<Longrightarrow> \<forall>t \<in> set (reset_tokens d). t_used_at t \<noteq> None \<longrightarrow> P t) \<Longrightarrow>
    db_step E N d (d\<lparr>reset_tokens := filter P (reset_tokens d)\<rparr>)"
| token_revoked: "insert_revoked_if_new v d = Ok d' \<Longrightarrow> db_step E N d d'"
| channel: "insert_channel c d = Ok d' \<Longrightarrow> db_step E N d d'"
| channel_updated: "update_channel_row oid cid f d = Ok (r, d') \<Longrightarrow> (\<And>c. c_id (f c) = c_id c) \<Longrightarrow>
    (\<And>c. c_organisation_id (f c) = c_organisation_id c) \<Longrightarrow> db_step E N d d'"
| channel_deleted: "db_step E N d (d\<lparr>channels := filter P (channels d)\<rparr>)"
| override: "upsert_override_row r d = Ok d' \<Longrightarrow> find_definition (fo_slug r) d = Some def \<Longrightarrow>
    validate (fd_value_type def) (fo_value r) = Ok () \<Longrightarrow> db_step E N d d'"
| override_deleted: "db_step E N d (d\<lparr>feature_overrides := filter P (feature_overrides d)\<rparr>)"
| audit_row: "insert_audit a d = Ok d' \<Longrightarrow> db_step E N d d'"
| job: "insert_job j d = Ok d' \<Longrightarrow> db_step E N d d'"
| jobs_updated: "(\<And>j. j_id (f j) = j_id j) \<Longrightarrow> db_step E N d (d\<lparr>jobs := map f (jobs d)\<rparr>)"
| event: "insert_outbox e d = Ok d' \<Longrightarrow> db_step E N d d'"
| events_relayed: "db_step E N d (d\<lparr>outbox := mark_rows ids now (outbox d)\<rparr>)"

text \<open>What every statement keeps: integrity, the types of flags, and the permanent facts.\<close>

lemma db_step_wf: "db_step E N d d' \<Longrightarrow> wf_db E d \<Longrightarrow> wf_db E d'"
proof (induction rule: db_step.induct)
  case (channel_updated oid cid f d r d')
  then show ?case by (blast intro: wf_update_channel_row)
qed (auto intro!: wf_map_service_accounts wf_map_api_keys wf_map_jobs
    intro: wf_intros wf_filter_memberships wf_filter_reset_tokens wf_filter_channels wf_filter_overrides
    simp: sa_key_def)

lemma db_step_definitions: "db_step E N d d' \<Longrightarrow> feature_definitions d' = feature_definitions d"
  by (induction rule: db_step.induct)
    (auto simp: set_password_hash_def consume_row_def dest: insert_frames upsert_override_row_set)

lemma db_step_typed: "db_step E N d d' \<Longrightarrow> overrides_typed d \<Longrightarrow> overrides_typed d'"
proof -
  assume step: "db_step E N d d'" and typed: "overrides_typed d"
  have same: "find_definition slg d' = find_definition slg d" for slg
    using db_step_definitions [OF step] by (simp add: find_definition_def)
  from step have "\<forall>v \<in> set (feature_overrides d'). v \<in> set (feature_overrides d) \<or>
      (\<exists>def. find_definition (fo_slug v) d = Some def \<and> validate (fd_value_type def) (fo_value v) = Ok ())"
  proof (induction rule: db_step.induct)
    case (override r d d' def)
    with upsert_override_row_set [OF override(1)] show ?case by blast
  qed (auto simp: set_password_hash_def consume_row_def dest: insert_frames)
  with typed show "overrides_typed d'" unfolding overrides_typed_def same by blast
qed

context permanent
begin

lemma db_step_fact: "db_step E N d d' \<Longrightarrow> Q d \<Longrightarrow> Q d'"
proof (induction rule: db_step.induct)
  case (account_used d P t)
  then show ?case by (rule accounts_updated) simp
next
  case (key_used d P t)
  then show ?case by (rule keys_updated) auto
qed (erule (1) organisation_inserted membership_inserted account_inserted account_deleted
      revocation_inserted | erule (3) user_inserted | erule (3) key_inserted | erule (2) member_removed
    | erule password_set | erule revoke_rows_steady | erule consume_row_steady
    | (erule elsewhere; force dest: core_frames))+

lemma db_steps_fact: "(db_step E N)\<^sup>*\<^sup>* d d' \<Longrightarrow> Q d \<Longrightarrow> Q d'"
  by (induction rule: rtranclp_induct) (auto intro: db_step_fact)

end

lemma db_steps_typed: "(db_step E N)\<^sup>*\<^sup>* d d' \<Longrightarrow> overrides_typed d \<Longrightarrow> overrides_typed d'"
  by (induction rule: rtranclp_induct) (auto intro: db_step_typed)

lemma db_steps_definitions:
  "(db_step E N)\<^sup>*\<^sup>* d d' \<Longrightarrow> feature_definitions d' = feature_definitions d"
  by (induction rule: rtranclp_induct) (auto dest: db_step_definitions)

lemma db_steps_wf: "(db_step E N)\<^sup>*\<^sup>* d d' \<Longrightarrow> wf_db E d \<Longrightarrow> wf_db E d'"
  by (induction rule: rtranclp_induct) (auto intro: db_step_wf)

section \<open>Threads\<close>

datatype ('e, 'a) thread = Finish "'e + 'a" | Atom "world \<Rightarrow> world" "world \<Rightarrow> ('e, 'a) thread"

primrec run_thread :: "('e, 'a) thread \<Rightarrow> ('e, 'a) action" where
  "run_thread (Finish r) w = (r, w)"
| "run_thread (Atom f k) w = run_thread (k w) (f w)"

text \<open>One round trip: a step in memory, a single statement, or a transaction.\<close>

definition round_trip :: "env \<Rightarrow> (world \<Rightarrow> world) \<Rightarrow> bool" where
  "round_trip E f \<longleftrightarrow>
     (\<forall>w. w_db (f w) = w_db w \<and> w_stmts (f w) = w_stmts w) \<or>
     (\<exists>g :: datetime \<Rightarrow> db \<Rightarrow> sqlx_error + unit \<times> db. \<forall>w. f w = snd (stmt E g w)) \<or>
     (\<exists>body :: (unit, unit) action. \<forall>w. f w = snd (in_tx E (\<lambda>_. ()) body w)) \<or>
     (\<exists>body :: (unit, unit \<times> bool) action. \<forall>w. f w = snd (in_tx_if E (\<lambda>_. ()) body w))"

definition moves :: "env \<Rightarrow> nat \<Rightarrow> world \<Rightarrow> world \<Rightarrow> bool" where
  "moves E N w w' \<longleftrightarrow>
     w_now w' = w_now w \<and> w_draws w \<le> w_draws w' \<and> (db_step E N)\<^sup>*\<^sup>* (w_db w) (w_db w')"

text \<open>
  \<open>V\<close> is what is known of the result. A thread may rely on what no other thread undoes: draws
  are counted upwards, and the feature definitions \<open>D\<close> stay.
\<close>

definition ambient :: "nat \<Rightarrow> feature_definition list \<Rightarrow> world \<Rightarrow> bool" where
  "ambient N D w \<longleftrightarrow> N \<le> w_draws w \<and> feature_definitions (w_db w) = D"

lemma ambient_moves: "ambient N D w \<Longrightarrow> moves E N w w' \<Longrightarrow> ambient N D w'"
  by (auto simp: ambient_def moves_def dest: db_steps_definitions)

primrec thread_ok :: "env \<Rightarrow> nat \<Rightarrow> feature_definition list \<Rightarrow> ('e + 'a \<Rightarrow> bool) \<Rightarrow> ('e, 'a) thread \<Rightarrow> bool" where
  "thread_ok E N D V (Finish r) \<longleftrightarrow> V r"
| "thread_ok E N D V (Atom f k) \<longleftrightarrow> round_trip E f \<and>
     (\<forall>w. ambient N D w \<longrightarrow> moves E N w (f w) \<and> thread_ok E N D V (k w))"

definition cut :: "env \<Rightarrow> nat \<Rightarrow> feature_definition list \<Rightarrow> ('e, 'a) action \<Rightarrow> ('e, 'a) thread \<Rightarrow> bool" where
  "cut E N D m t \<longleftrightarrow> run_thread t = m \<and> thread_ok E N D (\<lambda>_. True) t"

primrec then_thread :: "('e, 'a) thread \<Rightarrow> ('e + 'a \<Rightarrow> ('f, 'b) thread) \<Rightarrow> ('f, 'b) thread" where
  "then_thread (Finish r) k = k r"
| "then_thread (Atom f u) k = Atom f (\<lambda>w. then_thread (u w) k)"

lemma run_then_thread:
  "run_thread (then_thread t k) = matchE (run_thread t) (\<lambda>r. run_thread (k r))"
proof (induction t)
  case (Atom f u)
  show ?case by (rule ext) (simp add: Atom.IH matchE_def)
qed (simp add: matchE_def fun_eq_iff)

lemma thread_ok_then:
  "thread_ok E N D U t \<Longrightarrow> (\<And>r. U r \<Longrightarrow> thread_ok E N D V (k r)) \<Longrightarrow> thread_ok E N D V (then_thread t k)"
  by (induction t) auto

lemma moves_refl [simp]: "moves E N w w"
  by (simp add: moves_def)

lemma moves_trans: "moves E N u v \<Longrightarrow> moves E N v w \<Longrightarrow> moves E N u w"
  unfolding moves_def by (auto intro: rtranclp_trans)

text \<open>Any action is some thread, if only of a single atom.\<close>

lemma run_atom: "run_thread (Atom (\<lambda>w. snd (m w)) (\<lambda>w. Finish (fst (m w)))) = m"
  by (simp add: fun_eq_iff)

section \<open>Weaving\<close>

definition woven :: "env \<Rightarrow> nat \<Rightarrow> feature_definition list \<Rightarrow> ('e + 'a \<Rightarrow> bool) \<Rightarrow> ('e, 'a) action \<Rightarrow> bool" where
  "woven E N D V m \<longleftrightarrow> (\<exists>t. run_thread t = m \<and> thread_ok E N D V t)"

abbreviation weaves :: "env \<Rightarrow> nat \<Rightarrow> feature_definition list \<Rightarrow> ('e, 'a) action \<Rightarrow> bool" where
  "weaves E N D \<equiv> woven E N D (\<lambda>_. True)"

named_theorems weave_intros \<open>closure rules for weaves\<close>

lemma weaves_cut: "weaves E N D m \<longleftrightarrow> (\<exists>t. cut E N D m t)"
  by (simp add: woven_def cut_def)

lemma woven_lift: "V r \<Longrightarrow> woven E N D V (lift r)"
  unfolding woven_def by (rule exI [of _ "Finish r"]) (simp add: fun_eq_iff)

lemma woven_matchE:
  assumes "woven E N D U m" and "\<And>r. U r \<Longrightarrow> woven E N D V (f r)"
  shows "woven E N D V (matchE m f)"
proof -
  obtain t where t: "run_thread t = m" "thread_ok E N D U t" using assms(1) by (auto simp: woven_def)
  have "\<forall>r. \<exists>u. run_thread u = f r \<and> (U r \<longrightarrow> thread_ok E N D V u)"
    using assms(2) run_atom unfolding woven_def by metis
  then obtain u where u: "\<And>r. run_thread (u r) = f r" "\<And>r. U r \<Longrightarrow> thread_ok E N D V (u r)" by metis
  have "run_thread (then_thread t u) = matchE m f" by (simp add: run_then_thread t u)
  moreover have "thread_ok E N D V (then_thread t u)" by (rule thread_ok_then [OF t(2)]) (rule u(2))
  ultimately show ?thesis unfolding woven_def by blast
qed

lemma bindE_matchE: "bindE m f = matchE m (\<lambda>r. case r of Err e \<Rightarrow> lift (Err e) | Ok a \<Rightarrow> f a)"
  by (rule ext) (auto simp: bindE_def matchE_def split: prod.splits sum.splits)

lemma map_err_matchE: "map_err g m = matchE m (\<lambda>r. lift (map_sum g id r))"
  by (rule ext) (auto simp: map_err_def matchE_def split: prod.splits sum.splits)

lemma woven_bindE:
  assumes "woven E N D U m" and "\<And>a. U (Ok a) \<Longrightarrow> woven E N D V (f a)" and "\<And>e. U (Err e) \<Longrightarrow> V (Err e)"
  shows "woven E N D V (bindE m f)"
  unfolding bindE_matchE
  by (rule woven_matchE [OF assms(1)]) (auto split: sum.splits intro: woven_lift assms(2,3))

lemma woven_map_err:
  "woven E N D U m \<Longrightarrow> (\<And>r. U r \<Longrightarrow> V (map_sum g id r)) \<Longrightarrow> woven E N D V (map_err g m)"
  unfolding map_err_matchE by (erule woven_matchE) (rule woven_lift)

lemma woven_map_err_Ok:
  "woven E N D (\<lambda>r. \<forall>a. r = Ok a \<longrightarrow> P a) m \<Longrightarrow> woven E N D (\<lambda>r. \<forall>a. r = Ok a \<longrightarrow> P a) (map_err g m)"
  by (erule woven_map_err) (rename_tac r, case_tac r, auto)

lemma woven_ret: "V (Ok a) \<Longrightarrow> woven E N D V (ret a)"
  unfolding woven_def by (rule exI [of _ "Finish (Ok a)"]) (simp add: fun_eq_iff)

lemma weaves_values [weave_intros]: "weaves E N D (ret a)" "weaves E N D (fail e)" "weaves E N D (lift r)"
  by (auto simp: woven_def fun_eq_iff intro: exI [of _ "Finish _"])

lemma weaves_matchE [weave_intros]:
  "weaves E N D m \<Longrightarrow> (\<And>r. weaves E N D (f r)) \<Longrightarrow> weaves E N D (matchE m f)"
  by (rule woven_matchE)

lemma weaves_bindE [weave_intros]:
  "weaves E N D m \<Longrightarrow> (\<And>a. weaves E N D (f a)) \<Longrightarrow> weaves E N D (bindE m f)"
  by (rule woven_bindE)

lemma weaves_map_err [weave_intros]: "weaves E N D m \<Longrightarrow> weaves E N D (map_err g m)"
  by (rule woven_map_err)

lemma weaves_if [weave_intros]:
  "(b \<Longrightarrow> weaves E N D m) \<Longrightarrow> (\<not> b \<Longrightarrow> weaves E N D n) \<Longrightarrow> weaves E N D (if b then m else n)"
  by simp

lemma weaves_cases [weave_intros]:
  "(x = None \<Longrightarrow> weaves E N D m) \<Longrightarrow> (\<And>a. x = Some a \<Longrightarrow> weaves E N D (f a)) \<Longrightarrow>
     weaves E N D (case x of None \<Rightarrow> m | Some a \<Rightarrow> f a)"
  "(\<And>e. s = Inl e \<Longrightarrow> weaves E N D (g e)) \<Longrightarrow> (\<And>a. s = Inr a \<Longrightarrow> weaves E N D (h a)) \<Longrightarrow>
     weaves E N D (case s of Inl e \<Rightarrow> g e | Inr a \<Rightarrow> h a)"
  "(\<And>a b. weaves E N D (k a b)) \<Longrightarrow> weaves E N D (case p of (a, b) \<Rightarrow> k a b)"
  "weaves E N D i \<Longrightarrow> (\<And>a xs. weaves E N D (j a xs)) \<Longrightarrow>
     weaves E N D (case l of [] \<Rightarrow> i | a # xs \<Rightarrow> j a xs)"
  "weaves E N D u \<Longrightarrow> (\<And>e. weaves E N D (v e)) \<Longrightarrow>
     weaves E N D (case y of DuplicatePrefix \<Rightarrow> u | KeyOther e \<Rightarrow> v e)"
  by (auto split: option.splits sum.splits prod.splits list.splits api_key_repo_error.splits)

lemma weaves_Let [weave_intros]: "(\<And>x. x = v \<Longrightarrow> weaves E N D (f x)) \<Longrightarrow> weaves E N D (Let v f)"
  by (simp add: Let_def)

section \<open>Atoms\<close>

lemma woven_atom:
  assumes "round_trip E (\<lambda>w. snd (m w))"
    and "\<And>w. ambient N D w \<Longrightarrow> moves E N w (snd (m w))" and "\<And>w. ambient N D w \<Longrightarrow> V (fst (m w))"
  shows "woven E N D V m"
proof -
  have "thread_ok E N D V (Atom (\<lambda>w. snd (m w)) (\<lambda>w. Finish (fst (m w))))" by (simp add: assms)
  with run_atom show ?thesis unfolding woven_def by blast
qed

text \<open>Steps in memory.\<close>

lemma woven_inert:
  assumes "\<And>w. w_db (snd (m w)) = w_db w \<and> w_stmts (snd (m w)) = w_stmts w \<and>
      w_now (snd (m w)) = w_now w \<and> w_draws w \<le> w_draws (snd (m w))"
    and "\<And>w. ambient N D w \<Longrightarrow> V (fst (m w))"
  shows "woven E N D V m"
  by (rule woven_atom) (auto simp: round_trip_def moves_def assms)

lemma weaves_memory [weave_intros]:
  "weaves E N D utc_now" "weaves E N D stmt_no" "weaves E N D (draw g)" "weaves E N D (audit E' mk)"
  "weaves E N D (cache_get org slg)" "weaves E N D (cache_insert org slg v t)"
  "weaves E N D (invalidate org slg)" "weaves E N D invalidate_all"
  by (rule woven_inert; simp add: utc_now_def stmt_no_def draw_def audit_eq cache_get_def
      cache_insert_def invalidate_def invalidate_all_def)+

lemma woven_draw: "woven E N D (\<lambda>r. \<exists>n \<ge> N. r = Ok (g n)) (draw g)"
  by (rule woven_inert) (auto simp: draw_def ambient_def)

lemma weaves_drawing [weave_intros]:
  "(\<And>n. N \<le> n \<Longrightarrow> weaves E N D (f (g n))) \<Longrightarrow> weaves E N D (drawing g f)"
  unfolding drawing_def by (rule woven_bindE [OF woven_draw]) auto

text \<open>Single statements.\<close>

lemma round_trip_stmt: "round_trip E (\<lambda>w. snd (stmt E g w))"
proof -
  have "snd (stmt E g w) = snd (stmt E (\<lambda>now d. map_sum id (\<lambda>(_, d'). ((), d')) (g now d)) w)" for w
    by (auto simp: stmt_def Let_def split: sum.splits prod.splits)
  then show ?thesis unfolding round_trip_def by blast
qed

lemma stmt_moves:
  assumes "\<And>now a d'. g now (w_db w) = Ok (a, d') \<Longrightarrow> d' = w_db w \<or> db_step E N (w_db w) d'"
  shows "moves E N w (snd (stmt E g w))"
  using assms by (fastforce simp: stmt_def Let_def moves_def split: sum.splits prod.splits)

lemma weaves_stmt [weave_intros]:
  "(\<And>now d a d'. feature_definitions d = D \<Longrightarrow> g now d = Ok (a, d') \<Longrightarrow> d' = d \<or> db_step E N d d') \<Longrightarrow>
   weaves E N D (stmt E g)"
  by (rule woven_atom [OF round_trip_stmt stmt_moves]) (auto simp: ambient_def)

lemma woven_query:
  "(\<And>now d. feature_definitions d = D \<Longrightarrow> V (Ok (g now d))) \<Longrightarrow> (\<And>e. V (Err e)) \<Longrightarrow>
   woven E N D V (query E g)"
  unfolding query_def
  by (rule woven_atom [OF round_trip_stmt stmt_moves]) (auto simp: ambient_def stmt_def Let_def)

lemma weaves_query [weave_intros]: "weaves E N D (query E g)"
  by (rule woven_query) simp_all

text \<open>Transactions: the body is not interleaved, and its statements add up.\<close>

abbreviation moving :: "env \<Rightarrow> nat \<Rightarrow> world \<Rightarrow> ('e, 'a) action \<Rightarrow> bool" where
  "moving E N u \<equiv> keeps (\<lambda>w. N \<le> w_draws u \<and> moves E N u w)"

lemma moving_atom:
  "(\<And>w. N \<le> w_draws w \<Longrightarrow> moves E N w (snd (m w))) \<Longrightarrow> moving E N u m"
  by (auto simp: keeps_def moves_def intro: rtranclp_trans le_trans)

lemma moving_leaf [weave_intros]:
  "moving E N u utc_now" "moving E N u stmt_no" "moving E N u (draw g)" "moving E N u (query E q)"
  by (rule moving_atom; simp add: moves_def utc_now_def stmt_no_def draw_def query_def stmt_def Let_def)+

lemma moving_stmt [weave_intros]:
  "(\<And>now d a d'. g now d = Ok (a, d') \<Longrightarrow> d' = d \<or> db_step E N d d') \<Longrightarrow> moving E N u (stmt E g)"
  by (rule moving_atom) (rule stmt_moves)

lemma moving_drawing [weave_intros]:
  "(\<And>n. N \<le> n \<Longrightarrow> moving E N u (f (g n))) \<Longrightarrow> moving E N u (drawing g f)"
  by (auto simp: keeps_def drawing_def bindE_def draw_def moves_def)

lemma control_moves: "control E v = (x, v') \<Longrightarrow> moves E N v v'"
  using stmt_moves [of "\<lambda>_ d. Ok ((), d)" v E N] by (simp add: query_def)

text \<open>The worlds after \<^verbatim>\<open>BEGIN\<close>, the body and \<^verbatim>\<open>COMMIT\<close>.\<close>

lemma tx_stages:
  assumes "\<And>u. moving E N u body" and "N \<le> w_draws w"
  obtains x w1 y w2 z w3 where "control E w = (x, w1)" "body w1 = (y, w2)" "control E w2 = (z, w3)"
    "w_db w1 = w_db w" "moves E N w w1" "moves E N w w2" "moves E N w w3"
proof -
  obtain x w1 where w1: "control E w = (x, w1)" by (meson surj_pair)
  obtain y w2 where w2: "body w1 = (y, w2)" by (meson surj_pair)
  obtain z w3 where w3: "control E w2 = (z, w3)" by (meson surj_pair)
  have m1: "moves E N w w1" using control_moves [OF w1] .
  with assms(2) have "N \<le> w_draws w1" by (simp add: moves_def)
  with keepsD [OF assms(1) [of w1] _ w2] have "moves E N w1 w2" by simp
  with m1 have m2: "moves E N w w2" by (rule moves_trans)
  with control_moves [OF w3] have "moves E N w w3" by (rule moves_trans [rotated])
  with that w1 w2 w3 m1 m2 control_db [OF w1] show thesis by blast
qed

lemma moving_in_tx:
  assumes "\<And>u. moving E N u body" and "N \<le> w_draws w"
  shows "moves E N w (snd (in_tx E conv body w))"
  by (rule tx_stages [OF assms]) (auto simp: in_tx_def moves_def split: sum.splits)

lemma moving_in_tx_if:
  assumes "\<And>u. moving E N u body" and "N \<le> w_draws w"
  shows "moves E N w (snd (in_tx_if E conv body w))"
  by (rule tx_stages [OF assms]) (auto simp: in_tx_if_def moves_def split: sum.splits bool.splits)

lemma round_trip_in_tx: "round_trip E (\<lambda>w. snd (in_tx E conv body w))"
proof -
  let ?body = "\<lambda>w. (map_sum (\<lambda>_. ()) (\<lambda>_. ()) (fst (body w)), snd (body w))"
  have "snd (in_tx E conv body w) = snd (in_tx E (\<lambda>_. ()) ?body w)" for w
    by (auto simp: in_tx_def split: prod.splits sum.splits)
  then show ?thesis unfolding round_trip_def by blast
qed

lemma round_trip_in_tx_if: "round_trip E (\<lambda>w. snd (in_tx_if E conv body w))"
proof -
  let ?body = "\<lambda>w. (map_sum (\<lambda>_. ()) (map_prod (\<lambda>_. ()) id) (fst (body w)), snd (body w))"
  have "snd (in_tx_if E conv body w) = snd (in_tx_if E (\<lambda>_. ()) ?body w)" for w
    by (simp add: in_tx_if_def split: prod.split sum.split bool.split)
  then show ?thesis unfolding round_trip_def by blast
qed

lemma weaves_tx [weave_intros]:
  "(\<And>u. moving E N u body) \<Longrightarrow> weaves E N D (in_tx E conv body)"
  "(\<And>u. moving E N u body') \<Longrightarrow> weaves E N D (in_tx_if E conv' body')"
  by (rule woven_atom [OF round_trip_in_tx moving_in_tx] woven_atom [OF round_trip_in_tx_if moving_in_tx_if];
      simp add: ambient_def)+

end
