(* ===== verification/Overlap.thy ===== *)
theory Overlap
  imports Threads Requests
begin

text \<open>
  Overlapping requests and workers. Every service, every handler, the authentication layer and
  so every request (\<open>serve_request\<close>), and every turn of a background worker can be cut at its
  statements (see \<^verbatim>\<open>Threads\<close>). \<open>pool_step\<close> runs any number of them at once, and what holds at every
  moment of every interleaving follows: integrity, the types of flags, the role model, and
  that revocations and deletions stay.

  A transaction is one atom: PostgreSQL's row locks and its isolation of transactions are not
  modelled further.
\<close>

section \<open>Operations\<close>

lemma weave_lookups [weave_intros]:
  "weaves E N D (find_by_username_or_email E s)" "weaves E N D (find_by_id E uid)"
  "weaves E N D (list_memberships E uid)" "weaves E N D (count_pending_for_user E uid)"
  "weaves E N D (find_valid E th)" "weaves E N D (sa_find E oid sa)" "weaves E N D (keys_find E sa kid)"
  "weaves E N D (is_member E uid oid)" "weaves E N D (find_by_code E code)"
  "weaves E N D (has_role E uid oid rid)" "weaves E N D (get_definition E slg)"
  "weaves E N D (get_override E oid slg)"
  "weaves E N D (hash_password E p)" "weaves E N D (verify_password E p h)" "weaves E N D (generate E)"
  "weaves E N D (encode_access_token E sec iss uid oid secs)" "weaves E N D (generate_api_key E)"
  unfolding find_by_username_or_email_def find_by_id_def list_memberships_def
    count_pending_for_user_def find_valid_def sa_find_def keys_find_def is_member_def
    find_by_code_def has_role_def get_definition_def get_override_def hash_password_def
    verify_password_def generate_def encode_access_token_def generate_api_key_def
  by (intro weave_intros)+

lemma membership_if_new_step: "insert_membership_if_new m d = Ok d' \<Longrightarrow> d' = d \<or> db_step E N d d'"
  by (auto simp: insert_membership_if_new_def split: if_splits intro: db_step.membership)

lemma weave_remove_member [weave_intros]: "weaves E N D (remove_member_checked E uid oid)"
proof (rule woven_atom)
  show "round_trip E (\<lambda>w. snd (remove_member_checked E uid oid w))"
    unfolding remove_member_checked_def by (rule round_trip_in_tx)
  fix w
  obtain r w' where run: "remove_member_checked E uid oid w = (r, w')" by (meson surj_pair)
  have "reads w_draws (remove_member_checked E uid oid)" "reads w_now (remove_member_checked E uid oid)"
    by (auto simp: reads_def remove_member_checked_def in_tx_def bindE_def map_err_def query_def
        stmt_def Let_def split: prod.splits sum.splits)
  with run have same: "w_draws w' = w_draws w" "w_now w' = w_now w" by (auto dest: readsD)
  have "w_db w' = w_db w \<or> db_step E N (w_db w) (w_db w')"
  proof (cases r)
    case (Inl e)
    with run show ?thesis unfolding remove_member_checked_def by (auto dest: in_tx_Err_db)
  next
    case (Inr u)
    with run have "remove_member_checked E uid oid w = (Ok (), w')" by simp
    from remove_member_checked_Ok [OF this] show ?thesis
      using db_step.left [of uid oid "w_db w" E N] other_owners_pos [of uid oid "w_db w"]
      by (auto simp: list_ex_iff)
  qed
  with run same show "moves E N w (snd (remove_member_checked E uid oid w))"
    by (auto simp: moves_def)
qed simp

lemma weave_channel_update [weave_intros]: "weaves E N D (channel_update E oid cid n ds ty a)"
  unfolding channel_update_def
  by (intro weave_intros) (rule disjI2, erule db_step.channel_updated, simp_all)

lemma weave_channels [weave_intros]:
  "weaves E N D (create_inbound_channel E u oid oid' ci)"
  "weaves E N D (update_inbound_channel E u oid oid' cid ci)"
  "weaves E N D (delete_inbound_channel E u oid oid' cid)"
  unfolding create_inbound_channel_def update_inbound_channel_def delete_inbound_channel_def
    channel_create_def channel_delete_def Let_def
  by (intro weave_intros; auto intro: db_step.channel db_step.channel_deleted)+

lemma weave_tenants [weave_intros]:
  "weaves E N D (create_organisation E u oid i)"
  "weaves E N D (add_user_to_organisation E u oid u' oid' rc)"
  "weaves E N D (remove_user_from_organisation E u oid u' oid')"
  "weaves E N D (assign_role E u oid op oid' t rc)"
  unfolding create_organisation_def add_user_to_organisation_def remove_user_from_organisation_def
    assign_role_def create_with_initial_owner_def org_create_def insert_org_stmt_def add_member_def
    assign_def Let_def
  by (intro weave_intros keeps_intros;
      auto intro: db_step.organisation db_step.membership dest: membership_if_new_step)+

text \<open>The token that makes room for a new one has not been used.\<close>

lemma oldest_pending_unused:
  assumes "wf_db E d" and "t \<in> set (reset_tokens d)" and "t_used_at t \<noteq> None"
  shows "Some (t_id t) \<noteq> oldest_pending uid now d"
proof
  assume "Some (t_id t) = oldest_pending uid now d"
  then obtain x xs where x: "sort_key t_created_at (filter (pending uid now) (reset_tokens d)) = x # xs"
    and id: "t_id x = t_id t"
    by (auto simp: oldest_pending_def split: list.splits)
  have "x \<in> set (filter (pending uid now) (reset_tokens d))"
    by (metis x list.set_intros(1) set_sort)
  moreover from this have "x = t"
    using assms(1,2) id by (auto simp: wf_defs distinct_map inj_on_def)
  ultimately show False using assms(3) by (simp add: pending_def)
qed

lemma oldest_dropped:
  "db_step E N d (d\<lparr>reset_tokens := filter (\<lambda>t. Some (t_id t) \<noteq> oldest_pending uid now d) (reset_tokens d)\<rparr>)"
  by (rule db_step.reset_dropped) (auto dest: oldest_pending_unused)

lemma weave_tokens [weave_intros]:
  "weaves E N D (update_password_hash E uid h)"
  "weaves E N D (tokens_insert E uid th t)"
  "weaves E N D (consume E tid)"
  "weaves E N D (tokens_revoke E jti uid t)"
  "weaves E N D (rehash E usr p)"
  unfolding rehash_def update_password_hash_def tokens_insert_def consume_def tokens_revoke_def Let_def
  by (intro weave_intros; auto intro: db_step.password db_step.reset_token db_step.reset_consumed
      db_step.token_revoked oldest_dropped)+

lemma weave_security [weave_intros]:
  "weaves E N D (register_user E u oid ri)"
  "weaves E N D (login E jc un pw)"
  "weaves E N D (logout E u oid jti t)"
  "weaves E N D (change_password E u p q)"
  "weaves E N D (switch_org E jc u oid oid')"
  "weaves E N D (password_reset_request E secs em)"
  "weaves E N D (password_reset_confirm E tok p)"
  unfolding register_user_def login_def logout_def change_password_def switch_org_def
    password_reset_request_def password_reset_confirm_def create_and_add_to_org_def Let_def
    drawing_def [symmetric]
  by (intro weave_intros keeps_intros;
      auto intro: db_step.user db_step.membership simp: new_user_def)+

lemma weave_accounts [weave_intros]:
  "weaves E N D (create_service_account E oid n ds u oid')"
  "weaves E N D (delete_service_account E oid sa u oid')"
  "weaves E N D (revoke_api_key E oid sa kid u oid')"
  unfolding create_service_account_def delete_service_account_def revoke_api_key_def
    sa_create_def sa_delete_def keys_revoke_def Let_def drawing_def [symmetric]
  by (intro weave_intros keeps_intros;
      auto intro: db_step.user db_step.account db_step.account_deleted db_step.keys_revoked
      simp: new_user_def)+

lemma weave_touch [weave_intros]: "weaves E N D (pg_touch_last_used E kid sa)"
  unfolding pg_touch_last_used_def keys_touch_last_used_def sa_touch_last_used_def
  by (intro weave_intros) (auto intro: db_step.key_used db_step.account_used)

lemma weave_seed [weave_intros]: "weaves E N D (bootstrap_seed_admin E si)"
  unfolding bootstrap_seed_admin_def audit_insert_def drawing_def [symmetric]
  by (intro weave_intros)
    (auto intro: db_step.user db_step.audit_row simp: new_user_def dest: membership_if_new_step)

text \<open>A key is written under an id drawn before.\<close>

lemma woven_fresh_key_row:
  "woven E N D (\<lambda>r. \<forall>a. r = Ok a \<longrightarrow> (\<exists>n \<ge> N. nk_id (snd a) = uuid_v7 E n))
     (fresh_key_row E sa nm sc cb)"
  unfolding fresh_key_row_def hash_secret_def
  by (rule woven_bindE [OF weave_lookups(15)], rule woven_bindE [OF woven_draw],
      rule woven_bindE [OF weave_lookups(13)], rule woven_ret) auto

lemma weaves_fresh_key_row [weave_intros]:
  assumes "\<And>g row n. N \<le> n \<Longrightarrow> nk_id row = uuid_v7 E n \<Longrightarrow> weaves E N D (f g row)"
  shows "weaves E N D (bindE (map_err c (fresh_key_row E sa nm sc cb)) (\<lambda>(g, row). f g row))"
  by (rule woven_bindE [OF woven_map_err_Ok [OF woven_fresh_key_row]])
    (auto split: prod.splits intro: assms)

lemma weave_key_writes:
  "N \<le> n \<Longrightarrow> nk_id row = uuid_v7 E n \<Longrightarrow> weaves E N D (keys_create E row)"
  "N \<le> n \<Longrightarrow> nk_id row = uuid_v7 E n \<Longrightarrow> weaves E N D (keys_rotate E old row)"
  unfolding keys_create_def keys_rotate_def insert_key_def
  by (intro weave_intros keeps_intros; auto intro: db_step.key db_step.keys_revoked simp: key_row_def)+

lemma weave_key_attempts [weave_intros]:
  "weaves E N D (create_key_attempts k E ki)" "weaves E N D (rotate_key_attempts k E rki nm sc)"
proof (induction k)
  case 0
  show "weaves E N D (create_key_attempts 0 E ki)" "weaves E N D (rotate_key_attempts 0 E rki nm sc)"
    by (simp_all add: weave_intros)
next
  case (Suc k)
  show "weaves E N D (create_key_attempts (Suc k) E ki)"
    "weaves E N D (rotate_key_attempts (Suc k) E rki nm sc)"
    unfolding create_key_attempts.simps rotate_key_attempts.simps
    by (rule weaves_fresh_key_row; intro weave_key_writes weave_intros Suc; assumption)+
qed

lemma weave_keys [weave_intros]:
  "weaves E N D (create_api_key E ki)" "weaves E N D (rotate_api_key E rki)"
  unfolding create_api_key_def rotate_api_key_def Let_def
  by (intro weave_intros)+

lemma weave_flags [weave_intros]:
  "weaves E N D (clear_org_feature E fc)" "weaves E N D (evaluate E ttl org slg)"
  unfolding clear_org_feature_def evaluate_def repo_value_def delete_override_def Let_def
  by (intro weave_intros; auto intro: db_step.override_deleted)+

lemma bindE_lift_Ok: "bindE (lift (Ok a)) f = f a"
  by (simp add: bindE_def fun_eq_iff)

lemma bindE_lift_Err: "bindE (lift (Err e)) f = fail e"
  by (simp add: bindE_def fun_eq_iff)

text \<open>The definition that was checked is still there when the override is written.\<close>

lemma woven_get_definition:
  "woven E N D (\<lambda>r. \<forall>f. r = Ok f \<longrightarrow> f = find (\<lambda>f. fd_slug f = slg) D)
     (map_err c (get_definition E slg))"
  unfolding get_definition_def
  by (intro woven_map_err_Ok; rule woven_query) (auto simp: find_definition_def)

lemma weave_set_flag [weave_intros]: "weaves E N D (set_org_feature E fi)"
  unfolding set_org_feature_def upsert_override_def Let_def
proof (rule woven_bindE [OF woven_get_definition], goal_cases)
  case (1 def)
  show ?case
  proof (cases def)
    case (Some f)
    with 1 have f: "find_definition (sf_slug fi) d = Some f" if "feature_definitions d = D" for d
      using that by (simp add: find_definition_def)
    show ?thesis unfolding Some ok_or_simps bindE_lift_Ok
      by (intro weave_intros) (rule disjI2, erule map_sum_Pair_Ok [THEN iffD1, THEN conjunct1,
          THEN db_step.override], simp_all add: f)
  qed (simp add: bindE_lift_Err weave_intros)
qed simp

lemma weave_workers [weave_intros]:
  "weaves E N D (append_standalone E areq)"
  "weaves E N D (tick E cfg)"
  "weaves E N D (enqueue E req)"
  "weaves E N D (claim_due E wid kinds vis lim)"
  "weaves E N D (audit_insert E e)"
  unfolding append_standalone_def append_in_tx_def tick_def claim_unrelayed_in_tx_def
    enqueue_event_def enqueue_def enqueue_in_tx_def mark_relayed_in_tx_def claim_due_def
    claim_rows_def audit_insert_def Let_def
  by (intro weave_intros keeps_intros; auto intro: db_step.event db_step.events_relayed db_step.job
      db_step.audit_row intro!: db_step.jobs_updated simp: lock_job_def)+

lemma weave_settle [weave_intros]: "weaves E N D (settle E cfg j outcome)"
  unfolding settle_def ignore_def mark_done_def mark_dead_def mark_failed_retry_def update_job_def
  by (cases outcome; rename_tac x; case_tac x)
    (auto simp: Let_def done_job_def dead_job_def retry_job_def
      intro!: weave_intros disjI2 db_step.jobs_updated)

section \<open>Requests\<close>

lemma weave_evaluate_all [weave_intros]: "weaves E N D (evaluate_all E ttl org ovs ds)"
proof (induction ds)
  case Nil
  show ?case unfolding evaluate_all.simps by (intro weave_intros)
next
  case (Cons def ds)
  show ?case unfolding evaluate_all.simps by (intro weave_intros Cons.IH)
qed

lemma weave_listings [weave_intros]:
  "weaves E N D (list_org_features E ttl org)"
  "weaves E N D (list_definitions E)"
  "weaves E N D (list_my_organisations E u a l)"
  "weaves E N D (list_organisation_members E u op oid a l)"
  "weaves E N D (list_inbound_channels E oid a l)"
  "weaves E N D (get_inbound_channel E oid cid)"
  "weaves E N D (list_users E op own i)"
  "weaves E N D (list_service_accounts E oid l c)"
  "weaves E N D (list_api_keys E oid sa)"
  unfolding list_org_features_def list_definitions_def repo_list_definitions_def
    list_overrides_for_org_def list_my_organisations_def list_for_user_def
    list_organisation_members_def list_members_def list_inbound_channels_def channel_list_def
    get_inbound_channel_def channel_get_def list_users_def repo_list_users_def
    list_memberships_for_users_def list_service_accounts_def sa_list_def list_api_keys_def list_by_sa_def
  by (intro weave_intros)+

lemma weave_handle [weave_intros]: "weaves E N D (handle E st x c)"
  by (cases c; simp only: handle.simps respond_def tenant_handler_defs feature_handler_defs
      account_handler_defs session_handler_defs other_handler_defs)
    (intro weave_intros)+

lemma weave_strategies [weave_intros]:
  "weaves E N D (st_load (pg_strategies E ttl) u oid)"
  "weaves E N D (st_is_revoked (pg_strategies E ttl) jti)"
  "weaves E N D (st_verify (pg_strategies E ttl) p s)"
  "weaves E N D (st_evaluate (pg_strategies E ttl) oid slg)"
  unfolding pg_strategies_def strategies.simps pg_load_def pg_is_revoked_def pg_verify_def
    find_active_by_prefix_def verify_secret_def
  by (intro weave_intros)+

lemma weaves_case_bool [weave_intros]:
  "(b \<Longrightarrow> weaves E N D m) \<Longrightarrow> (\<not> b \<Longrightarrow> weaves E N D n) \<Longrightarrow>
   weaves E N D (case b of True \<Rightarrow> m | False \<Rightarrow> n)"
  by (cases b) auto

lemma weave_auth_call [weave_intros]:
  "weaves E N D (auth_call E (pg_strategies E ttl) secret issuer rq)"
proof -
  have key: "weaves E N D (handle_api_key (pg_strategies E ttl) issuer p s src x)" for p s src x
    unfolding handle_api_key_def by (intro weave_intros)
  have jwt: "weaves E N D (handle_jwt E (pg_strategies E ttl) secret issuer t x)" for t x
    unfolding handle_jwt_def by (intro weave_intros)
  show ?thesis
    unfolding auth_call_def by (auto intro!: weave_intros key jwt split: header_source.split)
qed

lemma weave_serve [weave_intros]: "weaves E N D (serve_request E cfg rq c)"
  unfolding serve_request_def run_handler_def Let_def
  by (intro weave_intros) (auto intro!: weave_intros split: auth_outcome.split)

section \<open>Programs\<close>

text \<open>What runs concurrently, results dropped: requests, the tasks they spawn, the workers.\<close>

definition forget :: "('e, 'a) action \<Rightarrow> (unit, unit) action" where
  "forget m = matchE m (\<lambda>_. ret ())"

lemma weaves_forget [weave_intros]: "weaves E N D m \<Longrightarrow> weaves E N D (forget m)"
  unfolding forget_def by (intro weave_intros)

inductive program :: "env \<Rightarrow> (unit, unit) action \<Rightarrow> bool" for E where
  request: "program E (forget (serve_request E cfg rq c))"
| touch: "program E (pg_touch_last_used E kid sa)"
| relay: "program E (forget (tick E rcfg))"
| append: "program E (forget (append_standalone E areq))"
| enqueue: "program E (forget (enqueue E req))"
| claim: "program E (forget (claim_due E wid kinds vis lim))"
| settle: "program E (settle E jcfg j outcome)"
| audited: "program E (forget (audit_insert E e))"
| seed: "program E (forget (bootstrap_seed_admin E si))"

lemma program_weaves: "program E m \<Longrightarrow> weaves E N D m"
  by (induction rule: program.induct) (intro weave_intros)+

lemma program_cut: "program E m \<Longrightarrow> \<exists>t. cut E N D m t"
  using program_weaves weaves_cut by blast

section \<open>The pool\<close>

text \<open>
  The threads in flight over one world. Programs start at any time; the next atom of any
  thread may run; time passes; the audit worker takes events off the queue.
\<close>

type_synonym pool = "world \<times> (unit, unit) thread list"

inductive pool_step :: "env \<Rightarrow> nat \<Rightarrow> feature_definition list \<Rightarrow> pool \<Rightarrow> pool \<Rightarrow> bool" for E N D where
  start: "program E m \<Longrightarrow> cut E N D m t \<Longrightarrow> pool_step E N D (w, ts) (w, ts @ [t])"
| atom: "i < length ts \<Longrightarrow> ts ! i = Atom f k \<Longrightarrow> pool_step E N D (w, ts) (f w, ts[i := k w])"
| time: "w_now w \<le> now \<Longrightarrow> pool_step E N D (w, ts) (w\<lparr>w_now := now\<rparr>, ts)"
| taken: "w_audit w = e # es \<Longrightarrow> pool_step E N D (w, ts) (w\<lparr>w_audit := es\<rparr>, ts)"

definition pool_ok :: "env \<Rightarrow> nat \<Rightarrow> feature_definition list \<Rightarrow> db \<Rightarrow> pool \<Rightarrow> bool" where
  "pool_ok E N D d p \<longleftrightarrow> ambient N D (fst p) \<and> (db_step E N)\<^sup>*\<^sup>* d (w_db (fst p)) \<and>
     (\<forall>t \<in> set (snd p). thread_ok E N D (\<lambda>_. True) t)"

lemma pool_step_ok: "pool_step E N D p p' \<Longrightarrow> pool_ok E N D d p \<Longrightarrow> pool_ok E N D d p'"
proof (induction rule: pool_step.induct)
  case (start m t w ts)
  then show ?case by (auto simp: pool_ok_def cut_def)
next
  case (atom i ts f k w)
  then have "thread_ok E N D (\<lambda>_. True) (Atom f k)" by (metis nth_mem pool_ok_def snd_conv)
  with atom have m: "moves E N w (f w)" and k: "thread_ok E N D (\<lambda>_. True) (k w)"
    by (auto simp: pool_ok_def)
  from k have "\<forall>t \<in> set (ts[i := k w]). thread_ok E N D (\<lambda>_. True) t"
    using atom.prems by (auto simp: pool_ok_def dest!: set_update_subset_insert [THEN subsetD])
  moreover have "ambient N D (f w)" using ambient_moves [OF _ m] atom.prems by (simp add: pool_ok_def)
  moreover have "(db_step E N)\<^sup>*\<^sup>* d (w_db (f w))"
    using m atom.prems by (auto simp: pool_ok_def moves_def intro: rtranclp_trans)
  ultimately show ?case by (simp add: pool_ok_def)
qed (simp_all add: pool_ok_def ambient_def)

abbreviation overlapping :: "env \<Rightarrow> world \<Rightarrow> pool \<Rightarrow> bool" where
  "overlapping E w \<equiv> (pool_step E (w_draws w) (feature_definitions (w_db w)))\<^sup>*\<^sup>* (w, [])"

text \<open>From a start with nothing in flight, the tables move by statements of the program.\<close>

lemma overlapping_steps:
  assumes "overlapping E w (v, ts)"
  shows "(db_step E (w_draws w))\<^sup>*\<^sup>* (w_db w) (w_db v)"
proof -
  have "pool_ok E (w_draws w) (feature_definitions (w_db w)) (w_db w) p" if "overlapping E w p" for p
    using that
  proof (induction rule: rtranclp_induct)
    case base
    show ?case by (simp add: pool_ok_def ambient_def)
  qed (rule pool_step_ok)
  from this [OF assms] show ?thesis by (simp add: pool_ok_def)
qed

text \<open>A program that runs alone is a pool of its own.\<close>

lemma thread_runs:
  "i < length ts \<Longrightarrow> ts ! i = t \<Longrightarrow>
   \<exists>r. (pool_step E N D)\<^sup>*\<^sup>* (w, ts) (snd (run_thread t w), ts[i := Finish r])"
proof (induction t arbitrary: w ts)
  case (Finish r)
  then have "ts[i := Finish r] = ts" by (metis list_update_id)
  then show ?case by (metis rtranclp.rtrancl_refl run_thread.simps(1) snd_conv)
next
  case (Atom f k)
  have one: "pool_step E N D (w, ts) (f w, ts[i := k w])" using Atom.prems by (rule pool_step.atom)
  have "i < length (ts[i := k w])" "ts[i := k w] ! i = k w" using Atom.prems(1) by simp_all
  from Atom.IH [OF rangeI this, of "f w"] obtain r where
    "(pool_step E N D)\<^sup>*\<^sup>* (f w, ts[i := k w]) (snd (run_thread (k w) (f w)), ts[i := k w, i := Finish r])"
    by blast
  with one show ?case by (auto intro: converse_rtranclp_into_rtranclp)
qed

lemma program_overlaps:
  assumes "program E m"
  shows "\<exists>ts. overlapping E w (snd (m w), ts)"
proof -
  obtain t where t: "cut E (w_draws w) (feature_definitions (w_db w)) m t"
    using program_cut [OF assms] by blast
  have "overlapping E w (w, [t])"
    using pool_step.start [OF assms t, of w "[]"] by (simp add: r_into_rtranclp)
  moreover obtain r where
    "(pool_step E (w_draws w) (feature_definitions (w_db w)))\<^sup>*\<^sup>* (w, [t]) (snd (run_thread t w), [t][0 := Finish r])"
    using thread_runs [of 0 "[t]" t] by fastforce
  ultimately show ?thesis using t by (metis cut_def rtranclp_trans)
qed

section \<open>What holds throughout\<close>

lemma overlapping_wf: "overlapping E w (v, ts) \<Longrightarrow> wf_db E (w_db w) \<Longrightarrow> wf_db E (w_db v)"
  using overlapping_steps db_steps_wf by blast

lemma overlapping_typed: "overlapping E w (v, ts) \<Longrightarrow> overrides_typed (w_db w) \<Longrightarrow> overrides_typed (w_db v)"
  using overlapping_steps db_steps_typed by blast

lemma overlapping_rbac:
  "overlapping E w (v, ts) \<Longrightarrow> rbac_step\<^sup>*\<^sup>* (rbac_of (w_db w)) (rbac_of (w_db v))"
  by (rule rbac.db_steps_fact [OF overlapping_steps]) auto

lemma overlapping_dead:
  "overlapping E w (v, ts) \<Longrightarrow> dead_key E (w_draws w) kid (w_db w) \<Longrightarrow>
   map_option vk_key_id (key_of_db E (w_db v) prefix secret) \<noteq> Some kid"
  by (rule dead_key_rejected) (rule dead.db_steps_fact [OF overlapping_steps])

lemma overlapping_gone:
  "overlapping E w (v, ts) \<Longrightarrow> gone E (w_draws w) sa (w_db w) \<Longrightarrow>
   map_option vk_sa_user_id (key_of_db E (w_db v) prefix secret) \<noteq> Some sa"
  by (rule gone_rejected) (rule gone.db_steps_fact [OF overlapping_steps])

lemma overlapping_revoked:
  "overlapping E w (v, ts) \<Longrightarrow> token_revoked uid jti t (w_db w) \<Longrightarrow> token_revoked uid jti t (w_db v)"
  by (rule rvk.db_steps_fact [OF overlapping_steps])

section \<open>Redeemed reset tokens\<close>

text \<open>The token of a human user has been used: its row stays, so its hash is never valid again.\<close>

definition redeemed :: "string \<Rightarrow> db \<Rightarrow> bool" where
  "redeemed th d \<longleftrightarrow> (\<exists>t \<in> set (reset_tokens d). t_token_hash t = th \<and> t_used_at t \<noteq> None \<and>
     t_user_id t \<in> u_id ` set (users d) \<and>
     (\<forall>u \<in> set (users d). u_id u = t_user_id t \<longrightarrow> u_kind u = Human))"

lemma redeemed_frame:
  assumes "redeemed th d" and "set (reset_tokens d) \<subseteq> set (reset_tokens d')"
    and "u_id ` set (users d) \<subseteq> u_id ` set (users d')"
    and "\<And>u. u \<in> set (users d') \<Longrightarrow> u_id u \<in> u_id ` set (users d) \<Longrightarrow>
      \<exists>v \<in> set (users d). u_id v = u_id u \<and> u_kind v = u_kind u"
  shows "redeemed th d'"
  using assms unfolding redeemed_def by (metis (no_types, opaque_lifting) subsetD)

lemma redeemed_same: "redeemed th d \<Longrightarrow> users d' = users d \<Longrightarrow> reset_tokens d' = reset_tokens d \<Longrightarrow> redeemed th d'"
  by (simp add: redeemed_def)

lemma consume_row_users: "users (consume_row tid now d) = users d"
  by (simp add: consume_row_def)

lemma redeemed_consume: "redeemed th d \<Longrightarrow> redeemed th (consume_row tid now d)"
proof -
  assume "redeemed th d"
  then obtain t where t: "t \<in> set (reset_tokens d)" "t_token_hash t = th" "t_used_at t \<noteq> None"
    "t_user_id t \<in> u_id ` set (users d)" "\<forall>u \<in> set (users d). u_id u = t_user_id t \<longrightarrow> u_kind u = Human"
    by (auto simp: redeemed_def)
  let ?t = "if t_id t = tid then t\<lparr>t_used_at := Some now\<rparr> else t"
  have "?t \<in> set (reset_tokens (consume_row tid now d))" using t(1) by (auto simp: consume_row_def)
  moreover have "t_token_hash ?t = th" "t_used_at ?t \<noteq> None" "t_user_id ?t = t_user_id t"
    using t by auto
  ultimately show ?thesis
    unfolding redeemed_def consume_row_users using t(4,5) by (intro bexI [of _ ?t]) simp_all
qed

lemma redeemed_cascade:
  assumes "redeemed th d" and "u \<in> set (users d)" "u_id u = sa" "u_kind u = ServiceAccountKind"
  shows "redeemed th (cascade_user sa d)"
proof -
  from assms(1) obtain t where t: "t \<in> set (reset_tokens d)" "t_token_hash t = th" "t_used_at t \<noteq> None"
    "t_user_id t \<in> u_id ` set (users d)" "\<forall>u \<in> set (users d). u_id u = t_user_id t \<longrightarrow> u_kind u = Human"
    by (auto simp: redeemed_def)
  with assms(2-4) have "t_user_id t \<noteq> sa" by auto
  with t show ?thesis
    by (auto simp: redeemed_def cascade_user_def intro!: bexI [of _ t])
qed

lemma user_token_frames:
  "insert_organisation r d = Ok d' \<Longrightarrow> users d' = users d \<and> reset_tokens d' = reset_tokens d"
  "insert_membership m d = Ok d' \<Longrightarrow> users d' = users d \<and> reset_tokens d' = reset_tokens d"
  "insert_service_account s d = Ok d' \<Longrightarrow> users d' = users d \<and> reset_tokens d' = reset_tokens d"
  "insert_api_key k d = Ok d' \<Longrightarrow> users d' = users d \<and> reset_tokens d' = reset_tokens d"
  "insert_revoked_if_new v d = Ok d' \<Longrightarrow> users d' = users d \<and> reset_tokens d' = reset_tokens d"
  "insert_channel c d = Ok d' \<Longrightarrow> users d' = users d \<and> reset_tokens d' = reset_tokens d"
  "update_channel_row oid cid f d = Ok (x, d') \<Longrightarrow> users d' = users d \<and> reset_tokens d' = reset_tokens d"
  "upsert_override_row ov d = Ok d' \<Longrightarrow> users d' = users d \<and> reset_tokens d' = reset_tokens d"
  "insert_audit a d = Ok d' \<Longrightarrow> users d' = users d \<and> reset_tokens d' = reset_tokens d"
  "insert_job j d = Ok d' \<Longrightarrow> users d' = users d \<and> reset_tokens d' = reset_tokens d"
  "insert_outbox e d = Ok d' \<Longrightarrow> users d' = users d \<and> reset_tokens d' = reset_tokens d"
  by (auto simp: insert_organisation_def insert_membership_def insert_service_account_def
      insert_api_key_def insert_revoked_if_new_def insert_channel_def update_channel_row_def
      upsert_override_row_def insert_audit_def insert_job_def insert_outbox_def Let_def
      split: if_splits option.splits)

lemma db_step_redeemed: "db_step E N d d' \<Longrightarrow> wf_db E d \<Longrightarrow> redeemed th d \<Longrightarrow> redeemed th d'"
proof (induction rule: db_step.induct)
  case (user u d d' n)
  from insert_credentials(3) [OF user(1)] show ?case
    by (intro redeemed_frame [OF user(5)]) auto
next
  case (password d uid h now)
  show ?case
    by (rule redeemed_frame [OF password(2)])
      (auto simp: set_password_hash_def [of _ _ _ d, THEN arg_cong [of _ _ reset_tokens]]
        dest: set_password_hash_users)
next
  case (account_deleted uid d k d')
  from account_deleted(1) show ?case
    by (cases rule: delete_sa_userE) (use account_deleted(3) redeemed_cascade in blast)+
next
  case (reset_token t d d')
  then show ?case
    by (intro redeemed_frame [OF reset_token(3)]) (auto simp: insert_reset_token_def split: if_splits)
next
  case (reset_consumed d tid now)
  then show ?case by (blast intro: redeemed_consume)
next
  case (reset_dropped d P)
  then show ?case by (auto simp: redeemed_def)
qed (erule redeemed_same; force dest: user_token_frames)+

lemma db_steps_redeemed:
  "(db_step E N)\<^sup>*\<^sup>* d d' \<Longrightarrow> wf_db E d \<Longrightarrow> redeemed th d \<Longrightarrow> wf_db E d' \<and> redeemed th d'"
  by (induction rule: rtranclp_induct) (auto intro: db_step_wf db_step_redeemed)

lemma redeemed_invalid: "wf_db E d \<Longrightarrow> redeemed th d \<Longrightarrow> valid_token th now d = None"
proof -
  assume "wf_db E d" "redeemed th d"
  then obtain t where t: "t \<in> set (reset_tokens d)" "t_token_hash t = th" "t_used_at t \<noteq> None"
    and inj: "inj_on t_token_hash (set (reset_tokens d))"
    by (auto simp: redeemed_def wf_defs distinct_map)
  have "t_used_at x \<noteq> None" if "x \<in> set (reset_tokens d)" "t_token_hash x = th" for x
    using inj_onD [OF inj, of x t] t that by simp
  then show "valid_token th now d = None" by (auto simp: valid_token_def find_None_iff)
qed

text \<open>A redemption that begins after another has succeeded fails, whatever has overlapped since.\<close>

lemma reset_confirm_redeemed:
  assumes "argon2_correct E" and wf: "wf_db E (w_db w)"
    and human: "\<And>t u. t \<in> set (reset_tokens (w_db w)) \<Longrightarrow> u \<in> set (users (w_db w)) \<Longrightarrow>
      u_id u = t_user_id t \<Longrightarrow> u_kind u = Human"
    and run: "password_reset_confirm E raw pw w = (Ok (), w1)"
  obtains bytes where "hex_decode E raw = Some bytes" "redeemed (hex_encode E (sha256 E bytes)) (w_db w1)"
proof -
  from password_reset_confirm_Ok [OF assms(1) run] obtain bytes t h where
    b: "hex_decode E raw = Some bytes"
    and t: "valid_token (hex_encode E (sha256 E bytes)) (w_now w) (w_db w) = Some t"
    and db: "w_db w1 = consume_row (t_id t) (w_now w) (set_password_hash (t_user_id t) h (w_now w) (w_db w))"
    by blast
  from t have t_in: "t \<in> set (reset_tokens (w_db w))" "t_token_hash t = hex_encode E (sha256 E bytes)"
    by (auto simp: valid_token_def dest!: find_Some_in)
  have "t_user_id t \<in> u_id ` set (users (w_db w))" using wf t_in(1) by (simp add: wf_defs)
  moreover have "t\<lparr>t_used_at := Some (w_now w)\<rparr> \<in> set (reset_tokens (w_db w1))"
    using t_in(1) by (force simp: db consume_row_def set_password_hash_def)
  moreover have "u_kind u = Human" if "u \<in> set (users (w_db w1))" "u_id u = t_user_id t" for u
    using that human [OF t_in(1)] by (auto simp: db consume_row_users dest!: set_password_hash_users)
  ultimately have "redeemed (hex_encode E (sha256 E bytes)) (w_db w1)"
    unfolding redeemed_def using t_in(2)
    by (intro bexI [of _ "t\<lparr>t_used_at := Some (w_now w)\<rparr>"]) (auto simp: db consume_row_users)
  with b that show thesis by blast
qed

lemma reset_token_once_overlapping:
  assumes "\<And>n. \<not> db_fault E n" and "argon2_correct E" and wf: "wf_db E (w_db w)"
    and "\<And>t u. t \<in> set (reset_tokens (w_db w)) \<Longrightarrow> u \<in> set (users (w_db w)) \<Longrightarrow>
      u_id u = t_user_id t \<Longrightarrow> u_kind u = Human"
    and first: "password_reset_confirm E raw pw w = (Ok (), w1)"
    and "overlapping E w1 (w2, ts)" and "8 \<le> length pw2"
  shows "fst (password_reset_confirm E raw pw2 w2) = Err PcInvalidToken"
proof -
  obtain bytes where b: "hex_decode E raw = Some bytes"
    and red: "redeemed (hex_encode E (sha256 E bytes)) (w_db w1)"
    by (rule reset_confirm_redeemed [OF assms(2-5)])
  have "wf_db E (w_db w1)" using keeps_dbD [OF keeps_wf_security(7) wf first] .
  with db_steps_redeemed [OF overlapping_steps [OF assms(6)]] red
  have "valid_token (hex_encode E (sha256 E bytes)) (w_now w2) (w_db w2) = None"
    using redeemed_invalid by blast
  with assms(1,7) b show ?thesis
    by (simp add: password_reset_confirm_def bindE_def map_err_def find_valid_def query_def stmt_def
        audit_eq Let_def)
qed

end
