(* ===== verification/Races.thy ===== *)
theory Races
  imports Overlap DemoRuns
begin

text \<open>
  Races the code loses. Two operations check a table in one statement and act on it in a later
  one, without a transaction: \<open>password_reset_confirm\<close> and \<open>tokens_insert\<close>. Both are cut here by
  hand, each thread is shown to be a cutting of its operation, and a schedule of two of them
  breaks what holds of one at a time.
\<close>

section \<open>Building threads\<close>

definition atom_of :: "('e, 'a) action \<Rightarrow> ('e, 'a) thread" where
  "atom_of m = Atom (\<lambda>w. snd (m w)) (\<lambda>w. Finish (fst (m w)))"

definition bind_thread :: "('e, 'a) thread \<Rightarrow> ('a \<Rightarrow> ('e, 'b) thread) \<Rightarrow> ('e, 'b) thread" where
  "bind_thread t k = then_thread t (\<lambda>r. case r of Err e \<Rightarrow> Finish (Err e) | Ok a \<Rightarrow> k a)"

lemma run_atom_of [simp]: "run_thread (atom_of m) = m"
  unfolding atom_of_def by (rule run_atom)

lemma run_bind_thread [simp]:
  "run_thread (bind_thread t k) = bindE (run_thread t) (\<lambda>a. run_thread (k a))"
  unfolding bind_thread_def run_then_thread
  by (rule ext) (auto simp: matchE_def bindE_def split: prod.splits sum.splits)

lemma thread_ok_bind:
  "thread_ok E N D (\<lambda>_. True) t \<Longrightarrow> (\<And>a. thread_ok E N D (\<lambda>_. True) (k a)) \<Longrightarrow>
   thread_ok E N D (\<lambda>_. True) (bind_thread t k)"
  unfolding bind_thread_def by (erule thread_ok_then) (simp split: sum.splits)

lemma snd_map_err [simp]: "snd (map_err c m w) = snd (m w)"
  by (auto simp: map_err_def split: prod.splits sum.splits)

lemma thread_ok_memory:
  "reads w_db m \<Longrightarrow> reads w_stmts m \<Longrightarrow> reads w_now m \<Longrightarrow> (\<And>w. w_draws w \<le> w_draws (snd (m w))) \<Longrightarrow>
   thread_ok E N D (\<lambda>_. True) (atom_of m)"
  by (simp add: atom_of_def round_trip_def moves_def reads_def)

lemma thread_ok_map_err [simp]:
  "thread_ok E N D (\<lambda>_. True) (atom_of (map_err c m)) = thread_ok E N D (\<lambda>_. True) (atom_of m)"
  by (simp add: atom_of_def)

lemma thread_ok_stmt:
  "(\<And>now d a d'. g now d = Ok (a, d') \<Longrightarrow> d' = d \<or> db_step E N d d') \<Longrightarrow>
   thread_ok E N D (\<lambda>_. True) (atom_of (stmt E g))"
  using stmt_moves [of g _ E N] round_trip_stmt [of E g] by (simp add: atom_of_def)

lemma thread_ok_query: "thread_ok E N D (\<lambda>_. True) (atom_of (query E g))"
  unfolding query_def by (rule thread_ok_stmt) simp

text \<open>Runs the next atoms of the threads in the given order.\<close>

fun run_schedule :: "nat list \<Rightarrow> world \<times> ('e, 'a) thread list \<Rightarrow> world \<times> ('e, 'a) thread list" where
  "run_schedule [] p = p"
| "run_schedule (i # is) (w, ts) =
     (case ts ! i of
        Finish _ \<Rightarrow> run_schedule is (w, ts)
      | Atom f k \<Rightarrow> run_schedule is (f w, ts[i := k w]))"

definition succeeded :: "('e, 'a) thread \<Rightarrow> bool" where
  "succeeded t = (case t of Finish (Ok _) \<Rightarrow> True | _ \<Rightarrow> False)"

section \<open>Redeeming a reset token\<close>

definition confirm_thread :: "env \<Rightarrow> string \<Rightarrow> string \<Rightarrow> (password_reset_confirm_error, unit) thread" where
  "confirm_thread E raw_token new_password =
     (if length new_password < 8 then Finish (Err PcPasswordTooShort)
      else case hex_decode E raw_token of
        None \<Rightarrow> Finish (Err PcInvalidToken)
      | Some raw_bytes \<Rightarrow>
          bind_thread (atom_of (map_err (\<lambda>_. PcInternal opaque)
            (find_valid E (hex_encode E (sha256 E raw_bytes))))) (\<lambda>found.
          case found of
            None \<Rightarrow>
              bind_thread (atom_of (audit E (\<lambda>eid now. password_reset_confirmed eid now None Failure
                (Some ''invalid_token'')))) (\<lambda>_.
              Finish (Err PcInvalidToken))
          | Some token \<Rightarrow>
              bind_thread (atom_of (map_err PcInternal (hash_password E new_password))) (\<lambda>new_hash.
              bind_thread (atom_of (map_err (\<lambda>_. PcInternal opaque)
                (update_password_hash E (t_user_id token) new_hash))) (\<lambda>_.
              bind_thread (atom_of (map_err (\<lambda>_. PcInternal opaque) (consume E (t_id token)))) (\<lambda>_.
              atom_of (audit E (\<lambda>eid now. password_reset_confirmed eid now (Some (t_user_id token))
                Success None)))))))"

lemma run_Finish [simp]: "run_thread (Finish r) = lift r"
  by (simp add: fun_eq_iff)

lemma lift_Err [simp]: "lift (Err e) = fail e"
  by (simp add: fun_eq_iff)

lemma run_confirm_thread: "run_thread (confirm_thread E raw pw) = password_reset_confirm E raw pw"
  by (cases "hex_decode E raw") (simp_all add: confirm_thread_def password_reset_confirm_def
      bindE_lift_Ok option.case_distrib [of run_thread] cong: option.case_cong)

lemma confirm_thread_cut: "cut E N D (password_reset_confirm E raw pw) (confirm_thread E raw pw)"
  unfolding cut_def
proof
  show "run_thread (confirm_thread E raw pw) = password_reset_confirm E raw pw"
    by (rule run_confirm_thread)
  have audit: "thread_ok E N D (\<lambda>_. True) (atom_of (audit E mk :: (password_reset_confirm_error, unit) action))" for mk
    by (rule thread_ok_memory) (simp_all add: reads_def audit_eq)
  have hash: "thread_ok E N D (\<lambda>_. True) (atom_of (hash_password E pw))"
    by (rule thread_ok_memory)
      (auto simp: reads_def hash_password_def bindE_def draw_def split: sum.splits option.splits)
  show "thread_ok E N D (\<lambda>_. True) (confirm_thread E raw pw)"
    unfolding confirm_thread_def find_valid_def update_password_hash_def consume_def
    by (auto split: option.splits intro!: thread_ok_bind thread_ok_query thread_ok_stmt audit hash
        db_step.password db_step.reset_consumed)
qed

text \<open>
  Two requests with the same token, both past \<open>find_valid\<close> before either has consumed it: both
  succeed, and the password is the one of the second.
\<close>

definition one_pending :: world where
  "one_pending = snd (tokens_insert demo_env 11 ''07'' 9 demo_world)"

theorem reset_token_redeemed_twice:
  "let p = run_schedule [0, 1, 0, 0, 0, 0, 1, 1, 1, 1] (one_pending,
         [confirm_thread demo_env ''07'' ''passw0rd'', confirm_thread demo_env ''07'' ''passw1rd''])
   in list_all succeeded (snd p) \<and>
      list_ex (\<lambda>u. u_id u = 11 \<and> argon2_verify demo_env ''passw1rd'' (u_password_hash u) = Some True)
        (users (w_db (fst p)))"
  by code_simp

lemma one_pending_wf: "wf_db demo_env (w_db one_pending)"
  unfolding one_pending_def by (rule keeps_dbD [OF keeps_wf_tokens(1) demo_world_wf prod.collapse [symmetric]])

lemma one_pending_human:
  assumes "t \<in> set (reset_tokens (w_db one_pending))" and "u \<in> set (users (w_db one_pending))"
    and "u_id u = t_user_id t"
  shows "u_kind u = Human"
proof -
  have "list_all (\<lambda>t. list_all (\<lambda>u. u_id u = t_user_id t \<longrightarrow> u_kind u = Human) (users (w_db one_pending)))
    (reset_tokens (w_db one_pending))" by code_simp
  with assms show ?thesis by (simp add: list_all_iff)
qed

lemma one_pending_confirm:
  "\<not> isl (fst (password_reset_confirm demo_env ''07'' ''passw0rd'' one_pending))"
  by code_simp

section \<open>Issuing a reset token\<close>

definition insert_thread :: "env \<Rightarrow> uuid \<Rightarrow> string \<Rightarrow> datetime \<Rightarrow> (sqlx_error, reset_token) thread" where
  "insert_thread E uid token_hash expires_at =
     bind_thread (atom_of (count_pending_for_user E uid)) (\<lambda>n.
     bind_thread (if n \<ge> MAX_PENDING_TOKENS_PER_USER
            then atom_of (stmt E (\<lambda>now d. Ok ((), d\<lparr>reset_tokens :=
                   filter (\<lambda>t. Some (t_id t) \<noteq> oldest_pending uid now d) (reset_tokens d)\<rparr>)))
            else Finish (Ok ())) (\<lambda>_.
     bind_thread (atom_of (new_uuid E)) (\<lambda>tid.
     atom_of (stmt E (\<lambda>now d.
       let t = \<lparr> t_id = tid, t_token_hash = token_hash, t_user_id = uid,
                 t_expires_at = expires_at, t_used_at = None, t_created_at = now \<rparr> in
       map_sum id (Pair t) (insert_reset_token t d))))))"

lemma lift_Ok_ret: "lift (Ok a) = ret a"
  by (simp add: fun_eq_iff)

lemma insert_thread_cut: "cut E N D (tokens_insert E uid th t) (insert_thread E uid th t)"
  unfolding cut_def
proof
  show "run_thread (insert_thread E uid th t) = tokens_insert E uid th t"
    by (simp add: insert_thread_def tokens_insert_def lift_Ok_ret if_distrib [of run_thread] cong: if_cong)
  have draw: "thread_ok E N D (\<lambda>_. True) (atom_of (new_uuid E :: (sqlx_error, uuid) action))"
    by (rule thread_ok_memory) (simp_all add: reads_def draw_def)
  show "thread_ok E N D (\<lambda>_. True) (insert_thread E uid th t)"
    unfolding insert_thread_def count_pending_for_user_def Let_def
    by (auto intro!: thread_ok_bind thread_ok_query thread_ok_stmt draw
        intro: db_step.reset_token oldest_dropped)
qed

text \<open>
  Two requests for a user with two pending tokens, both past the count before either has
  inserted: four tokens are pending.
\<close>

definition two_pending :: world where
  "two_pending = snd (tokens_insert demo_env 11 ''h2'' 9 (snd (tokens_insert demo_env 11 ''h1'' 9 demo_world)))"

theorem four_tokens_pending:
  "let p = run_schedule [0, 1, 0, 0, 1, 1] (two_pending,
         [insert_thread demo_env 11 ''h3'' 9, insert_thread demo_env 11 ''h4'' 9])
   in list_all succeeded (snd p) \<and>
      length (filter (pending 11 0) (reset_tokens (w_db (fst p)))) = MAX_PENDING_TOKENS_PER_USER + 1"
  by code_simp

end
