(* ===== verification/Spec2Isabelle.thy ===== *)
theory Spec2Isabelle
  imports DemoServe Races
begin

text \<open>
  Verification of egras, a multi-tenant HTTP backend (Rust, axum, sqlx on PostgreSQL):
  organisations, users and role-based permissions, sessions, service accounts with API keys,
  feature flags, an audit log, a job queue and an outbox.

  \<^bold>\<open>How the program is put together.\<close> A request passes the authentication layer
  (\<^verbatim>\<open>src/auth/middleware.rs\<close>), which accepts an API key or a bearer token and attaches claims,
  caller and permissions. A handler (\<^verbatim>\<open>*/interface.rs\<close>) runs its extractors, calls a service
  (\<^verbatim>\<open>*/service/\<close>) and translates the service's error. Services call repositories
  (\<^verbatim>\<open>*/persistence/*_pg.rs\<close>), each of whose methods is one or a few SQL statements, and hand
  events to the audit recorder, a bounded channel drained by a worker. The outbox relayer and
  the job runner work on their tables in the background. \<^verbatim>\<open>build_app\<close> (\<^verbatim>\<open>src/lib.rs\<close>) puts routers,
  layer and workers together, \<^verbatim>\<open>src/openapi.rs\<close> collects the annotations of the handlers into the
  published document, and the commands of \<^verbatim>\<open>src/main.rs\<close> run the server until a signal, seed the
  first administrator or print the document.

  \<^bold>\<open>The model.\<close> An action is a function from a \<open>world\<close> to a result and a world: the database
  (a record of tables, each a list of rows), the clock, the audit channel, the flag cache, and
  two counters. Fallible code returns a sum, \<open>Inl\<close> (written \<open>Err\<close>) holding the error; \<open>bindE\<close>
  is the question mark. \<open>stmt\<close> is one SQL statement; any statement can fail
  (\<open>db_fault\<close> of its number), and \<open>in_tx\<close> rolls back. Code that is not in the repository is a
  field of the record \<open>env\<close>: argon2, SHA-256, base64, hex, JSON and RFC 3339 codecs, the JWT
  crate, random numbers and UUIDs by the number of the draw, collation and case folding of
  PostgreSQL, row locks of other sessions. What is relied on of it is a named predicate, such
  as \<open>jwt_roundtrip\<close>, \<open>argon2_correct\<close>, \<open>codecs_ok\<close>, \<open>cursor_codecs\<close> or
  \<open>hex_roundtrip\<close>; \<^verbatim>\<open>Demo\<close> gives an environment in which all of them hold. Time is in
  microseconds; \<^verbatim>\<open>u32\<close>, \<^verbatim>\<open>u64\<close> and UUIDs are words of their width, strings are the bytes of
  their UTF-8.

  \<^bold>\<open>The theories.\<close>

  \<^item> \<^verbatim>\<open>Prelude\<close>: results and actions, the logic of frames (\<open>keeps\<close>, \<open>reads\<close>, \<open>safe_err\<close>)
    with its rule collections, strings and saturating arithmetic of the Rust library.
  \<^item> \<^verbatim>\<open>Errors\<close>: \<^verbatim>\<open>src/errors.rs\<close>. \<^verbatim>\<open>Store\<close>: the rows of all tables, the environment, the
    world, statements and transactions. \<^verbatim>\<open>Tables\<close>: the constraints of \<^verbatim>\<open>migrations/\<close> as insert
    and delete functions, and \<open>wf_db\<close>, integrity, which each of them keeps.
  \<^item> \<^verbatim>\<open>AuditModel\<close>, \<^verbatim>\<open>AuditLog\<close>, \<^verbatim>\<open>AuditQuery\<close>: \<^verbatim>\<open>src/audit\<close>.
  \<^item> \<^verbatim>\<open>Auth\<close>: permissions, extractors and tokens of \<^verbatim>\<open>src/auth\<close>. \<^verbatim>\<open>Middleware\<close>: the layer,
    over a locale \<open>auth_strategies\<close> of its three strategies and the flag evaluator, interpreted
    on the PostgreSQL ones.
  \<^item> \<^verbatim>\<open>Cursors\<close>, \<^verbatim>\<open>Pagination\<close>: cursor strings and keyset pages; the locale \<open>keyset\<close> is the
    contract of a list query, interpreted in \<^verbatim>\<open>Listings\<close> on the two query shapes, and every
    list operation is shown to be one of them.
  \<^item> \<^verbatim>\<open>Features\<close>: \<^verbatim>\<open>src/features\<close>. \<^verbatim>\<open>Tenants\<close>, \<^verbatim>\<open>TenantsApi\<close>: \<^verbatim>\<open>src/tenants\<close>.
    \<^verbatim>\<open>SecurityStore\<close>, \<^verbatim>\<open>Security\<close>, \<^verbatim>\<open>SecurityApi\<close>: \<^verbatim>\<open>src/security\<close>. \<^verbatim>\<open>Jobs\<close>, \<^verbatim>\<open>Outbox\<close>:
    \<^verbatim>\<open>src/jobs\<close> and \<^verbatim>\<open>src/outbox\<close>. \<^verbatim>\<open>Platform\<close>: \<^verbatim>\<open>src/echo\<close>, \<^verbatim>\<open>src/config.rs\<close>, CORS and
    readiness of \<^verbatim>\<open>src/lib.rs\<close>.
  \<^item> \<^verbatim>\<open>Integrity\<close>, \<^verbatim>\<open>System\<close>: every repository and service keeps \<open>wf_db\<close>; \<open>sys_step\<close> is one
    thing the process can do, \<open>reachable\<close> its closure, and the invariants of the reachable
    worlds are proved by rule induction.
  \<^item> \<^verbatim>\<open>TenantsFacts\<close>, \<^verbatim>\<open>SecurityFacts\<close>, \<^verbatim>\<open>Access\<close>: what the services and the handlers
    achieve.
  \<^item> \<^verbatim>\<open>Permanence\<close>: the locales \<open>lasting\<close> and \<open>permanent\<close> lift a fact about the core tables that
    every SQL statement keeps to all reachable worlds; interpreted on revoked keys, deleted
    accounts and revoked tokens, and in \<^verbatim>\<open>Rbac\<close> on ownership and on the simulation by \<open>rbac_step\<close>,
    the abstract specification of users, roles and memberships.
  \<^item> \<^verbatim>\<open>Interleaving\<close>: \<open>evaluate\<close> cut into the steps between its awaits, interleaved with other
    evaluations and with everything else.
  \<^item> \<^verbatim>\<open>Routes\<close>: the routing tables of the components and of the application. \<^verbatim>\<open>Wire\<close>: request and
    response types, and \<open>call\<close>, a routed and parsed request. \<^verbatim>\<open>App\<close>: \<open>handle\<close>, the handlers behind
    the routes, and \<open>serve_request\<close>, the application with the authentication layer before its
    protected half. \<^verbatim>\<open>Requests\<close>: a request is a sequence of \<open>sys_step\<close>; \<open>required\<close>, \<open>target_org\<close> and
    \<open>humans_only\<close> are the specification of access, which \<open>mediated\<close> shows it obeys.
  \<^item> \<^verbatim>\<open>OpenApi\<close>: the annotations and \<^verbatim>\<open>ApiDoc\<close>, compared with the router. \<^verbatim>\<open>Contract\<close>: the
    responses of every request compared with the annotation of its endpoint; \<open>undocumented\<close> lists
    the error statuses the annotations lack, and \<^verbatim>\<open>Gaps\<close> has a run for each of them.
  \<^item> \<^verbatim>\<open>Process\<close>: loading the configuration, what is started, the polling loops and the commands.
    The locale \<open>polling\<close> is what a loop relies on in its pass, interpreted on the relayer and on
    the runner as the application starts it. \<^verbatim>\<open>Relay\<close>: the relayer delivers, the server stops,
    and what seeding achieves.
  \<^item> \<^verbatim>\<open>Threads\<close>, \<^verbatim>\<open>Overlap\<close>: overlapping requests. \<open>db_step\<close> lists the SQL statements of the
    program with what each may assume of the tables; a \<open>thread\<close> is an operation cut into its
    database round trips (a statement or a transaction), and \<open>cut\<close> says that running the pieces in
    a row is the operation. \<open>program\<close> collects the requests and what the workers do, all of them are
    cut, and \<open>overlapping\<close> runs any number of them interleaved; facts of the locale \<open>permanent\<close>
    carry over. \<^verbatim>\<open>Races\<close>: two operations cut by hand, and schedules in which two of them get past
    a check together.
  \<^item> \<^verbatim>\<open>Demo\<close>, \<^verbatim>\<open>DemoRuns\<close>, \<^verbatim>\<open>DemoServe\<close>: a concrete environment and world, and runs in it. \<^verbatim>\<open>Findings\<close>: runs
    that show behaviours the code is unlikely to intend.

  \<^bold>\<open>The properties\<close>, in this theory: invariants of the running system and its
  refinement of the role model; soundness of the
  authentication layer; requests as a whole (complete mediation, the cut into
  round trips and what overlapping ones keep, the published contract, the document and the
  router, routing); sessions and passwords; the life of an API key; organisations and roles;
  flags; completeness of the listings; the background workers and the end of the process;
  errors.

  \<^bold>\<open>Loops and fuel.\<close> The retry loop of the audit writer is a partial function to an option:
  not returning would be \<open>None\<close>, and \<open>worker_run_terminates\<close> (\<^verbatim>\<open>AuditLog\<close>) shows
  it returns whenever the retry limit is below the largest 32-bit number (at that number the attempt counter would wrap). The polling
  loops are a partial function too (\<open>poll_loop\<close>); they return once they see the shutdown flag,
  and C37 and C38 state that and what has happened by then. The two-attempt
  loops of key creation are recursions on the number of attempts left. \<open>pages\<close>, the client of
  a listing, has fuel; one more than the number of rows is enough, which C30 and C31 state.

  \<^bold>\<open>Not modelled.\<close> axum's path matcher is a parameter of \<open>dispatch_route\<close>, and requests it or serde
  refuse never become a \<open>call\<close>; JSON text of bodies, the error text of the readiness probe and
  the Swagger UI pages are left out, as are tracing and \<^verbatim>\<open>init_tracing\<close>, which change no state.
  SQL beyond the statements the repositories send, the pool, figment, clap, signals and the
  start of tasks are parameters (\<open>host\<close>, \<open>extract\<close>) or omitted. \<^verbatim>\<open>src/testing.rs\<close>, the tests, and the
  Python and web clients are not part of the service. Concurrency comes
  in three grains. In \<open>sys_step\<close> a service call is one step: the properties over \<open>reachable\<close> speak
  of calls that do not overlap. In \<^verbatim>\<open>Overlap\<close> requests and workers interleave between round trips,
  and C8, C9 and C18 hold there. \<^verbatim>\<open>Jobs\<close>
  and \<^verbatim>\<open>Interleaving\<close> have step relations of their own, one statement at a time. A transaction is one
  step throughout: row locks are seen through \<open>env\<close> only, and interleaving within transactions
  at the isolation level of the server is not modelled.
\<close>

section \<open>Integrity of the running system\<close>

text \<open>
  C1: Referential integrity. Whatever the process does, in any order and with any statement
  failing (service calls with any arguments, worker turns, the passing of time), the
  database stays well formed: keys unique, every foreign key resolved, every check
  constraint met.
\<close>

theorem integrity_invariant:
  assumes "reachable E w w'" and "wf_db E (w_db w)"
  shows "wf_db E (w_db w')"
  using assms by (rule reachable_wf)

theorem integrity_invariant_witness:
  "wf_db demo_env (w_db (snd (logout demo_env 11 2 7 5000000
     (snd (login demo_env demo_jwt ''ann'' ''password'' demo_world)))))"
proof -
  let ?w = "snd (login demo_env demo_jwt ''ann'' ''password'' demo_world)"
  have "reachable demo_env demo_world (snd (logout demo_env 11 2 7 5000000 ?w))"
    by (rule two_steps [OF sys_step.login sys_step.logout])
  then show ?thesis using demo_world_wf by (rule integrity_invariant)
qed

text \<open>
  C2: Feature flags. In every reachable world each stored override has the type its
  definition declares, and each cached value whose deadline has not passed is the value the
  tables give.
\<close>

theorem flags_invariant:
  assumes "reachable E w w'" and "flags_ok w"
  shows "flags_ok w'"
  using assms by (rule reachable_flags)

theorem flags_invariant_witness:
  "flags_ok (snd (evaluate demo_env 60 2 ''beta'' (snd (set_org_feature demo_env demo_flag demo_world))))"
proof -
  let ?w = "snd (set_org_feature demo_env demo_flag demo_world)"
  have "reachable demo_env demo_world (snd (evaluate demo_env 60 2 ''beta'' ?w))"
    by (rule two_steps [OF sys_step.flag_set sys_step.flag_read])
  then show ?thesis using demo_flags_ok by (rule flags_invariant)
qed

text \<open>
  C3: Users, roles and memberships refine their specification. Whatever the process does, the
  tables move only as \<open>rbac_step\<close> allows: organisations are founded, users enter, roles are
  granted to existing users in existing organisations, a member leaves but not as the last
  owner, a service account is closed with its memberships. So every grant stays valid, roles
  never change, and no organisation and no human user ever disappears.
\<close>

theorem rbac_refinement:
  assumes "reachable E w v" and "wf_db E (w_db w)"
  shows "rbac_step\<^sup>*\<^sup>* (rbac_of (w_db w)) (rbac_of (w_db v)) \<and>
     grants_valid (rbac_of (w_db v)) \<and> rb_roles (rbac_of (w_db v)) = rb_roles (rbac_of (w_db w)) \<and>
     rb_orgs (rbac_of (w_db w)) \<subseteq> rb_orgs (rbac_of (w_db v)) \<and>
     {u. (u, Human) \<in> rb_users (rbac_of (w_db w))} \<subseteq> {u. (u, Human) \<in> rb_users (rbac_of (w_db v))}"
  using reachable_rbac [OF assms(1)] rbac_of_wf [OF assms(2)] rbac_steps_keep by blast

theorem rbac_refinement_witness:
  "rbac_step\<^sup>*\<^sup>* (rbac_of demo_db) (rbac_of (w_db demo_ownerless)) \<and> grants_valid (rbac_of (w_db demo_ownerless))"
  using rbac_refinement [OF demo_ownerless_reachable demo_world_wf] by simp

section \<open>The authentication layer\<close>

text \<open>
  C4: Every request the layer forwards carries claims, caller and permissions that agree: the
  caller is the subject of the claims in the organisation of the claims, and holds no
  permission that its roles in that organisation do not grant at that moment.
\<close>

theorem auth_layer_consistent:
  assumes "coherent w"
    and "auth_call E (pg_strategies E ttl) secret issuer rq w = (Ok (Forward x touch), w')"
  shows "\<exists>c k p. ext_claims x = Some c \<and> ext_caller x = Some k \<and> ext_perms x = Some p \<and>
     principal_user_id k = cl_sub c \<and> org_id k = cl_org c \<and> cl_typ c = ''access'' \<and>
     p \<subseteq> set (granted_codes (w_db w) (cl_sub c) (cl_org c))"
  using assms by (rule pg.forward_consistent)

theorem auth_layer_consistent_witness:
  "\<exists>x t w' c k p. auth_call demo_env (pg_strategies demo_env 60) ''s'' ''i'' demo_request demo_world
     = (Ok (Forward x t), w') \<and> ext_claims x = Some c \<and> ext_caller x = Some k \<and> ext_perms x = Some p \<and>
     principal_user_id k = cl_sub c \<and> org_id k = cl_org c \<and>
     p \<subseteq> set (granted_codes demo_db (cl_sub c) (cl_org c))"
proof -
  obtain x t w' where run:
    "auth_call demo_env (pg_strategies demo_env 60) ''s'' ''i'' demo_request demo_world = (Ok (Forward x t), w')"
    using forwardsE [OF demo_auth] by blast
  from auth_layer_consistent [OF demo_coherent this] run show ?thesis by auto
qed

text \<open>
  C5: An API key is forwarded only when it is live (known prefix, not revoked, secret
  verified), the organisation's flag allows the header it came in, and then with the
  permissions of the service account cut down to the key's scopes.
\<close>

theorem api_key_forwarded_only_if:
  assumes "coherent w"
    and "handle_api_key (pg_strategies E ttl) issuer prefix secret src x w = (Ok (Forward x' touch), w')"
  shows "\<exists>v arr. key_of_db E (w_db w) prefix secret = Some v \<and>
     effective (w_db w) (vk_organisation_id v) API_KEY_HEADERS = Some (JArray arr) \<and>
     JString (source_slug src) \<in> set arr \<and>
     ext_claims x' = Some (synth_claims issuer v (timestamp (w_now w))) \<and>
     ext_caller x' = Some (ApiKeyCaller (vk_key_id v) (vk_sa_user_id v) (vk_organisation_id v)) \<and>
     ext_perms x' = Some (set (granted_codes (w_db w) (vk_sa_user_id v) (vk_organisation_id v)) \<inter>
       (case vk_scopes v of None \<Rightarrow> UNIV | Some s \<Rightarrow> set s)) \<and>
     touch = Some (vk_key_id v, vk_sa_user_id v)"
  using pg.handle_api_key_forward [OF assms refl] .

theorem api_key_forwarded_only_if_witness:
  "\<exists>x t w' v. handle_api_key (pg_strategies demo_env 60) ''i'' ''deadbeef'' ''secret'' XApiKey no_extensions
     demo_world = (Ok (Forward x t), w') \<and> key_of_db demo_env demo_db ''deadbeef'' ''secret'' = Some v \<and>
     ext_caller x = Some (ApiKeyCaller (vk_key_id v) (vk_sa_user_id v) (vk_organisation_id v))"
proof -
  obtain x t w' where run: "handle_api_key (pg_strategies demo_env 60) ''i'' ''deadbeef'' ''secret'' XApiKey
      no_extensions demo_world = (Ok (Forward x t), w')"
    using forwardsE [OF demo_api_key] by blast
  from api_key_forwarded_only_if [OF demo_coherent this] run show ?thesis by auto
qed

text \<open>
  C6: A bearer token is forwarded only when it decodes under the configured secret and issuer
  at the current second and its \<open>jti\<close> is not revoked; the caller is then its subject with
  the full permissions of its roles.
\<close>

theorem jwt_forwarded_only_if:
  assumes "coherent w"
    and "handle_jwt E (pg_strategies E ttl) secret issuer token x w = (Ok (Forward x' touch), w')"
  shows "\<exists>c. decode_access_token E secret issuer (timestamp (w_now w)) token = Ok c \<and>
     \<not> revoked (cl_jti c) (w_now w) (w_db w) \<and> ext_claims x' = Some c \<and>
     ext_perms x' = Some (set (granted_codes (w_db w) (cl_sub c) (cl_org c))) \<and>
     ext_caller x' = Some (UserCaller (cl_sub c) (cl_org c) (cl_jti c)) \<and> touch = None"
  using pg.handle_jwt_forward [OF assms refl] .

theorem jwt_forwarded_only_if_witness:
  "\<exists>x t w' c. handle_jwt demo_env (pg_strategies demo_env 60) ''s'' ''i'' demo_token no_extensions demo_world
     = (Ok (Forward x t), w') \<and> decode_access_token demo_env ''s'' ''i'' 0 demo_token = Ok c \<and>
     \<not> revoked (cl_jti c) 0 demo_db \<and> ext_caller x = Some (UserCaller (cl_sub c) (cl_org c) (cl_jti c))"
proof -
  obtain x t w' where run: "handle_jwt demo_env (pg_strategies demo_env 60) ''s'' ''i'' demo_token
      no_extensions demo_world = (Ok (Forward x t), w')"
    using forwardsE [OF demo_jwt_call] by blast
  from jwt_forwarded_only_if [OF demo_coherent this] run show ?thesis by (auto simp: demo_world_def)
qed

section \<open>Requests\<close>












section \<open>Sessions\<close>

text \<open>
  C13: Login authenticates. The token a successful login returns is accepted by the bearer
  path of the layer, as that user in the active organisation the login reported, with the
  permissions of the user's roles there.
\<close>

theorem login_token_accepted:
  assumes "\<And>n. \<not> db_fault E n" and "jwt_roundtrip E" and "0 \<le> jc_ttl_secs jc"
    and "login E jc name pw w = (Ok out, w')"
    and "\<And>n. w_draws w \<le> n \<Longrightarrow> uuid_v7 E n \<notin> rv_jti ` set (revoked_tokens (w_db w))"
  shows "(\<exists>u. find (\<lambda>u. u_username u = name \<or> email_param_eq E (u_email u) name) (users (w_db w)) = Some u \<and>
       argon2_verify E pw (u_password_hash u) = Some True \<and> u_id u = lo_user_id out) \<and>
     (\<exists>x' jti w''. handle_jwt E (pg_strategies E ttl) (jc_secret jc) (jc_issuer jc) (lo_token out) x w' =
       (Ok (Forward x' None), w'') \<and>
     ext_caller x' = Some (UserCaller (lo_user_id out) (lo_active_org_id out) jti) \<and>
     ext_perms x' = Some (set (granted_codes (w_db w) (lo_user_id out) (lo_active_org_id out))))"
  using login_authenticates [OF assms] login_Ok [OF assms(4)] by fastforce

theorem login_token_accepted_witness:
  "\<exists>out w' x' w'' jti. login demo_env demo_jwt ''ann'' ''password'' demo_world = (Ok out, w') \<and>
     handle_jwt demo_env (pg_strategies demo_env 60) ''s'' ''i'' (lo_token out) no_extensions w' =
       (Ok (Forward x' None), w'') \<and>
     ext_caller x' = Some (UserCaller (lo_user_id out) (lo_active_org_id out) jti)"
proof -
  let ?r = "login demo_env demo_jwt ''ann'' ''password'' demo_world"
  have run: "?r = (Ok (projr (fst ?r)), snd ?r)" by (rule run_Ok [OF demo_login])
  from login_token_accepted [OF _ demo_jwt_roundtrip _ this, of 60 no_extensions] run show ?thesis
    by (auto simp: demo_jwt_def demo_no_revocations)
qed

text \<open>
  C14: Login fails closed and quietly. With an unknown name or a password that does not
  verify, the answer is the same \<open>LgInvalidCredentials\<close>, no row changes, and the attempt is
  audited as a failed login.
\<close>

theorem login_fails_closed:
  assumes "\<And>n. \<not> db_fault E n"
    and "\<And>u. find (\<lambda>u. u_username u = name \<or> email_param_eq E (u_email u) name) (users (w_db w)) = Some u \<Longrightarrow>
       argon2_verify E pw (u_password_hash u) = Some False"
  shows "\<exists>w' eid why. login E jc name pw w = (Err LgInvalidCredentials, w') \<and> w_db w' = w_db w \<and>
     w_audit w' = enqueued w (login_failed eid (w_now w) why name)"
  using assms by (rule login_refused)

theorem login_fails_closed_witness:
  "\<exists>w'. login demo_env demo_jwt ''nobody'' ''password'' demo_world = (Err LgInvalidCredentials, w') \<and>
     w_db w' = demo_db"
proof -
  have "find (\<lambda>u. u_username u = ''nobody'' \<or> email_param_eq demo_env (u_email u) ''nobody'')
      (users (w_db demo_world)) = None"
    by (simp add: demo_eval)
  then show ?thesis using login_fails_closed [of demo_env "''nobody''" demo_world "''password''" demo_jwt] by auto
qed

text \<open>
  C15: Logout sticks. Once a human user's token has been logged out, the layer rejects it as
  revoked until the token's own expiry, in every world the system can reach from there.
\<close>

theorem logged_out_token_rejected:
  assumes "\<And>n. \<not> db_fault E n" and "wf_db E (w_db w)"
    and "u \<in> set (users (w_db w))" and "u_id u = uid" and "u_kind u = Human"
    and "logout E uid oid (cl_jti c) (seconds (cl_exp c)) w = (Ok (), w')"
    and "cl_jti c \<notin> rv_jti ` set (revoked_tokens (w_db w))"
    and "reachable E w' v" and "w_now v < seconds (cl_exp c)"
    and "decode_access_token E secret issuer (timestamp (w_now v)) token = Ok c"
  shows "fst (handle_jwt E (pg_strategies E ttl) secret issuer token x v) =
     Ok (Rejected (Unauthenticated ''token_revoked''))"
  using logout_rejects [OF assms(1) logout_token_revoked [OF assms(2-7)] assms(8-10)] .

theorem logged_out_token_rejected_witness:
  "fst (handle_jwt demo_env (pg_strategies demo_env 60) ''s'' ''i'' demo_token no_extensions
     (snd (create_service_account demo_env 2 ''new'' None 11 2
       (snd (logout demo_env 11 2 7 5000000 demo_world))))) = Ok (Rejected (Unauthenticated ''token_revoked''))"
proof -
  let ?r = "logout demo_env 11 2 7 5000000 demo_world"
  let ?v = "snd (create_service_account demo_env 2 ''new'' None 11 2 (snd ?r))"
  have out: "?r = (Ok (), snd ?r)" by (rule run_Ok_unit [OF demo_logout])
  have now: "w_now ?v = 0" by code_simp
  have ann: "demo_user 11 ''ann'' Human demo_hash \<in> set (users (w_db demo_world))"
    by (simp add: demo_db_def)
  have "reachable demo_env (snd ?r) ?v" by (rule r_into_rtranclp) (rule sys_step.sa_created)
  from logged_out_token_rejected [OF _ demo_world_wf ann _ _ _ _ this, of 11 2 demo_claims]
  show ?thesis using out now demo_decode
    by (simp add: demo_claims_def demo_no_revocations demo_user_def)
qed

section \<open>Passwords\<close>

text \<open>
  C16: Changing a password takes the current one, and afterwards the new one verifies; only
  that user's row changes.
\<close>

theorem change_password_correct:
  assumes "argon2_correct E" and "change_password E uid p q w = (Ok (), w')"
  shows "8 \<le> length q \<and> (\<exists>u h. find (\<lambda>u. u_id u = uid) (users (w_db w)) = Some u \<and>
     argon2_verify E p (u_password_hash u) = Some True \<and> argon2_verify E q h = Some True \<and>
     w_db w' = set_password_hash uid h (w_now w) (w_db w))"
  using assms by (rule change_password_Ok)

theorem change_password_correct_witness:
  "\<exists>w' h. change_password demo_env 11 ''password'' ''passw0rd'' demo_world = (Ok (), w') \<and>
     argon2_verify demo_env ''passw0rd'' h = Some True \<and> w_db w' = set_password_hash 11 h 0 demo_db"
proof -
  let ?r = "change_password demo_env 11 ''password'' ''passw0rd'' demo_world"
  have run: "?r = (Ok (), snd ?r)" by (rule run_Ok_unit [OF demo_change])
  from change_password_correct [OF demo_argon2_correct this] run show ?thesis by (auto simp: demo_world_def)
qed



text \<open>
  C18: A reset token of a human user is redeemed at most once: after a redemption has
  succeeded, and whatever requests have overlapped since, another one with the same token
  fails, whatever the new password.
\<close>

theorem reset_token_single_use:
  assumes "\<And>n. \<not> db_fault E n" and "argon2_correct E" and "wf_db E (w_db w)"
    and "\<And>t u. t \<in> set (reset_tokens (w_db w)) \<Longrightarrow> u \<in> set (users (w_db w)) \<Longrightarrow>
      u_id u = t_user_id t \<Longrightarrow> u_kind u = Human"
    and "password_reset_confirm E raw pw w = (Ok (), w1)"
    and "overlapping E w1 (w2, ts)" and "8 \<le> length pw2"
  shows "fst (password_reset_confirm E raw pw2 w2) = Err PcInvalidToken"
  using assms by (rule reset_token_once_overlapping)

theorem reset_token_single_use_witness:
  "fst (password_reset_confirm demo_env ''07'' ''passw1rd'' (snd (pg_touch_last_used demo_env 21 13
     (snd (password_reset_confirm demo_env ''07'' ''passw0rd'' one_pending)) :: (unit + unit) \<times> world)))
   = Err PcInvalidToken"
proof -
  let ?w1 = "snd (password_reset_confirm demo_env ''07'' ''passw0rd'' one_pending)"
  obtain ts where "overlapping demo_env ?w1
      (snd (pg_touch_last_used demo_env 21 13 ?w1 :: (unit + unit) \<times> world), ts)"
    using program_overlaps [OF program.touch] by blast
  from reset_token_single_use [OF _ demo_argon2_correct one_pending_wf one_pending_human
      run_Ok_unit [OF one_pending_confirm] this] show ?thesis by simp
qed

text \<open>
  C19: Issuing a reset token keeps a user at three pending ones at most: a fourth removes the
  oldest. (Two that overlap can leave four, see \<^verbatim>\<open>Races\<close>.)
\<close>

theorem reset_tokens_bounded:
  assumes "tokens_insert E uid th t w = (Ok tok, w')"
    and "length (filter (pending uid (w_now w)) (reset_tokens (w_db w))) \<le> MAX_PENDING_TOKENS_PER_USER"
  shows "length (filter (pending uid (w_now w)) (reset_tokens (w_db w'))) \<le> MAX_PENDING_TOKENS_PER_USER"
  using pending_bound assms by (simp add: MAX_PENDING_TOKENS_PER_USER_def)

theorem reset_tokens_bounded_witness:
  "\<exists>tok w'. tokens_insert demo_env 11 ''h'' 9 demo_world = (Ok tok, w') \<and>
     length (filter (pending 11 0) (reset_tokens (w_db w'))) \<le> MAX_PENDING_TOKENS_PER_USER"
proof -
  let ?r = "tokens_insert demo_env 11 ''h'' 9 demo_world"
  have run: "?r = (Ok (projr (fst ?r)), snd ?r)" by (rule run_Ok [OF demo_token_insert])
  from reset_tokens_bounded [OF this] run show ?thesis by (auto simp: demo_world_def demo_db_def)
qed

section \<open>API keys\<close>

text \<open>
  C20: A created key authenticates. When the organisation's header flag allows the header,
  the plaintext handed out by \<open>create_api_key\<close> is forwarded by the layer as that key of that
  service account, with the account's permissions cut down to the requested scopes.
\<close>

theorem created_key_authenticates:
  assumes "\<And>n. \<not> db_fault E n" and "codecs_ok E" and "argon2_correct E" and "wf_db E (w_db w)"
    and run: "create_api_key E i w = (Ok m, w')" and "coherent w'"
    and "effective (w_db w') (ck_organisation_id i) API_KEY_HEADERS = Some (JArray arr)"
    and "JString (source_slug src) \<in> set arr"
  shows "\<exists>p x' w''. parse (am_plaintext m) = Some p \<and>
     handle_api_key (pg_strategies E ttl) issuer (p_prefix p) (p_secret p) src x w' =
       (Ok (Forward x' (Some (k_id (am_key m), ck_sa_user_id i))), w'') \<and>
     ext_caller x' = Some (ApiKeyCaller (k_id (am_key m)) (ck_sa_user_id i) (ck_organisation_id i)) \<and>
     ext_perms x' = Some (set (granted_codes (w_db w') (ck_sa_user_id i) (ck_organisation_id i)) \<inter>
       (case ck_scopes i of None \<Rightarrow> UNIV | Some sc \<Rightarrow> set sc))"
proof -
  from create_api_key_verifies [OF assms(2-4) run] obtain p where
    p: "parse (am_plaintext m) = Some p" and
    key: "key_of_db E (w_db w') (p_prefix p) (p_secret p) =
      Some \<lparr> vk_key_id = k_id (am_key m), vk_sa_user_id = ck_sa_user_id i,
             vk_organisation_id = ck_organisation_id i, vk_scopes = ck_scopes i \<rparr>" by blast
  from handle_api_key_accepts [OF assms(1,6) key, of arr src] assms(7,8) p show ?thesis by simp
qed

theorem created_key_authenticates_witness:
  "\<exists>m w' p x' w''. create_api_key demo_env demo_key_input demo_world = (Ok m, w') \<and>
     parse (am_plaintext m) = Some p \<and>
     handle_api_key (pg_strategies demo_env 60) ''i'' (p_prefix p) (p_secret p) XApiKey no_extensions w' =
       (Ok (Forward x' (Some (k_id (am_key m), 13))), w'')"
proof -
  let ?r = "create_api_key demo_env demo_key_input demo_world"
  have run: "?r = (Ok (projr (fst ?r)), snd ?r)" by (rule run_Ok [OF demo_create_key])
  have fr: "feature_frame (snd ?r) = feature_frame demo_world"
    using readsD [OF frame_service_accounts(3) run] .
  then have "coherent (snd ?r)" using coherent_frame demo_coherent by blast
  moreover have "effective (w_db (snd ?r)) 2 API_KEY_HEADERS =
      Some (JArray [JString ''x-api-key'', JString ''authorization-bearer''])"
    using effective_frame [OF fr] demo_headers_flag by simp
  ultimately obtain p x' w'' where "parse (am_plaintext (projr (fst ?r))) = Some p"
    "handle_api_key (pg_strategies demo_env 60) ''i'' (p_prefix p) (p_secret p) XApiKey no_extensions (snd ?r) =
       (Ok (Forward x' (Some (k_id (am_key (projr (fst ?r))), ck_sa_user_id demo_key_input))), w'')"
    using created_key_authenticates [OF _ demo_codecs_ok demo_argon2_correct demo_world_wf run,
      of "[JString ''x-api-key'', JString ''authorization-bearer'']" XApiKey 60 "''i''" no_extensions]
    by (auto simp: demo_key_input_def)
  moreover have "ck_sa_user_id demo_key_input = 13" by (simp add: demo_key_input_def)
  ultimately show ?thesis using run by metis
qed

text \<open>
  C21: A revoked key is dead for good: in every world the system can reach after the
  revocation, no prefix and secret verify as that key, given that the generator does not draw
  the key's id again.
\<close>

theorem revoked_key_dead:
  assumes "wf_db E (w_db w)" and "revoke_api_key E oid sa kid a ao w = (Ok (), w')"
    and "reachable E w' v" and "\<forall>n \<ge> w_draws w'. uuid_v7 E n \<noteq> kid"
  shows "map_option vk_key_id (key_of_db E (w_db v) prefix secret) \<noteq> Some kid"
  using revoked_stays_dead [OF assms(1-3)] assms(4) by (simp add: new_ids_def)

theorem revoked_key_dead_witness:
  "map_option vk_key_id (key_of_db demo_env demo_db ''deadbeef'' ''secret'') = Some 21 \<and>
   map_option vk_key_id (key_of_db demo_env (w_db (snd (create_api_key demo_env demo_key_input
       (snd (revoke_api_key demo_env 2 13 21 11 2 demo_world))))) ''deadbeef'' ''secret'') \<noteq> Some 21"
  using revoked_key_dead [OF demo_world_wf run_Ok_unit [OF demo_revoke_key]
      r_into_rtranclp [of "sys_step demo_env", OF sys_step.key_created]] demo_new_ids [of 21] demo_key_live
  by (simp add: new_ids_def)

text \<open>
  C22: Rotation replaces a key in one transaction: the plaintext it hands out verifies as the
  new key of the same account, and nothing verifies as the old one, then or in any world the
  system can reach afterwards.
\<close>

theorem rotated_key_replaces:
  assumes "codecs_ok E" and "argon2_correct E" and "wf_db E (w_db w)"
    and "rotate_api_key E i w = (Ok m, w')"
    and "reachable E w' v" and "\<forall>n \<ge> w_draws w'. uuid_v7 E n \<noteq> rk_old_key_id i"
  shows "(\<exists>p sc. parse (am_plaintext m) = Some p \<and>
       key_of_db E (w_db w') (p_prefix p) (p_secret p) =
         Some \<lparr> vk_key_id = k_id (am_key m), vk_sa_user_id = rk_sa_user_id i,
                vk_organisation_id = rk_organisation_id i, vk_scopes = sc \<rparr>) \<and>
     map_option vk_key_id (key_of_db E (w_db v) prefix secret) \<noteq> Some (rk_old_key_id i)"
  using rotate_api_key_Ok [OF assms(1-4)] rotated_stays_dead [OF assms(1-5)] assms(6)
  by (simp add: new_ids_def)

theorem rotated_key_replaces_witness:
  "\<exists>m w' p. rotate_api_key demo_env demo_rotate_input demo_world = (Ok m, w') \<and>
     parse (am_plaintext m) = Some p \<and> key_of_db demo_env (w_db w') (p_prefix p) (p_secret p) \<noteq> None \<and>
     map_option vk_key_id (key_of_db demo_env (w_db w') ''deadbeef'' ''secret'') \<noteq> Some 21"
proof -
  have old: "rk_old_key_id demo_rotate_input = 21" by (simp add: demo_rotate_input_def)
  from rotated_key_replaces [OF demo_codecs_ok demo_argon2_correct demo_world_wf
      run_Ok [OF demo_rotate_key] rtranclp.rtrancl_refl, of "''deadbeef''" "''secret''"]
    demo_new_ids [of 21] run_Ok [OF demo_rotate_key]
  show ?thesis unfolding old new_ids_def by force
qed

text \<open>
  C23: Deleting a service account kills every key of it for good: in no world the system can
  reach afterwards does a key of that account verify.
\<close>

theorem deleted_account_keys_dead:
  assumes "delete_service_account E oid sa a ao w = (Ok (), w')"
    and "reachable E w' v" and "\<forall>n \<ge> w_draws w'. uuid_v7 E n \<noteq> sa"
  shows "map_option vk_sa_user_id (key_of_db E (w_db v) prefix secret) \<noteq> Some sa"
  using deleted_stays_dead [OF assms(1,2)] assms(3) by (simp add: new_ids_def)

theorem deleted_account_keys_dead_witness:
  "map_option vk_sa_user_id (key_of_db demo_env (w_db (snd (create_service_account demo_env 2 ''new'' None 11 2
     (snd (delete_service_account demo_env 2 13 11 2 demo_world))))) ''deadbeef'' ''secret'') \<noteq> Some 13"
  using deleted_account_keys_dead [OF run_Ok_unit [OF demo_delete_sa]
      r_into_rtranclp [of "sys_step demo_env", OF sys_step.sa_created]] demo_new_ids [of 13]
  by (simp add: new_ids_def)

section \<open>Organisations and members\<close>

text \<open>
  C24: Creating an organisation. On success there is one new row with the trimmed name and
  business, which were free and within their bounds; the creator is its owner exactly if that
  was asked for, and the creation is audited. On an error no table has changed.
\<close>

theorem create_organisation_correct:
  assumes "create_organisation E uid aorg i w = (r, w')"
  shows "case r of
     Err _ \<Rightarrow> w_db w' = w_db w
   | Ok out \<Rightarrow> \<exists>org eid. org = new_org (coo_id out) (trim (co_name i)) (trim (co_business i)) (w_now w) \<and>
       1 \<le> length (o_name org) \<and> chars_count (o_name org) \<le> 120 \<and>
       1 \<le> length (o_business org) \<and> chars_count (o_business org) \<le> 120 \<and>
       o_name org \<notin> o_name ` set (organisations (w_db w)) \<and>
       organisations (w_db w') = organisations (w_db w) @ [org] \<and>
       (if co_seed_creator_as_owner i
        then \<exists>rid. role_id_by_code ''org_owner'' (w_db w) = Some rid \<and>
          memberships (w_db w') = memberships (w_db w) @
            [\<lparr> m_user = uid, m_org = o_id org, m_role = rid, m_created_at = w_now w \<rparr>]
        else memberships (w_db w') = memberships (w_db w)) \<and>
       w_audit w' = enqueued w (organisation_created eid (w_now w) uid aorg (o_id org) (o_name org))"
proof (cases r)
  case (Inl e)
  with assms safe_errD [OF safe_err_create_organisation] show ?thesis by auto
next
  case (Inr out)
  with assms have "create_organisation E uid aorg i w = (Ok out, w')" by simp
  from create_organisation_Ok [OF this] Inr show ?thesis by (auto split: if_splits)
qed

theorem create_organisation_correct_witness:
  "\<exists>org. organisations (w_db (snd (create_organisation demo_env 11 2 demo_org demo_world))) =
     organisations demo_db @ [org] \<and> o_name org = ''new''"
proof -
  let ?r = "create_organisation demo_env 11 2 demo_org demo_world"
  have run: "?r = (Ok (projr (fst ?r)), snd ?r)" by (rule run_Ok [OF demo_create_org])
  have "trim (co_name demo_org) = ''new''" by code_simp
  with create_organisation_correct [OF run] show ?thesis by (auto simp: new_org_def)
qed

text \<open>
  C25: The last owner stays. Whatever the process does, an organisation that has an owner
  keeps one, with a single exception: a step that deletes a service account which was its only
  owner. (The witness shows that exception: the human owner leaves, then the service account
  that is the other owner is deleted.)
\<close>

theorem last_owner_stays:
  assumes "reachable E w v" and "has_owner (w_db w) org"
  shows "has_owner (w_db v) org \<or>
     (\<exists>w1 w2 sa. reachable E w w1 \<and> sys_step E w1 w2 \<and> reachable E w2 v \<and>
        is_account (w_db w1) sa \<and> sole_owner (w_db w1) org sa \<and> w_db w2 = cascade_user sa (w_db w1))"
  using assms by (rule reachable_owner)

theorem last_owner_stays_witness:
  "has_owner demo_db 2 \<and> \<not> has_owner (w_db demo_ownerless) 2 \<and>
   (\<exists>w1 w2 sa. reachable demo_env demo_world w1 \<and> sys_step demo_env w1 w2 \<and>
      is_account (w_db w1) sa \<and> sole_owner (w_db w1) 2 sa \<and> w_db w2 = cascade_user sa (w_db w1))"
  using last_owner_stays [OF demo_ownerless_reachable, of 2] demo_owner demo_no_owner_left
  by simp blast

text \<open>
  C26: Granting a role. It succeeds only for a known role, a caller who is a member or an
  operator, and a target who is a member (a service account only in its own organisation); it
  adds exactly the missing membership row, audits it, and is idempotent.
\<close>

theorem assign_role_correct:
  assumes "assign_role E act ao op oid target code w = (Ok was_new, w')"
  shows "\<exists>role. find (\<lambda>r. r_code r = code) (roles (w_db w)) = Some role \<and>
     (op \<or> member act oid (w_db w)) \<and> member target oid (w_db w) \<and>
     (\<forall>u. find (\<lambda>u. u_id u = target) (users (w_db w)) = Some u \<longrightarrow> u_kind u = ServiceAccountKind \<longrightarrow>
        find_sa oid target (w_db w) \<noteq> None) \<and>
     was_new = (\<not> holds_role target oid (r_id role) (w_db w)) \<and>
     w_db w' = (if was_new then (w_db w)\<lparr>memberships := memberships (w_db w) @
         [\<lparr> m_user = target, m_org = oid, m_role = r_id role, m_created_at = w_now w \<rparr>]\<rparr>
       else w_db w) \<and>
     w_audit w' = (if was_new then enqueued w (organisation_role_assigned (uuid_v7 E (w_draws w))
         (w_now w) act ao oid target code) else w_audit w)"
  using assms by (rule assign_role_Ok)

theorem assign_role_correct_witness:
  "\<exists>new w'. assign_role demo_env 11 2 False 2 12 ''org_owner'' demo_world = (Ok new, w') \<and>
     member 12 2 demo_db"
  using assign_role_correct [OF run_Ok [OF demo_assign]] run_Ok [OF demo_assign] by (metis demo_world_db)

section \<open>Feature flags\<close>

text \<open>
  C27: Setting a flag. It succeeds only for a known flag, a value of its type, and a caller
  allowed to set it; from then on that organisation sees the new value, and every other flag
  of every organisation is what it was.
\<close>

theorem set_flag_correct:
  assumes "coherent w" and "set_org_feature E i w = (Ok (), w')"
  shows "(\<exists>def. find_definition (sf_slug i) (w_db w) = Some def \<and>
       validate (fd_value_type def) (sf_value i) = Ok () \<and> (fd_self_service def \<or> sf_actor_is_operator i)) \<and>
     effective (w_db w') org slg =
       (if (org, slg) = (sf_organisation_id i, sf_slug i) then Some (sf_value i)
        else effective (w_db w) org slg) \<and> coherent w'"
  using set_org_feature_effective [OF assms, of org slg] set_org_feature_Ok [OF assms(2)] by auto

theorem set_flag_correct_witness:
  "\<exists>w'. set_org_feature demo_env demo_flag demo_world = (Ok (), w') \<and>
     effective (w_db w') 2 ''beta'' = Some (JBool True)"
proof -
  let ?r = "set_org_feature demo_env demo_flag demo_world"
  have run: "?r = (Ok (), snd ?r)" by (rule run_Ok_unit [OF demo_set_flag])
  from set_flag_correct [OF demo_coherent this, of 2 "''beta''"] run show ?thesis
    by (auto simp: demo_flag_def)
qed

text \<open>
  C28: Evaluation is what the tables say. With a coherent cache, hit or miss, the evaluated
  value is the override of the organisation if there is one and the default otherwise, and
  the cache stays coherent.
\<close>

theorem evaluate_correct:
  assumes "coherent w" and "evaluate E ttl org slg w = (Ok v, w')"
  shows "Some v = (case find_override org slg (w_db w) of
       Some r \<Rightarrow> Some (fo_value r)
     | None \<Rightarrow> map_option fd_default_value (find_definition slg (w_db w))) \<and>
     w_db w' = w_db w \<and> coherent w'"
  using evaluate_Ok [OF assms] by (auto simp: effective_def split: option.splits)

theorem evaluate_correct_witness:
  "\<exists>v w'. evaluate demo_env 60 2 ''beta'' demo_world = (Ok v, w') \<and> coherent w' \<and> w_db w' = demo_db"
  using evaluate_correct [OF demo_coherent run_Ok [OF demo_evaluate]] run_Ok [OF demo_evaluate]
  by (metis demo_world_db)

text \<open>
  C29: Bounded staleness. However evaluations of flags interleave, statement by statement,
  with each other and with everything else the process does, a value served from the cache was
  the value in the tables less than the TTL ago, and a value an evaluation has read from the
  tables was current at some moment since the call began. (The witness is an interleaving in
  which the cache does serve a value that the tables no longer have.)
\<close>

theorem bounded_staleness:
  assumes "il_reachable E ttl (il_start w) c"
  shows "(hit (il_world c) org slg = Some v \<longrightarrow>
       (\<exists>(t, d) \<in> il_seen c. w_now (il_world c) - ttl < t \<and> t \<le> w_now (il_world c) \<and>
          effective d org slg = Some v)) \<and>
     (Loaded org slg t0 v \<in> set (il_readers c) \<longrightarrow>
       (\<exists>(t, d) \<in> il_seen c. t0 \<le> t \<and> t \<le> w_now (il_world c) \<and> effective d org slg = Some v))"
  using il_reachable_ok [OF assms] hit_bounded [of ttl c org slg v] unfolding il_ok_def was_def [symmetric]
  by force

theorem bounded_staleness_witness:
  "hit (il_world demo_stale) 2 ''beta'' = Some (JBool False) \<and>
   effective (w_db (il_world demo_stale)) 2 ''beta'' = Some (JBool True) \<and>
   (\<exists>(t, d) \<in> il_seen demo_stale. w_now (il_world demo_stale) - 60 < t \<and> t \<le> w_now (il_world demo_stale) \<and>
      effective d 2 ''beta'' = Some (JBool False))"
  using bounded_staleness [OF demo_stale_reachable, of 2 "''beta''" "JBool False"] demo_stale_values by simp

section \<open>Listings\<close>

text \<open>
  C30: A client that follows the cursors of the users listing sees every user the caller may see and
  the query matches, exactly once, each with the memberships the caller may see.
\<close>

theorem users_listing_complete:
  assumes "wf_db E (w_db w)" and "\<And>n. \<not> db_fault E n" and "cursor_codecs E"
    and "0 < unat (lu_limit i)" and "unat (lu_limit i) < 2 ^ 32 - 1"
    and "rows = users_matching E (if op then lu_org_id i else own) (lu_q i) (w_db w)"
  shows "concat (pages (Suc (length rows)) (serve (\<lambda>c. list_users E op own (i\<lparr>lu_after := c\<rparr>)) w) None) =
       map (user_view E op own (w_db w)) (sort_key user_cursor_key rows)"
  using list_users_pages [OF assms(1-5), of op own] unfolding assms(6) by blast

theorem users_listing_complete_witness:
  "concat (pages (Suc (length (users_matching demo_env None None demo_db)))
     (serve (\<lambda>c. list_users demo_env True None (demo_users_query\<lparr>lu_after := c\<rparr>)) demo_world) None) =
   map (user_view demo_env True None demo_db) (sort_key user_cursor_key (users_matching demo_env None None demo_db))"
  using users_listing_complete [OF demo_world_wf demo_no_fault demo_cursor_codecs, of demo_users_query _ True None]
  by (simp add: demo_users_query_def)



text \<open>
  C32: The service-account listing loses rows. When there is a next page, its cursor is the
  key of an account that is on neither page: every account of the first page comes before it,
  every one of the next page after it.
\<close>

theorem service_account_listing_skips:
  assumes "wf_db E (w_db w)"
    and "list_service_accounts E oid lim after w = (Ok (items, Some k), w1)"
    and "list_service_accounts E oid lim' (Some k) w1 = (Ok (items', nxt'), w2)"
  shows "\<exists>s \<in> set (accounts_of_org oid (w_db w)). sa_cursor_key s = k \<and>
     (\<forall>x \<in> set items. sa_cursor_key x < sa_cursor_key s) \<and>
     (\<forall>x \<in> set items'. sa_cursor_key s < sa_cursor_key x)"
  using assms by (rule list_service_accounts_skips)

theorem service_account_listing_skips_witness:
  "\<exists>s \<in> set (accounts_of_org 2 (w_db demo_two_world)). \<exists>items items' k nxt w1 w2.
     list_service_accounts demo_env 2 1 None demo_two_world = (Ok (items, Some k), w1) \<and>
     list_service_accounts demo_env 2 1 (Some k) w1 = (Ok (items', nxt), w2) \<and>
     s \<notin> set items \<and> s \<notin> set items'"
proof -
  obtain items w1 where
    p1: "list_service_accounts demo_env 2 1 None demo_two_world = (Ok (items, Some (1, 14)), w1)"
    and "w_db w1 = w_db demo_two_world" using demo_sa_page1 by blast
  then obtain items' nxt w2 where
    p2: "list_service_accounts demo_env 2 1 (Some (1, 14)) w1 = (Ok (items', nxt), w2)"
    using demo_sa_page2 by blast
  from service_account_listing_skips [OF demo_two_wf p1 p2] p1 p2 show ?thesis
    by (meson less_irrefl)
qed

section \<open>Background work\<close>



text \<open>
  C34: A job that keeps failing dies after exactly its number of attempts: it is pending
  again after each earlier one and dead after the last.
\<close>

theorem failing_job_dies:
  assumes "\<And>n. \<not> db_fault E n" and "find (\<lambda>j. j_id j = jid) (jobs (w_db w)) = Some j"
    and "j_attempts j = 0" and "0 < n" and "int n \<le> j_max_attempts j"
  shows "\<exists>k. find (\<lambda>j. j_id j = jid) (jobs (w_db (attempts_fail E cfg msg jid n w))) = Some k \<and>
     j_attempts k = int n \<and> j_state k = (if int n = j_max_attempts j then Dead else Pending)"
  using attempts_fail_state [OF assms(1,2), of "n - 1" cfg msg] assms(3-5) by simp

theorem failing_job_dies_witness:
  "\<exists>k. find (\<lambda>j. j_id j = 1) (jobs (w_db (attempts_fail demo_env job_runner_config_default ''e'' 1 5
     (demo_world\<lparr>w_db := demo_job_db\<rparr>)))) = Some k \<and> j_state k = Dead"
proof -
  let ?j = "new_job 1 (enqueue_request_now 0 ''k'' JNull) 0"
  have "find (\<lambda>j. j_id j = 1) (jobs (w_db (demo_world\<lparr>w_db := demo_job_db\<rparr>))) = Some ?j"
    by (simp add: demo_job_db_def new_job_def)
  from failing_job_dies [OF demo_no_fault this, of 5 job_runner_config_default "''e''"] show ?thesis
    by (auto simp: new_job_def enqueue_request_now_def)
qed

text \<open>
  C35: The backoff in closed form: initial seconds times factor to the power of the failed
  attempts before this one, saturating at 64 bits, never above the maximum.
\<close>

theorem backoff_closed_form:
  "compute_backoff attempt initial factor maxd =
     min maxd (min (unat (as_secs initial) *
       min (unat factor ^ (unat attempt - 1)) u64_max) u64_max * 10 ^ 9)"
  by (rule compute_backoff_eq)

text \<open>
  C36: The outbox relays each event once. A tick that fails leaves the tables as they were; one
  that succeeds appends one job per claimed event, in order, and marks exactly those events,
  none of which any later claim returns.
\<close>

theorem outbox_tick_atomic:
  assumes "tick E cfg w = (r, w')"
  shows "case r of
     Err _ \<Rightarrow> w_db w' = w_db w
   | Ok n \<Rightarrow> \<exists>locked events. events = unrelayed locked (unat (or_batch_size cfg)) (w_db w) \<and>
       n = length events \<and>
       w_db w' = (w_db w)\<lparr>
         jobs := jobs (w_db w) @ relayed_jobs E cfg (w_now w) (w_draws w) events,
         outbox := mark_rows (map ob_id events) (w_now w) (outbox (w_db w))\<rparr> \<and>
       (\<forall>locked' m. ob_id ` set events \<inter> ob_id ` set (unrelayed locked' m (w_db w')) = {})"
proof (cases r)
  case (Inl e)
  with assms tick_Err show ?thesis by auto
next
  case (Inr n)
  with assms have "tick E cfg w = (Ok n, w')" by simp
  from tick_Ok [OF this] obtain locked events where
    ev: "events = unrelayed locked (unat (or_batch_size cfg)) (w_db w)" "n = length events"
    and db: "w_db w' = (w_db w)\<lparr>jobs := jobs (w_db w) @ relayed_jobs E cfg (w_now w) (w_draws w) events,
         outbox := mark_rows (map ob_id events) (w_now w) (outbox (w_db w))\<rparr>" by blast
  have "outbox (w_db w') = mark_rows (map ob_id events) (w_now w) (outbox (w_db w))" by (simp add: db)
  from unrelayed_marked [OF this]
  have "\<forall>locked' m. ob_id ` set events \<inter> ob_id ` set (unrelayed locked' m (w_db w')) = {}" by simp
  with ev db have "\<exists>locked events. events = unrelayed locked (unat (or_batch_size cfg)) (w_db w) \<and>
       n = length events \<and>
       w_db w' = (w_db w)\<lparr>jobs := jobs (w_db w) @ relayed_jobs E cfg (w_now w) (w_draws w) events,
         outbox := mark_rows (map ob_id events) (w_now w) (outbox (w_db w))\<rparr> \<and>
       (\<forall>locked' m. ob_id ` set events \<inter> ob_id ` set (unrelayed locked' m (w_db w')) = {})" by blast
  with Inr show ?thesis by (simp only: sum.case)
qed

theorem outbox_tick_atomic_witness:
  "\<exists>events :: outbox_event list. outbox (w_db (snd (tick demo_env outbox_relayer_config_default demo_appended))) =
     mark_rows (map ob_id events) (w_now demo_appended) (outbox (w_db demo_appended))"
proof -
  from outbox_tick_atomic [OF run_Ok [OF demo_tick], unfolded sum.case] obtain events where
    "w_db (snd (tick demo_env outbox_relayer_config_default demo_appended)) = (w_db demo_appended)\<lparr>
       jobs := jobs (w_db demo_appended) @ relayed_jobs demo_env outbox_relayer_config_default
         (w_now demo_appended) (w_draws demo_appended) events,
       outbox := mark_rows (map ob_id events) (w_now demo_appended) (outbox (w_db demo_appended))\<rparr>" by blast
  then have "outbox (w_db (snd (tick demo_env outbox_relayer_config_default demo_appended))) =
     mark_rows (map ob_id events) (w_now demo_appended) (outbox (w_db demo_appended))" by simp
  then show ?thesis by (rule exI)
qed

text \<open>
  C37: The relayer delivers. Running without faults, locks or colliding ids, and given as many
  passes before it is told to stop as events are waiting, its loop returns with none left, and
  each of them has become a job of its type with its payload.
\<close>

theorem relayer_drains:
  assumes "calm E" and "0 < or_batch_size cfg"
    and "wt_shutdown h m" and "\<And>k. k < m \<Longrightarrow> \<not> wt_shutdown h k"
    and "length (pending_events (w_db w)) \<le> m"
    and "fresh_job_ids E (length (pending_events (w_db w))) w"
    and "distinct (map ob_id (outbox (w_db w)))"
  shows "\<exists>w'. relayer_run E cfg h w = Some w' \<and> pending_events (w_db w') = [] \<and>
     (\<forall>e \<in> set (pending_events (w_db w)).
        \<exists>j \<in> set (jobs (w_db w')). j_kind j = ob_event_type e \<and> j_payload j = ob_payload e)"
proof -
  from assms(5) have "length (pending_events (w_db w)) \<le> m - 0" by simp
  from relayer_drains_from [OF assms(1-4) le0 this assms(6,7)] show ?thesis
    unfolding relayer_run_def by blast
qed

theorem relayer_drains_witness:
  "\<exists>w'. relayer_run demo_env outbox_relayer_config_default demo_watch demo_outbox_world = Some w' \<and>
     pending_events (w_db w') = []"
proof -
  have "distinct (map ob_id (outbox (w_db demo_outbox_world)))" by (simp add: demo_outbox_world_def)
  with relayer_drains [OF demo_calm, of outbox_relayer_config_default demo_watch 1 demo_outbox_world]
    demo_pending demo_outbox_fresh show ?thesis
    by (auto simp: outbox_relayer_config_default_def demo_watch_def)
qed

text \<open>
  C38: The server stops when told to. Once it is up and the signal comes, relayer, runner and
  audit worker return one after the other, whatever statements fail, and the process ends
  successfully with no event left in the audit queue, in a world reachable from the one the
  traffic left.
\<close>

theorem server_shuts_down:
  assumes "open_database H cfg w = Ok w1"
    and "build_app (ho_hostname H) (ho_simple_uuid H) cfg w1 = Built hs w2"
    and "ho_bind H (ac_bind_address cfg)" and "ho_served H"
    and "wt_shutdown (ho_relayer H) m" and "wt_shutdown (ho_runner H) m'"
    and "unat (ac_audit_max_retries cfg) < 2 ^ 32 - 1"
  shows "\<exists>w'. run_serve E H cfg w = Some (finished, w') \<and> w_audit w' = [] \<and>
     reachable E ((ho_traffic H w2)\<lparr>w_audit_open := False\<rparr>) w'"
  using assms by (rule run_serve_finishes)

theorem server_shuts_down_witness:
  "\<exists>w'. run_serve demo_env demo_host demo_cfg demo_world = Some (finished, w') \<and> w_audit w' = []"
proof -
  obtain hs w2 where "build_app (ho_hostname demo_host) (ho_simple_uuid demo_host) demo_cfg demo_world = Built hs w2"
    using demo_cors by (auto simp: build_app_def demo_cfg_def config_defaults_def)
  from server_shuts_down [OF demo_open this, of 1 1 demo_env] show ?thesis
    by (auto simp: demo_host_def demo_watch_def demo_cfg_def config_defaults_def)
qed



section \<open>Errors\<close>

text \<open>
  C40: Error bodies. The type URI of a problem document identifies its slug, the status of an
  error is a function of the slug and always one of 4xx or 5xx, and the body of an internal
  error does not depend on its cause.
\<close>

theorem error_bodies:
  "(type_uri (snd (snd (into_response a))) = type_uri (snd (snd (into_response b))) \<longrightarrow>
      slug a = slug b \<and> http_status a = http_status b) \<and>
   400 \<le> http_status a \<and> http_status a < 600 \<and>
   into_response (Internal c) = into_response (Internal d)"
  using type_uri_determines_slug http_status_of_slug http_status_is_error internal_error_hides_cause by blast

theorem error_bodies_witness:
  "slug (NotFound ''x'') = slug (NotFound ''y'') \<and> into_response (Internal ''a'') = into_response (Internal ''b'')"
proof -
  have "type_uri (snd (snd (into_response (NotFound ''x'')))) = type_uri (snd (snd (into_response (NotFound ''y''))))"
    by code_simp
  then show ?thesis using error_bodies [of "NotFound ''x''" "NotFound ''y''" "''a''" "''b''"] by blast
qed

end
